(* ===== verification/Prelude.thy ===== *)
theory Prelude
  imports Main "HOL-Library.Word" "HOL-Library.Signed_Division"
begin

text \<open>
  Shared vocabulary of the development: the machine integer types of the firmware, the
  little-endian byte layout of packed structs, and the integer conversions of \<open>printf\<close>.

  The firmware runs on a little-endian 32-bit ARM core, so a packed struct is the
  concatenation of its fields, each least significant byte first, and \<open>int\<close> and \<open>long\<close>
  are 32 bits wide.
\<close>

type_synonym u8 = "8 word"
type_synonym u16 = "16 word"
type_synonym u32 = "32 word"
type_synonym u64 = "64 word"

named_theorems codec_simps \<open>lengths, encodings and decodings of packed fields\<close>

named_theorems fmt_simps \<open>facts about the printf conversions\<close>


section \<open>Packed little-endian fields\<close>

fun le_bytes :: "nat \<Rightarrow> nat \<Rightarrow> u8 list" where
  "le_bytes 0 v = []"
| "le_bytes (Suc n) v = of_nat v # le_bytes n (v div 256)"

fun le_value :: "u8 list \<Rightarrow> nat" where
  "le_value [] = 0"
| "le_value (b # bs) = unat b + 256 * le_value bs"

lemma length_le_bytes [simp, codec_simps]: "length (le_bytes n v) = n"
  by (induction n arbitrary: v) auto

lemma unat_of_nat_u8: "unat (of_nat v :: u8) = v mod 256"
  by (simp add: unat_of_nat)

lemma le_value_le_bytes_mod: "le_value (le_bytes n v) = v mod 256 ^ n"
proof (induction n arbitrary: v)
  case 0
  then show ?case by simp
next
  case (Suc n)
  have "v mod 256 ^ Suc n = v mod 256 + 256 * (v div 256 mod 256 ^ n)"
    by (simp add: mod_mult2_eq)
  with Suc show ?case by (simp add: unat_of_nat_u8)
qed

lemma le_value_le_bytes [codec_simps]: "v < 256 ^ n \<Longrightarrow> le_value (le_bytes n v) = v"
  by (simp add: le_value_le_bytes_mod)

lemma unat_less: "unat (w :: 'a::len word) < 2 ^ LENGTH('a)"
  by (rule unsigned_less)

lemma le_value_bound: "le_value bs < 256 ^ length bs"
proof (induction bs)
  case Nil
  then show ?case by simp
next
  case (Cons b bs)
  have "unat b < 256" using unat_less [of b] by simp
  with Cons show ?case by simp
qed

lemma le_bytes_le_value [codec_simps]: "length bs = n \<Longrightarrow> le_bytes n (le_value bs) = bs"
proof (induction bs arbitrary: n)
  case Nil
  then show ?case by simp
next
  case (Cons b bs)
  have b: "unat b < 256" using unat_less [of b] by simp
  have "(unat b + 256 * le_value bs) div 256 = le_value bs" using b by simp
  moreover have "(of_nat (unat b + 256 * le_value bs) :: u8) = b"
  proof -
    have "(unat b + 256 * le_value bs) mod 256 = unat b" using b by simp
    then have "unat (of_nat (unat b + 256 * le_value bs) :: u8) = unat b"
      by (simp only: unat_of_nat_u8)
    then show ?thesis by (simp only: word_unat_eq_iff)
  qed
  ultimately show ?case using Cons by (cases n) (auto simp del: of_nat_add of_nat_mult)
qed

text \<open>The value of a whole word fits its own field.\<close>

lemma unat_u16_bound [simp]: "unat (w :: u16) < 65536"
  using unat_less [of w] by simp

lemma unat_u32_bound [simp]: "unat (w :: u32) < 4294967296"
  using unat_less [of w] by simp

lemma unat_u64_bound [simp]: "unat (w :: u64) < 18446744073709551616"
  using unat_less [of w] by simp

lemma unat_u8_bound [simp]: "unat (w :: u8) < 256"
  using unat_less [of w] by simp

definition of_le :: "u8 list \<Rightarrow> 'a::len word" where
  "of_le bs = of_nat (le_value bs)"

definition to_le :: "nat \<Rightarrow> 'a::len word \<Rightarrow> u8 list" where
  "to_le n w = le_bytes n (unat w)"

lemma length_to_le [simp, codec_simps]: "length (to_le n w) = n"
  by (simp add: to_le_def)

lemma of_le_to_le [codec_simps]:
  "LENGTH('a::len) \<le> 8 * n \<Longrightarrow> of_le (to_le n (w :: 'a word)) = w"
proof -
  assume "LENGTH('a) \<le> 8 * n"
  then have "(2::nat) ^ LENGTH('a) \<le> 2 ^ (8 * n)" by (rule power_increasing) simp
  then have "(2::nat) ^ LENGTH('a) \<le> 256 ^ n" by (simp add: power_mult)
  then have "unat w < 256 ^ n" by (rule less_le_trans [OF unat_less])
  then show ?thesis by (simp add: of_le_def to_le_def le_value_le_bytes)
qed

text \<open>An array of fields: the bytes of its elements one after the other.\<close>

fun chunks :: "nat \<Rightarrow> nat \<Rightarrow> 'a list \<Rightarrow> 'a list list" where
  "chunks n 0 xs = []"
| "chunks n (Suc k) xs = take n xs # chunks n k (drop n xs)"

lemma chunks_concat_map [codec_simps]:
  "(\<And>x. length (f x) = n) \<Longrightarrow> chunks n (length xs) (concat (map f xs) @ ys) = map f xs"
  by (induction xs) auto

lemma length_concat_map_const [codec_simps]:
  "(\<And>x. length (f x) = n) \<Longrightarrow> length (concat (map f xs)) = n * length xs"
  by (induction xs) auto


section \<open>The integer conversions of printf\<close>

text \<open>The digits \<open>0..9a..f\<close> of \<open>%x\<close> and \<open>0..9A..F\<close> of \<open>%X\<close>, by their ASCII codes.\<close>

definition digit :: "nat \<Rightarrow> char" where
  "digit d = char_of (if d < 10 then 48 + d else 87 + d)"

definition udigit :: "nat \<Rightarrow> char" where
  "udigit d = char_of (if d < 10 then 48 + d else 55 + d)"

fun digits_of :: "nat \<Rightarrow> nat \<Rightarrow> nat list" where
  "digits_of b n = (if b < 2 \<or> n < b then [n] else digits_of b (n div b) @ [n mod b])"

declare digits_of.simps [simp del]

definition fmt_u :: "nat \<Rightarrow> string" where
  "fmt_u n = map digit (digits_of 10 n)"

definition fmt_x :: "nat \<Rightarrow> string" where
  "fmt_x n = map digit (digits_of 16 n)"

definition fmt_X :: "nat \<Rightarrow> string" where
  "fmt_X n = map udigit (digits_of 16 n)"

definition fmt_d :: "int \<Rightarrow> string" where
  "fmt_d i = (if i < 0 then ''-'' @ fmt_u (nat (- i)) else fmt_u (nat i))"

definition pad0 :: "nat \<Rightarrow> string \<Rightarrow> string" where
  "pad0 w s = replicate (w - length s) CHR ''0'' @ s"

text \<open>\<open>%0wd\<close>: the sign counts in the width.\<close>

definition fmt_0d :: "nat \<Rightarrow> int \<Rightarrow> string" where
  "fmt_0d w i = (if i < 0 then ''-'' @ pad0 (w - 1) (fmt_u (nat (- i))) else pad0 w (fmt_u (nat i)))"

lemma digits_of_less [simp]: "n < b \<Longrightarrow> digits_of b n = [n]"
  by (subst digits_of.simps) simp

lemma digits_of_ge: "2 \<le> b \<Longrightarrow> b \<le> n \<Longrightarrow> digits_of b n = digits_of b (n div b) @ [n mod b]"
  by (subst digits_of.simps) simp

lemma digits_of_bound: "2 \<le> b \<Longrightarrow> d \<in> set (digits_of b n) \<Longrightarrow> d < b"
proof (induction b n rule: digits_of.induct)
  case (1 b n)
  then show ?case
    by (cases "n < b") (auto simp: digits_of_ge)
qed

lemma digits_of_not_Nil [simp]: "digits_of b n \<noteq> []"
  by (subst digits_of.simps) simp

lemma hd_digits_of: "2 \<le> b \<Longrightarrow> b \<le> n \<Longrightarrow> 0 < hd (digits_of b n)"
proof (induction b n rule: digits_of.induct)
  case (1 b n)
  show ?case
  proof (cases "n div b < b")
    case True
    then have "0 < n div b" using "1.prems" by (simp add: div_greater_zero_iff)
    with True "1.prems" show ?thesis by (simp add: digits_of_ge)
  next
    case False
    with "1" show ?thesis by (simp add: digits_of_ge)
  qed
qed

lemma length_digits_of_le: "2 \<le> b \<Longrightarrow> n < b ^ w \<Longrightarrow> 0 < w \<Longrightarrow> length (digits_of b n) \<le> w"
proof (induction b n arbitrary: w rule: digits_of.induct)
  case (1 b n)
  show ?case
  proof (cases "n < b")
    case True
    with "1.prems" show ?thesis by simp
  next
    case False
    with "1.prems" have w: "w \<noteq> 1" by (auto)
    obtain v where v: "w = Suc v" "0 < v" using w "1.prems"(3) by (cases w) auto
    have "n div b < b ^ v" using "1.prems"(2) v
      by (simp add: less_mult_imp_div_less mult.commute)
    with "1.IH" False "1.prems" v have "length (digits_of b (n div b)) \<le> v" by simp
    with False "1.prems" v show ?thesis by (simp add: digits_of_ge)
  qed
qed

text \<open>Reading a numeral back.\<close>

definition undigit :: "char \<Rightarrow> nat" where
  "undigit c = (let v = of_char c in
     if 48 \<le> v \<and> v \<le> 57 then v - 48 else if 97 \<le> v \<and> v \<le> 102 then v - 87 else v - 55)"

definition read_num :: "nat \<Rightarrow> string \<Rightarrow> nat" where
  "read_num b s = foldl (\<lambda>a c. a * b + undigit c) 0 s"

lemma of_char_digit: "d < 16 \<Longrightarrow> of_char (digit d) = (if d < 10 then 48 + d else 87 + d)"
  by (simp add: digit_def)

lemma undigit_digit [fmt_simps]: "d < 16 \<Longrightarrow> undigit (digit d) = d"
  by (simp add: undigit_def of_char_digit Let_def)

lemma foldl_digits_of:
  assumes "2 \<le> b" and "b \<le> 16"
  shows "foldl (\<lambda>a c. a * b + undigit c) 0 (map digit (digits_of b n)) = n"
  using assms
proof (induction b n rule: digits_of.induct)
  case (1 b n)
  show ?case
  proof (cases "n < b")
    case True
    with "1.prems" show ?thesis by (simp add: fmt_simps)
  next
    case False
    have "n mod b < 16"
      using "1.prems" mod_less_divisor [of b n] by linarith
    with False "1" show ?thesis by (simp add: digits_of_ge fmt_simps)
  qed
qed

lemma read_num_fmt_u [fmt_simps]: "read_num 10 (fmt_u n) = n"
  by (simp add: read_num_def fmt_u_def foldl_digits_of)

lemma read_num_fmt_x [fmt_simps]: "read_num 16 (fmt_x n) = n"
  by (simp add: read_num_def fmt_x_def foldl_digits_of)

lemma undigit_0 [simp]: "undigit CHR ''0'' = 0"
  by (simp add: undigit_def of_char_def)

lemma foldl_replicate_0:
  "foldl (\<lambda>a c. a * b + undigit c) 0 (replicate k CHR ''0'' @ s)
   = foldl (\<lambda>a c. a * b + undigit c) 0 s"
  by (induction k) auto

lemma read_num_pad0 [fmt_simps]: "read_num b (pad0 w s) = read_num b s"
  by (simp add: read_num_def pad0_def foldl_replicate_0 del: foldl_append)

lemma length_pad0_fmt_u [fmt_simps]:
  "n < 10 ^ w \<Longrightarrow> 0 < w \<Longrightarrow> length (pad0 w (fmt_u n)) = w"
  using length_digits_of_le [of 10 n w] by (simp add: pad0_def fmt_u_def)

definition is_digit :: "char \<Rightarrow> bool" where
  "is_digit c \<longleftrightarrow> 48 \<le> (of_char c :: nat) \<and> (of_char c :: nat) \<le> 57"

lemma is_digit_digit [fmt_simps]: "d < 10 \<Longrightarrow> is_digit (digit d)"
  by (simp add: is_digit_def of_char_digit)

lemma fmt_u_digits [fmt_simps]: "c \<in> set (fmt_u n) \<Longrightarrow> is_digit c"
  using digits_of_bound [of 10 _ n] by (auto simp: fmt_u_def fmt_simps)

lemma is_digit_0 [simp]: "is_digit CHR ''0''"
  by (simp add: is_digit_def)

lemma pad0_digits [fmt_simps]: "\<forall>c \<in> set s. is_digit c \<Longrightarrow> c \<in> set (pad0 w s) \<Longrightarrow> is_digit c"
  by (auto simp: pad0_def)

end
