(* ===== verification/Cfloat.thy ===== *)
theory Cfloat
  imports Complex_Main "HOL-Library.Log_Nat" Prelude
begin

text \<open>
  The C types \<open>float\<close> and \<open>double\<close> as the firmware uses them: IEEE 754 binary32 and
  binary64 values with round-to-nearest-even arithmetic. A finite value is the rational
  number it denotes, so the arithmetic is exact rational arithmetic followed by one
  rounding. The sign of a zero is not kept: no operation of the program observes it.

  A conversion from a floating value to an integer type truncates towards zero. C leaves
  it undefined when the truncated value does not fit the type (or the operand is a NaN or
  an infinity); the model takes the platform's answer in that case as a parameter.
\<close>

datatype cfl = NaN | Inf bool | Fin rat

record ffmt =
  prec :: int
  emin :: int
  emax :: int

definition binary32 :: ffmt where
  "binary32 = \<lparr>prec = 24, emin = -149, emax = 128\<rparr>"

definition binary64 :: ffmt where
  "binary64 = \<lparr>prec = 53, emin = -1074, emax = 1024\<rparr>"


section \<open>Rounding\<close>

text \<open>The binary exponent of a positive rational: \<open>2\<^sup>k \<le> x < 2\<^sup>k\<^sup>+\<^sup>1\<close>.\<close>

definition ilog2 :: "rat \<Rightarrow> int" where
  "ilog2 x = (let (n, d) = quotient_of x; k = bitlen n - bitlen d
              in if 2 powi k \<le> x then k else k - 1)"

definition rne :: "rat \<Rightarrow> int" where
  "rne x = (let f = floor x; r = x - of_int f
            in if r < 1 / 2 \<or> (r = 1 / 2 \<and> even f) then f else f + 1)"

definition ulp_exp :: "ffmt \<Rightarrow> rat \<Rightarrow> int" where
  "ulp_exp fm x = max (ilog2 \<bar>x\<bar> - (prec fm - 1)) (emin fm)"

definition rnd :: "ffmt \<Rightarrow> rat \<Rightarrow> rat" where
  "rnd fm x = (if x = 0 then 0
     else of_int (rne (x / 2 powi ulp_exp fm x)) * 2 powi ulp_exp fm x)"

definition fin :: "ffmt \<Rightarrow> rat \<Rightarrow> cfl" where
  "fin fm x = (let y = rnd fm x in if 2 powi emax fm \<le> \<bar>y\<bar> then Inf (y < 0) else Fin y)"


section \<open>Arithmetic, comparisons and conversions\<close>

fun fadd :: "ffmt \<Rightarrow> cfl \<Rightarrow> cfl \<Rightarrow> cfl" where
  "fadd fm NaN b = NaN"
| "fadd fm a NaN = NaN"
| "fadd fm (Inf s) (Inf t) = (if s = t then Inf s else NaN)"
| "fadd fm (Inf s) (Fin y) = Inf s"
| "fadd fm (Fin x) (Inf t) = Inf t"
| "fadd fm (Fin x) (Fin y) = fin fm (x + y)"

fun fneg :: "cfl \<Rightarrow> cfl" where
  "fneg NaN = NaN"
| "fneg (Inf s) = Inf (\<not> s)"
| "fneg (Fin x) = Fin (- x)"

definition fsub :: "ffmt \<Rightarrow> cfl \<Rightarrow> cfl \<Rightarrow> cfl" where
  "fsub fm a b = fadd fm a (fneg b)"

fun fmul :: "ffmt \<Rightarrow> cfl \<Rightarrow> cfl \<Rightarrow> cfl" where
  "fmul fm NaN b = NaN"
| "fmul fm a NaN = NaN"
| "fmul fm (Inf s) (Inf t) = Inf (s \<noteq> t)"
| "fmul fm (Inf s) (Fin y) = (if y = 0 then NaN else Inf (s \<noteq> (y < 0)))"
| "fmul fm (Fin x) (Inf t) = (if x = 0 then NaN else Inf (t \<noteq> (x < 0)))"
| "fmul fm (Fin x) (Fin y) = fin fm (x * y)"

text \<open>
  Division. Every divisor in the program is a nonzero constant; a zero divisor is
  answered as a positive zero would be.
\<close>

fun fdiv :: "ffmt \<Rightarrow> cfl \<Rightarrow> cfl \<Rightarrow> cfl" where
  "fdiv fm NaN b = NaN"
| "fdiv fm a NaN = NaN"
| "fdiv fm (Inf s) (Inf t) = NaN"
| "fdiv fm (Inf s) (Fin y) = Inf (s \<noteq> (y < 0))"
| "fdiv fm (Fin x) (Inf t) = Fin 0"
| "fdiv fm (Fin x) (Fin y) =
     (if y = 0 then (if x = 0 then NaN else Inf (x < 0)) else fin fm (x / y))"

fun fless :: "cfl \<Rightarrow> cfl \<Rightarrow> bool" where
  "fless NaN b = False"
| "fless a NaN = False"
| "fless (Inf s) (Inf t) = (s \<and> \<not> t)"
| "fless (Inf s) (Fin y) = s"
| "fless (Fin x) (Inf t) = (\<not> t)"
| "fless (Fin x) (Fin y) = (x < y)"

definition isnan :: "cfl \<Rightarrow> bool" where
  "isnan a = (a = NaN)"

text \<open>The conversion of an integer, and of a value of the other format.\<close>

definition of_c_int :: "ffmt \<Rightarrow> int \<Rightarrow> cfl" where
  "of_c_int fm i = fin fm (of_int i)"

fun fconv :: "ffmt \<Rightarrow> cfl \<Rightarrow> cfl" where
  "fconv fm (Fin x) = fin fm x"
| "fconv fm a = a"

definition trunc :: "rat \<Rightarrow> int" where
  "trunc x = (if x < 0 then - floor (- x) else floor x)"

definition to_c_int :: "(cfl \<Rightarrow> int) \<Rightarrow> int \<Rightarrow> int \<Rightarrow> cfl \<Rightarrow> int" where
  "to_c_int ub lo hi a = (case a of
     Fin x \<Rightarrow> (if lo \<le> trunc x \<and> trunc x \<le> hi then trunc x else ub a) | _ \<Rightarrow> ub a)"

text \<open>The value of 32 bits read as a \<open>float\<close>.\<close>

definition float_of_bits :: "u32 \<Rightarrow> cfl" where
  "float_of_bits w = (let b = unat w; s = b div 2 ^ 31; e = b div 2 ^ 23 mod 256; m = b mod 2 ^ 23 in
     if e = 255 then (if m = 0 then Inf (s = 1) else NaN)
     else let a = (if e = 0 then of_nat m * 2 powi (- 149) else of_nat (2 ^ 23 + m) * 2 powi (int e - 150))
          in Fin (if s = 1 then - a else a))"

text \<open>
  How the program prints a \<open>float\<close> without \<open>%f\<close>: its integer part \<open>(int)f\<close>, and the
  digits \<open>abs((int)(k*(f-(int)f)))\<close> behind the point.
\<close>

definition int_part :: "(cfl \<Rightarrow> int) \<Rightarrow> cfl \<Rightarrow> int" where
  "int_part ub f = to_c_int ub (- (2 ^ 31)) (2 ^ 31 - 1) f"

definition frac_part :: "(cfl \<Rightarrow> int) \<Rightarrow> int \<Rightarrow> cfl \<Rightarrow> int" where
  "frac_part ub k f = \<bar>int_part ub (fmul binary32 (of_c_int binary32 k)
     (fsub binary32 f (of_c_int binary32 (int_part ub f))))\<bar>"

text \<open>\<open>roundf\<close> (halfway cases away from zero), \<open>floor\<close>, \<open>ceilf\<close> and \<open>fabsf\<close> are exact.\<close>

fun roundf :: "cfl \<Rightarrow> cfl" where
  "roundf (Fin x) = Fin (of_int (if x < 0 then - floor (1 / 2 - x) else floor (x + 1 / 2)))"
| "roundf a = a"

fun floorf :: "cfl \<Rightarrow> cfl" where
  "floorf (Fin x) = Fin (of_int (floor x))"
| "floorf a = a"

fun ceilf :: "cfl \<Rightarrow> cfl" where
  "ceilf (Fin x) = Fin (of_int (ceiling x))"
| "ceilf a = a"

fun fabsf :: "cfl \<Rightarrow> cfl" where
  "fabsf NaN = NaN"
| "fabsf (Inf s) = Inf False"
| "fabsf (Fin x) = Fin \<bar>x\<bar>"


section \<open>How far rounding moves a value\<close>

lemma ilog2_bounds:
  assumes "0 < x"
  shows "2 powi ilog2 x \<le> x" and "x < 2 powi (ilog2 x + 1)"
proof -
  obtain n d where q: "quotient_of x = (n, d)" by fastforce
  then have d: "0 < d" and x: "x = of_int n / of_int d"
    by (auto simp: quotient_of_denom_pos quotient_of_div)
  with assms have n: "0 < n" by (simp add: zero_less_divide_iff)
  let ?k = "bitlen n - bitlen d"
  have bn: "1 \<le> bitlen n" and bd: "1 \<le> bitlen d"
    using n d by (auto simp: compute_bitlen [of n] compute_bitlen [of d] bitlen_nonneg)
  have p: "(of_int (2 ^ nat i) :: rat) = 2 powi i" if "0 \<le> i" for i
    using that by (simp add: power_int_nonneg_exp)
  have ln: "2 powi (bitlen n - 1) \<le> (of_int n :: rat)" "(of_int n :: rat) < 2 powi bitlen n"
    using bitlen_bounds [OF n] bn p [of "bitlen n - 1"] p [of "bitlen n"]
    by (metis diff_ge_0_iff_ge of_int_le_iff, metis bitlen_nonneg of_int_less_iff)
  have ld: "2 powi (bitlen d - 1) \<le> (of_int d :: rat)" "(of_int d :: rat) < 2 powi bitlen d"
    using bitlen_bounds [OF d] bd p [of "bitlen d - 1"] p [of "bitlen d"]
    by (metis diff_ge_0_iff_ge of_int_le_iff, metis bitlen_nonneg of_int_less_iff)
  have dpos: "(0::rat) < of_int d" using d by simp
  have up: "x < 2 powi (?k + 1)"
  proof -
    have "(of_int n :: rat) < 2 powi bitlen n" by (rule ln)
    also have "2 powi bitlen n = (2::rat) powi (?k + 1) * 2 powi (bitlen d - 1)"
      by (simp flip: power_int_add)
    also have "\<dots> \<le> 2 powi (?k + 1) * of_int d"
      using ld(1) by (rule mult_left_mono) simp
    finally show ?thesis using dpos by (simp add: x divide_less_eq)
  qed
  have lo: "2 powi (?k - 1) \<le> x"
  proof -
    have "(2::rat) powi (?k - 1) * of_int d \<le> 2 powi (?k - 1) * 2 powi bitlen d"
      using ld(2) by (intro mult_left_mono) auto
    also have "\<dots> = 2 powi (bitlen n - 1)"
      by (simp flip: power_int_add)
    also have "\<dots> \<le> of_int n" by (rule ln)
    finally show ?thesis using dpos by (simp add: x le_divide_eq)
  qed
  show "2 powi ilog2 x \<le> x" and "x < 2 powi (ilog2 x + 1)"
    using q up lo by (auto simp: ilog2_def Let_def)
qed

lemma rne_error: "\<bar>of_int (rne x) - x\<bar> \<le> 1 / 2"
proof -
  define r where "r = x - of_int (floor x)"
  have r: "0 \<le> r" "r < 1" unfolding r_def by linarith+
  show ?thesis
  proof (cases "r < 1 / 2 \<or> (r = 1 / 2 \<and> even (floor x))")
    case True
    then have "of_int (rne x) - x = - r" by (simp add: rne_def Let_def flip: r_def) (simp add: r_def)
    with r True show ?thesis by auto
  next
    case False
    then have "of_int (rne x) - x = 1 - r" by (simp add: rne_def Let_def flip: r_def) (simp add: r_def)
    with r False show ?thesis by auto
  qed
qed

lemma rne_of_int [simp]: "rne (of_int i) = i"
  by (simp add: rne_def)

lemma rnd_error: "\<bar>rnd fm x - x\<bar> \<le> 2 powi (ulp_exp fm x - 1)"
proof (cases "x = 0")
  case True
  then show ?thesis by (simp add: rnd_def)
next
  case False
  let ?u = "(2::rat) powi ulp_exp fm x"
  have "rnd fm x - x = (of_int (rne (x / ?u)) - x / ?u) * ?u"
    using False by (simp add: rnd_def left_diff_distrib)
  then have "\<bar>rnd fm x - x\<bar> = \<bar>of_int (rne (x / ?u)) - x / ?u\<bar> * ?u"
    by (simp add: abs_mult)
  also have "\<dots> \<le> 1 / 2 * ?u"
    by (rule mult_right_mono [OF rne_error]) simp
  also have "\<dots> = 2 powi (ulp_exp fm x - 1)"
    by (simp add: power_int_diff)
  finally show ?thesis .
qed

lemma ulp_exp_le:
  assumes "\<bar>x\<bar> < 2 powi k" and "x \<noteq> 0" and "emin fm \<le> k - prec fm"
  shows "ulp_exp fm x \<le> k - prec fm"
proof -
  have "2 powi ilog2 \<bar>x\<bar> \<le> \<bar>x\<bar>" using assms(2) by (intro ilog2_bounds) simp
  with assms(1) have "(2::rat) powi ilog2 \<bar>x\<bar> < 2 powi k" by linarith
  moreover have "(2::rat) powi k \<le> 2 powi ilog2 \<bar>x\<bar>" if "k \<le> ilog2 \<bar>x\<bar>"
    using that by (intro power_int_increasing) auto
  ultimately have "ilog2 \<bar>x\<bar> < k" by (meson linorder_not_le order_less_le_trans order_less_irrefl)
  with assms(3) show ?thesis by (simp add: ulp_exp_def)
qed

text \<open>Below \<open>2\<^sup>k\<close> the error is at most half a unit of the last place there.\<close>

lemma rnd_error_below:
  assumes "\<bar>x\<bar> < 2 powi k" and "emin fm \<le> k - prec fm"
  shows "\<bar>rnd fm x - x\<bar> \<le> 2 powi (k - prec fm - 1)"
proof (cases "x = 0")
  case True
  then show ?thesis by (simp add: rnd_def)
next
  case False
  have "(2::rat) powi (ulp_exp fm x - 1) \<le> 2 powi (k - prec fm - 1)"
    using ulp_exp_le [OF assms(1) False assms(2)] by (intro power_int_increasing) auto
  with rnd_error [of fm x] show ?thesis by linarith
qed

text \<open>Integers of at most \<open>prec\<close> bits are represented exactly.\<close>

lemma rnd_of_int:
  assumes "\<bar>i\<bar> < 2 ^ nat (prec fm)" and "0 \<le> prec fm" and "emin fm \<le> 0"
  shows "rnd fm (of_int i) = of_int i"
proof (cases "i = 0")
  case True
  then show ?thesis by (simp add: rnd_def)
next
  case False
  let ?e = "ulp_exp fm (of_int i)"
  have "\<bar>of_int i\<bar> < (2::rat) powi prec fm"
  proof -
    have "(of_int \<bar>i\<bar> :: rat) < of_int (2 ^ nat (prec fm))" using assms(1) by (simp only: of_int_less_iff)
    then show ?thesis using assms(2) by (simp add: power_int_nonneg_exp)
  qed
  then have e: "?e \<le> 0" using ulp_exp_le [of "of_int i" "prec fm" fm] False assms(3) by simp
  have inv: "(2::rat) ^ nat (- ?e) * 2 powi ?e = 1"
  proof -
    have "(2::rat) ^ nat (- ?e) = 2 powi (- ?e)" using e by (simp add: power_int_nonneg_exp)
    then show ?thesis by (simp flip: power_int_add)
  qed
  then have "(of_int i :: rat) / 2 powi ?e = of_int (i * 2 ^ nat (- ?e))"
    by (simp add: divide_eq_eq mult.assoc)
  then have "rne (of_int i / 2 powi ?e) = i * 2 ^ nat (- ?e)"
    by (simp only: rne_of_int)
  then have "rnd fm (of_int i) = of_int (i * 2 ^ nat (- ?e)) * 2 powi ?e"
    using False by (simp add: rnd_def)
  also have "\<dots> = of_int i"
    using inv by (simp add: mult.assoc)
  finally show ?thesis .
qed


section \<open>Single precision values in the middle of the range\<close>

lemma fin32_near:
  assumes "\<bar>x\<bar> < 2 powi k" and "- 125 \<le> k" and "k \<le> 100"
  obtains y where "fin binary32 x = Fin y" and "\<bar>y - x\<bar> \<le> 2 powi (k - 25)"
proof -
  let ?y = "rnd binary32 x"
  have e: "\<bar>?y - x\<bar> \<le> 2 powi (k - 25)"
    using rnd_error_below [OF assms(1), of binary32] assms(2) by (simp add: binary32_def)
  have "(2::rat) powi (k - 25) \<le> 2 powi k" by (intro power_int_increasing) auto
  moreover have "(2::rat) powi k + 2 powi k = 2 powi (k + 1)" by (simp add: power_int_add_1)
  moreover have "(2::rat) powi (k + 1) \<le> 2 powi 128" using assms(3) by (intro power_int_increasing) auto
  ultimately have "\<bar>?y\<bar> < 2 powi 128" using e assms(1) by linarith
  then have "fin binary32 x = Fin ?y" by (simp add: fin_def binary32_def)
  with e that show thesis by blast
qed

lemma of_c_int_small: "\<bar>i\<bar> < 2 ^ 24 \<Longrightarrow> of_c_int binary32 i = Fin (of_int i)"
proof -
  assume a: "\<bar>i\<bar> < 2 ^ 24"
  then have "rnd binary32 (of_int i) = of_int i" by (intro rnd_of_int) (simp_all add: binary32_def)
  moreover have "(2::rat) ^ 24 \<le> 2 powi 128" by simp
  moreover have "\<bar>of_int i :: rat\<bar> < 2 ^ 24"
    using a by (metis of_int_abs of_int_less_numeral_power_cancel_iff)
  ultimately show ?thesis by (simp add: of_c_int_def fin_def binary32_def)
qed

text \<open>Truncation of a value close to an integer.\<close>

lemma trunc_near_int:
  assumes "\<bar>y - of_int m\<bar> < 1"
  shows "\<bar>trunc y\<bar> = \<bar>m\<bar> \<or> \<bar>trunc y\<bar> = \<bar>m\<bar> - 1 \<or> (m = 0 \<and> trunc y = 0)"
proof (cases "y < 0")
  case True
  have "\<lfloor>- y\<rfloor> = - m \<or> \<lfloor>- y\<rfloor> = - m - 1 \<or> \<lfloor>- y\<rfloor> = - m + 0" using assms by linarith
  moreover have "0 \<le> \<lfloor>- y\<rfloor>" using True by linarith
  ultimately show ?thesis using True unfolding trunc_def by (simp split: if_splits) linarith
next
  case False
  have "\<lfloor>y\<rfloor> = m \<or> \<lfloor>y\<rfloor> = m - 1" using assms by linarith
  moreover have "0 \<le> \<lfloor>y\<rfloor>" using False by linarith
  ultimately show ?thesis using False unfolding trunc_def by (simp split: if_splits) linarith
qed

lemma trunc_near_tenth:
  assumes "\<bar>y - of_int r / 10\<bar> < 1 / 10" and "r mod 10 \<noteq> 0"
  shows "trunc y = r sdiv 10"
proof -
  have d: "of_int r = (10 * of_int (r div 10) + of_int (r mod 10) :: rat)"
    by (metis mult_div_mod_eq of_int_add of_int_mult of_int_numeral)
  have m: "1 \<le> r mod 10" "r mod 10 \<le> 9" using assms(2) pos_mod_bound [of 10 r] pos_mod_sign [of 10 r] by linarith+
  then have m': "1 \<le> (of_int (r mod 10) :: rat)" "(of_int (r mod 10) :: rat) \<le> 9" by simp_all
  show ?thesis
  proof (cases "0 \<le> r")
    case True
    have "0 \<le> r div 10" using True by simp
    then have "0 \<le> (of_int (r div 10) :: rat)" by simp
    then have "0 \<le> y" "\<lfloor>y\<rfloor> = r div 10"
      using assms(1) m' d by linarith+
    with True show ?thesis by (auto simp: trunc_def signed_divide_int_def sgn_if)
  next
    case False
    have "r div 10 \<le> - 1" using False by linarith
    then have "(of_int (r div 10) :: rat) \<le> - 1" by (metis of_int_le_iff of_int_minus of_int_1)
    then have y: "y < 0" "\<lfloor>- y\<rfloor> = - (r div 10) - 1"
      using assms(1) m' d by linarith+
    have "- r div 10 = - (r div 10) - 1" using assms(2) by (simp add: zdiv_zminus1_eq_if)
    with y False show ?thesis by (auto simp: trunc_def signed_divide_int_def sgn_if)
  qed
qed



end
