(* ===== verification/Driver.thy ===== *)
theory Driver
  imports Cfloat "HOL-Library.State_Monad"
begin

text \<open>
  The boundary between the applications and the code they are built on (the UWB driver,
  the Mynewt kernel, the TDMA, CCP and ranging packages), none of which is part of this
  repository. A call across the boundary is a value of type \<open>call\<close>. The trace holds the
  calls made so far, newest first, and what the other side answers is a parameter \<open>env\<close>:
  any function of the trace and of the call. So every
  interleaving of the application with its environment is covered, and a documented
  behaviour of the environment is a named hypothesis on \<open>env\<close>.

  A handler is a program of the state monad over the globals of its application, the
  trace, and a flag that is set when an \<open>assert\<close> fails or an array is left. Once it is set
  nothing has an effect any more: the firmware has stopped.
\<close>

type_synonym dev = nat

datatype sem_id = BhSem | CcpSem | FirstCcpSem | RngSem

datatype callout_id = TdoaCallout | StreamCallout | SensorCallout | RngCallout | NmgrCallout
  | RxReenableCallout

datatype event_id = SlotEvent | NrngCompleteEvent | ConfigEvent

datatype listen_mode = UWB_BLOCKING | UWB_NONBLOCKING

datatype twr_mode = SS_TWR | SS_TWR_EXT | SS_TWR_ACK | DS_TWR | DS_TWR_EXT | SS_TWR_NRNG

datatype ccp_role = CCP_ROLE_MASTER | CCP_ROLE_SLAVE | CCP_ROLE_RELAY

datatype pan_role = UWB_PAN_ROLE_MASTER | UWB_PAN_ROLE_RELAY

datatype network_role = NETWORK_ROLE_ANCHOR | NETWORK_ROLE_TAG

datatype radio =
    SetDelayStart dev u64 | SetRxTimeout dev int | StartRx dev
  | WriteTxFctrl dev nat nat | WriteTx dev "u8 list" nat | StartTx dev
  | MacConfig dev | TxrfConfig dev | ForceTrxOff dev | PhyRxReset dev
  | SleepConfig dev | EnterSleep dev | EnterSleepAfterTx dev bool | Wakeup dev
  | SetDblRxBuff dev bool | SetRxAutoDisable dev bool | SetAutoack dev bool
  | SetAutoackDelay dev int | SetUid dev u16 | CirEnable dev bool

text \<open>Calls of the kernel: semaphores, message buffers and queues, timers, events, pins.\<close>

datatype os =
    SemPend sem_id | SemRelease sem_id | SemGetCount sem_id
  | MbufGet nat nat | MbufCopyInto int nat "u8 list" | MbufCopyData int nat nat
  | MbufPktLen int | MbufFree int | MqPut int | MqGet
  | CalloutReset callout_id int | CalloutStop callout_id
  | EventqPut event_id | EventIsQueued event_id
  | GpioWrite bool | GpioToggle | CputimeGet32 | UsecsToTicks nat | TicksToUsecs u32
  | ReadSystime dev
  | ConsoleWrite string | TimeDelay nat | IrqDisable | SystemReset
  | FrameDuration dev nat | ShrDuration dev
  | SemInit sem_id nat | MempoolInit string nat | MbufPoolInit string nat | MqInit
  | StatsInit string | MempoolBlocks string | MempoolFree string

text \<open>Calls of the networking packages.\<close>

datatype net =
    TdmaTxSlotStart nat | TdmaRxSlotStart nat | TdmaAssignSlot string nat | TdmaStop
  | CcpStart ccp_role | CcpStop
  | NrngRequest u16 u64 twr_mode u32 | NrngListen listen_mode
  | RngRequest u16 twr_mode | RngRequestDelay u16 u64 twr_mode
  | RngListen nat listen_mode | RngListenDelay u64 u16 listen_mode
  | RtdoaRequest u64 | RtdoaListen listen_mode u64 int
  | NmgrProcessTx u64 | NmgrListen listen_mode u64 int
  | TransportDequeueTx u64 u64 | TransportListen listen_mode u64 u64
  | TransportEnqueueTx u16 nat nat int
  | WcsLocalToMaster u64 | MacAppendInterface string
  | PanStart pan_role network_role | TofdbSet u16 cfl

text \<open>
  A call is one of these, a call of another service by name, or an access to a field of
  a structure that belongs to the other side.
\<close>

datatype call = Radio radio | Os os | Net net | Sys string "int list"
  | GetField string | SetField string int

type_synonym hist = "call list"

record env =
  eint :: "hist \<Rightarrow> call \<Rightarrow> int"
  ebytes :: "hist \<Rightarrow> call \<Rightarrow> u8 list"
  eub :: "cfl \<Rightarrow> int"
  ENOMEM :: int
  ENOENT :: int
  BROADCAST :: u16
  FCNTL_RANGE_16 :: u16
  ACK_REQUESTED :: u16
  TICKS_PER_SEC :: int

text \<open>The fields of \<open>struct uwb_dev\<close> the callbacks read; \<open>d_idx\<close> identifies the device.\<close>

record uwb_dev =
  d_idx :: dev
  d_fctrl :: u16
  d_rxtimestamp :: u64
  d_rxbuf :: "u8 list"
  d_frame_len :: nat
  d_my_short_address :: u16

record 'g st =
  glb :: 'g
  tr :: hist
  halted :: bool

type_synonym ('g, 'a) prog = "('g st, 'a) state"

named_theorems run_simps \<open>running the primitive steps of a handler\<close>


section \<open>Primitive steps\<close>

definition ret :: "'a \<Rightarrow> ('g, 'a) prog" where
  "ret x = State_Monad.return x"

text \<open>A call whose integer result is used, and one whose result is not.\<close>

definition ask :: "env \<Rightarrow> call \<Rightarrow> ('g, int) prog" where
  "ask E c = State (\<lambda>s. if halted s then (0, s) else (eint E (tr s) c, s\<lparr>tr := c # tr s\<rparr>))"

definition act :: "call \<Rightarrow> ('g, unit) prog" where
  "act c = State (\<lambda>s. ((), if halted s then s else s\<lparr>tr := c # tr s\<rparr>))"

text \<open>A call that fills a buffer of the caller: the return code and the bytes.\<close>

definition ask_bytes :: "env \<Rightarrow> call \<Rightarrow> ('g, int \<times> u8 list) prog" where
  "ask_bytes E c = State (\<lambda>s. if halted s then ((0, []), s)
     else ((eint E (tr s) c, ebytes E (tr s) c), s\<lparr>tr := c # tr s\<rparr>))"

definition gets :: "('g \<Rightarrow> 'a) \<Rightarrow> ('g, 'a) prog" where
  "gets f = State (\<lambda>s. (f (glb s), s))"

definition upd :: "('g \<Rightarrow> 'g) \<Rightarrow> ('g, unit) prog" where
  "upd f = State (\<lambda>s. ((), if halted s then s else s\<lparr>glb := f (glb s)\<rparr>))"

definition halt :: "('g, unit) prog" where
  "halt = State (\<lambda>s. ((), s\<lparr>halted := True\<rparr>))"

definition c_assert :: "bool \<Rightarrow> ('g, unit) prog" where
  "c_assert b = (if b then ret () else halt)"

definition onlyif :: "bool \<Rightarrow> ('g, unit) prog \<Rightarrow> ('g, unit) prog" where
  "onlyif b p = (if b then p else ret ())"

definition exec :: "('g, 'a) prog \<Rightarrow> 'g st \<Rightarrow> 'g st" where
  "exec p s = snd (run_state p s)"

definition result :: "('g, 'a) prog \<Rightarrow> 'g st \<Rightarrow> 'a" where
  "result p s = fst (run_state p s)"

definition boot :: "'g \<Rightarrow> 'g st" where
  "boot g = \<lparr>glb = g, tr = [], halted = False\<rparr>"

lemma run_ret [run_simps]: "run_state (ret x) s = (x, s)"
  by (simp add: ret_def)

lemma run_ask [run_simps]:
  "\<not> halted s \<Longrightarrow> run_state (ask E c) s = (eint E (tr s) c, s\<lparr>tr := c # tr s\<rparr>)"
  by (simp add: ask_def)

lemma run_act [run_simps]:
  "\<not> halted s \<Longrightarrow> run_state (act c) s = ((), s\<lparr>tr := c # tr s\<rparr>)"
  by (simp add: act_def)

lemma run_ask_bytes [run_simps]:
  "\<not> halted s \<Longrightarrow> run_state (ask_bytes E c) s =
     ((eint E (tr s) c, ebytes E (tr s) c), s\<lparr>tr := c # tr s\<rparr>)"
  by (simp add: ask_bytes_def)

lemma run_gets [run_simps]: "run_state (gets f) s = (f (glb s), s)"
  by (simp add: gets_def)

lemma run_upd [run_simps]: "\<not> halted s \<Longrightarrow> run_state (upd f) s = ((), s\<lparr>glb := f (glb s)\<rparr>)"
  by (simp add: upd_def)

lemma run_halt [run_simps]: "run_state halt s = ((), s\<lparr>halted := True\<rparr>)"
  by (simp add: halt_def)

lemma run_c_assert [run_simps]:
  "run_state (c_assert b) s = ((), if b then s else s\<lparr>halted := True\<rparr>)"
  by (simp add: c_assert_def run_simps)

lemma run_onlyif [run_simps]:
  "run_state (onlyif b p) s = (if b then run_state p s else ((), s))"
  by (simp add: onlyif_def run_simps)

lemma run_if [run_simps]:
  "run_state (if b then p else q) s = (if b then run_state p s else run_state q s)"
  by simp

lemma exec_bind: "exec (State_Monad.bind p f) s = exec (f (result p s)) (exec p s)"
  by (simp add: exec_def result_def split: prod.splits)

lemma exec_ret [simp]: "exec (ret x) s = s" "result (ret x) s = x"
  by (simp_all add: exec_def result_def run_simps)

lemma exec_gets [simp]: "exec (gets f) s = s" "result (gets f) s = f (glb s)"
  by (simp_all add: exec_def result_def run_simps)

lemma exec_onlyif [simp]: "exec (onlyif b p) s = (if b then exec p s else s)"
  by (simp add: exec_def run_simps)

lemma exec_upd: "\<not> halted s \<Longrightarrow> exec (upd f) s = s\<lparr>glb := f (glb s)\<rparr>"
  by (simp add: exec_def run_simps)

lemma exec_halt [simp]: "exec halt s = s\<lparr>halted := True\<rparr>"
  by (simp add: exec_def run_simps)

lemma exec_upd_halted: "halted s \<Longrightarrow> exec (upd f) s = s"
  by (simp add: exec_def upd_def)

lemma exec_act: "\<not> halted s \<Longrightarrow> exec (act c) s = s\<lparr>tr := c # tr s\<rparr>"
  by (simp add: exec_def run_simps)

lemma boot_simps [simp]: "glb (boot g) = g" "tr (boot g) = []" "\<not> halted (boot g)"
  by (simp_all add: boot_def)


section \<open>A stopped firmware does nothing\<close>

definition inert :: "('g, 'a) prog \<Rightarrow> bool" where
  "inert p \<longleftrightarrow> (\<forall>s. halted s \<longrightarrow> exec p s = s)"

lemma inert_prims [intro, simp]:
  "inert (ret x)" "inert (ask E c)" "inert (act c)" "inert (ask_bytes E c)"
  "inert (gets f)" "inert (upd g)" "inert (halt)" "inert (c_assert b)"
  by (auto simp: inert_def exec_def ret_def ask_def act_def ask_bytes_def gets_def upd_def
      halt_def c_assert_def)

lemma inert_bind [intro]:
  "inert p \<Longrightarrow> (\<And>x. inert (f x)) \<Longrightarrow> inert (State_Monad.bind p f)"
  by (auto simp: inert_def exec_bind)


section \<open>Reading a trace\<close>

definition calls :: "'g st \<Rightarrow> call list" where
  "calls s = rev (tr s)"

fun is_radio :: "call \<Rightarrow> bool" where
  "is_radio (Radio r) = True"
| "is_radio c = False"

text \<open>The calls that command the transceiver, in the order they were made.\<close>

definition radio_calls :: "'g st \<Rightarrow> call list" where
  "radio_calls s = filter is_radio (calls s)"

lemma calls_tr [simp]: "calls (s\<lparr>tr := c # tr s\<rparr>) = calls s @ [c]"
  by (simp add: calls_def)

text \<open>How often the semaphore has been taken and given, and its level.\<close>

fun sem_level :: "sem_id \<Rightarrow> nat \<Rightarrow> hist \<Rightarrow> int" where
  "sem_level x n [] = int n"
| "sem_level x n (c # h) =
     (if c = Os (SemPend x) then sem_level x n h - 1
      else if c = Os (SemRelease x) then sem_level x n h + 1
      else sem_level x n h)"

text \<open>
  Writing \<open>bs\<close> at offset \<open>off\<close> of a buffer that grows on demand. It is what
  \<open>os_mbuf_copyinto\<close> and \<open>uwb_write_tx\<close> do to a message buffer and to the transmit
  buffer of the radio.
\<close>

definition overlay :: "u8 list \<Rightarrow> nat \<Rightarrow> u8 list \<Rightarrow> u8 list" where
  "overlay xs off bs = take off xs @ replicate (off - length xs) 0 @ bs @ drop (off + length bs) xs"

lemma overlay_0 [simp]: "overlay [] 0 bs = bs"
  by (simp add: overlay_def)

lemma overlay_append [simp]: "length xs = off \<Longrightarrow> overlay xs off bs = xs @ bs"
  by (simp add: overlay_def)

text \<open>The contents of message buffer \<open>m\<close>, and the payloads put on the receive queue so far.\<close>

fun payload :: "env \<Rightarrow> int \<Rightarrow> hist \<Rightarrow> u8 list" where
  "payload E m [] = []"
| "payload E m (c # h) = (case c of
     Os (MbufGet a b) \<Rightarrow> if eint E h c = m then [] else payload E m h
   | Os (MbufCopyInto m' off bs) \<Rightarrow> if m' = m \<and> eint E h c = 0 then overlay (payload E m h) off bs else payload E m h
   | _ \<Rightarrow> payload E m h)"

fun enqueued :: "env \<Rightarrow> hist \<Rightarrow> u8 list list" where
  "enqueued E [] = []"
| "enqueued E (c # h) = (case c of
     Os (MqPut m) \<Rightarrow> if eint E h c = 0 then enqueued E h @ [payload E m h] else enqueued E h
   | _ \<Rightarrow> enqueued E h)"

text \<open>
  The message buffers the application is responsible for: it has obtained them from the
  pool or the queue and has neither freed them nor put them on the queue.
\<close>

fun owned :: "env \<Rightarrow> hist \<Rightarrow> int set" where
  "owned E [] = {}"
| "owned E (c # h) = (case c of
     Os (MbufGet a b) \<Rightarrow> if eint E h c = 0 then owned E h else insert (eint E h c) (owned E h)
   | Os MqGet \<Rightarrow> if eint E h c = 0 then owned E h else insert (eint E h c) (owned E h)
   | Os (MbufFree m) \<Rightarrow> owned E h - {m}
   | Os (MqPut m) \<Rightarrow> if eint E h c = 0 then owned E h - {m} else owned E h
   | _ \<Rightarrow> owned E h)"

text \<open>
  The receive queue as the trace leaves it, oldest message first, and the documented
  behaviour of the kernel around it: the queue is first-in first-out and empty when
  \<open>os_mqueue_get\<close> returns no message; the length and the contents of a buffer are those of
  its payload; freeing succeeds.
\<close>

fun queued :: "env \<Rightarrow> hist \<Rightarrow> int list" where
  "queued E [] = []"
| "queued E (c # h) = (case c of
     Os (MqPut m) \<Rightarrow> if eint E h c = 0 then queued E h @ [m] else queued E h
   | Os MqGet \<Rightarrow> tl (queued E h)
   | _ \<Rightarrow> queued E h)"

definition queue_ok :: "env \<Rightarrow> bool" where
  "queue_ok E \<longleftrightarrow>
     (\<forall>h. eint E h (Os MqGet) = (case queued E h of [] \<Rightarrow> 0 | m # ms \<Rightarrow> m)) \<and>
     (\<forall>h m. eint E h (Os (MbufPktLen m)) = int (length (payload E m h))) \<and>
     (\<forall>h m off n. eint E h (Os (MbufCopyData m off n)) =
        (if off + n \<le> length (payload E m h) then 0 else - 1)) \<and>
     (\<forall>h m off n. ebytes E h (Os (MbufCopyData m off n)) = take n (drop off (payload E m h)))"

text \<open>The lines written to the console.\<close>

fun console :: "hist \<Rightarrow> string list" where
  "console [] = []"
| "console (c # h) = (case c of Os (ConsoleWrite s) \<Rightarrow> console h @ [s] | _ \<Rightarrow> console h)"

text \<open>The pool hands out a buffer only when it is neither held by the application nor queued.\<close>

definition mbuf_fresh :: "env \<Rightarrow> bool" where
  "mbuf_fresh E \<longleftrightarrow> (\<forall>h a b. eint E h (Os (MbufGet a b)) \<notin> owned E h \<union> set (queued E h))"

text \<open>Every message on the queue is a buffer of its own that the application has given away.\<close>

definition queue_clean :: "env \<Rightarrow> hist \<Rightarrow> bool" where
  "queue_clean E h \<longleftrightarrow> distinct (queued E h) \<and> 0 \<notin> set (queued E h)
     \<and> set (queued E h) \<inter> owned E h = {}"

text \<open>A buffer number larger than any that occurs in the trace.\<close>

fun unused_mbuf :: "hist \<Rightarrow> int" where
  "unused_mbuf [] = 1"
| "unused_mbuf (c # h) = (case c of Os (MqPut m) \<Rightarrow> \<bar>m\<bar> | _ \<Rightarrow> 0) + unused_mbuf h + 1"

text \<open>Case analysis on a call, as far as the readers of buffers and queues tell calls apart.\<close>

definition mbuf_call :: "call \<Rightarrow> bool" where
  "mbuf_call c = (case c of Os (MbufGet a b) \<Rightarrow> True | Os (MbufCopyInto m off bs) \<Rightarrow> True
     | Os (MbufFree m) \<Rightarrow> True | Os (MqPut m) \<Rightarrow> True | Os MqGet \<Rightarrow> True | _ \<Rightarrow> False)"

lemma call_cases [case_names Get CopyInto Free Put MqGet Other]:
  obtains a b where "c = Os (MbufGet a b)"
  | m off bs where "c = Os (MbufCopyInto m off bs)"
  | m where "c = Os (MbufFree m)"
  | m where "c = Os (MqPut m)"
  | "c = Os MqGet"
  | "\<not> mbuf_call c"
proof (cases c)
  case (Os x)
  then show thesis using that by (cases x) (simp_all add: mbuf_call_def)
qed (simp_all add: that(6) mbuf_call_def)

lemma other_call [simp]:
  assumes "\<not> mbuf_call c"
  shows "payload E m (c # h) = payload E m h" "enqueued E (c # h) = enqueued E h"
    "owned E (c # h) = owned E h" "queued E (c # h) = queued E h"
    "unused_mbuf (c # h) = unused_mbuf h + 1"
proof -
  have "payload E m (c # h) = payload E m h \<and> enqueued E (c # h) = enqueued E h \<and>
    owned E (c # h) = owned E h \<and> queued E (c # h) = queued E h \<and> unused_mbuf (c # h) = unused_mbuf h + 1"
  proof (cases c)
    case (Os x)
    then show ?thesis using assms by (cases x) (simp_all add: mbuf_call_def)
  qed simp_all
  then show "payload E m (c # h) = payload E m h" "enqueued E (c # h) = enqueued E h"
    "owned E (c # h) = owned E h" "queued E (c # h) = queued E h"
    "unused_mbuf (c # h) = unused_mbuf h + 1" by simp_all
qed

text \<open>The transmit buffer of radio \<open>i\<close>, the frame length last set, and the frames sent.\<close>

fun txbuf :: "dev \<Rightarrow> hist \<Rightarrow> u8 list" where
  "txbuf i [] = []"
| "txbuf i (c # h) = (case c of
     Radio (WriteTx j bs off) \<Rightarrow> if j = i then overlay (txbuf i h) off bs else txbuf i h
   | _ \<Rightarrow> txbuf i h)"

fun tx_len :: "dev \<Rightarrow> hist \<Rightarrow> nat" where
  "tx_len i [] = 0"
| "tx_len i (c # h) = (case c of
     Radio (WriteTxFctrl j n off) \<Rightarrow> if j = i then n else tx_len i h
   | _ \<Rightarrow> tx_len i h)"

fun on_air :: "env \<Rightarrow> dev \<Rightarrow> hist \<Rightarrow> u8 list list" where
  "on_air E i [] = []"
| "on_air E i (c # h) = (case c of
     Radio (StartTx j) \<Rightarrow>
       if j = i \<and> eint E h c = 0 then on_air E i h @ [take (tx_len i h) (txbuf i h)] else on_air E i h
   | _ \<Rightarrow> on_air E i h)"

text \<open>
  The documented behaviour of the kernel semaphore \<open>x\<close> initialised to \<open>n\<close>: its count is
  its level, and pending and releasing succeed (they return 0).
\<close>

definition sem_ok :: "sem_id \<Rightarrow> nat \<Rightarrow> env \<Rightarrow> bool" where
  "sem_ok x n E \<longleftrightarrow> (\<forall>h. eint E h (Os (SemGetCount x)) = sem_level x n h) \<and>
     (\<forall>h. eint E h (Os (SemPend x)) = 0 \<and> eint E h (Os (SemRelease x)) = 0)"



section \<open>A kernel in which nothing fails\<close>

text \<open>
  An environment with all the documented behaviours used as hypotheses: fresh buffers, a
  working queue, semaphores initialised to 1, and a radio that accepts every command. It
  shows that those hypotheses can hold together.
\<close>

definition base_env :: env where
  "base_env = \<lparr>eint = (\<lambda>h c. case c of
       Os (MbufGet a b) \<Rightarrow> unused_mbuf h
     | Os (SemGetCount x) \<Rightarrow> sem_level x 1 h
     | _ \<Rightarrow> 0),
     ebytes = (\<lambda>h c. []), eub = (\<lambda>_. 0), ENOMEM = 1, ENOENT = 2, BROADCAST = 0xFFFF,
     FCNTL_RANGE_16 = 0x8841, ACK_REQUESTED = 0x20, TICKS_PER_SEC = 1000\<rparr>"

definition calm_env :: env where
  "calm_env = base_env\<lparr>eint := (\<lambda>h c. case c of
       Os MqGet \<Rightarrow> (case queued base_env h of [] \<Rightarrow> 0 | m # ms \<Rightarrow> m)
     | Os (MbufPktLen m) \<Rightarrow> int (length (payload base_env m h))
     | Os (MbufCopyData m off n) \<Rightarrow> (if off + n \<le> length (payload base_env m h) then 0 else - 1)
     | _ \<Rightarrow> eint base_env h c),
     ebytes := (\<lambda>h c. case c of
       Os (MbufCopyData m off n) \<Rightarrow> take n (drop off (payload base_env m h)) | _ \<Rightarrow> [])\<rparr>"

lemma calm_simps [simp]:
  "eint calm_env h (Os (MbufGet a b)) = unused_mbuf h"
  "eint calm_env h (Os (SemGetCount x)) = sem_level x 1 h"
  "eint calm_env h (Radio r) = 0" "eint calm_env h (Net n) = 0"
  "eint calm_env h (Os (MbufCopyInto m off bs)) = 0" "eint calm_env h (Os (MqPut m)) = 0"
  "eint calm_env h (Os (SemPend x)) = 0" "eint calm_env h (Os (SemRelease x)) = 0"
  "eint calm_env h (Sys f xs) = 0" "eint calm_env h (GetField k) = 0"
  "FCNTL_RANGE_16 calm_env = 0x8841" "ACK_REQUESTED calm_env = 0x20" "TICKS_PER_SEC calm_env = 1000"
  "ENOMEM calm_env = 1" "ENOENT calm_env = 2" "BROADCAST calm_env = 0xFFFF" "eub calm_env = (\<lambda>_. 0)"
  by (simp_all add: calm_env_def base_env_def)

lemma calm_sem [simp]: "sem_ok x 1 calm_env"
  by (simp add: sem_ok_def)

lemma base_simps [simp]:
  "eint base_env h (Os (MbufGet a b)) = unused_mbuf h"
  "eint base_env h (Os (MbufCopyInto m off bs)) = 0" "eint base_env h (Os (MqPut m)) = 0"
  by (simp_all add: base_env_def)

lemma calm_queued: "queued calm_env h = queued base_env h"
proof (induction h)
  case (Cons c h)
  then show ?case by (cases c rule: call_cases) (simp_all only: other_call not_False_eq_True, simp_all)
qed simp

lemma calm_payload: "payload calm_env m h = payload base_env m h"
proof (induction h)
  case (Cons c h)
  then show ?case by (cases c rule: call_cases) (simp_all only: other_call not_False_eq_True, simp_all)
qed simp

lemma calm_queue [simp]: "queue_ok calm_env"
  unfolding queue_ok_def calm_queued calm_payload by (simp add: calm_env_def)

lemma unused_mbuf_pos: "0 < unused_mbuf h"
proof (induction h)
  case (Cons c h)
  then show ?case by (cases c rule: call_cases) (simp_all only: other_call not_False_eq_True, simp_all)
qed simp

lemma queued_below: "m \<in> set (queued calm_env h) \<Longrightarrow> m < unused_mbuf h"
proof (induction h)
  case (Cons c h)
  have "m \<in> set (tl (queued calm_env h)) \<Longrightarrow> m < unused_mbuf h + 1"
    using Cons.IH by (cases "queued calm_env h") auto
  with Cons unused_mbuf_pos [of h] show ?case
    by (cases c rule: call_cases) (simp_all only: other_call not_False_eq_True, auto)
qed simp

lemma owned_below: "m \<in> owned calm_env h \<Longrightarrow> m < unused_mbuf h"
proof (induction h)
  case (Cons c h)
  have "eint calm_env h (Os MqGet) < unused_mbuf h"
    using queued_below [of _ h] unused_mbuf_pos [of h]
    by (simp add: calm_env_def flip: calm_queued split: list.split)
  with Cons unused_mbuf_pos [of h] show ?case
    by (cases c rule: call_cases) (simp_all only: other_call not_False_eq_True, auto split: if_splits)
qed simp

lemma calm_fresh [simp]: "mbuf_fresh calm_env"
  unfolding mbuf_fresh_def using owned_below queued_below by fastforce

end
