(* ===== verification/Effects.thy ===== *)
theory Effects
  imports Driver
begin

text \<open>
  Two judgements about handlers, each closed under the control structures of the state
  monad: \<open>emits P p\<close>, every call \<open>p\<close> makes satisfies \<open>P\<close>; and \<open>keeps I p\<close>, \<open>p\<close> preserves the
  property \<open>I\<close> of the globals. They are proved for a handler by following its syntax, with the
  rules collected in \<open>effects\<close>.
\<close>

named_theorems effects \<open>rules of the judgements emits and keeps\<close>

definition emits :: "(call \<Rightarrow> bool) \<Rightarrow> ('g, 'a) prog \<Rightarrow> bool" where
  "emits P p \<longleftrightarrow> (\<forall>s. \<exists>cs. tr (exec p s) = cs @ tr s \<and> (\<forall>c \<in> set cs. P c))"

definition keeps :: "('g \<Rightarrow> bool) \<Rightarrow> ('g, 'a) prog \<Rightarrow> bool" where
  "keeps I p \<longleftrightarrow> (\<forall>s. I (glb s) \<longrightarrow> I (glb (exec p s)))"

lemma emitsD: "emits P p \<Longrightarrow> \<exists>cs. tr (exec p s) = cs @ tr s \<and> (\<forall>c \<in> set cs. P c)"
  by (simp add: emits_def)

lemma keepsD: "keeps I p \<Longrightarrow> I (glb s) \<Longrightarrow> I (glb (exec p s))"
  by (simp add: keeps_def)


section \<open>Rules for emits\<close>

lemma emits_prims [effects]:
  "emits P (ret x)" "emits P (gets f)" "emits P (upd g)" "emits P halt" "emits P (c_assert b)"
  by (auto simp: emits_def exec_def run_simps upd_def)

lemma emits_ask [effects]: "P c \<Longrightarrow> emits P (ask E c)"
  by (auto simp: emits_def exec_def ask_def)

lemma emits_act [effects]: "P c \<Longrightarrow> emits P (act c)"
  by (auto simp: emits_def exec_def act_def)

lemma emits_ask_bytes [effects]: "P c \<Longrightarrow> emits P (ask_bytes E c)"
  by (auto simp: emits_def exec_def ask_bytes_def)

lemma emits_bind [effects]:
  assumes "emits P p" and "\<And>x. emits P (f x)"
  shows "emits P (State_Monad.bind p f)"
  unfolding emits_def
proof
  fix s
  obtain cs where cs: "tr (exec p s) = cs @ tr s" "\<forall>c \<in> set cs. P c"
    using emitsD [OF assms(1)] by blast
  obtain ds where ds: "tr (exec (f (result p s)) (exec p s)) = ds @ tr (exec p s)" "\<forall>c \<in> set ds. P c"
    using emitsD [OF assms(2)] by blast
  show "\<exists>cs. tr (exec (State_Monad.bind p f) s) = cs @ tr s \<and> (\<forall>c \<in> set cs. P c)"
    using cs ds by (intro exI [of _ "ds @ cs"]) (auto simp: exec_bind)
qed

lemma emits_onlyif [effects]: "(b \<Longrightarrow> emits P p) \<Longrightarrow> emits P (onlyif b p)"
  by (auto simp: onlyif_def emits_prims)

lemma emits_if [effects]: "(b \<Longrightarrow> emits P p) \<Longrightarrow> (\<not> b \<Longrightarrow> emits P q) \<Longrightarrow> emits P (if b then p else q)"
  by simp

lemma emits_let [effects]: "emits P (f x) \<Longrightarrow> emits P (Let x f)"
  by simp

lemma emits_prod [effects]: "(\<And>a b. x = (a, b) \<Longrightarrow> emits P (f a b)) \<Longrightarrow> emits P (case x of (a, b) \<Rightarrow> f a b)"
  by (cases x) simp

lemma emits_option [effects]:
  "(x = None \<Longrightarrow> emits P p) \<Longrightarrow> (\<And>y. x = Some y \<Longrightarrow> emits P (f y)) \<Longrightarrow>
   emits P (case x of None \<Rightarrow> p | Some y \<Rightarrow> f y)"
  by (cases x) simp_all

lemma emits_mono: "emits P p \<Longrightarrow> (\<And>c. P c \<Longrightarrow> Q c) \<Longrightarrow> emits Q p"
  unfolding emits_def by meson


section \<open>Rules for keeps\<close>

lemma keeps_prims [effects]:
  "keeps I (ret x)" "keeps I (gets f)" "keeps I halt" "keeps I (c_assert b)"
  "keeps I (ask E c)" "keeps I (act c)" "keeps I (ask_bytes E c)"
  by (auto simp: keeps_def exec_def run_simps ask_def act_def ask_bytes_def)

lemma keeps_upd [effects]: "(\<And>g. I g \<Longrightarrow> I (f g)) \<Longrightarrow> keeps I (upd f)"
  by (auto simp: keeps_def exec_def upd_def)

lemma keeps_bind [effects]:
  "keeps I p \<Longrightarrow> (\<And>x. keeps I (f x)) \<Longrightarrow> keeps I (State_Monad.bind p f)"
  by (auto simp: keeps_def exec_bind)

text \<open>A value read from the globals satisfies what the invariant says of it.\<close>

lemma keeps_gets_bind:
  assumes "\<And>g x. I g \<Longrightarrow> keeps I (f (h g))"
  shows "keeps I (State_Monad.bind (gets h) f)"
  using assms by (auto simp: keeps_def exec_bind)

lemma keeps_onlyif [effects]: "(b \<Longrightarrow> keeps I p) \<Longrightarrow> keeps I (onlyif b p)"
  by (auto simp: onlyif_def keeps_prims)

lemma keeps_if [effects]: "(b \<Longrightarrow> keeps I p) \<Longrightarrow> (\<not> b \<Longrightarrow> keeps I q) \<Longrightarrow> keeps I (if b then p else q)"
  by simp

lemma keeps_let [effects]: "keeps I (f x) \<Longrightarrow> keeps I (Let x f)"
  by simp

lemma keeps_prod [effects]: "(\<And>a b. x = (a, b) \<Longrightarrow> keeps I (f a b)) \<Longrightarrow> keeps I (case x of (a, b) \<Rightarrow> f a b)"
  by (cases x) simp

lemma keeps_option [effects]:
  "(x = None \<Longrightarrow> keeps I p) \<Longrightarrow> (\<And>y. x = Some y \<Longrightarrow> keeps I (f y)) \<Longrightarrow>
   keeps I (case x of None \<Rightarrow> p | Some y \<Rightarrow> f y)"
  by (cases x) simp_all


section \<open>What a trace without certain calls leaves unchanged\<close>

definition sem_call :: "sem_id \<Rightarrow> call \<Rightarrow> bool" where
  "sem_call x c \<longleftrightarrow> c = Os (SemPend x) \<or> c = Os (SemRelease x)"

lemma sem_level_append: "\<forall>c \<in> set cs. \<not> sem_call x c \<Longrightarrow> sem_level x n (cs @ h) = sem_level x n h"
  by (induction cs) (auto simp: sem_call_def)

lemma emits_sem_level:
  "emits (\<lambda>c. \<not> sem_call x c) p \<Longrightarrow> sem_level x n (tr (exec p s)) = sem_level x n (tr s)"
  using emitsD [of "\<lambda>c. \<not> sem_call x c" p s] sem_level_append by fastforce

lemma emits_radio_calls: "emits (\<lambda>c. \<not> is_radio c) p \<Longrightarrow> radio_calls (exec p s) = radio_calls s"
  using emitsD [of "\<lambda>c. \<not> is_radio c" p s] by (auto simp: radio_calls_def calls_def filter_empty_conv)

lemma sem_call_simps [simp]:
  "\<not> sem_call x (Radio r)" "\<not> sem_call x (Net n)" "\<not> sem_call x (Sys f xs)"
  "\<not> sem_call x (GetField k)" "\<not> sem_call x (SetField k v)"
  "sem_call x (Os (SemPend y)) \<longleftrightarrow> x = y" "sem_call x (Os (SemRelease y)) \<longleftrightarrow> x = y"
  by (auto simp: sem_call_def)

lemma sem_call_os [simp]:
  "(\<And>y. p \<noteq> SemPend y) \<Longrightarrow> (\<And>y. p \<noteq> SemRelease y) \<Longrightarrow> \<not> sem_call x (Os p)"
  by (auto simp: sem_call_def)


section \<open>Loops and the clock\<close>

text \<open>A \<open>for\<close> loop over the elements of a list.\<close>

fun for_each :: "'a list \<Rightarrow> ('a \<Rightarrow> ('g, unit) prog) \<Rightarrow> ('g, unit) prog" where
  "for_each [] f = ret ()"
| "for_each (x # xs) f = do { f x; for_each xs f }"

lemma emits_for_each [effects]: "(\<And>x. x \<in> set xs \<Longrightarrow> emits P (f x)) \<Longrightarrow> emits P (for_each xs f)"
  by (induction xs) (auto intro: emits_prims emits_bind)

lemma keeps_for_each [effects]: "(\<And>x. x \<in> set xs \<Longrightarrow> keeps I (f x)) \<Longrightarrow> keeps I (for_each xs f)"
  by (induction xs) (auto intro: keeps_prims keeps_bind)

lemma exec_for_each_act: "\<not> halted s \<Longrightarrow>
    exec (for_each xs (\<lambda>x. act (f x))) s = s\<lparr>tr := rev (map f xs) @ tr s\<rparr>"
  by (induction xs arbitrary: s) (simp_all add: exec_bind exec_act)

text \<open>\<open>os_cputime_ticks_to_usecs(os_cputime_get32())\<close>.\<close>

definition utime :: "env \<Rightarrow> ('g, u32) prog" where
  "utime E = do {
     t \<leftarrow> ask E (Os CputimeGet32);
     u \<leftarrow> ask E (Os (TicksToUsecs (word_of_int t)));
     ret (word_of_int u)
   }"

lemma utime_effects [effects]:
  "P (Os CputimeGet32) \<Longrightarrow> (\<And>t. P (Os (TicksToUsecs t))) \<Longrightarrow> emits P (utime E)"
  "keeps I (utime E)"
  unfolding utime_def by (intro effects; simp)+

text \<open>Handlers that leave the globals alone, and stay running.\<close>

definition runs_on :: "('g, 'a) prog \<Rightarrow> bool" where
  "runs_on p \<longleftrightarrow> (\<forall>s. \<not> halted s \<longrightarrow> \<not> halted (exec p s))"

lemma runs_onD: "runs_on p \<Longrightarrow> \<not> halted s \<Longrightarrow> \<not> halted (exec p s)"
  by (simp add: runs_on_def)

lemma runs_on_prims [effects]:
  "runs_on (ret x)" "runs_on (ask E c)" "runs_on (act c)" "runs_on (ask_bytes E c)"
  "runs_on (gets f)" "runs_on (upd g)"
  by (auto simp: runs_on_def exec_def ret_def ask_def act_def ask_bytes_def gets_def upd_def)

lemma runs_on_bind [effects]:
  "runs_on p \<Longrightarrow> (\<And>x. runs_on (f x)) \<Longrightarrow> runs_on (State_Monad.bind p f)"
  by (auto simp: runs_on_def exec_bind)

lemma runs_on_onlyif [effects]: "(b \<Longrightarrow> runs_on p) \<Longrightarrow> runs_on (onlyif b p)"
  by (auto simp: onlyif_def runs_on_prims)

lemma runs_on_if [effects]: "(b \<Longrightarrow> runs_on p) \<Longrightarrow> (\<not> b \<Longrightarrow> runs_on q) \<Longrightarrow> runs_on (if b then p else q)"
  by simp

lemma runs_on_let [effects]: "runs_on (f x) \<Longrightarrow> runs_on (Let x f)"
  by simp

lemma runs_on_prod [effects]: "(\<And>a b. x = (a, b) \<Longrightarrow> runs_on (f a b)) \<Longrightarrow> runs_on (case x of (a, b) \<Rightarrow> f a b)"
  by (cases x) simp

lemma runs_on_utime [effects]: "runs_on (utime E)"
  unfolding utime_def by (intro effects)

lemma runs_on_for_each [effects]: "(\<And>x. x \<in> set xs \<Longrightarrow> runs_on (f x)) \<Longrightarrow> runs_on (for_each xs f)"
  by (induction xs) (auto intro: runs_on_prims runs_on_bind)

end
