(* ===== verification/Slots.thy ===== *)
theory Slots
  imports Effects
begin

text \<open>
  What the TDMA applications share: the view a slot handler has of its slot, the node-ranging
  slot that two applications contain in the same words, and three interfaces, each a locale
  with the lemmas its clients need. The applications interpret them on their own handlers.

  The pointers a handler follows (slot, scheduler, clock, device) are set up once by \<open>main\<close>
  before any slot is assigned and are valid here. Fields of them that do not change while the
  network runs are parts of \<open>slot_view\<close>.
\<close>

record slot_view =
  v_idx :: nat
  v_nslots :: nat
  v_period :: nat
  v_anchor :: bool
  v_master :: bool
  v_slot_id :: nat
  v_synced :: bool
  v_seq_num :: nat
  v_timeout_delay :: u16

text \<open>Settings of the build: \<open>syscfg.yml\<close> values and sizes of frames declared elsewhere.\<close>

record slot_cfg =
  NRNG_NTAGS :: nat
  NODE_START_SLOT_ID :: nat
  NODE_END_SLOT_ID :: nat
  TDMA_NSLOTS :: nat
  OS_LATENCY :: nat
  request_size :: nat
  dtu_mask :: u64
  to_dwt :: "int \<Rightarrow> cfl"


section \<open>The node-ranging slot\<close>

text \<open>\<open>slot_mask |= 1UL << i\<close> for \<open>i\<close> from \<open>a\<close> to \<open>b\<close>.\<close>

definition range_mask :: "nat \<Rightarrow> nat \<Rightarrow> u32" where
  "range_mask a b = foldl (\<lambda>m i. or m (push_bit i 1)) 0 [a..<Suc b]"

lemma bit_range_mask: "i < 32 \<Longrightarrow> bit (range_mask a b) i \<longleftrightarrow> a \<le> i \<and> i \<le> b"
proof -
  assume "i < 32"
  then have "bit (foldl (\<lambda>m i. or m (push_bit i 1)) w is :: u32) i \<longleftrightarrow> bit w i \<or> i \<in> set is" for w "is"
    by (induction "is" arbitrary: w) (auto simp: bit_simps)
  then show ?thesis by (auto simp: range_mask_def)
qed

definition ranging_body :: "env \<Rightarrow> slot_cfg \<Rightarrow> slot_view \<Rightarrow> ('g, unit) prog" where
  "ranging_body E c v =
    (if v_anchor v then do {
       t \<leftarrow> ask E (Net (TdmaRxSlotStart (v_idx v)));
       act (Radio (SetDelayStart 0 (word_of_int t)));
       d \<leftarrow> ask E (Os (FrameDuration 0 (request_size c)));
       act (Radio (SetRxTimeout 0 (uint (word_of_int d + v_timeout_delay v :: u16) + 0x1000)));
       act (Net (NrngListen UWB_BLOCKING))
     }
     else if v_idx v mod NRNG_NTAGS c \<noteq> v_slot_id v then ret ()
     else do {
       t \<leftarrow> ask E (Net (TdmaTxSlotStart (v_idx v)));
       e \<leftarrow> ask E (Net (NrngRequest (BROADCAST E) (and (word_of_int t) 0xFFFFFFFFFE00) SS_TWR_NRNG
              (range_mask (NODE_START_SLOT_ID c) (NODE_END_SLOT_ID c))));
       onlyif (e \<noteq> 0) (do {
         u \<leftarrow> utime E;
         act (Os (ConsoleWrite (''{\"utime\": '' @ fmt_u (unat u) @ '',\"msg\": \"slot_timer_cb_'' @
           fmt_u (v_idx v) @ '':start_tx_error\"}'' @ [CHR 0x0A])))
       })
     })"


section \<open>Slots that keep clear of the clock\<close>

text \<open>Calls that use the transceiver.\<close>

fun traffic :: "call \<Rightarrow> bool" where
  "traffic (Radio r) = True"
| "traffic (Net (NrngRequest a t m w)) = True"
| "traffic (Net (NrngListen m)) = True"
| "traffic (Net (RngRequest a m)) = True"
| "traffic (Net (RngRequestDelay a t m)) = True"
| "traffic (Net (RngListen t m)) = True"
| "traffic (Net (RngListenDelay t u m)) = True"
| "traffic (Net (RtdoaRequest t)) = True"
| "traffic (Net (RtdoaListen m t u)) = True"
| "traffic (Net (NmgrProcessTx t)) = True"
| "traffic (Net (NmgrListen m t u)) = True"
| "traffic (Net (TransportDequeueTx t u)) = True"
| "traffic (Net (TransportListen m t u)) = True"
| "traffic c = False"

definition traffic_of :: "'g st \<Rightarrow> call list" where
  "traffic_of s = filter traffic (calls s)"

text \<open>
  The clock calibration packet holds its semaphore while it uses the receiver. A slot handler
  that finds the semaphore taken does nothing.
\<close>

abbreviation ccp_count :: "env \<Rightarrow> hist \<Rightarrow> int" where
  "ccp_count E h \<equiv> eint E h (Os (SemGetCount CcpSem))"

definition unless_ccp :: "env \<Rightarrow> ('g, unit) prog \<Rightarrow> ('g, unit) prog" where
  "unless_ccp E p = do { n \<leftarrow> ask E (Os (SemGetCount CcpSem)); onlyif (n \<noteq> 0) p }"

lemma exec_unless_ccp: "\<not> halted s \<Longrightarrow> exec (unless_ccp E p) s =
    (let t = s\<lparr>tr := Os (SemGetCount CcpSem) # tr s\<rparr> in if ccp_count E (tr s) = 0 then t else exec p t)"
  by (simp add: unless_ccp_def exec_def run_simps Let_def)

lemma emits_unless_ccp [effects]:
  "P (Os (SemGetCount CcpSem)) \<Longrightarrow> emits P p \<Longrightarrow> emits P (unless_ccp E p)"
  unfolding unless_ccp_def by (intro effects)

lemma keeps_unless_ccp [effects]: "keeps I p \<Longrightarrow> keeps I (unless_ccp E p)"
  unfolding unless_ccp_def by (intro effects)

lemma runs_on_unless_ccp [effects]: "runs_on p \<Longrightarrow> runs_on (unless_ccp E p)"
  unfolding unless_ccp_def by (intro effects)

fun run_slots :: "(slot_view \<Rightarrow> ('g, unit) prog) \<Rightarrow> slot_view list \<Rightarrow> ('g, unit) prog" where
  "run_slots f [] = ret ()"
| "run_slots f (v # vs) = do { f v; run_slots f vs }"

locale guarded_slot =
  fixes E :: env and handler :: "slot_view \<Rightarrow> ('g, unit) prog"
  assumes guard: "\<not> halted s \<Longrightarrow> ccp_count E (tr s) = 0 \<Longrightarrow>
    tr (exec (handler v) s) = Os (SemGetCount CcpSem) # tr s \<and> \<not> halted (exec (handler v) s)"
begin

lemma guarded_run:
  assumes "\<not> halted s" and "\<And>h. ccp_count E h = 0"
  shows "tr (exec (run_slots handler vs) s) = replicate (length vs) (Os (SemGetCount CcpSem)) @ tr s"
  using assms
proof (induction vs arbitrary: s)
  case (Cons v vs)
  have "tr (exec (handler v) s) = Os (SemGetCount CcpSem) # tr s" "\<not> halted (exec (handler v) s)"
    using guard [of s v] Cons.prems by auto
  with Cons show ?case
    by (simp add: exec_bind) (simp flip: replicate_append_same)
qed simp

lemma silent_run:
  assumes "\<not> halted s" and "\<And>h. ccp_count E h = 0"
  shows "traffic_of (exec (run_slots handler vs) s) = traffic_of s"
  using guarded_run [OF assms] by (simp add: traffic_of_def calls_def)

end


section \<open>Configuration changes that wait for a slot\<close>

text \<open>How often the radio has been configured.\<close>

definition reconfigs :: "'g st \<Rightarrow> nat" where
  "reconfigs s = count_list (tr s) (Radio (MacConfig 0))"

lemma reconfigs_kept: "emits (\<lambda>c. c \<noteq> Radio (MacConfig 0)) p \<Longrightarrow> reconfigs (exec p s) = reconfigs s"
proof -
  assume "emits (\<lambda>c. c \<noteq> Radio (MacConfig 0)) p"
  then obtain cs where "tr (exec p s) = cs @ tr s" "\<forall>c \<in> set cs. c \<noteq> Radio (MacConfig 0)"
    using emitsD by blast
  moreover from this(2) have "count_list cs (Radio (MacConfig 0)) = 0"
    by (auto simp: count_list_0_iff)
  ultimately show ?thesis by (simp add: reconfigs_def)
qed

lemma reconfigs_step [simp]:
  "c \<noteq> Radio (MacConfig 0) \<Longrightarrow> reconfigs (s\<lparr>tr := c # h\<rparr>) = reconfigs (s\<lparr>tr := h\<rparr>)"
  "reconfigs (s\<lparr>tr := Radio (MacConfig 0) # h\<rparr>) = Suc (reconfigs (s\<lparr>tr := h\<rparr>))"
  "reconfigs (s\<lparr>glb := g\<rparr>) = reconfigs s" "reconfigs (s\<lparr>tr := tr s\<rparr>) = reconfigs s"
  by (simp_all add: reconfigs_def)

lemma ranging_body_effects [effects]:
  "keeps I (ranging_body E c v)" "runs_on (ranging_body E c v)"
  "emits (\<lambda>c. c \<noteq> Radio (MacConfig 0)) (ranging_body E c v)"
  unfolding ranging_body_def by (intro effects; simp)+

text \<open>
  The specification of a handler and its configuration callback: one bit, whether a change is
  pending, and the number of times the radio has been configured. A change sets the bit; a
  slot clears it, and configures when it was set.
\<close>

datatype config_event = Change | InSlot slot_view

fun config_spec :: "bool \<times> nat \<Rightarrow> config_event \<Rightarrow> bool \<times> nat" where
  "config_spec (p, n) Change = (True, n)"
| "config_spec (p, n) (InSlot v) = (False, if p then Suc n else n)"

fun run_config :: "('g, int) prog \<Rightarrow> (slot_view \<Rightarrow> ('g, unit) prog) \<Rightarrow> config_event list \<Rightarrow> ('g, unit) prog" where
  "run_config cb f [] = ret ()"
| "run_config cb f (Change # es) = do { rc \<leftarrow> cb; run_config cb f es }"
| "run_config cb f (InSlot v # es) = do { f v; run_config cb f es }"

text \<open>
  The configuration callback defers a change while the clock runs; the next slot applies it
  and does nothing else; later slots leave the configuration alone.
\<close>

locale deferred_config = guarded_slot E handler for E and handler :: "slot_view \<Rightarrow> ('g, unit) prog" +
  fixes pending :: "'g \<Rightarrow> bool" and config_cb :: "('g, int) prog" and ready :: "hist \<Rightarrow> bool"
  assumes ready_count: "ready h \<Longrightarrow> ccp_count E h \<noteq> 0"
    and cb_defers: "\<not> halted s \<Longrightarrow> (\<And>h. ready h) \<Longrightarrow>
      pending (glb (exec config_cb s)) \<and> \<not> halted (exec config_cb s)
      \<and> reconfigs (exec config_cb s) = reconfigs s"
    and slot_applies: "\<not> halted s \<Longrightarrow> (\<And>h. ready h) \<Longrightarrow> pending (glb s) \<Longrightarrow>
      \<not> pending (glb (exec (handler v) s)) \<and> \<not> halted (exec (handler v) s)
      \<and> reconfigs (exec (handler v) s) = Suc (reconfigs s)"
    and slot_rests: "\<not> halted s \<Longrightarrow> (\<And>h. ready h) \<Longrightarrow> \<not> pending (glb s) \<Longrightarrow>
      \<not> pending (glb (exec (handler v) s)) \<and> \<not> halted (exec (handler v) s)
      \<and> reconfigs (exec (handler v) s) = reconfigs s"
begin

lemma refines_spec:
  assumes "\<not> halted s" and "\<And>h. ready h"
  shows "(pending (glb (exec (run_config config_cb handler es) s)), reconfigs (exec (run_config config_cb handler es) s))
    = foldl config_spec (pending (glb s), reconfigs s) es"
  using assms
proof (induction es arbitrary: s)
  case (Cons e es)
  show ?case
  proof (cases e)
    case Change
    then show ?thesis using Cons.IH [of "exec config_cb s"] cb_defers [OF Cons.prems] Cons.prems(2)
      by (simp add: exec_bind)
  next
    case (InSlot v)
    then show ?thesis
      using Cons.IH [of "exec (handler v) s"] slot_applies [OF Cons.prems, of v] slot_rests [OF Cons.prems, of v] Cons.prems(2)
      by (cases "pending (glb s)") (simp_all add: exec_bind)
  qed
qed simp

end


section \<open>Slot plans\<close>

text \<open>The slots \<open>main\<close> has assigned, in order.\<close>

fun assigned :: "hist \<Rightarrow> (nat \<times> string) list" where
  "assigned [] = []"
| "assigned (c # h) = (case c of Net (TdmaAssignSlot f i) \<Rightarrow> assigned h @ [(i, f)] | _ \<Rightarrow> assigned h)"

locale slot_plan =
  fixes plan :: "(nat \<times> string) list" and nslots :: nat
  assumes plan_distinct: "distinct (map fst plan)"
    and plan_range: "i \<in> fst ` set plan \<Longrightarrow> 0 < i \<and> i < nslots"
begin

text \<open>Slot 0 belongs to the clock; every other slot has at most one handler.\<close>

lemma plan_lookup: "map_of plan i = Some f \<longleftrightarrow> (i, f) \<in> set plan"
  by (rule map_of_eq_Some_iff [OF plan_distinct])

lemma plan_ccp_free: "map_of plan 0 = None"
  using plan_range by (auto simp: map_of_eq_None_iff)

lemma plan_size: "length plan < nslots \<or> plan = []"
proof (cases "plan = []")
  case False
  have "fst ` set plan \<subseteq> {1..<nslots}" using plan_range by fastforce
  then have "card (fst ` set plan) \<le> nslots - 1" using card_mono [of "{1..<nslots}"] by simp
  moreover have "card (fst ` set plan) = length plan"
    using distinct_card [OF plan_distinct] by simp
  moreover have "0 < nslots" using False plan_range by (cases plan) fastforce+
  ultimately have "length plan < nslots" by linarith
  then show ?thesis ..
qed simp

end

text \<open>Plans that assign a handler to each slot of a list.\<close>

lemma assigned_append: "assigned (cs @ h) = assigned h @ assigned cs"
proof (induction cs)
  case (Cons c cs)
  have "assigned (c # k) = assigned k @ assigned [c]" for k
    by (simp split: call.split net.split)
  with Cons show ?case by (metis append.assoc append_Cons)
qed simp

lemma assigned_rev: "assigned (rev (map (\<lambda>i. Net (TdmaAssignSlot (f i) i)) is)) = map (\<lambda>i. (i, f i)) is"
  by (induction "is") (simp_all add: assigned_append)

end
