(* ===== verification/Json.thy ===== *)
theory Json
  imports Prelude
begin

text \<open>
  A recogniser for JSON texts: a pushdown automaton that reads one character at a time, so
  that what a fragment of output does can be stated for the fragment alone. Strings may
  hold any printable character except the quote and the backslash, which covers what the
  applications print.
\<close>

datatype jctx = Obj | Arr

datatype jmode =
    Val | ValOrEnd | Key | KeyOrEnd | InKey | Colon | InStr | After
  | NumMinus | NumZero | NumInt | NumDot | NumFrac | NumExp | NumExpSign | NumExpInt
  | Lit string

type_synonym jstate = "jctx list \<times> jmode"

definition is_space :: "char \<Rightarrow> bool" where
  "is_space c \<longleftrightarrow> c = CHR 0x20 \<or> c = CHR 0x0A"

definition plain :: "char \<Rightarrow> bool" where
  "plain c \<longleftrightarrow> 32 \<le> (of_char c :: nat) \<and> c \<noteq> CHR 0x22 \<and> c \<noteq> CHR 0x5C"

lemma char_class_bits [simp]:
  "is_digit (Char b0 b1 b2 b3 b4 b5 b6 b7) \<longleftrightarrow>
     \<not> b7 \<and> \<not> b6 \<and> b5 \<and> b4 \<and> (b3 \<longrightarrow> \<not> b2 \<and> \<not> b1)"
  "is_space (Char b0 b1 b2 b3 b4 b5 b6 b7) \<longleftrightarrow> \<not> b7 \<and> \<not> b6 \<and> \<not> b4 \<and> \<not> b2 \<and> \<not> b0
     \<and> ((b5 \<and> \<not> b3 \<and> \<not> b1) \<or> (\<not> b5 \<and> b3 \<and> b1))"
  "plain (Char b0 b1 b2 b3 b4 b5 b6 b7) \<longleftrightarrow> (b5 \<or> b6 \<or> b7)
     \<and> \<not> (\<not> b7 \<and> \<not> b6 \<and> b5 \<and> \<not> b4 \<and> \<not> b3 \<and> \<not> b2 \<and> b1 \<and> \<not> b0)
     \<and> \<not> (\<not> b7 \<and> b6 \<and> \<not> b5 \<and> b4 \<and> b3 \<and> b2 \<and> \<not> b1 \<and> \<not> b0)"
  by (cases b0; cases b1; cases b2; cases b3; cases b4; cases b5; cases b6; cases b7;
      simp add: is_digit_def is_space_def plain_def)+

text \<open>What may follow a complete value.\<close>

fun after_step :: "jctx list \<Rightarrow> char \<Rightarrow> jstate option" where
  "after_step st c =
     (if is_space c then Some (st, After)
      else case st of
        [] \<Rightarrow> None
      | Arr # st' \<Rightarrow> (if c = CHR '','' then Some (st, Val) else if c = CHR '']'' then Some (st', After) else None)
      | Obj # st' \<Rightarrow> (if c = CHR '','' then Some (st, Key) else if c = CHR ''}'' then Some (st', After) else None))"

fun value_step :: "jctx list \<Rightarrow> char \<Rightarrow> jstate option" where
  "value_step st c =
     (if c = CHR ''{'' then Some (Obj # st, KeyOrEnd)
      else if c = CHR ''['' then Some (Arr # st, ValOrEnd)
      else if c = CHR 0x22 then Some (st, InStr)
      else if c = CHR ''-'' then Some (st, NumMinus)
      else if c = CHR ''0'' then Some (st, NumZero)
      else if is_digit c then Some (st, NumInt)
      else if c = CHR ''n'' then Some (st, Lit ''ull'')
      else None)"

fun jstep :: "jstate \<Rightarrow> char \<Rightarrow> jstate option" where
  "jstep (st, Val) c = (if is_space c then Some (st, Val) else value_step st c)"
| "jstep (st, ValOrEnd) c =
     (if is_space c then Some (st, ValOrEnd)
      else if c = CHR '']'' then Some (tl st, After) else value_step st c)"
| "jstep (st, Key) c = (if is_space c then Some (st, Key) else if c = CHR 0x22 then Some (st, InKey) else None)"
| "jstep (st, KeyOrEnd) c =
     (if is_space c then Some (st, KeyOrEnd) else if c = CHR 0x22 then Some (st, InKey)
      else if c = CHR ''}'' then Some (tl st, After) else None)"
| "jstep (st, InKey) c = (if c = CHR 0x22 then Some (st, Colon) else if plain c then Some (st, InKey) else None)"
| "jstep (st, Colon) c = (if is_space c then Some (st, Colon) else if c = CHR '':'' then Some (st, Val) else None)"
| "jstep (st, InStr) c = (if c = CHR 0x22 then Some (st, After) else if plain c then Some (st, InStr) else None)"
| "jstep (st, After) c = after_step st c"
| "jstep (st, NumMinus) c =
     (if c = CHR ''0'' then Some (st, NumZero) else if is_digit c then Some (st, NumInt) else None)"
| "jstep (st, NumZero) c =
     (if c = CHR ''.'' then Some (st, NumDot) else if c = CHR ''e'' then Some (st, NumExp) else after_step st c)"
| "jstep (st, NumInt) c =
     (if is_digit c then Some (st, NumInt) else if c = CHR ''.'' then Some (st, NumDot)
      else if c = CHR ''e'' then Some (st, NumExp) else after_step st c)"
| "jstep (st, NumDot) c = (if is_digit c then Some (st, NumFrac) else None)"
| "jstep (st, NumFrac) c =
     (if is_digit c then Some (st, NumFrac) else if c = CHR ''e'' then Some (st, NumExp) else after_step st c)"
| "jstep (st, NumExp) c =
     (if c = CHR ''-'' then Some (st, NumExpSign) else if is_digit c then Some (st, NumExpInt) else None)"
| "jstep (st, NumExpSign) c = (if is_digit c then Some (st, NumExpInt) else None)"
| "jstep (st, NumExpInt) c = (if is_digit c then Some (st, NumExpInt) else after_step st c)"
| "jstep (st, Lit w) c =
     (case w of [] \<Rightarrow> None | x # xs \<Rightarrow>
        if c = x then (if xs = [] then Some (st, After) else Some (st, Lit xs)) else None)"

fun jrun :: "jstate \<Rightarrow> string \<Rightarrow> jstate option" where
  "jrun q [] = Some q"
| "jrun q (c # cs) = (case jstep q c of None \<Rightarrow> None | Some q' \<Rightarrow> jrun q' cs)"

text \<open>A text is a JSON value followed by white space.\<close>

definition json_text :: "string \<Rightarrow> bool" where
  "json_text s \<longleftrightarrow> jrun ([], Val) s = Some ([], After)"

lemma jrun_append:
  "jrun q (s @ t) = (case jrun q s of None \<Rightarrow> None | Some q' \<Rightarrow> jrun q' t)"
  by (induction s arbitrary: q) (auto split: option.splits)

lemma jrun_append_Some [simp]: "jrun q s = Some q' \<Longrightarrow> jrun q (s @ t) = jrun q' t"
  by (simp add: jrun_append)

named_theorems json_simps \<open>running fragments of printed output\<close>

lemma digit_not_space [simp]: "is_digit c \<Longrightarrow> \<not> is_space c"
  by (auto simp: is_space_def)

lemma digit_not_special:
  assumes "is_digit c"
  shows "c \<noteq> CHR ''{''" "c \<noteq> CHR ''[''" "c \<noteq> CHR 0x22" "c \<noteq> CHR ''-''" "c \<noteq> CHR '']''"
    "c \<noteq> CHR ''.''" "c \<noteq> CHR ''e''" "plain c"
  using assms by (auto simp: is_digit_def plain_def)


section \<open>Strings\<close>

definition plains :: "string \<Rightarrow> bool" where
  "plains s \<longleftrightarrow> (\<forall>c \<in> set s. plain c)"

lemma plains_simps [simp]:
  "plains []" "plains (c # s) \<longleftrightarrow> plain c \<and> plains s" "plains (s @ t) \<longleftrightarrow> plains s \<and> plains t"
  "plains (if b then s else t) \<longleftrightarrow> (if b then plains s else plains t)"
  by (auto simp: plains_def)

lemma jrun_InStr [simp]: "plains s \<Longrightarrow> jrun (st, InStr) s = Some (st, InStr)"
  by (induction s) (auto simp: plain_def)

lemma jrun_InKey [simp]: "plains s \<Longrightarrow> jrun (st, InKey) s = Some (st, InKey)"
  by (induction s) (auto simp: plain_def)

lemma plains_digits: "\<forall>c \<in> set s. is_digit c \<Longrightarrow> plains s"
  by (auto simp: plains_def digit_not_special)

lemma plains_fmt_u [simp]: "plains (fmt_u n)"
  by (simp add: plains_digits fmt_u_digits)

lemma plains_fmt_x [simp]: "plains (fmt_x n)"
  unfolding plains_def
proof
  fix c assume "c \<in> set (fmt_x n)"
  then obtain d where d: "d \<in> set (digits_of 16 n)" "c = digit d" by (auto simp: fmt_x_def)
  have "d < 16" using digits_of_bound [OF _ d(1)] by simp
  then have v: "(of_char c :: nat) = (if d < 10 then 48 + d else 87 + d)"
    by (simp add: d(2) of_char_digit)
  have "(of_char c :: nat) \<noteq> 34" "(of_char c :: nat) \<noteq> 92" "32 \<le> (of_char c :: nat)"
    unfolding v using \<open>d < 16\<close> by auto
  moreover have "(of_char CHR 0x22 :: nat) = 34" "(of_char CHR 0x5C :: nat) = 92" by simp_all
  ultimately show "plain c" unfolding plain_def by metis
qed

lemma plains_pad0 [simp]: "plains s \<Longrightarrow> plains (pad0 w s)"
  by (auto simp: pad0_def plains_def)

lemma plains_fmt_d [simp]: "plains (fmt_d i)"
  by (simp add: fmt_d_def)

lemma plains_fmt_0d [simp]: "plains (fmt_0d w i)"
  by (simp add: fmt_0d_def)


section \<open>Numbers\<close>

definition num_end :: "jmode \<Rightarrow> bool" where
  "num_end m \<longleftrightarrow> m \<in> {NumZero, NumInt, NumFrac, After}"

text \<open>A complete value closes a member or an element.\<close>

lemma num_end_step [json_simps]:
  assumes "num_end m"
  shows "jrun (Arr # st, m) (CHR '','' # s) = jrun (Arr # st, Val) s"
    and "jrun (Obj # st, m) (CHR '','' # s) = jrun (Obj # st, Key) s"
    and "jrun (Arr # st, m) (CHR '']'' # s) = jrun (st, After) s"
    and "jrun (Obj # st, m) (CHR ''}'' # s) = jrun (st, After) s"
  using assms by (auto simp: num_end_def is_space_def)

lemma jrun_NumInt: "\<forall>c \<in> set s. is_digit c \<Longrightarrow> jrun (st, NumInt) s = Some (st, NumInt)"
  by (induction s) auto

lemma jrun_NumFrac: "\<forall>c \<in> set s. is_digit c \<Longrightarrow> jrun (st, NumFrac) s = Some (st, NumFrac)"
  by (induction s) auto

lemma jrun_NumDot [json_simps]:
  "s \<noteq> [] \<Longrightarrow> \<forall>c \<in> set s. is_digit c \<Longrightarrow> jrun (st, NumDot) s = Some (st, NumFrac)"
  by (cases s) (auto simp: jrun_NumFrac)

lemma fmt_u_not_Nil [simp]: "fmt_u n \<noteq> []"
  by (simp add: fmt_u_def)

lemma pad0_fmt_u_not_Nil [simp]: "pad0 w (fmt_u n) \<noteq> []"
  by (simp add: pad0_def)

lemma digit_0 [simp]: "digit 0 = CHR ''0''"
  by code_simp

lemma digit_0_iff: "d < 10 \<Longrightarrow> digit d = CHR ''0'' \<longleftrightarrow> d = 0"
proof
  assume d: "d < 10" "digit d = CHR ''0''"
  then have "(of_char (digit d) :: nat) = of_char CHR ''0''" by (simp only:)
  with d(1) show "d = 0" by (simp add: of_char_digit)
qed simp

text \<open>\<open>%u\<close> prints no leading zero.\<close>

lemma jrun_fmt_u:
  assumes q: "jstep q CHR ''0'' = Some (st, NumZero)"
    "\<And>c. is_digit c \<Longrightarrow> c \<noteq> CHR ''0'' \<Longrightarrow> jstep q c = Some (st, NumInt)"
  shows "\<exists>m \<in> {NumZero, NumInt}. jrun q (fmt_u n) = Some (st, m)"
proof (cases "n < 10")
  case True
  have "jstep q (digit n) = Some (st, if n = 0 then NumZero else NumInt)"
  proof (cases "n = 0")
    case False
    with q(2) [OF is_digit_digit, of n] True show ?thesis by (simp add: digit_0_iff)
  qed (simp add: q(1))
  with True show ?thesis by (simp add: fmt_u_def)
next
  case False
  obtain d ds where dd: "digits_of 10 n = d # ds" using digits_of_not_Nil by (meson neq_Nil_conv)
  have "0 < d" using hd_digits_of [of 10 n] False by (simp add: dd)
  have b: "x < 10" if "x \<in> set (d # ds)" for x using digits_of_bound [of 10 x n] that by (simp add: dd)
  have "jstep q (digit d) = Some (st, NumInt)"
    using q(2) [OF is_digit_digit] b [of d] \<open>0 < d\<close> by (simp add: digit_0_iff)
  moreover have "jrun (st, NumInt) (map digit ds) = Some (st, NumInt)"
    using b by (intro jrun_NumInt) (auto simp: is_digit_digit)
  ultimately show ?thesis by (simp add: fmt_u_def dd)
qed

definition val_mode :: "jmode \<Rightarrow> bool" where
  "val_mode v \<longleftrightarrow> v = Val \<or> v = ValOrEnd"

lemma jrun_fmt_u_Val:
  "val_mode v \<Longrightarrow> \<exists>m \<in> {NumZero, NumInt}. jrun (st, v) (fmt_u n) = Some (st, m)"
  by (rule jrun_fmt_u) (auto simp: val_mode_def is_space_def digit_not_special)

lemma jrun_fmt_u_Minus: "\<exists>m \<in> {NumZero, NumInt}. jrun (st, NumMinus) (fmt_u n) = Some (st, m)"
  by (rule jrun_fmt_u) (auto simp: digit_not_special)

lemma jrun_minus: "val_mode v \<Longrightarrow> jrun (st, v) (''-'' @ s) = jrun (st, NumMinus) s"
  by (auto simp: val_mode_def is_space_def)

lemma jrun_fmt_d:
  "val_mode v \<Longrightarrow> \<exists>m \<in> {NumZero, NumInt}. jrun (st, v) (fmt_d i) = Some (st, m)"
  unfolding fmt_d_def
  by (simp only: jrun_minus if_distrib [of "jrun (st, v)"])
    (metis jrun_fmt_u_Val jrun_fmt_u_Minus)

text \<open>An integer numeral, a point and digits.\<close>

lemma jrun_fixed:
  assumes "\<exists>m \<in> {NumZero, NumInt}. jrun q s = Some (st, m)" and "t \<noteq> []" and "\<forall>c \<in> set t. is_digit c"
  shows "jrun q (s @ ''.'' @ t) = Some (st, NumFrac)"
proof -
  obtain m where m: "m \<in> {NumZero, NumInt}" "jrun q s = Some (st, m)" using assms(1) by blast
  have "jrun (st, m) (''.'' @ t) = jrun (st, NumDot) t"
    using m(1) by (auto simp: is_digit_def)
  with m(2) show ?thesis using assms(2,3) by (simp add: jrun_NumDot)
qed

lemma fmt_d_nonneg_digits: "0 \<le> i \<Longrightarrow> c \<in> set (fmt_d i) \<Longrightarrow> is_digit c"
  by (simp add: fmt_d_def fmt_u_digits)

lemma fmt_0d_nonneg_digits: "0 \<le> i \<Longrightarrow> c \<in> set (fmt_0d w i) \<Longrightarrow> is_digit c"
  using fmt_u_digits by (auto simp: fmt_0d_def dest!: pad0_digits [rotated])

lemma fmt_not_Nil [simp]: "fmt_d i \<noteq> []" "fmt_0d w i \<noteq> []"
  by (simp_all add: fmt_d_def fmt_0d_def)

lemma num_end_simps [simp]: "num_end NumZero" "num_end NumInt" "num_end NumFrac" "num_end After"
  by (simp_all add: num_end_def)


section \<open>Comma-separated elements\<close>

fun join :: "string list \<Rightarrow> string" where
  "join [] = []"
| "join [x] = x"
| "join (x # y # xs) = x @ '','' @ join (y # xs)"

text \<open>The loops of the program that put a comma after every element but the last.\<close>

lemma comma_loop:
  "concat (map (\<lambda>i. f (xs ! i) @ (if i + 1 < length xs then '','' else [])) [0..<length xs])
   = join (map f xs)"
proof (induction xs)
  case Nil
  then show ?case by simp
next
  case (Cons x xs)
  let ?g = "\<lambda>ys i. f (ys ! i) @ (if i + 1 < length ys then '','' else [])"
  have "map (?g (x # xs)) [0..<length (x # xs)] = ?g (x # xs) 0 # map (?g xs) [0..<length xs]"
    by (simp add: upt_conv_Cons flip: map_Suc_upt del: upt_Suc)
  then have "concat (map (?g (x # xs)) [0..<length (x # xs)])
    = f x @ (if xs = [] then [] else '','') @ join (map f xs)"
    using Cons by simp
  then show ?case by (cases xs) auto
qed

lemma jrun_join:
  assumes "\<And>x v. x \<in> set xs \<Longrightarrow> val_mode v \<Longrightarrow> \<exists>m. num_end m \<and> jrun (Arr # st, v) x = Some (Arr # st, m)"
    and "xs \<noteq> []" and "val_mode v"
  shows "\<exists>m. num_end m \<and> jrun (Arr # st, v) (join xs) = Some (Arr # st, m)"
  using assms
proof (induction xs arbitrary: v rule: join.induct)
  case (3 x y xs)
  obtain m where m: "num_end m" "jrun (Arr # st, v) x = Some (Arr # st, m)"
    using "3.prems"(1) [of x v] "3.prems"(3) by auto
  have "val_mode Val" by (simp add: val_mode_def)
  then obtain m' where m': "num_end m'" "jrun (Arr # st, Val) (join (y # xs)) = Some (Arr # st, m')"
    using "3.IH" [of Val] "3.prems"(1) by auto
  have "jrun (Arr # st, v) (join (x # y # xs)) = jrun (Arr # st, Val) (join (y # xs))"
    using m num_end_step(1) [OF m(1), of st "join (y # xs)"] by simp
  with m' show ?case by auto
qed auto

end
