(* ===== verification/Startup.thy ===== *)
theory Startup
  imports Slots Json
begin

text \<open>
  What the applications' \<open>main\<close> functions share: looking up the extension instances the
  device must have, registering the configuration callback, setting up the indicator pins,
  and the banner of JSON lines that identifies the device. The loop that runs the event
  queue for ever is what calls the handlers of the other theories; a \<open>main\<close> is modelled up
  to that loop.
\<close>

record ident =
  device_id :: u32
  pan_id :: u16
  uid :: u16
  euid :: u64

text \<open>
  What a \<open>main\<close> finds on its board and in its build: the identity of the device, its roles,
  the name of the source file (\<open>__FILE__\<close>), the size of the frame whose duration is reported,
  the hold-off in microseconds, and the settings \<open>BLE_ENABLED\<close> and \<open>DW1000_DEVICE_0\<close>.
\<close>

record board =
  board_id :: ident
  anchor_role :: bool
  ccp_master :: bool
  file_name :: string
  final_size :: nat
  holdoff :: cfl
  ble_enabled :: bool
  dw1000_device :: bool
  rng_verbose :: nat

definition put :: "string \<Rightarrow> ('g, unit) prog" where
  "put s = act (Os (ConsoleWrite s))"

definition led_init :: "string \<Rightarrow> int \<Rightarrow> ('g, unit) prog" where
  "led_init pin v = act (Sys (''hal_gpio_init_out '' @ pin) [v])"

definition leds_out :: "('g, unit) prog" where
  "leds_out = do { led_init ''LED_BLINK_PIN'' 1; led_init ''LED_1'' 1; led_init ''LED_3'' 1 }"

definition register_config :: "('g, unit) prog" where
  "register_config = do { act (Sys ''uwbcfg_register'' []); act (Sys ''conf_load'' []) }"

text \<open>The instance of an extension; \<open>main\<close> asserts that there is one.\<close>

definition need_inst :: "env \<Rightarrow> string \<Rightarrow> ('g, unit) prog" where
  "need_inst E ext = do {
     p \<leftarrow> ask E (Sys (''uwb_mac_find_cb_inst_ptr '' @ ext) []);
     c_assert (p \<noteq> 0)
   }"

definition exec_line :: "u32 \<Rightarrow> string \<Rightarrow> string" where
  "exec_line u file = ''{\"utime\": '' @ fmt_u (unat u) @ '',\"exec\": \"'' @ file @ ''\"}'' @ [CHR 0x0A]"

definition usec_line :: "u32 \<Rightarrow> string \<Rightarrow> u16 \<Rightarrow> string" where
  "usec_line u what n =
     ''{\"utime\": '' @ fmt_u (unat u) @ '',\"msg\": \"'' @ what @ '' = '' @ fmt_d (uint n) @ '' usec\"}'' @ [CHR 0x0A]"

text \<open>
  The identity of the device, one piece per \<open>printf\<close>. Two applications separate the keys
  from the values with colons; the others use the equals sign and leave a quote out.
\<close>

definition identity_pieces :: "bool \<Rightarrow> string list \<Rightarrow> ident \<Rightarrow> string list" where
  "identity_pieces colon extra d =
     [''{\"device_id\"'' @ (if colon then '':'' else ''='') @ ''\"'' @ fmt_X (unat (device_id d)) @ ''\"'']
     @ extra
     @ ['',\"panid'' @ (if colon then ''\":'' else ''='') @ ''\"'' @ fmt_X (unat (pan_id d)) @ ''\"'',
        '',\"addr\"'' @ (if colon then '':'' else ''='') @ ''\"'' @ fmt_X (unat (uid d)) @ ''\"'',
        '',\"part_id\"'' @ (if colon then '':'' else ''='') @ ''\"''
          @ fmt_X (unat (ucast (euid d) :: u32)) @ ''\"'',
        '',\"lot_id\"'' @ (if colon then '':'' else ''='') @ ''\"''
          @ fmt_X (unat (ucast (drop_bit 32 (euid d)) :: u32)) @ ''\"}'' @ [CHR 0x0A]]"

text \<open>The durations come from radio \<open>dv\<close>, the one the \<open>main\<close> works with.\<close>

definition durations :: "env \<Rightarrow> dev \<Rightarrow> board \<Rightarrow> u32 \<Rightarrow> ('g, unit) prog" where
  "durations E dv b u = do {
     n \<leftarrow> ask E (Os (FrameDuration dv (final_size b)));
     put (usec_line u ''frame_duration'' (word_of_int n));
     n \<leftarrow> ask E (Os (ShrDuration dv));
     put (usec_line u ''SHR_duration'' (word_of_int n))
   }"

definition holdoff_line :: "env \<Rightarrow> board \<Rightarrow> u32 \<Rightarrow> string" where
  "holdoff_line E b u = usec_line u ''holdoff''
     (word_of_int (to_c_int (eub E) 0 65535 (ceilf (fconv binary32 (holdoff b)))))"

definition banner :: "env \<Rightarrow> dev \<Rightarrow> board \<Rightarrow> bool \<Rightarrow> string list \<Rightarrow> ('g, u32) prog" where
  "banner E dv b colon extra = do {
     u \<leftarrow> utime E;
     put (exec_line u (file_name b));
     for_each (identity_pieces colon extra (board_id b)) put;
     durations E dv b u;
     ret u
   }"

definition ble_init :: "board \<Rightarrow> ('g, unit) prog" where
  "ble_init b = onlyif (ble_enabled b) (act (Sys ''ble_init'' [uint (euid (board_id b))]))"

definition rxdiag_setting :: "board \<Rightarrow> ('g, unit) prog" where
  "rxdiag_setting b = act (SetField ''udev->config.rxdiag_enable'' (of_bool (1 < rng_verbose b)))"

definition assign_plan :: "(nat \<times> string) list \<Rightarrow> ('g, unit) prog" where
  "assign_plan plan = for_each plan (\<lambda>(i, f). act (Net (TdmaAssignSlot f i)))"


section \<open>Lemmas\<close>

lemma put_effects [effects]:
  "P (Os (ConsoleWrite s)) \<Longrightarrow> emits P (put s)" "keeps I (put s)" "runs_on (put s)"
  unfolding put_def by (intro effects; simp)+

lemma startup_runs_on [effects]:
  "runs_on (led_init pin v)" "runs_on leds_out" "runs_on register_config" "runs_on (banner E dv b colon extra)"
  "runs_on (durations E dv b u)" "runs_on (ble_init b)" "runs_on (rxdiag_setting b)"
  unfolding led_init_def leds_out_def register_config_def banner_def durations_def ble_init_def
    rxdiag_setting_def by (intro effects)+

lemma startup_keeps [effects]:
  "keeps I (led_init pin v)" "keeps I leds_out" "keeps I register_config" "keeps I (banner E dv b colon extra)"
  "keeps I (durations E dv b u)" "keeps I (ble_init b)" "keeps I (rxdiag_setting b)" "keeps I (need_inst E ext)"
  unfolding led_init_def leds_out_def register_config_def banner_def durations_def ble_init_def
    rxdiag_setting_def need_inst_def by (intro effects)+

text \<open>Calls other than the assignment of a slot.\<close>

definition no_assign :: "call \<Rightarrow> bool" where
  "no_assign c \<longleftrightarrow> (\<forall>f i. c \<noteq> Net (TdmaAssignSlot f i))"

lemma no_assign_simps [simp]:
  "no_assign (Radio r)" "no_assign (Os x)" "no_assign (Sys f xs)" "no_assign (GetField k)"
  "no_assign (SetField k v)" "no_assign (Net n) \<longleftrightarrow> (\<forall>f i. n \<noteq> TdmaAssignSlot f i)"
  by (simp_all add: no_assign_def)

lemma startup_no_assign [effects]:
  "emits no_assign (led_init pin v)" "emits no_assign leds_out" "emits no_assign register_config"
  "emits no_assign (durations E dv b u)" "emits no_assign (banner E dv b colon extra)"
  "emits no_assign (ble_init b)" "emits no_assign (rxdiag_setting b)" "emits no_assign (need_inst E ext)"
  unfolding led_init_def leds_out_def register_config_def banner_def durations_def ble_init_def
    rxdiag_setting_def need_inst_def by (intro effects; simp)+

lemma assigned_no_assign: "\<forall>c \<in> set cs. no_assign c \<Longrightarrow> assigned (cs @ h) = assigned h"
proof (induction cs)
  case (Cons c cs)
  then have "assigned (c # cs @ h) = assigned (cs @ h)"
    by (auto simp: no_assign_def split: call.split net.split)
  with Cons show ?case by simp
qed simp

lemma emits_no_assign: "emits no_assign p \<Longrightarrow> assigned (tr (exec p s)) = assigned (tr s)"
  using emitsD [of no_assign p s] assigned_no_assign by fastforce

lemma exec_assign_plan:
  assumes "\<not> halted s"
  shows "assigned (tr (exec (assign_plan plan) s)) = assigned (tr s) @ plan"
    and "\<not> halted (exec (assign_plan plan) s)"
proof -
  have f: "(\<lambda>(i, f). act (Net (TdmaAssignSlot f i))) = (\<lambda>x. act (Net (TdmaAssignSlot (snd x) (fst x))))"
    by auto
  have "assigned (rev (map (\<lambda>x. Net (TdmaAssignSlot (snd x) (fst x))) plan)) = plan"
    by (induction plan) (simp_all add: assigned_append)
  then show "assigned (tr (exec (assign_plan plan) s)) = assigned (tr s) @ plan"
    "\<not> halted (exec (assign_plan plan) s)"
    using assms by (simp_all add: assign_plan_def f exec_for_each_act assigned_append)
qed

text \<open>A \<open>main\<close> that assigns one plan: what precedes and what follows the assignments.\<close>

lemma assigned_main:
  assumes "emits no_assign p" and "emits no_assign q" and "\<not> halted (exec p s)"
  shows "assigned (tr (exec (do { p; assign_plan plan; q }) s)) = assigned (tr s) @ plan"
  using assms by (simp add: exec_bind emits_no_assign exec_assign_plan)

text \<open>A failing assertion stops \<open>main\<close>.\<close>

lemma exec_need_inst: "\<not> halted s \<Longrightarrow>
    exec (need_inst E ext) s =
      s\<lparr>tr := Sys (''uwb_mac_find_cb_inst_ptr '' @ ext) [] # tr s,
        halted := eint E (tr s) (Sys (''uwb_mac_find_cb_inst_ptr '' @ ext) []) = 0\<rparr>"
  by (simp add: need_inst_def exec_def run_simps)

definition insts_found :: "env \<Rightarrow> bool" where
  "insts_found E \<longleftrightarrow> (\<forall>h ext. eint E h (Sys (''uwb_mac_find_cb_inst_ptr '' @ ext) []) \<noteq> 0)"

lemma need_inst_runs: "insts_found E \<Longrightarrow> runs_on (need_inst E ext)"
  by (auto simp: runs_on_def exec_need_inst insts_found_def)

text \<open>Running the parts of a \<open>main\<close> in sequence.\<close>

named_theorems main_run \<open>running the steps of a main function\<close>

declare exec_bind [main_run] exec_act [main_run] exec_upd [main_run]

lemma exec_ask [main_run]:
  "\<not> halted s \<Longrightarrow> exec (ask E c) s = s\<lparr>tr := c # tr s\<rparr>"
  "\<not> halted s \<Longrightarrow> result (ask E c) s = eint E (tr s) c"
  by (simp_all add: exec_def result_def run_simps)

lemma result_bind: "result (State_Monad.bind p f) s = result (f (result p s)) (exec p s)"
  by (simp add: exec_def result_def split: prod.splits)

lemma exec_ask_bytes:
  "\<not> halted s \<Longrightarrow> exec (ask_bytes E c) s = s\<lparr>tr := c # tr s\<rparr>"
  "\<not> halted s \<Longrightarrow> result (ask_bytes E c) s = (eint E (tr s) c, ebytes E (tr s) c)"
  by (simp_all add: ask_bytes_def exec_def result_def)

lemma exec_c_assert: "exec (c_assert b) s = (if b then s else s\<lparr>halted := True\<rparr>)"
  by (simp add: exec_def run_simps)

lemma keeps_glb: "(\<And>I. keeps I p) \<Longrightarrow> glb (exec p s) = glb s"
  using keepsD [of "\<lambda>g. g = glb s" p s] by simp

lemma startup_glb [main_run]:
  "glb (exec (led_init pin v) s) = glb s" "glb (exec leds_out s) = glb s"
  "glb (exec register_config s) = glb s" "glb (exec (banner E dv b colon extra) s) = glb s"
  "glb (exec (durations E dv b u) s) = glb s" "glb (exec (ble_init b) s) = glb s"
  "glb (exec (rxdiag_setting b) s) = glb s" "glb (exec (need_inst E ext) s) = glb s"
  "glb (exec (put x) s) = glb s" "glb (exec (utime E) s) = glb s" "glb (exec (assign_plan plan) s) = glb s"
  unfolding assign_plan_def by (rule keeps_glb; intro effects)+

lemma startup_running [main_run]:
  assumes "\<not> halted s"
  shows "\<not> halted (exec (led_init pin v) s)" "\<not> halted (exec leds_out s)"
    "\<not> halted (exec register_config s)" "\<not> halted (exec (banner E dv b colon extra) s)"
    "\<not> halted (exec (durations E dv b u) s)" "\<not> halted (exec (ble_init b) s)"
    "\<not> halted (exec (rxdiag_setting b) s)" "insts_found E \<Longrightarrow> \<not> halted (exec (need_inst E ext) s)"
    "\<not> halted (exec (put x) s)" "\<not> halted (exec (utime E) s)" "\<not> halted (exec (assign_plan plan) s)"
proof -
  have "runs_on (assign_plan plan)" unfolding assign_plan_def by (intro effects)
  then show "\<not> halted (exec (assign_plan plan) s)" using assms by (rule runs_onD)
qed (use assms need_inst_runs in \<open>auto intro!: runs_onD [OF _ assms] effects\<close>)

lemma startup_assigned [main_run]:
  "assigned (tr (exec (led_init pin v) s)) = assigned (tr s)" "assigned (tr (exec leds_out s)) = assigned (tr s)"
  "assigned (tr (exec register_config s)) = assigned (tr s)"
  "assigned (tr (exec (banner E dv b colon extra) s)) = assigned (tr s)"
  "assigned (tr (exec (durations E dv b u) s)) = assigned (tr s)" "assigned (tr (exec (ble_init b) s)) = assigned (tr s)"
  "assigned (tr (exec (rxdiag_setting b) s)) = assigned (tr s)"
  "assigned (tr (exec (need_inst E ext) s)) = assigned (tr s)"
  "assigned (tr (exec (put x) s)) = assigned (tr s)" "assigned (tr (exec (utime E) s)) = assigned (tr s)"
  "\<not> halted s \<Longrightarrow> assigned (tr (exec (assign_plan plan) s)) = assigned (tr s) @ plan"
  by (rule emits_no_assign; intro effects; simp)+ (rule exec_assign_plan)


section \<open>The banner as JSON\<close>

lemma plains_fmt_X [simp]: "plains (fmt_X n)"
  unfolding plains_def
proof
  fix c assume "c \<in> set (fmt_X n)"
  then obtain d where d: "d \<in> set (digits_of 16 n)" "c = udigit d" by (auto simp: fmt_X_def)
  have b: "d < 16" using digits_of_bound [OF _ d(1)] by simp
  have v: "(of_char (udigit d) :: nat) = (if d < 10 then 48 + d else 55 + d)"
    using b by (simp add: udigit_def)
  have "(of_char c :: nat) \<noteq> 34" "(of_char c :: nat) \<noteq> 92" "32 \<le> (of_char c :: nat)"
    unfolding d(2) v using b by auto
  moreover have "(of_char CHR 0x22 :: nat) = 34" "(of_char CHR 0x5C :: nat) = 92" by simp_all
  ultimately show "plain c" unfolding plain_def by metis
qed

lemma identity_colon: "json_text (concat (identity_pieces True [] d))"
  by (simp add: json_text_def identity_pieces_def is_space_def plain_def)

lemma identity_equals: "\<not> json_text (concat (identity_pieces False extra d))"
  by (simp add: json_text_def identity_pieces_def is_space_def plain_def)

lemma exec_line_json: "plains file \<Longrightarrow> json_text (exec_line u file)"
proof -
  assume f: "plains file"
  obtain m where m: "m \<in> {NumZero, NumInt}" "jrun ([Obj], Val) (fmt_u (unat u)) = Some ([Obj], m)"
    using jrun_fmt_u_Val [of Val "[Obj]"] by (auto simp: val_mode_def)
  with f show ?thesis
    by (auto simp: json_text_def exec_line_def is_space_def plain_def)
qed

lemma usec_line_json: "plains what \<Longrightarrow> json_text (usec_line u what n)"
proof -
  assume f: "plains what"
  obtain m where m: "m \<in> {NumZero, NumInt}" "jrun ([Obj], Val) (fmt_u (unat u)) = Some ([Obj], m)"
    using jrun_fmt_u_Val [of Val "[Obj]"] by (auto simp: val_mode_def)
  with f show ?thesis
    by (auto simp: json_text_def usec_line_def is_space_def plain_def)
qed

lemma exec_put: "\<not> halted s \<Longrightarrow> exec (put x) s = s\<lparr>tr := Os (ConsoleWrite x) # tr s\<rparr>"
  by (simp add: put_def exec_act)

lemma exec_for_each_put: "\<not> halted s \<Longrightarrow>
    exec (for_each xs put) s = s\<lparr>tr := rev (map (\<lambda>x. Os (ConsoleWrite x)) xs) @ tr s\<rparr>"
  using exec_for_each_act [of s xs "\<lambda>x. Os (ConsoleWrite x)"] by (simp add: put_def [abs_def])

lemma console_puts: "console (rev (map (\<lambda>x. Os (ConsoleWrite x)) xs) @ h) = console h @ xs"
  by (induction xs rule: rev_induct) simp_all

text \<open>The banner is four JSON lines; the one that names the device, printed in
  pieces, is a JSON text exactly in the applications that separate keys and values with colons.\<close>

lemma banner_json_iff:
  assumes "\<not> halted s" and "plains (file_name b)"
  shows "\<exists>a i c d. console (tr (exec (banner E dv b colon []) s)) = console (tr s) @ [a] @ i @ [c, d]
    \<and> json_text a \<and> json_text c \<and> json_text d \<and> (json_text (concat i) \<longleftrightarrow> colon)"
proof -
  let ?u = "result (utime E) s"
  define t where "t = exec (utime E) s"
  have t: "\<not> halted t" "console (tr t) = console (tr s)"
    using assms(1) by (simp_all add: t_def utime_def exec_def run_simps)
  have "\<exists>n m. console (tr (exec (banner E dv b colon []) s)) = console (tr s) @ [exec_line ?u (file_name b)]
      @ identity_pieces colon [] (board_id b) @ [usec_line ?u ''frame_duration'' n, usec_line ?u ''SHR_duration'' m]"
    using t by (simp add: banner_def exec_bind exec_put exec_for_each_put durations_def console_puts flip: t_def)
      (auto simp: exec_def run_simps console_puts put_def)
  moreover have "json_text (concat (identity_pieces colon [] (board_id b))) \<longleftrightarrow> colon"
    using identity_colon identity_equals by (cases colon) auto
  moreover have "plains ''frame_duration''" "plains ''SHR_duration''" by simp_all
  ultimately show ?thesis using exec_line_json [OF assms(2)] usec_line_json by metis
qed

definition sample_board :: board where
  "sample_board = \<lparr>board_id = \<lparr>device_id = 0xDECA0130, pan_id = 0xDECA, uid = 0x1234, euid = 0x123456789ABC\<rparr>,
     anchor_role = True, ccp_master = True, file_name = ''main.c'', final_size = 50, holdoff = Fin 800,
     ble_enabled = False, dw1000_device = True, rng_verbose = 1\<rparr>"

lemma banner_json_iff_witness:
  "\<exists>a i c d. console (tr (exec (banner calm_env 0 sample_board False []) (boot ()))) = console [] @ [a] @ i @ [c, d]
    \<and> json_text a \<and> json_text c \<and> json_text d \<and> (json_text (concat i) \<longleftrightarrow> False)"
  using banner_json_iff [of "boot ()" sample_board calm_env 0 False] by (simp add: sample_board_def)


section \<open>Sample environments\<close>

text \<open>An environment whose board has every instance, a master and a pool.\<close>

definition board_env :: env where
  "board_env = calm_env\<lparr>eint := (\<lambda>h c. case c of GetField k \<Rightarrow> 1 | Sys f xs \<Rightarrow> 1 | _ \<Rightarrow> eint calm_env h c)\<rparr>"

lemma board_env_insts [simp]: "insts_found board_env"
  by (simp add: insts_found_def board_env_def)

definition slot_at :: "nat \<Rightarrow> slot_view" where
  "slot_at i = \<lparr>v_idx = i, v_nslots = 16, v_period = 1000, v_anchor = False, v_master = False, v_slot_id = 0,
     v_synced = True, v_seq_num = 0, v_timeout_delay = 0\<rparr>"

definition sample_cfg :: slot_cfg where
  "sample_cfg = \<lparr>NRNG_NTAGS = 4, NODE_START_SLOT_ID = 0, NODE_END_SLOT_ID = 7, TDMA_NSLOTS = 16, OS_LATENCY = 1000,
     request_size = 20, dtu_mask = 0xFFFFFFFFFF, to_dwt = (\<lambda>_. Fin 100)\<rparr>"

text \<open>A kernel in which the clock never holds its semaphore.\<close>

definition running_env :: env where
  "running_env = calm_env\<lparr>eint := (\<lambda>h c. case c of Os (SemGetCount x) \<Rightarrow> 1 | _ \<Rightarrow> eint calm_env h c)\<rparr>"

lemma running_env_ok [simp]: "ccp_count running_env h = 1"
  by (simp add: running_env_def)

end
