(* ===== verification/Streaming.thy ===== *)
theory Streaming
  imports Startup
begin

text \<open>
  \<open>apps/streaming/src/main.c\<close>: a transport stream over TDMA slots. The sender fills its test
  buffer with a running index and a checksum; the receiver checks both and counts what it
  received and what it missed. \<open>crc8\<close> stands for \<open>crc8_calc(0, ...)\<close> of the operating system.
\<close>

record stream_globals =
  test :: "u8 list"
  g_idx :: u8
  g_missed_count :: u32
  g_ok_count :: u32
  uwb_config_updated :: bool

definition upd_pending :: "bool \<Rightarrow> ('z stream_globals_scheme, unit) prog" where
  "upd_pending b = upd (\<lambda>g. g\<lparr>uwb_config_updated := b\<rparr>)"

definition uwb_config_updated_func :: "env \<Rightarrow> ('z stream_globals_scheme, int) prog" where
  "uwb_config_updated_func E = do {
     n \<leftarrow> ask E (Os (SemGetCount CcpSem));
     if n = 0 then do {
       act (Radio (ForceTrxOff 0));
       act (Radio (MacConfig 0));
       act (Radio (TxrfConfig 0));
       act (Radio (StartRx 0));
       ret 0
     }
     else do { upd_pending True; ret 0 }
   }"

definition range_slot_cb :: "env \<Rightarrow> slot_cfg \<Rightarrow> slot_view \<Rightarrow> ('g, unit) prog" where
  "range_slot_cb E c v = unless_ccp E
     (if \<not> v_synced v \<or> v_slot_id v = 0xffff then ret () else ranging_body E c v)"

text \<open>The end of a slot: its successor's start less the preamble and the latency.\<close>

definition slot_end :: "slot_cfg \<Rightarrow> int \<Rightarrow> int \<Rightarrow> u64" where
  "slot_end c preamble next_start =
     and (word_of_int next_start - push_bit 16 (word_of_int preamble + of_nat (OS_LATENCY c))) (dtu_mask c)"

definition stream_traffic :: "env \<Rightarrow> slot_cfg \<Rightarrow> slot_view \<Rightarrow> ('g, unit) prog" where
  "stream_traffic E c v = do {
     shr \<leftarrow> ask E (Os (ShrDuration 0));
     let preamble = to_c_int (eub E) 0 (2 ^ 64 - 1) (ceilf (fconv binary32 (to_dwt c shr)));
     t \<leftarrow> ask E (Net (TdmaTxSlotStart (v_idx v)));
     e \<leftarrow> ask E (Net (TdmaTxSlotStart (v_idx v + 1)));
     sent \<leftarrow> ask E (Net (TransportDequeueTx (word_of_int t) (slot_end c preamble e)));
     onlyif (sent = 0) (do {
       t \<leftarrow> ask E (Net (TdmaRxSlotStart (v_idx v)));
       e \<leftarrow> ask E (Net (TdmaRxSlotStart (v_idx v + 1)));
       act (Net (TransportListen UWB_BLOCKING (word_of_int t) (slot_end c preamble e)))
     })
   }"

definition stream_slot_cb :: "env \<Rightarrow> slot_cfg \<Rightarrow> slot_view \<Rightarrow> ('z stream_globals_scheme, unit) prog" where
  "stream_slot_cb E c v = unless_ccp E (do {
     p \<leftarrow> gets uwb_config_updated;
     if p then do {
       act (Radio (MacConfig 0));
       act (Radio (TxrfConfig 0));
       upd_pending False
     }
     else stream_traffic E c v
   })"


section \<open>Receiving\<close>

text \<open>The checks on the test buffer after a message has been copied into it.\<close>

definition check_frame :: "env \<Rightarrow> (u8 list \<Rightarrow> u8) \<Rightarrow> nat \<Rightarrow> ('z stream_globals_scheme, unit) prog" where
  "check_frame E crc8 len = do {
     g \<leftarrow> gets (\<lambda>g. g);
     let n = length (test g);
     if test g ! 0 \<noteq> crc8 (drop 1 (test g)) \<or> len \<noteq> n then do {
       u \<leftarrow> utime E;
       act (Os (ConsoleWrite (''{\"utime\": '' @ fmt_u (unat u) @ '',\"error\": \" crc mismatch len='' @
         fmt_u len @ '', sizeof(test) = '' @ fmt_u n @ ''\"}'' @ [CHR 0x0A])))
     }
     else if test g ! 1 \<noteq> g_idx g then do {
       u \<leftarrow> utime E;
       upd (\<lambda>g. g\<lparr>g_ok_count := g_ok_count g + 1,
                  g_missed_count := g_missed_count g + ucast (test g ! 1 - g_idx g)\<rparr>);
       g \<leftarrow> gets (\<lambda>g. g);
       act (Os (ConsoleWrite (''{\"utime\": '' @ fmt_u (unat u) @ '',\"error\": \" idx mismatch (got '' @
         fmt_u (unat (test g ! 1)) @ '' != expected '' @ fmt_u (unat (g_idx g)) @ '') (missed:'' @
         fmt_d (sint (g_missed_count g)) @ '', ok:'' @ fmt_d (sint (g_ok_count g)) @ ''\"}'' @ [CHR 0x0A])))
     }
     else upd (\<lambda>g. g\<lparr>g_ok_count := g_ok_count g + 1\<rparr>)
   }"

definition uwb_transport_cb :: "env \<Rightarrow> (u8 list \<Rightarrow> u8) \<Rightarrow> int \<Rightarrow> ('z stream_globals_scheme, bool) prog" where
  "uwb_transport_cb E crc8 mbuf = do {
     l \<leftarrow> ask E (Os (MbufPktLen mbuf));
     n \<leftarrow> gets (\<lambda>g. length (test g));
     (rc, bs) \<leftarrow> ask_bytes E (Os (MbufCopyData mbuf 0 n));
     upd (\<lambda>g. g\<lparr>test := overlay (test g) 0 bs\<rparr>);
     act (Os (MbufFree mbuf));
     upd (\<lambda>g. g\<lparr>g_idx := g_idx g + 1\<rparr>);
     check_frame E crc8 (unat (word_of_int l :: u16));
     upd (\<lambda>g. g\<lparr>g_idx := test g ! 1\<rparr>);
     ret True
   }"


section \<open>Sending\<close>

text \<open>The next content of the test buffer: index in the second byte, checksum in the first.\<close>

definition next_frame :: "(u8 list \<Rightarrow> u8) \<Rightarrow> u8 list \<Rightarrow> u8 list" where
  "next_frame crc8 t = (let t1 = t[1 := t ! 1 + 1] in t1[0 := crc8 (drop 1 t1)])"

fun stream_fill :: "nat \<Rightarrow> env \<Rightarrow> (u8 list \<Rightarrow> u8) \<Rightarrow> nat \<Rightarrow> ('z stream_globals_scheme, unit) prog" where
  "stream_fill 0 E crc8 hdr = ret ()"
| "stream_fill (Suc k) E crc8 hdr = do {
     dst \<leftarrow> ask E (GetField ''ccp->frames[0]->short_address'');
     let destination_uid = (word_of_int dst :: u16);
     onlyif (destination_uid \<noteq> 0) (do {
       sys \<leftarrow> ask E (GetField ''uwb_transport->config.os_msys_mpool'');
       n \<leftarrow> gets (\<lambda>g. length (test g));
       mbuf \<leftarrow> ask E (Os (MbufGet (if sys \<noteq> 0 then n else 0) hdr));
       onlyif (mbuf \<noteq> 0) (do {
         upd (\<lambda>g. g\<lparr>test := next_frame crc8 (test g)\<rparr>);
         t \<leftarrow> gets test;
         act (Os (MbufCopyInto mbuf 0 t));
         act (Net (TransportEnqueueTx destination_uid 0xDEAD 8 mbuf));
         stream_fill k E crc8 hdr
       })
     })
   }"

definition stream_timer :: "env \<Rightarrow> (u8 list \<Rightarrow> u8) \<Rightarrow> nat \<Rightarrow> ('z stream_globals_scheme, unit) prog" where
  "stream_timer E crc8 hdr = do {
     act (Os (CalloutReset StreamCallout (TICKS_PER_SEC E sdiv 80)));
     stream_fill 18 E crc8 hdr
   }"


section \<open>Start-up\<close>

definition stream_plan :: "bool \<Rightarrow> nat \<Rightarrow> (nat \<times> string) list" where
  "stream_plan concurrent nslots = map (\<lambda>i. (i,
     if concurrent \<and> i mod 16 \<noteq> 0 then ''range_slot_cb'' else ''stream_slot_cb'')) [1..<nslots - 1]"

definition initial_test :: "nat \<Rightarrow> u8 list" where
  "initial_test n = map of_nat [0..<n]"

definition stream_main :: "env \<Rightarrow> board \<Rightarrow> nat \<Rightarrow> bool \<Rightarrow> bool \<Rightarrow> nat \<Rightarrow> (stream_globals, unit) prog" where
  "stream_main E b transport_role dblbuffer concurrent nslots = do {
     act (Sys ''sysinit'' []);
     act (SetField ''udev->config.dblbuffon_enabled'' (of_bool dblbuffer));
     act (SetField ''udev->config.rxauto_enable'' (of_bool (\<not> dblbuffer)));
     act (Radio (SetDblRxBuff 0 dblbuffer));
     register_config;
     leds_out;
     need_inst E ''UWBEXT_TRANSPORT'';
     act (Sys ''uwb_transport_append_extension'' [0xDEAD]);
     need_inst E ''UWBEXT_CCP'';
     act (Net (CcpStart (if ccp_master b \<or> transport_role = 0 then CCP_ROLE_MASTER else CCP_ROLE_SLAVE)));
     ble_init b;
     onlyif (dw1000_device b) (do {
       act (Sys ''dw1000_gpio5_config_ext_txe'' [0]);
       act (Sys ''dw1000_gpio6_config_ext_rxe'' [0])
     });
     u \<leftarrow> banner E 0 b False [];
     put (''UWB_TRANSPORT_ROLE = '' @ fmt_u transport_role @ [CHR 0x0A]);
     need_inst E ''UWBEXT_TDMA'';
     onlyif concurrent (need_inst E ''UWBEXT_NRNG'');
     assign_plan (stream_plan concurrent nslots);
     upd (\<lambda>g. g\<lparr>test := initial_test (length (test g))\<rparr>);
     onlyif (transport_role = 1) (act (Os (CalloutReset StreamCallout (TICKS_PER_SEC E))))
   }"

end
