(* ===== verification/Streaming_Props.thy ===== *)
theory Streaming_Props
  imports Streaming
begin

text \<open>
  Properties of the streaming application: what the sender queues, what the receiver makes of
  the frames that reach it, and how its slots behave around clock and configuration.
\<close>

section \<open>The frames of the sender\<close>

text \<open>The messages handed to the transport so far.\<close>

fun sent :: "env \<Rightarrow> hist \<Rightarrow> u8 list list" where
  "sent E [] = []"
| "sent E (c # h) = (case c of
     Net (TransportEnqueueTx dst code hl m) \<Rightarrow> sent E h @ [payload E m h] | _ \<Rightarrow> sent E h)"

text \<open>The \<open>j\<close>-th frame after the content \<open>t\<close> of the test buffer.\<close>

definition frame_at :: "(u8 list \<Rightarrow> u8) \<Rightarrow> u8 list \<Rightarrow> nat \<Rightarrow> u8 list" where
  "frame_at crc8 t j = (next_frame crc8 ^^ j) t"

definition frames_from :: "(u8 list \<Rightarrow> u8) \<Rightarrow> u8 list \<Rightarrow> nat \<Rightarrow> u8 list list" where
  "frames_from crc8 t k = map (\<lambda>j. frame_at crc8 t (Suc j)) [0..<k]"

definition valid_frame :: "(u8 list \<Rightarrow> u8) \<Rightarrow> nat \<Rightarrow> u8 list \<Rightarrow> bool" where
  "valid_frame crc8 n f \<longleftrightarrow> length f = n \<and> f ! 0 = crc8 (drop 1 f)"

lemma next_frame_facts:
  assumes "2 \<le> length t"
  shows "length (next_frame crc8 t) = length t" "next_frame crc8 t ! 1 = t ! 1 + 1"
    "valid_frame crc8 (length t) (next_frame crc8 t)"
proof -
  have "t \<noteq> []" "1 < length t" using assms by auto
  then show "length (next_frame crc8 t) = length t" "next_frame crc8 t ! 1 = t ! 1 + 1"
    "valid_frame crc8 (length t) (next_frame crc8 t)"
    by (simp_all add: next_frame_def valid_frame_def Let_def)
qed

lemma length_next_frame [simp]: "length (next_frame crc8 t) = length t"
  by (simp add: next_frame_def Let_def)

lemma frame_at_Suc: "frame_at crc8 t (Suc j) = next_frame crc8 (frame_at crc8 t j)"
  "frame_at crc8 t (Suc j) = frame_at crc8 (next_frame crc8 t) j"
  by (simp_all add: frame_at_def funpow_swap1)

lemma frame_at_facts:
  assumes "2 \<le> length t"
  shows "length (frame_at crc8 t j) = length t" "frame_at crc8 t j ! 1 = t ! 1 + of_nat j"
    "0 < j \<Longrightarrow> valid_frame crc8 (length t) (frame_at crc8 t j)"
proof -
  show *: "length (frame_at crc8 t j) = length t" for j
    by (induction j) (simp_all add: frame_at_Suc(1) frame_at_def)
  show "frame_at crc8 t j ! 1 = t ! 1 + of_nat j"
  proof (induction j)
    case (Suc j)
    have "frame_at crc8 t (Suc j) ! 1 = frame_at crc8 t j ! 1 + 1"
      unfolding frame_at_Suc(1) by (rule next_frame_facts(2)) (simp add: * assms)
    with Suc show ?case by simp
  qed (simp add: frame_at_def)
  show "0 < j \<Longrightarrow> valid_frame crc8 (length t) (frame_at crc8 t j)"
    using next_frame_facts(3) [of "frame_at crc8 t (j - 1)" crc8] assms *
    by (cases j) (simp_all add: frame_at_Suc(1))
qed

lemma frames_from_Suc: "frames_from crc8 t (Suc k) = next_frame crc8 t # frames_from crc8 (next_frame crc8 t) k"
proof -
  have "[0..<Suc k] = 0 # map Suc [0..<k]" by (simp add: upt_conv_Cons map_Suc_upt del: upt_Suc)
  then show ?thesis by (simp add: frames_from_def frame_at_Suc(2)) (simp add: frame_at_def)
qed

lemma frames_from_0 [simp]: "frames_from crc8 t 0 = []"
  by (simp add: frames_from_def)

lemma length_frames_from [simp]: "length (frames_from crc8 t k) = k"
  by (simp add: frames_from_def)

lemma frames_from_add:
  "frames_from crc8 t (a + b) = frames_from crc8 t a @ frames_from crc8 (frame_at crc8 t a) b"
proof (induction a arbitrary: t)
  case (Suc a)
  then show ?case by (simp add: frames_from_Suc frame_at_Suc(2))
qed (simp add: frame_at_def)

definition copies_ok :: "env \<Rightarrow> bool" where
  "copies_ok E \<longleftrightarrow> (\<forall>h m bs. eint E h (Os (MbufCopyInto m 0 bs)) = 0)"

text \<open>A master is known and the pool has a buffer.\<close>

definition can_send :: "env \<Rightarrow> bool" where
  "can_send E \<longleftrightarrow> (\<forall>h. (word_of_int (eint E h (GetField ''ccp->frames[0]->short_address'')) :: u16) \<noteq> 0)
     \<and> (\<forall>h a b. eint E h (Os (MbufGet a b)) \<noteq> 0)"

definition fills :: "env \<Rightarrow> (u8 list \<Rightarrow> u8) \<Rightarrow> nat \<Rightarrow> 'z stream_globals_scheme st \<Rightarrow> 'z stream_globals_scheme st \<Rightarrow> nat \<Rightarrow> bool" where
  "fills E crc8 k s s' j \<longleftrightarrow> j \<le> k \<and> (can_send E \<longrightarrow> j = k) \<and> \<not> halted s'
     \<and> sent E (tr s') = sent E (tr s) @ frames_from crc8 (test (glb s)) j
     \<and> glb s' = (glb s)\<lparr>test := frame_at crc8 (test (glb s)) j\<rparr>"

lemma fills_0: "fills E crc8 k s s' 0 \<longleftrightarrow> (can_send E \<longrightarrow> k = 0) \<and> \<not> halted s'
     \<and> sent E (tr s') = sent E (tr s) \<and> glb s' = glb s"
  by (auto simp: fills_def frame_at_def)

lemma stream_fill_run:
  assumes "\<not> halted s" and "copies_ok E"
  shows "\<exists>j. fills E crc8 k s (exec (stream_fill k E crc8 hdr) s) j"
  using assms(1)
proof (induction k arbitrary: s)
  case 0
  then have "fills E crc8 0 s (exec (stream_fill 0 E crc8 hdr) s) 0" by (simp add: fills_0)
  then show ?case ..
next
  case (Suc k)
  let ?c = "GetField ''ccp->frames[0]->short_address''"
  let ?d = "word_of_int (eint E (tr s) ?c) :: u16"
  let ?h = "GetField ''uwb_transport->config.os_msys_mpool'' # ?c # tr s"
  let ?g = "Os (MbufGet (if eint E (?c # tr s) (hd ?h) \<noteq> 0 then length (test (glb s)) else 0) hdr)"
  let ?m = "eint E ?h ?g"
  define s1 where "s1 = s\<lparr>glb := (glb s)\<lparr>test := next_frame crc8 (test (glb s))\<rparr>,
    tr := Net (TransportEnqueueTx ?d 0xDEAD 8 ?m) # Os (MbufCopyInto ?m 0 (next_frame crc8 (test (glb s)))) # ?g # ?h\<rparr>"
  consider "?d = 0" | "?d \<noteq> 0" "?m = 0" | "?d \<noteq> 0" "?m \<noteq> 0" by blast
  then show ?case
  proof cases
    case 1
    then have "fills E crc8 (Suc k) s (exec (stream_fill (Suc k) E crc8 hdr) s) 0"
      using Suc.prems by (auto simp: fills_0 exec_def run_simps Let_def can_send_def)
    then show ?thesis ..
  next
    case 2
    then have "fills E crc8 (Suc k) s (exec (stream_fill (Suc k) E crc8 hdr) s) 0"
      using Suc.prems by (auto simp: fills_0 exec_def run_simps Let_def can_send_def)
    then show ?thesis ..
  next
    case 3
    then have e: "exec (stream_fill (Suc k) E crc8 hdr) s = exec (stream_fill k E crc8 hdr) s1"
      using Suc.prems by (cases "eint E (?c # tr s) (hd ?h) = 0") (simp_all add: s1_def exec_def run_simps Let_def)
    obtain j where j: "fills E crc8 k s1 (exec (stream_fill k E crc8 hdr) s1) j"
      using Suc.IH [of s1] Suc.prems by (auto simp: s1_def)
    have "sent E (tr s1) = sent E (tr s) @ [next_frame crc8 (test (glb s))]"
      using assms(2) by (simp add: s1_def copies_ok_def)
    with j have "fills E crc8 (Suc k) s (exec (stream_fill (Suc k) E crc8 hdr) s) (Suc j)"
      unfolding e by (auto simp: fills_def frames_from_Suc frame_at_Suc(2) s1_def)
    then show ?thesis ..
  qed
qed


section \<open>The receiver\<close>

text \<open>Buffer \<open>m\<close> holds the frame \<open>f\<close>, which fills the test buffer of \<open>n\<close> bytes.\<close>

definition holds_frame :: "env \<Rightarrow> nat \<Rightarrow> int \<Rightarrow> u8 list \<Rightarrow> bool" where
  "holds_frame E n m f \<longleftrightarrow> (\<forall>h. eint E h (Os (MbufPktLen m)) = int n)
     \<and> (\<forall>h. ebytes E h (Os (MbufCopyData m 0 n)) = f)"

definition receive :: "env \<Rightarrow> (u8 list \<Rightarrow> u8) \<Rightarrow> int list \<Rightarrow> ('z stream_globals_scheme, unit) prog" where
  "receive E crc8 ms = for_each ms (\<lambda>m. do { b \<leftarrow> uwb_transport_cb E crc8 m; ret () })"

lemma receive_Cons: "exec (receive E crc8 (m # ms)) s = exec (receive E crc8 ms) (exec (uwb_transport_cb E crc8 m) s)"
  by (simp add: receive_def exec_bind)

text \<open>
  What the receiver counts: each frame is one received, and the frames missing before it are
  the difference between its index and the expected one.
\<close>

definition count_frame :: "u8 list \<Rightarrow> 'z stream_globals_scheme \<Rightarrow> 'z stream_globals_scheme" where
  "count_frame f g = g\<lparr>test := f, g_idx := f ! 1, g_ok_count := g_ok_count g + 1,
     g_missed_count := g_missed_count g + ucast (f ! 1 - (g_idx g + 1))\<rparr>"

lemma transport_cb_valid:
  assumes "\<not> halted s" and "n = length (test (glb s))" and "n < 2 ^ 16"
    and "holds_frame E n m f" and "valid_frame crc8 n f"
  shows "glb (exec (uwb_transport_cb E crc8 m) s) = count_frame f (glb s)"
    and "\<not> halted (exec (uwb_transport_cb E crc8 m) s)"
proof -
  have o: "overlay (test (glb s)) 0 f = f"
    using assms(2,5) by (simp add: overlay_def valid_frame_def)
  have l: "unat (word_of_int (int n) :: u16) = n" using assms(3) by (simp add: unat_of_nat)
  have z: "f ! Suc 0 = g_idx (glb s) + 1 \<Longrightarrow> (ucast (f ! Suc 0 - (g_idx (glb s) + 1)) :: u32) = 0" by simp
  note facts = assms o l [simplified]
  show "glb (exec (uwb_transport_cb E crc8 m) s) = count_frame f (glb s)"
    "\<not> halted (exec (uwb_transport_cb E crc8 m) s)"
    using facts
    by (auto simp: uwb_transport_cb_def check_frame_def exec_def run_simps Let_def holds_frame_def
        valid_frame_def utime_def count_frame_def)
qed


text \<open>Positions in the stream of the sender, counted from 1: increasing, and no gap hides a
  full turn of the eight-bit index.\<close>

fun spaced :: "nat \<Rightarrow> nat list \<Rightarrow> bool" where
  "spaced p [] \<longleftrightarrow> True"
| "spaced p (q # qs) \<longleftrightarrow> p < q \<and> q \<le> p + 256 \<and> spaced q qs"

lemma spaced_last: "spaced p qs \<Longrightarrow> p + length qs \<le> last (p # qs)"
  by (induction qs arbitrary: p) fastforce+

lemma ucast_of_nat_u8: "k < 256 \<Longrightarrow> (ucast (of_nat k :: u8) :: u32) = of_nat k"
  by (simp add: unsigned_of_nat take_bit_nat_eq_self)

lemma gap_diff:
  assumes "p < q" and "q \<le> p + 256"
  shows "(ucast ((b + of_nat q) - ((b + of_nat p :: u8) + 1)) :: u32) = of_nat (q - p - 1)"
proof -
  have "(b + of_nat q) - ((b + of_nat p :: u8) + 1) = of_nat (q - p - 1)"
    using assms(1) by (simp add: algebra_simps of_nat_diff)
  moreover have "(ucast (of_nat (q - p - 1) :: u8) :: u32) = of_nat (q - p - 1)"
    by (rule ucast_of_nat_u8) (use assms in linarith)
  ultimately show ?thesis by simp
qed

lemma receive_run:
  assumes "2 \<le> length t0" and "n = length t0" and "n < 2 ^ 16"
    and "\<not> halted s" and "length (test (glb s)) = n" and "g_idx (glb s) = t0 ! 1 + of_nat p"
    and "list_all2 (\<lambda>m q. holds_frame E n m (frame_at crc8 t0 q)) ms qs" and "spaced p qs"
  shows "g_ok_count (glb (exec (receive E crc8 ms) s)) = g_ok_count (glb s) + of_nat (length qs)
    \<and> g_missed_count (glb (exec (receive E crc8 ms) s))
      = g_missed_count (glb s) + of_nat (last (p # qs) - p - length qs)"
  using assms(4-)
proof (induction qs arbitrary: ms s p)
  case Nil
  then show ?case by (simp add: receive_def)
next
  case (Cons q qs)
  obtain m ms' where ms: "ms = m # ms'" "holds_frame E n m (frame_at crc8 t0 q)"
    "list_all2 (\<lambda>m q. holds_frame E n m (frame_at crc8 t0 q)) ms' qs"
    using Cons.prems(4) by (cases ms) auto
  let ?f = "frame_at crc8 t0 q" and ?s = "exec (uwb_transport_cb E crc8 m) s"
  have pq: "p < q" "q \<le> p + 256" "spaced q qs" using Cons.prems(5) by auto
  have f: "length ?f = n" "?f ! 1 = t0 ! 1 + of_nat q" "valid_frame crc8 n ?f"
    using frame_at_facts [OF assms(1)] assms(2) pq(1) by auto
  note s = transport_cb_valid [OF Cons.prems(1) Cons.prems(2) [symmetric] assms(3) ms(2) f(3)]
  have IH: "g_ok_count (glb (exec (receive E crc8 ms') ?s)) = g_ok_count (glb ?s) + of_nat (length qs)
    \<and> g_missed_count (glb (exec (receive E crc8 ms') ?s))
      = g_missed_count (glb ?s) + of_nat (last (q # qs) - q - length qs)"
    using f pq(3) by (intro Cons.IH s(2) ms(3)) (simp_all add: s(1) count_frame_def)
  have missed: "g_missed_count (glb ?s) = g_missed_count (glb s) + of_nat (q - p - 1)"
    using gap_diff [OF pq(1,2)] f(2) Cons.prems(3) by (simp add: s(1) count_frame_def)
  have "last (p # q # qs) - p - length (q # qs) = (q - p - 1) + (last (q # qs) - q - length qs)"
    using spaced_last [OF pq(3)] pq(1) by simp
  then have "(of_nat (last (p # q # qs) - p - length (q # qs)) :: u32)
    = of_nat (q - p - 1) + of_nat (last (q # qs) - q - length qs)" by (metis of_nat_add)
  moreover have "g_ok_count (glb ?s) = g_ok_count (glb s) + 1" by (simp add: s(1) count_frame_def)
  ultimately show ?case using IH missed by (simp add: ms(1) receive_Cons algebra_simps)
qed


section \<open>From the sender to the receiver\<close>

definition timers :: "env \<Rightarrow> (u8 list \<Rightarrow> u8) \<Rightarrow> nat \<Rightarrow> nat \<Rightarrow> ('z stream_globals_scheme, unit) prog" where
  "timers E crc8 hdr r = for_each (replicate r ()) (\<lambda>_. stream_timer E crc8 hdr)"

lemma timers_run:
  assumes "\<not> halted s" and "copies_ok E"
  shows "\<exists>j. fills E crc8 (18 * r) s (exec (timers E crc8 hdr r) s) j"
  using assms(1)
proof (induction r arbitrary: s)
  case 0
  then have "fills E crc8 (18 * 0) s (exec (timers E crc8 hdr 0) s) 0" by (simp add: fills_0 timers_def)
  then show ?case by blast
next
  case (Suc r)
  let ?s1 = "exec (act (Os (CalloutReset StreamCallout (TICKS_PER_SEC E sdiv 80)))) s"
  let ?s2 = "exec (stream_fill 18 E crc8 hdr) ?s1"
  have s1: "\<not> halted ?s1" "glb ?s1 = glb s" "sent E (tr ?s1) = sent E (tr s)"
    using Suc.prems by (simp_all add: exec_act)
  obtain j where j: "fills E crc8 18 ?s1 ?s2 j" using stream_fill_run [OF s1(1) assms(2)] by blast
  then obtain k where k: "fills E crc8 (18 * r) ?s2 (exec (timers E crc8 hdr r) ?s2) k"
    using Suc.IH [of ?s2] by (auto simp: fills_def)
  have e: "exec (timers E crc8 hdr (Suc r)) s = exec (timers E crc8 hdr r) ?s2"
    by (simp add: timers_def stream_timer_def exec_bind)
  have f: "frame_at crc8 (frame_at crc8 t j) k = frame_at crc8 t (j + k)" for t
    by (simp add: frame_at_def funpow_add add.commute [of j])
  have "fills E crc8 (18 * Suc r) s (exec (timers E crc8 hdr (Suc r)) s) (j + k)"
    using j k s1 unfolding e fills_def by (auto simp: frames_from_add f)
  then show ?case ..
qed

lemma frames_from_nth: "q \<in> {1..k} \<Longrightarrow> frames_from crc8 t k ! (q - 1) = frame_at crc8 t q"
  by (cases q) (simp_all add: frames_from_def)

text \<open>C22: Each firing of the stream timer queues at most eighteen messages, and exactly eighteen
  when a master is known and the pool has buffers. The messages are consecutive frames: each
  carries the index after its predecessor's in its second byte and the checksum of the rest in
  its first. The buffer keeps its size.\<close>

theorem stream_timer_sends:
  assumes "\<not> halted s" and "copies_ok E" and "2 \<le> length (test (glb s))"
  shows "\<exists>fs. sent E (tr (exec (stream_timer E crc8 hdr) s)) = sent E (tr s) @ fs
    \<and> length fs \<le> 18 \<and> (can_send E \<longrightarrow> length fs = 18)
    \<and> (\<forall>i < length fs. valid_frame crc8 (length (test (glb s))) (fs ! i)
        \<and> fs ! i ! 1 = test (glb s) ! 1 + of_nat (Suc i))"
proof -
  let ?n = "length (test (glb s))"
  have "exec (stream_timer E crc8 hdr) s = exec (timers E crc8 hdr 1) s"
    by (simp add: timers_def exec_bind)
  then obtain j where "fills E crc8 18 s (exec (stream_timer E crc8 hdr) s) j"
    using timers_run [OF assms(1,2), where r = 1] by auto
  moreover have "valid_frame crc8 ?n (frames_from crc8 (test (glb s)) j ! i)
      \<and> frames_from crc8 (test (glb s)) j ! i ! 1 = test (glb s) ! 1 + of_nat (Suc i)" if "i < j" for i
    using frame_at_facts [OF assms(3)] that by (simp add: frames_from_def)
  ultimately show ?thesis by (auto simp: fills_def frames_from_def)
qed

definition stream0 :: stream_globals where
  "stream0 = \<lparr>test = initial_test 4, g_idx = 1, g_missed_count = 0, g_ok_count = 0, uwb_config_updated = False\<rparr>"

lemma stream0_counts [simp]: "g_idx stream0 = 1" "g_ok_count stream0 = 0" "g_missed_count stream0 = 0"
  by (simp_all add: stream0_def)

definition sum8 :: "u8 list \<Rightarrow> u8" where
  "sum8 xs = sum_list xs"

lemma calm_copies [simp]: "copies_ok calm_env"
  by (simp add: copies_ok_def)

theorem stream_timer_sends_witness:
  "\<exists>fs. sent calm_env (tr (exec (stream_timer calm_env sum8 0) (boot stream0))) = sent calm_env [] @ fs
    \<and> length fs \<le> 18 \<and> (can_send calm_env \<longrightarrow> length fs = 18)
    \<and> (\<forall>i < length fs. valid_frame sum8 4 (fs ! i) \<and> fs ! i ! 1 = 1 + of_nat (Suc i))"
proof -
  have "test stream0 ! 1 = 1" "length (test stream0) = 4"
    by (simp_all add: stream0_def initial_test_def upt_conv_Cons)
  then show ?thesis using stream_timer_sends [of "boot stream0" calm_env sum8 0] by simp
qed

text \<open>C7: Loss accounting. Frames of the sender reach the receiver in order, some of them not;
  no run of losses hides a full turn of the index. A receiver that starts in step counts each
  frame that arrives as one received, and its missed counter grows by the number of frames
  that were lost before the last one that arrived.\<close>

theorem stream_loss_count:
  assumes sender: "\<not> halted s" "copies_ok E" "2 \<le> length (test (glb s))" "length (test (glb s)) < 2 ^ 16"
      "sent E (tr (exec (timers E crc8 hdr r) s)) = sent E (tr s) @ fs"
    and link: "qs \<noteq> []" "spaced 0 qs" "last qs \<le> length fs"
      "list_all2 (\<lambda>m q. holds_frame F (length (test (glb s))) m (fs ! (q - 1))) ms qs"
    and receiver: "\<not> halted t" "length (test (glb t)) = length (test (glb s))" "g_idx (glb t) = test (glb s) ! 1"
    and run: "t' = exec (receive F crc8 ms) t"
  shows "g_ok_count (glb t') = g_ok_count (glb t) + of_nat (length qs)
    \<and> g_missed_count (glb t') = g_missed_count (glb t) + of_nat (last qs - length qs)"
proof -
  let ?t0 = "test (glb s)"
  obtain j where "fills E crc8 (18 * r) s (exec (timers E crc8 hdr r) s) j"
    using timers_run [OF sender(1,2)] by blast
  then have fs: "fs = frames_from crc8 ?t0 j" using sender(5) by (simp add: fills_def)
  have q: "q \<in> {1..j}" if "q \<in> set qs" for q
  proof -
    have "p < q \<and> q \<le> last qs" if "spaced p qs" "q \<in> set qs" for p qs
      using that
    proof (induction qs arbitrary: p)
      case (Cons x xs)
      then show ?case using spaced_last [of x xs] by (cases "xs = []") fastforce+
    qed simp
    from this [OF link(2) that] link(3) show ?thesis by (simp add: fs frames_from_def)
  qed
  have l: "list_all2 (\<lambda>m q. holds_frame F (length ?t0) m (frame_at crc8 ?t0 q)) ms qs"
  proof (rule list_all2_all_nthI)
    show "length ms = length qs" using link(4) by (simp add: list_all2_lengthD)
  next
    fix i assume i: "i < length ms"
    then have "qs ! i \<in> {1..j}" using link(4) q by (simp add: list_all2_lengthD)
    then show "holds_frame F (length ?t0) (ms ! i) (frame_at crc8 ?t0 (qs ! i))"
      using list_all2_nthD [OF link(4) i] frames_from_nth by (simp add: fs)
  qed
  show ?thesis
    using receive_run [OF sender(3) refl sender(4) receiver(1,2) _ l link(2)] link(1) receiver(3)
    by (simp add: run)
qed


text \<open>A kernel that knows a master, and a receiver whose buffer \<open>m\<close> holds the \<open>m\<close>-th frame.\<close>

definition send_env :: env where
  "send_env = calm_env\<lparr>eint := (\<lambda>h c. case c of GetField k \<Rightarrow> 1 | _ \<Rightarrow> eint calm_env h c)\<rparr>"

definition recv_env :: "u8 list list \<Rightarrow> env" where
  "recv_env fs = calm_env\<lparr>eint := (\<lambda>h c. case c of Os (MbufPktLen m) \<Rightarrow> int (length (hd fs)) | _ \<Rightarrow> eint calm_env h c),
     ebytes := (\<lambda>h c. case c of Os (MbufCopyData m off n) \<Rightarrow> fs ! nat (m - 1) | _ \<Rightarrow> [])\<rparr>"

lemma send_env_ok: "copies_ok send_env" "can_send send_env"
  using unused_mbuf_pos by (auto simp: copies_ok_def can_send_def send_env_def order_less_imp_not_eq2)

lemma recv_env_holds: "1 \<le> q \<Longrightarrow> length (hd fs) = n \<Longrightarrow> holds_frame (recv_env fs) n (int q) (fs ! (q - 1))"
  by (auto simp: holds_frame_def recv_env_def nat_diff_distrib)

theorem stream_loss_count_witness:
  "\<exists>t'. t' = exec (receive (recv_env (frames_from sum8 (initial_test 4) 18)) sum8 [2, 5]) (boot stream0)
    \<and> g_ok_count (glb t') = 2 \<and> g_missed_count (glb t') = 3"
proof -
  let ?fs = "frames_from sum8 (initial_test 4) 18"
  have t: "test stream0 = initial_test 4" "length (initial_test 4) = 4" "initial_test 4 ! 1 = 1"
    by (simp_all add: stream0_def initial_test_def upt_conv_Cons)
  obtain j where "fills send_env sum8 (18 * 1) (boot stream0) (exec (timers send_env sum8 0 1) (boot stream0)) j"
    using timers_run send_env_ok(1) by (metis boot_simps(3))
  then have fs: "sent send_env (tr (exec (timers send_env sum8 0 1) (boot stream0)))
      = sent send_env (tr (boot stream0)) @ ?fs"
    using send_env_ok(2) by (simp add: fills_def t)
  have hd: "length (hd ?fs) = 4"
    using frame_at_facts(1) [of "initial_test 4"] t(2) by (simp add: frames_from_def upt_conv_Cons)
  have l: "list_all2 (\<lambda>m q. holds_frame (recv_env ?fs) (length (test (glb (boot stream0)))) m (?fs ! (q - 1)))
      [2, 5] [2, 5]"
    using recv_env_holds [of 2 ?fs 4] recv_env_holds [of 5 ?fs 4] hd by (simp add: t)
  show ?thesis
    using stream_loss_count [OF _ send_env_ok(1) _ _ fs _ _ _ l, of "boot stream0"]
    by (simp add: t t(3) [simplified])
qed


section \<open>Start-up\<close>

definition stream_reset :: "nat \<Rightarrow> stream_globals" where
  "stream_reset n = \<lparr>test = replicate n 0, g_idx = 0, g_missed_count = 0, g_ok_count = 0, uwb_config_updated = False\<rparr>"

lemma stream_main_run:
  assumes "insts_found E" and "\<not> halted s"
  shows "glb (exec (stream_main E b role dbl conc nslots) s) = (glb s)\<lparr>test := initial_test (length (test (glb s)))\<rparr>"
    and "\<not> halted (exec (stream_main E b role dbl conc nslots) s)"
    and "assigned (tr (exec (stream_main E b role dbl conc nslots) s)) = assigned (tr s) @ stream_plan conc nslots"
  using assms by (simp_all add: stream_main_def main_run)

lemma spaced_upt: "spaced p [Suc p..<q]"
  by (induction "q - p" arbitrary: p) (auto simp: upt_rec [of "Suc _" q])

lemma frames_from_first:
  "frames_from crc8 t0 (Suc k) = frame_at crc8 t0 1 # map (frame_at crc8 t0) [2..<Suc (Suc k)]"
proof -
  have "[2..<Suc (Suc k)] = map Suc [1..<Suc k]" "[0..<Suc k] = 0 # [1..<Suc k]"
    by (simp_all add: map_Suc_upt numeral_2_eq_2 upt_conv_Cons del: upt_Suc)
  then show ?thesis by (simp add: frames_from_def comp_def del: upt_Suc)
qed

text \<open>C39: Two freshly started devices are out of step: a receiver that gets every frame of the
  sender, from the first on, counts them all as received and yet one as missed, because the
  sender counts its index up from the second byte of the initial pattern, which is 1, and the
  receiver from 0.\<close>

theorem stream_first_frame_missed:
  assumes boot: "s = exec (stream_main E b 1 dbl conc nslots) (boot (stream_reset n))"
      "t = exec (stream_main F c 0 dbl conc nslots) (boot (stream_reset n))"
    and ok: "insts_found E" "insts_found F" "copies_ok E" "2 \<le> n" "n < 2 ^ 16"
    and fs: "sent E (tr (exec (timers E crc8 hdr r) s)) = sent E (tr s) @ fs" "fs \<noteq> []" "length fs < 2 ^ 32"
    and link: "list_all2 (holds_frame F n) ms fs"
    and run: "t' = exec (receive F crc8 ms) t"
  shows "g_ok_count (glb t') = of_nat (length fs) \<and> g_missed_count (glb t') = 1"
proof -
  let ?t0 = "initial_test n"
  have s: "\<not> halted s" "test (glb s) = ?t0" and t: "\<not> halted t" "length (test (glb t)) = n"
      "g_idx (glb t) = 0" "g_ok_count (glb t) = 0" "g_missed_count (glb t) = 0"
    using stream_main_run [OF ok(1)] stream_main_run [OF ok(2)]
    by (simp_all add: boot stream_reset_def initial_test_def)
  have t0: "length ?t0 = n" "?t0 ! 1 = 1" using ok(4) by (simp_all add: initial_test_def)
  have l0: "2 \<le> length ?t0" using ok(4) t0(1) by simp
  obtain j where "fills E crc8 (18 * r) s (exec (timers E crc8 hdr r) s) j"
    using timers_run [OF s(1) ok(3)] by blast
  then have fsj: "fs = frames_from crc8 ?t0 j" using fs(1) s(2) by (simp add: fills_def)
  then obtain k where j: "j = Suc k" using fs(2) by (cases j) auto
  obtain m ms' where ms: "ms = m # ms'" "holds_frame F n m (frame_at crc8 ?t0 1)"
    "list_all2 (holds_frame F n) ms' (map (frame_at crc8 ?t0) [2..<Suc (Suc k)])"
    using link by (auto simp: fsj j frames_from_first list_all2_Cons2 simp del: upt_Suc)
  note f1 = frame_at_facts [OF l0]
  let ?u = "exec (uwb_transport_cb F crc8 m) t"
  note u = transport_cb_valid [OF t(1) t(2) [symmetric] ok(5) ms(2)]
  have f: "valid_frame crc8 n (frame_at crc8 ?t0 1)" "frame_at crc8 ?t0 1 ! 1 = 2"
    using f1(3) [of 1] f1(2) [of crc8 1] t0 by auto
  have "g_ok_count (glb t') = g_ok_count (glb ?u) + of_nat (length [2..<Suc (Suc k)])
    \<and> g_missed_count (glb t') = g_missed_count (glb ?u)
        + of_nat (last (1 # [2..<Suc (Suc k)]) - 1 - length [2..<Suc (Suc k)])"
    unfolding run ms(1) receive_Cons
  proof (rule receive_run [OF l0 refl])
    show "list_all2 (\<lambda>m q. holds_frame F (length ?t0) m (frame_at crc8 ?t0 q)) ms' [2..<Suc (Suc k)]"
      using ms(3) by (simp add: list_all2_map2 t0(1))
    show "spaced 1 [2..<Suc (Suc k)]" using spaced_upt [of 1 "Suc (Suc k)"] by (simp add: numeral_2_eq_2)
  qed (use u f t0 ok(5) f1(1) in \<open>simp_all add: count_frame_def\<close>)
  moreover have "g_ok_count (glb ?u) = 1" "g_missed_count (glb ?u) = 1"
    using u(1) [OF f(1)] f(2) t by (simp_all add: count_frame_def)
  moreover have "last (1 # [2..<Suc (Suc k)]) - 1 - length [2..<Suc (Suc k)] = 0" by simp arith
  moreover have "length [2..<Suc (Suc k)] = k" by (simp del: upt_Suc)
  ultimately show ?thesis by (simp add: fsj j del: upt_Suc)
qed

lemma board_env_ok [simp]: "copies_ok board_env" "can_send board_env"
  using unused_mbuf_pos
  by (auto simp: copies_ok_def can_send_def board_env_def order_less_imp_not_eq2)

definition board_recv :: "u8 list list \<Rightarrow> env" where
  "board_recv fs = (recv_env fs)\<lparr>eint := (\<lambda>h c. case c of Sys f xs \<Rightarrow> 1 | _ \<Rightarrow> eint (recv_env fs) h c)\<rparr>"

theorem stream_first_frame_missed_witness:
  "\<exists>t'. t' = exec (receive (board_recv (frames_from sum8 (initial_test 4) 18)) sum8 (map int [1..<19]))
      (exec (stream_main (board_recv (frames_from sum8 (initial_test 4) 18)) sample_board 0 False False 16)
        (boot (stream_reset 4)))
    \<and> g_ok_count (glb t') = 18 \<and> g_missed_count (glb t') = 1"
proof -
  let ?fs = "frames_from sum8 (initial_test 4) 18"
  let ?s = "exec (stream_main board_env sample_board 1 False False 16) (boot (stream_reset 4))"
  have s: "\<not> halted ?s" "test (glb ?s) = initial_test 4"
    using stream_main_run [of board_env] by (simp_all add: stream_reset_def)
  obtain j where "fills board_env sum8 (18 * 1) ?s (exec (timers board_env sum8 0 1) ?s) j"
    using timers_run [OF s(1) board_env_ok(1)] by blast
  then have fs: "sent board_env (tr (exec (timers board_env sum8 0 1) ?s)) = sent board_env (tr ?s) @ ?fs"
    using s(2) by (simp add: fills_def)
  have n: "length (initial_test 4) = 4" by (simp add: initial_test_def)
  have ne: "?fs \<noteq> []" by (simp add: frames_from_def)
  have i: "insts_found (board_recv ?fs)" by (simp add: insts_found_def board_recv_def)
  have hd: "length (hd ?fs) = 4"
    using frame_at_facts(1) [of "initial_test 4"] n by (simp add: frames_from_def upt_conv_Cons)
  have l: "list_all2 (holds_frame (board_recv ?fs) 4) (map int [1..<19]) ?fs"
    using hd by (intro list_all2_all_nthI) (simp_all add: holds_frame_def board_recv_def recv_env_def del: upt_Suc upt_rec_numeral)
  show ?thesis
    using stream_first_frame_missed [OF refl refl _ i _ _ _ fs ne _ l refl] by simp
qed


section \<open>Slots\<close>

lemma exec_range_slot_cb: "range_slot_cb E c v = unless_ccp E
    (onlyif (v_synced v \<and> v_slot_id v \<noteq> 0xffff) (ranging_body E c v))"
  by (auto simp: range_slot_cb_def onlyif_def)

interpretation range_slots: guarded_slot E "range_slot_cb E c"
  by unfold_locales (simp add: range_slot_cb_def exec_unless_ccp)

lemma stream_traffic_effects:
  "emits (\<lambda>c. c \<noteq> Radio (MacConfig 0)) (stream_traffic E c v)"
  "keeps I (stream_traffic E c v)" "runs_on (stream_traffic E c v)"
  unfolding stream_traffic_def by (intro effects; simp)+

interpretation stream_slots: deferred_config E "stream_slot_cb E c" uwb_config_updated
    "uwb_config_updated_func E" "\<lambda>h. ccp_count E h \<noteq> 0"
proof
  show "tr (exec (stream_slot_cb E c v) s) = Os (SemGetCount CcpSem) # tr s
      \<and> \<not> halted (exec (stream_slot_cb E c v) s)"
    if "\<not> halted s" "ccp_count E (tr s) = 0" for s :: "'a stream_globals_scheme st" and v
    using that by (simp add: stream_slot_cb_def exec_unless_ccp)
  show "uwb_config_updated (glb (exec (uwb_config_updated_func E) s))
      \<and> \<not> halted (exec (uwb_config_updated_func E) s)
      \<and> reconfigs (exec (uwb_config_updated_func E) s) = reconfigs s"
    if "\<not> halted s" "\<And>h. ccp_count E h \<noteq> 0" for s :: "'a stream_globals_scheme st"
    using that by (simp add: uwb_config_updated_func_def upd_pending_def exec_def run_simps reconfigs_def)
  show "\<not> uwb_config_updated (glb (exec (stream_slot_cb E c v) s))
      \<and> \<not> halted (exec (stream_slot_cb E c v) s)
      \<and> reconfigs (exec (stream_slot_cb E c v) s) = Suc (reconfigs s)"
    if "\<not> halted s" "\<And>h. ccp_count E h \<noteq> 0" "uwb_config_updated (glb s)"
    for s :: "'a stream_globals_scheme st" and v
    using that by (simp add: stream_slot_cb_def unless_ccp_def upd_pending_def exec_def run_simps reconfigs_def)
  show "\<not> uwb_config_updated (glb (exec (stream_slot_cb E c v) s))
      \<and> \<not> halted (exec (stream_slot_cb E c v) s)
      \<and> reconfigs (exec (stream_slot_cb E c v) s) = reconfigs s"
    if "\<not> halted s" "\<And>h. ccp_count E h \<noteq> 0" "\<not> uwb_config_updated (glb s)"
    for s :: "'a stream_globals_scheme st" and v
  proof -
    let ?t = "s\<lparr>tr := Os (SemGetCount CcpSem) # tr s\<rparr>"
    have "exec (stream_slot_cb E c v) s = exec (stream_traffic E c v) ?t"
      using that by (simp add: stream_slot_cb_def exec_unless_ccp exec_bind)
    then show ?thesis
      using that stream_traffic_effects(2) [of "\<lambda>g. g = glb s"] reconfigs_kept [OF stream_traffic_effects(1), of E c v ?t]
        runs_onD [OF stream_traffic_effects(3), of ?t] keepsD [of "\<lambda>g. g = glb s" "stream_traffic E c v" ?t]
      by simp
  qed
qed

end
