(* ===== verification/Twr.thy ===== *)
theory Twr
  imports Startup
begin

text \<open>
  What the ranging applications share: the filter of their completion callbacks, and the
  contract those callbacks have with the stack of handlers they are registered on.
\<close>

section \<open>Frames of the ranging exchange\<close>

definition range_frame :: "env \<Rightarrow> uwb_dev \<Rightarrow> bool" where
  "range_frame E inst \<longleftrightarrow> d_fctrl inst = FCNTL_RANGE_16 E"

definition range_or_ack_frame :: "env \<Rightarrow> uwb_dev \<Rightarrow> bool" where
  "range_or_ack_frame E inst \<longleftrightarrow> d_fctrl inst = FCNTL_RANGE_16 E
     \<or> d_fctrl inst = or (FCNTL_RANGE_16 E) (ACK_REQUESTED E)"

text \<open>The index of the frame a ranging instance used last, as the callbacks keep it.\<close>

definition latest_idx :: "env \<Rightarrow> ('g, u16) prog" where
  "latest_idx E = do {
     idx \<leftarrow> ask E (GetField ''rng->idx'');
     n \<leftarrow> ask E (GetField ''rng->nframes'');
     ret (word_of_int (idx mod n))
   }"

text \<open>A call that yields a \<open>float\<close>; the environment gives its bits.\<close>

definition ask_float :: "env \<Rightarrow> call \<Rightarrow> ('g, u32) prog" where
  "ask_float E c = do { x \<leftarrow> ask E c; ret (word_of_int x) }"

lemma twr_effects [effects]:
  "P (GetField ''rng->idx'') \<Longrightarrow> P (GetField ''rng->nframes'') \<Longrightarrow> emits P (latest_idx E)"
  "keeps I (latest_idx E)" "runs_on (latest_idx E)"
  "P c \<Longrightarrow> emits P (ask_float E c)" "keeps I (ask_float E c)" "runs_on (ask_float E c)"
  unfolding latest_idx_def ask_float_def by (intro effects; simp)+


section \<open>Completion callbacks\<close>

text \<open>
  The handlers registered on a radio form a list. Each is offered a received frame; one that
  claims it (returns true) ends the round. A handler must leave frames that are not its own
  alone: it returns false and neither calls anything nor changes its state.
\<close>

fun offer :: "(uwb_dev \<Rightarrow> ('g, bool) prog) list \<Rightarrow> uwb_dev \<Rightarrow> ('g, bool) prog" where
  "offer [] inst = ret False"
| "offer (f # fs) inst = do { b \<leftarrow> f inst; if b then ret True else offer fs inst }"

locale claiming_handler =
  fixes mine :: "uwb_dev \<Rightarrow> bool" and handler :: "uwb_dev \<Rightarrow> ('g, bool) prog"
  assumes declines: "\<not> mine inst \<Longrightarrow> run_state (handler inst) s = (False, s)"
    and claims: "\<not> halted s \<Longrightarrow> mine inst \<Longrightarrow>
      result (handler inst) s = True \<and> \<not> halted (exec (handler inst) s)"
begin

lemma result_iff: "\<not> halted s \<Longrightarrow> result (handler inst) s = mine inst"
  using declines [of inst s] claims [of s inst] by (cases "mine inst") (simp_all add: result_def)

text \<open>In front of other handlers it takes its own frames and is invisible for the rest.\<close>

lemma offer_first:
  assumes "\<not> halted s"
  shows "exec (offer (handler # fs) inst) s
    = (if mine inst then exec (handler inst) s else exec (offer fs inst) s)"
proof (cases "mine inst")
  case True
  with claims [OF assms True] show ?thesis by (simp add: exec_bind)
next
  case False
  have "exec (handler inst) s = s" "\<not> result (handler inst) s"
    using declines [OF False, of s] by (simp_all add: exec_def result_def)
  with False show ?thesis by (simp add: exec_bind)
qed

lemma declines_all: "\<not> mine inst \<Longrightarrow> exec (offer [handler] inst) s = s"
  using declines [of inst s] by (simp add: exec_bind) (simp add: exec_def result_def)

end

end
