(* ===== verification/Twr_Aloha.thy ===== *)
theory Twr_Aloha
  imports Twr
begin

text \<open>
  \<open>apps/twr_aloha/src/main.c\<close>: ranging without slots. A tag asks the anchor for a range on
  every firing of its timer, in one of the enabled modes by turns; an anchor listens.
  \<open>UWB_DATA_CODE_*\<close> are positive constants of the driver, the constructors of \<open>twr_mode\<close>.
\<close>

record aloha_globals =
  g_idx_latest :: u16
  last_used_mode :: nat

record twr_build =
  TWR_SS_ENABLED :: bool
  TWR_SS_EXT_ENABLED :: bool
  TWR_SS_ACK_ENABLED :: bool
  TWR_DS_ENABLED :: bool
  TWR_DS_EXT_ENABLED :: bool
  ANCHOR_ADDRESS :: u16

definition mode_v :: "twr_build \<Rightarrow> twr_mode list" where
  "mode_v b = (if TWR_SS_ENABLED b then [SS_TWR] else [])
     @ (if TWR_SS_EXT_ENABLED b then [SS_TWR_EXT] else [])
     @ (if TWR_SS_ACK_ENABLED b then [SS_TWR_ACK] else [])
     @ (if TWR_DS_ENABLED b then [DS_TWR] else [])
     @ (if TWR_DS_EXT_ENABLED b then [DS_TWR_EXT] else [])"

definition complete_cb_aloha :: "env \<Rightarrow> uwb_dev \<Rightarrow> (aloha_globals, bool) prog" where
  "complete_cb_aloha E inst =
     (if \<not> range_frame E inst then ret False
      else do {
        i \<leftarrow> latest_idx E;
        upd (\<lambda>g. g\<lparr>g_idx_latest := i\<rparr>);
        act (Os (EventqPut SlotEvent));
        ret True
      })"

definition rx_timeout_cb_aloha :: "bool \<Rightarrow> (aloha_globals, bool) prog" where
  "rx_timeout_cb_aloha anchor = do {
     onlyif anchor (do {
       act (Radio (ForceTrxOff 0));
       act (Net (RngListen 0xfffff UWB_NONBLOCKING))
     });
     ret True
   }"

definition slot_complete_cb_aloha :: "bool \<Rightarrow> (aloha_globals, unit) prog" where
  "slot_complete_cb_aloha anchor = do {
     act (Os GpioToggle);
     onlyif anchor (act (Net (RngListen 0xfffff UWB_NONBLOCKING)))
   }"

text \<open>The next mode: the index is advanced before it is used and wraps at the number of modes.\<close>

definition request_range :: "twr_build \<Rightarrow> (aloha_globals, unit) prog" where
  "request_range b = do {
     upd (\<lambda>g. g\<lparr>last_used_mode := last_used_mode g + 1\<rparr>);
     last \<leftarrow> gets last_used_mode;
     onlyif (length (mode_v b) \<le> last) (upd (\<lambda>g. g\<lparr>last_used_mode := 0\<rparr>));
     i \<leftarrow> gets last_used_mode;
     onlyif (i < length (mode_v b)) (act (Net (RngRequest (ANCHOR_ADDRESS b) (mode_v b ! i))))
   }"

definition uwb_ev_cb_aloha :: "env \<Rightarrow> twr_build \<Rightarrow> bool \<Rightarrow> (aloha_globals, unit) prog" where
  "uwb_ev_cb_aloha E b anchor = do {
     (if anchor then do {
        n \<leftarrow> ask E (Os (SemGetCount RngSem));
        onlyif (n = 1) (act (Net (RngListen 0xfffff UWB_NONBLOCKING)))
      }
      else request_range b);
     act (Os (CalloutReset RngCallout (TICKS_PER_SEC E sdiv 60)))
   }"

definition uwb_config_updated_aloha :: "env \<Rightarrow> bool \<Rightarrow> (aloha_globals, int) prog" where
  "uwb_config_updated_aloha E anchor = do {
     need_inst E ''UWBEXT_RNG'';
     act (Radio (MacConfig 0));
     act (Radio (TxrfConfig 0));
     onlyif anchor (do {
       act (Radio (ForceTrxOff 0));
       act (Net (RngListen 0xfffff UWB_NONBLOCKING))
     });
     ret 0
   }"

definition aloha_main :: "env \<Rightarrow> board \<Rightarrow> twr_build \<Rightarrow> (aloha_globals, unit) prog" where
  "aloha_main E b t = do {
     act (Sys ''sysinit'' []);
     register_config;
     leds_out;
     need_inst E ''UWBEXT_RNG'';
     act (Net (MacAppendInterface ''complete_cb,rx_timeout_cb''));
     u \<leftarrow> banner E 0 b False [];
     put (holdoff_line E b u);
     onlyif (TWR_SS_ACK_ENABLED t) (do {
       act (Radio (SetAutoack 0 True));
       act (Radio (SetAutoackDelay 0 12))
     });
     act (Os (CalloutReset RngCallout (TICKS_PER_SEC E sdiv 25)));
     onlyif (anchor_role b) (do {
       act (SetField ''udev->my_short_address'' (uint (ANCHOR_ADDRESS t)));
       act (Radio (SetUid 0 (ANCHOR_ADDRESS t)))
     });
     rxdiag_setting b
   }"

end
