(* ===== verification/Twr_Tag.thy ===== *)
theory Twr_Tag
  imports Twr
begin

text \<open>
  \<open>apps/twr_tag_tdma/src/main.c\<close>: a tag that ranges with its clock master in every slot of
  the superframe, the mode chosen by the slot. Its slot handler does not look at the clock.
\<close>

record twr_tag_globals =
  g_idx_latest_tag :: u16

definition slot_mode :: "nat \<Rightarrow> twr_mode" where
  "slot_mode idx = (let m = SS_TWR_ACK;
     m = (if and idx 7 = 1 then SS_TWR else m);
     m = (if and idx 7 = 2 then SS_TWR_EXT else m);
     m = (if and idx 7 = 3 then DS_TWR else m)
   in if and idx 7 = 4 then DS_TWR_EXT else m)"

definition slot_cb_tag :: "env \<Rightarrow> slot_view \<Rightarrow> (twr_tag_globals, unit) prog" where
  "slot_cb_tag E v = do {
     act (Os GpioToggle);
     t \<leftarrow> ask E (Net (TdmaTxSlotStart (v_idx v)));
     a \<leftarrow> ask E (GetField ''ccp->frames[ccp->idx%ccp->nframes]->short_address'');
     act (Net (RngRequestDelay (word_of_int a) (and (word_of_int t) 0xFFFFFFFFFE00) (slot_mode (v_idx v))))
   }"

definition complete_cb_tag :: "env \<Rightarrow> uwb_dev \<Rightarrow> (twr_tag_globals, bool) prog" where
  "complete_cb_tag E inst =
     (if \<not> range_or_ack_frame E inst then ret False
      else do {
        i \<leftarrow> latest_idx E;
        upd (\<lambda>g. g\<lparr>g_idx_latest_tag := i\<rparr>);
        q \<leftarrow> ask E (Os (EventIsQueued SlotEvent));
        onlyif (q = 0) (act (Os (EventqPut SlotEvent)));
        ret True
      })"

definition slot_complete_cb_tag :: "(twr_tag_globals, unit) prog" where
  "slot_complete_cb_tag = act (Os GpioToggle)"

definition error_line :: "u32 \<Rightarrow> string \<Rightarrow> string \<Rightarrow> nat \<Rightarrow> string" where
  "error_line u what file line = ''{\"utime\": '' @ fmt_u (unat u) @ '',\"msg\": \"'' @ what @ '','' @ file @ '':''
     @ fmt_u line @ ''\"}'' @ [CHR 0x0A]"

definition error_cb_tag :: "env \<Rightarrow> string \<Rightarrow> uwb_dev \<Rightarrow> (twr_tag_globals, bool) prog" where
  "error_cb_tag E file inst =
     (if \<not> range_or_ack_frame E inst then ret False
      else do {
        u \<leftarrow> utime E;
        e \<leftarrow> ask E (GetField ''inst->status.start_rx_error'');
        onlyif (e \<noteq> 0) (put (error_line u ''start_rx_error'' file 189));
        e \<leftarrow> ask E (GetField ''inst->status.start_tx_error'');
        onlyif (e \<noteq> 0) (put (error_line u ''start_tx_error'' file 191));
        e \<leftarrow> ask E (GetField ''inst->status.rx_error'');
        onlyif (e \<noteq> 0) (put (error_line u ''rx_error'' file 193));
        ret True
      })"

definition uwb_config_updated_twr_tag :: "env \<Rightarrow> (twr_tag_globals, int) prog" where
  "uwb_config_updated_twr_tag E = do {
     u \<leftarrow> utime E;
     act (Radio (MacConfig 0));
     act (Radio (TxrfConfig 0));
     put (''{\"utime\": '' @ fmt_u (unat u) @ '',\"msg\": \"new config applied\"}'' @ [CHR 0x0A]);
     ret 0
   }"

definition twr_tag_plan :: "nat \<Rightarrow> (nat \<times> string) list" where
  "twr_tag_plan nslots = map (\<lambda>i. (i, ''slot_cb'')) [1..<nslots]"

definition twr_tag_main :: "env \<Rightarrow> board \<Rightarrow> nat \<Rightarrow> (twr_tag_globals, unit) prog" where
  "twr_tag_main E b nslots = do {
     act (Sys ''sysinit'' []);
     register_config;
     leds_out;
     need_inst E ''UWBEXT_RNG'';
     act (Net (MacAppendInterface ''tx_error_cb,rx_error_cb,complete_cb''));
     need_inst E ''UWBEXT_TDMA'';
     act (Net (CcpStart CCP_ROLE_SLAVE));
     u \<leftarrow> banner E 0 b False [];
     put (holdoff_line E b u);
     ble_init b;
     assign_plan (twr_tag_plan nslots);
     rxdiag_setting b
   }"

end
