(* ===== verification/Twr_Node.thy ===== *)
theory Twr_Node
  imports Twr
begin

text \<open>
  \<open>apps/twr_node_tdma/src/main.c\<close>: an anchor that listens for a range request in every slot.
  The receive timeout is computed once and kept; with two radios (\<open>dual\<close>) the first one
  listens along for the angle of arrival. A \<open>float\<close> that is only passed on is kept as its bits.
\<close>

record node_globals =
  uwb_config_updated_node :: bool
  timeout_node :: u16
  g_azimuth :: u32
  g_zenith :: u32

record node_build =
  dual :: bool
  cir_enabled :: bool
  AOA_ANGLE_INVERT :: bool
  rng_request_size :: nat
  role_bits :: u16

abbreviation NAN :: u32 where
  "NAN \<equiv> 0x7FC00000"

definition negate_float :: "u32 \<Rightarrow> u32" where
  "negate_float x = xor x 0x80000000"

text \<open>\<open>uwb_calc_aoa\<close> of a phase difference, as the bits of the angle.\<close>

definition calc_aoa :: "env \<Rightarrow> u32 \<Rightarrow> ('g, u32) prog" where
  "calc_aoa E pd = ask_float E (Sys ''uwb_calc_aoa'' [uint pd])"

definition cir_complete_cb_node :: "env \<Rightarrow> node_build \<Rightarrow> uwb_dev \<Rightarrow> u8 \<Rightarrow> u8 \<Rightarrow> (node_globals, bool) prog" where
  "cir_complete_cb_node E b inst seq0 seq1 =
     (if \<not> range_or_ack_frame E inst then ret False
      else do {
        onlyif (dual b \<and> cir_enabled b) (do {
          v0 \<leftarrow> ask E (GetField ''cir[0]->status.valid'');
          v1 \<leftarrow> ask E (GetField ''cir[1]->status.valid'');
          onlyif (v0 \<noteq> 0 \<and> v1 \<noteq> 0 \<and> seq0 = seq1) (do {
            pd \<leftarrow> ask_float E (Sys ''cir_get_pdoa'' []);
            a \<leftarrow> calc_aoa E pd;
            act (SetField ''frame->local.spherical.azimuth'' (uint a))
          })
        });
        ret True
      })"

definition complete_cb_node :: "env \<Rightarrow> node_build \<Rightarrow> uwb_dev \<Rightarrow> (node_globals, bool) prog" where
  "complete_cb_node E b inst =
     (if \<not> range_or_ack_frame E inst then ret False
      else do {
        c \<leftarrow> ask E (GetField ''inst->capabilities.single_receiver_pdoa'');
        onlyif (c \<noteq> 0) (do {
          pd \<leftarrow> ask_float E (Sys ''uwb_calc_pdoa'' []);
          a \<leftarrow> calc_aoa E pd;
          upd (\<lambda>g. g\<lparr>g_azimuth := a\<rparr>)
        });
        g \<leftarrow> gets (\<lambda>g. g);
        act (SetField ''frame->local.spherical.azimuth''
          (uint (if AOA_ANGLE_INVERT b then negate_float (g_azimuth g) else g_azimuth g)));
        act (SetField ''frame->local.spherical.zenith'' (uint (g_zenith g)));
        act (Os (EventqPut SlotEvent));
        ret True
      })"

definition slot_complete_cb_node :: "(node_globals, unit) prog" where
  "slot_complete_cb_node = act (Os GpioToggle)"

text \<open>
  With two radios \<open>main\<close> takes the ranging, clock and scheduler instances of the second one, so
  \<open>tdma->dev_inst\<close> and \<open>tdma->ccp\<close> belong to it. The configuration callback looks up the first
  radio and its clock, whose semaphore is another one then.
\<close>

definition tdma_dev :: "node_build \<Rightarrow> dev" where
  "tdma_dev b = (if dual b then 1 else 0)"

definition config_sem :: "node_build \<Rightarrow> sem_id" where
  "config_sem b = (if dual b then FirstCcpSem else CcpSem)"

text \<open>Acknowledgements are sent when radio \<open>i\<close> filters frames.\<close>

definition prepare_autoack :: "env \<Rightarrow> dev \<Rightarrow> ('g, unit) prog" where
  "prepare_autoack E i = do {
     f \<leftarrow> ask E (GetField (if i = 0 then ''udev[0]->config.rx.frameFilter'' else ''udev[1]->config.rx.frameFilter''));
     if f \<noteq> 0 then do { act (Radio (SetAutoack i True)); act (Radio (SetAutoackDelay i 0)) }
     else act (Radio (SetAutoack i False))
   }"

text \<open>Radio \<open>i\<close> is configured, and after it the second radio when there is one.\<close>

definition configure_radios :: "node_build \<Rightarrow> dev \<Rightarrow> ('g, unit) prog" where
  "configure_radios b i = do {
     act (Radio (MacConfig i));
     act (Radio (TxrfConfig i));
     onlyif (dual b) (do { act (Radio (MacConfig 1)); act (Radio (TxrfConfig 1)) })
   }"

definition uwb_config_updated_func_node :: "env \<Rightarrow> node_build \<Rightarrow> (node_globals, int) prog" where
  "uwb_config_updated_func_node E b = do {
     n \<leftarrow> ask E (Os (SemGetCount (config_sem b)));
     if n = 0 then do {
       act (Radio (ForceTrxOff 0));
       configure_radios b 0;
       prepare_autoack E 0;
       act (Radio (StartRx 0));
       ret 0
     }
     else do { upd (\<lambda>g. g\<lparr>uwb_config_updated_node := True\<rparr>); ret 0 }
   }"

text \<open>The timeout: the duration of a request in the radio's microseconds, plus the configured
  delay, truncated.\<close>

definition slot_timeout :: "env \<Rightarrow> slot_cfg \<Rightarrow> u16 \<Rightarrow> u16 \<Rightarrow> u16" where
  "slot_timeout E c duration delay = word_of_int (to_c_int (eub E) 0 65535
     (fadd binary64 (to_dwt c (uint duration)) (of_c_int binary64 (uint delay))))"

definition refresh_timeout :: "env \<Rightarrow> slot_cfg \<Rightarrow> node_build \<Rightarrow> slot_view \<Rightarrow> (node_globals, unit) prog" where
  "refresh_timeout E c b v = do {
     t \<leftarrow> gets timeout_node;
     onlyif (t = 0) (do {
       d \<leftarrow> ask E (Os (FrameDuration (tdma_dev b) (rng_request_size b)));
       upd (\<lambda>g. g\<lparr>timeout_node := slot_timeout E c (word_of_int d) (v_timeout_delay v)\<rparr>);
       d \<leftarrow> ask E (Os (FrameDuration (tdma_dev b) (rng_request_size b)));
       t \<leftarrow> gets timeout_node;
       put (''# timeout set to: '' @ fmt_d (uint (word_of_int d :: u16)) @ '' ''
         @ fmt_d (uint (v_timeout_delay v)) @ '' = '' @ fmt_d (uint t) @ [CHR 0x0A])
     })
   }"

definition listen_slot :: "env \<Rightarrow> node_build \<Rightarrow> slot_view \<Rightarrow> (node_globals, unit) prog" where
  "listen_slot E b v = do {
     timeout \<leftarrow> gets timeout_node;
     onlyif (dual b) (do {
       t \<leftarrow> ask E (Net (TdmaRxSlotStart (v_idx v)));
       act (Radio (SetDelayStart 0 (word_of_int t)));
       act (Radio (SetRxTimeout 0 (uint timeout)));
       act (Radio (CirEnable 0 True));
       act (Radio (SetRxAutoDisable 0 True));
       act (Radio (StartRx 0));
       act (Radio (CirEnable 1 True))
     });
     t \<leftarrow> ask E (Net (TdmaRxSlotStart (v_idx v)));
     act (Net (RngListenDelay (word_of_int t) timeout UWB_BLOCKING))
   }"

definition slot_cb_node :: "env \<Rightarrow> slot_cfg \<Rightarrow> node_build \<Rightarrow> slot_view \<Rightarrow> (node_globals, unit) prog" where
  "slot_cb_node E c b v = do {
     upd (\<lambda>g. g\<lparr>g_azimuth := NAN, g_zenith := NAN\<rparr>);
     unless_ccp E (do {
       p \<leftarrow> gets uwb_config_updated_node;
       if p then do {
         configure_radios b (tdma_dev b);
         upd (\<lambda>g. g\<lparr>uwb_config_updated_node := False\<rparr>);
         prepare_autoack E (tdma_dev b);
         upd (\<lambda>g. g\<lparr>timeout_node := 0\<rparr>)
       }
       else do { refresh_timeout E c b v; listen_slot E b v }
     })
   }"

definition twr_node_plan :: "nat \<Rightarrow> (nat \<times> string) list" where
  "twr_node_plan nslots = map (\<lambda>i. (i, ''slot_cb'')) [1..<nslots]"

definition twr_node_main :: "env \<Rightarrow> board \<Rightarrow> node_build \<Rightarrow> nat \<Rightarrow> (node_globals, unit) prog" where
  "twr_node_main E bd b nslots = do {
     act (Sys ''sysinit'' []);
     register_config;
     leds_out;
     (if dual b then do {
        act (Sys ''dw1000_set_dblrxbuff'' [0, 0]);
        act (Sys ''dw1000_set_dblrxbuff'' [1, 0]);
        need_inst E ''UWBEXT_RNG''
      }
      else do {
        act (Radio (SetDblRxBuff 0 False));
        need_inst E ''UWBEXT_RNG''
      });
     act (Net (MacAppendInterface ''complete_cb,cir_complete_cb''));
     need_inst E ''UWBEXT_CCP'';
     act (Net (CcpStart (if ccp_master bd then CCP_ROLE_MASTER else CCP_ROLE_SLAVE)));
     onlyif (dual b) (do {
       x \<leftarrow> ask E (Sys ''uwb_sync_to_ext_clock'' []);
       onlyif (x = 1) (do {
         y \<leftarrow> ask E (GetField ''udev->status.ext_sync'');
         put (''{\"ext_sync\"=\"'' @ fmt_d y @ ''\"}'' @ [CHR 0x0A])
       })
     });
     u \<leftarrow> banner E (tdma_dev b) bd False ['',\"role=\"'' @ fmt_X (unat (role_bits b)) @ ''\"''];
     put (holdoff_line E bd u);
     need_inst E ''UWBEXT_TDMA'';
     onlyif (dual b) (for_each [0, 1, 2, 3] (\<lambda>i. act (Sys
       (if i < 2 then ''dw1000_gpio5_config_ext_txe'' else ''dw1000_gpio6_config_ext_rxe'') [i mod 2])));
     ble_init bd;
     assign_plan (twr_node_plan nslots);
     rxdiag_setting bd
   }"

end
