(* ===== verification/Twr_Props.thy ===== *)
theory Twr_Props
  imports Twr_Aloha Twr_Tag Twr_Node
begin

text \<open>Properties of the three two-way ranging applications.\<close>

section \<open>Completion callbacks\<close>

lemma latest_idx_run: "\<not> halted s \<Longrightarrow>
    exec (latest_idx E) s = s\<lparr>tr := GetField ''rng->nframes'' # GetField ''rng->idx'' # tr s\<rparr>"
  by (simp add: latest_idx_def exec_def run_simps)

lemma claimed: "\<not> halted s \<Longrightarrow> runs_on p \<Longrightarrow> result (do { p; ret x }) s = x \<and> \<not> halted (exec (do { p; ret x }) s)"
  by (simp add: exec_bind runs_onD) (simp add: result_def run_simps split: prod.split)

interpretation aloha_handler: claiming_handler "range_frame E" "complete_cb_aloha E"
  by unfold_locales
    (simp_all add: complete_cb_aloha_def run_simps latest_idx_def exec_def result_def)

interpretation tag_handler: claiming_handler "range_or_ack_frame E" "complete_cb_tag E"
  by unfold_locales
    (simp_all add: complete_cb_tag_def run_simps latest_idx_def exec_def result_def)

interpretation tag_error_handler: claiming_handler "range_or_ack_frame E" "error_cb_tag E file"
  by unfold_locales
    (simp_all add: error_cb_tag_def run_simps utime_def put_def exec_def result_def)

interpretation node_handler: claiming_handler "range_or_ack_frame E" "complete_cb_node E b"
  by unfold_locales
    (simp_all add: complete_cb_node_def run_simps ask_float_def calc_aoa_def exec_def result_def)


section \<open>The aloha tag\<close>

text \<open>The ranges asked for, oldest first: address and mode.\<close>

fun requests :: "hist \<Rightarrow> (u16 \<times> twr_mode) list" where
  "requests [] = []"
| "requests (c # h) = (case c of Net (RngRequest a m) \<Rightarrow> requests h @ [(a, m)] | _ \<Rightarrow> requests h)"

definition tag_firings :: "env \<Rightarrow> twr_build \<Rightarrow> nat \<Rightarrow> (aloha_globals, unit) prog" where
  "tag_firings E b k = for_each (replicate k ()) (\<lambda>_. uwb_ev_cb_aloha E b False)"

lemma ev_cb_run:
  assumes "\<not> halted s" and "last_used_mode (glb s) < length (mode_v b)"
  defines "i \<equiv> (last_used_mode (glb s) + 1) mod length (mode_v b)"
  shows "\<not> halted (exec (uwb_ev_cb_aloha E b False) s)"
    and "last_used_mode (glb (exec (uwb_ev_cb_aloha E b False) s)) = i"
    and "requests (tr (exec (uwb_ev_cb_aloha E b False) s)) = requests (tr s) @ [(ANCHOR_ADDRESS b, mode_v b ! i)]"
proof -
  have i: "i = (if length (mode_v b) \<le> last_used_mode (glb s) + 1 then 0 else last_used_mode (glb s) + 1)"
    using assms(2) by (auto simp: i_def mod_if le_Suc_eq)
  have l: "i < length (mode_v b)" using assms(2) by (cases "mode_v b = []") (simp_all add: i)
  show "\<not> halted (exec (uwb_ev_cb_aloha E b False) s)"
    "last_used_mode (glb (exec (uwb_ev_cb_aloha E b False) s)) = i"
    "requests (tr (exec (uwb_ev_cb_aloha E b False) s)) = requests (tr s) @ [(ANCHOR_ADDRESS b, mode_v b ! i)]"
    using assms(1,2) l by (auto simp: i uwb_ev_cb_aloha_def request_range_def exec_def run_simps)
qed

text \<open>C10: The tag takes the enabled modes by turns: the ranges that \<open>k\<close> firings of its timer ask
  for are those of a round robin over the list of modes that starts after the mode used last.\<close>

theorem aloha_round_robin:
  assumes "\<not> halted s" and "last_used_mode (glb s) < length (mode_v b)"
  shows "requests (tr (exec (tag_firings E b k) s)) = requests (tr s)
    @ map (\<lambda>i. (ANCHOR_ADDRESS b, mode_v b ! ((last_used_mode (glb s) + 1 + i) mod length (mode_v b)))) [0..<k]"
  using assms
proof (induction k arbitrary: s)
  case (Suc k)
  let ?t = "exec (uwb_ev_cb_aloha E b False) s" and ?n = "length (mode_v b)"
  note t = ev_cb_run [OF Suc.prems, of E]
  have e: "exec (tag_firings E b (Suc k)) s = exec (tag_firings E b k) ?t"
    by (simp add: tag_firings_def exec_bind)
  have "last_used_mode (glb ?t) < ?n" using Suc.prems(2) by (cases "mode_v b = []") (simp_all add: t(2))
  note IH = Suc.IH [OF t(1) this]
  have m: "((last_used_mode (glb s) + 1) mod ?n + 1 + i) mod ?n = (last_used_mode (glb s) + 1 + Suc i) mod ?n" for i
    using mod_add_left_eq [of "last_used_mode (glb s) + 1" ?n "1 + i"] by simp
  have "[0..<Suc k] = 0 # map Suc [0..<k]" by (simp add: upt_conv_Cons map_Suc_upt del: upt_Suc)
  then show ?case using IH m by (simp add: e t comp_def del: upt_Suc)
qed (simp add: tag_firings_def)

definition sample_build :: twr_build where
  "sample_build = \<lparr>TWR_SS_ENABLED = True, TWR_SS_EXT_ENABLED = False, TWR_SS_ACK_ENABLED = False, TWR_DS_ENABLED = True,
     TWR_DS_EXT_ENABLED = True, ANCHOR_ADDRESS = 0x1234\<rparr>"

definition aloha0 :: aloha_globals where
  "aloha0 = \<lparr>g_idx_latest = 0, last_used_mode = 0\<rparr>"

theorem aloha_round_robin_witness:
  "requests (tr (exec (tag_firings calm_env sample_build 4) (boot aloha0)))
    = map (Pair 0x1234) [DS_TWR, DS_TWR_EXT, SS_TWR, DS_TWR]"
  using aloha_round_robin [of "boot aloha0" sample_build calm_env 4]
  by (simp add: aloha0_def sample_build_def mode_v_def upt_conv_Cons)


section \<open>The aloha anchor\<close>

text \<open>Whether the receiver is on after the calls \<open>cs\<close> (newest first), if it was in state \<open>l\<close> before.\<close>

fun rx_after :: "bool \<Rightarrow> call list \<Rightarrow> bool" where
  "rx_after l [] = l"
| "rx_after l (c # cs) = (case c of Net (RngListen t m) \<Rightarrow> True | Radio (ForceTrxOff i) \<Rightarrow> False | _ \<Rightarrow> rx_after l cs)"

definition new_calls :: "'g st \<Rightarrow> 'g st \<Rightarrow> call list" where
  "new_calls s s' = take (length (tr s') - length (tr s)) (tr s')"

text \<open>
  An anchor, whether its receiver is on, and whether its completion event is on the queue. A
  received frame of the exchange or a timeout ends reception; the handlers are what starts it again.
\<close>

inductive anchor_step :: "env \<Rightarrow> twr_build \<Rightarrow> aloha_globals st \<times> bool \<times> bool \<Rightarrow> aloha_globals st \<times> bool \<times> bool \<Rightarrow> bool"
  for E b where
  Frame: "range_frame E inst \<Longrightarrow> s' = exec (complete_cb_aloha E inst) s \<Longrightarrow>
    anchor_step E b (s, True, q) (s', False, Os (EventqPut SlotEvent) \<in> set (new_calls s s') \<or> q)"
| Timeout: "s' = exec (rx_timeout_cb_aloha True) s \<Longrightarrow>
    anchor_step E b (s, True, q) (s', rx_after False (new_calls s s'), q)"
| Event: "s' = exec (slot_complete_cb_aloha True) s \<Longrightarrow>
    anchor_step E b (s, l, True) (s', rx_after l (new_calls s s'), False)"
| Timer: "s' = exec (uwb_ev_cb_aloha E b True) s \<Longrightarrow>
    anchor_step E b (s, l, q) (s', rx_after l (new_calls s s'), q)"
| Config: "s' = exec (uwb_config_updated_aloha E True) s \<Longrightarrow>
    anchor_step E b (s, l, q) (s', rx_after l (new_calls s s'), q)"

inductive anchor_run :: "env \<Rightarrow> twr_build \<Rightarrow> aloha_globals st \<times> bool \<times> bool \<Rightarrow> aloha_globals st \<times> bool \<times> bool \<Rightarrow> bool"
  for E b where
  Done: "anchor_run E b x x"
| Step: "anchor_run E b x y \<Longrightarrow> anchor_step E b y z \<Longrightarrow> anchor_run E b x z"

lemma need_inst_ok: "insts_found E \<Longrightarrow> \<not> halted s \<Longrightarrow>
    exec (need_inst E ext) s = s\<lparr>tr := Sys (''uwb_mac_find_cb_inst_ptr '' @ ext) [] # tr s\<rparr>"
  by (simp add: exec_need_inst insts_found_def)

lemma anchor_step_keeps:
  assumes "anchor_step E b x y" and "insts_found E" and "\<not> halted (fst x)" and "fst (snd x) \<or> snd (snd x)"
  shows "\<not> halted (fst y) \<and> (fst (snd y) \<or> snd (snd y))"
  using assms
proof cases
  case (Frame inst s' s q)
  then show ?thesis using assms(3)
    by (auto simp: complete_cb_aloha_def exec_bind exec_act exec_upd latest_idx_run new_calls_def)
next
  case (Config s' s l q)
  then show ?thesis using assms(2,3)
    by (simp add: uwb_config_updated_aloha_def exec_bind exec_act need_inst_ok new_calls_def)
qed (use assms(3,4) in \<open>auto simp: rx_timeout_cb_aloha_def slot_complete_cb_aloha_def uwb_ev_cb_aloha_def
    exec_def run_simps new_calls_def\<close>)

text \<open>C21: An anchor that listens keeps listening: after any sequence of received frames, timeouts,
  completion events, timer firings and configuration changes its receiver is on or the event
  that turns it on again is on the queue.\<close>

theorem aloha_anchor_listens:
  assumes "anchor_run E b (s, True, False) (t, l, q)" and "insts_found E" and "\<not> halted s"
  shows "l \<or> q"
proof -
  have "\<not> halted (fst y) \<and> (fst (snd y) \<or> snd (snd y))" if "anchor_run E b (s, True, False) y" for y
    using that
  proof (induction "(s, True, False)" y rule: anchor_run.induct)
    case (Step y z)
    then show ?case using anchor_step_keeps [OF Step.hyps(3) assms(2)] by simp
  qed (simp add: assms(3))
  from this [OF assms(1)] show ?thesis by simp
qed

theorem aloha_anchor_listens_witness:
  "\<exists>t l q. anchor_run board_env sample_build (boot aloha0, True, False) (t, l, q)
    \<and> tr t \<noteq> [] \<and> (l \<or> q)"
proof -
  let ?t = "exec (rx_timeout_cb_aloha True) (boot aloha0)"
  have r: "anchor_run board_env sample_build (boot aloha0, True, False)
      (?t, rx_after False (new_calls (boot aloha0) ?t), False)"
    by (rule anchor_run.Step [OF anchor_run.Done anchor_step.Timeout [OF refl]])
  moreover have "tr ?t \<noteq> []" by (simp add: rx_timeout_cb_aloha_def exec_bind exec_act)
  ultimately show ?thesis using aloha_anchor_listens [OF r board_env_insts] by auto
qed


section \<open>The slotted tag\<close>

text \<open>The ranges asked for in slots, oldest first: the mode of each.\<close>

fun slot_modes :: "hist \<Rightarrow> twr_mode list" where
  "slot_modes [] = []"
| "slot_modes (c # h) = (case c of Net (RngRequestDelay a t m) \<Rightarrow> slot_modes h @ [m] | _ \<Rightarrow> slot_modes h)"

lemma slot_cb_tag_run:
  assumes "\<not> halted s"
  shows "slot_modes (tr (exec (slot_cb_tag E v) s)) = slot_modes (tr s) @ [slot_mode (v_idx v)]"
    and "\<not> halted (exec (slot_cb_tag E v) s)"
  using assms by (simp_all add: slot_cb_tag_def exec_def run_simps)

lemma run_slots_tag:
  assumes "\<not> halted s"
  shows "slot_modes (tr (exec (run_slots (slot_cb_tag E) vs) s)) = slot_modes (tr s) @ map (slot_mode \<circ> v_idx) vs"
  using assms
proof (induction vs arbitrary: s)
  case (Cons v vs)
  then show ?case using slot_cb_tag_run [OF Cons.prems, of E v] by (simp add: exec_bind)
qed simp

text \<open>The reference: five modes at the residues of the slot number, acknowledged ranging elsewhere.\<close>

definition mode_table :: "twr_mode list" where
  "mode_table = [SS_TWR_ACK, SS_TWR, SS_TWR_EXT, DS_TWR, DS_TWR_EXT, SS_TWR_ACK, SS_TWR_ACK, SS_TWR_ACK]"

lemma slot_mode_table: "slot_mode i = mode_table ! (i mod 8)"
proof -
  have "and i 7 = i mod 8"
    using take_bit_eq_mask [of 3 i] by (simp add: take_bit_eq_mod mask_eq_exp_minus_1)
  moreover have "i mod 8 \<in> {0, 1, 2, 3, 4, 5, 6, 7}" by auto
  ultimately show ?thesis by (auto simp: slot_mode_def mode_table_def)
qed

lemma superframe_modes: "map (slot_mode \<circ> f) vs = map (\<lambda>v. mode_table ! (f v mod 8)) vs"
  by (simp add: slot_mode_table comp_def)

text \<open>C37: In a superframe of 160 slots the tag asks for a range in each of the 159 slots that
  are not the clock's, in the mode the residue of the slot number modulo eight stands for: each
  of four modes twenty times and the acknowledged mode in the other 79 slots.\<close>

theorem tag_superframe:
  assumes "\<not> halted s" and "map v_idx vs = map fst (twr_tag_plan 160)"
  defines "ms \<equiv> map (\<lambda>i. mode_table ! (i mod 8)) [1..<160]"
  shows "slot_modes (tr (exec (run_slots (slot_cb_tag E) vs) s)) = slot_modes (tr s) @ ms
    \<and> map (count_list ms) [SS_TWR, SS_TWR_EXT, DS_TWR, DS_TWR_EXT, SS_TWR_ACK] = [20, 20, 20, 20, 79]"
proof
  have "map (slot_mode \<circ> v_idx) vs = ms"
  proof -
    have "map (slot_mode \<circ> v_idx) vs = map slot_mode (map v_idx vs)" by simp
    also have "map v_idx vs = [1..<160]" using assms(2) by (simp add: twr_tag_plan_def comp_def)
    finally show ?thesis by (simp add: ms_def slot_mode_table comp_def)
  qed
  then show "slot_modes (tr (exec (run_slots (slot_cb_tag E) vs) s)) = slot_modes (tr s) @ ms"
    using run_slots_tag [OF assms(1)] by simp
  show "map (count_list ms) [SS_TWR, SS_TWR_EXT, DS_TWR, DS_TWR_EXT, SS_TWR_ACK] = [20, 20, 20, 20, 79]"
    unfolding ms_def mode_table_def by code_simp
qed

definition tag0 :: twr_tag_globals where
  "tag0 = \<lparr>g_idx_latest_tag = 0\<rparr>"

theorem tag_superframe_witness:
  "slot_modes (tr (exec (run_slots (slot_cb_tag calm_env) (map slot_at [1..<160])) (boot tag0)))
    = map (\<lambda>i. mode_table ! (i mod 8)) [1..<160]"
proof -
  have "map v_idx (map slot_at [1..<160]) = map fst (twr_tag_plan 160)"
    by (simp add: slot_at_def twr_tag_plan_def comp_def)
  then show ?thesis using tag_superframe [of "boot tag0" "map slot_at [1..<160]" calm_env] by simp
qed


section \<open>The slotted anchor\<close>

text \<open>The timeouts with which the anchor has listened and the radios it has configured, oldest
  first.\<close>

fun listen_timeouts :: "hist \<Rightarrow> u16 list" where
  "listen_timeouts [] = []"
| "listen_timeouts (c # h) = (case c of Net (RngListenDelay t u m) \<Rightarrow> listen_timeouts h @ [u] | _ \<Rightarrow> listen_timeouts h)"

fun configured :: "hist \<Rightarrow> dev list" where
  "configured [] = []"
| "configured (c # h) = (case c of Radio (MacConfig i) \<Rightarrow> configured h @ [i] | _ \<Rightarrow> configured h)"

lemma reconfigs_configured: "reconfigs s = count_list (configured (tr s)) 0"
proof -
  have "count_list h (Radio (MacConfig 0)) = count_list (configured h) 0" for h
    by (induction h) (simp_all split: call.split radio.split)
  then show ?thesis by (simp add: reconfigs_def)
qed

definition no_listen :: "call \<Rightarrow> bool" where
  "no_listen c \<longleftrightarrow> (\<forall>t u m. c \<noteq> Net (RngListenDelay t u m))"

definition no_config :: "call \<Rightarrow> bool" where
  "no_config c \<longleftrightarrow> (\<forall>i. c \<noteq> Radio (MacConfig i))"

lemma no_listen_simps [simp]:
  "no_listen (Radio r)" "no_listen (Os x)" "no_listen (Sys f xs)" "no_listen (GetField k)" "no_listen (SetField k v)"
  "no_listen (Net (TdmaRxSlotStart i))"
  by (simp_all add: no_listen_def)

lemma no_config_simps [simp]:
  "no_config (Radio r) \<longleftrightarrow> (\<forall>i. r \<noteq> MacConfig i)" "no_config (Os x)" "no_config (Net n)" "no_config (Sys f xs)"
  "no_config (GetField k)" "no_config (SetField k v)"
  by (simp_all add: no_config_def)

lemma listen_timeouts_append: "\<forall>c \<in> set cs. no_listen c \<Longrightarrow> listen_timeouts (cs @ h) = listen_timeouts h"
proof (induction cs)
  case (Cons c cs)
  then have "listen_timeouts (c # cs @ h) = listen_timeouts (cs @ h)"
    by (auto simp: no_listen_def split: call.split net.split)
  with Cons show ?case by simp
qed simp

lemma configured_append: "\<forall>c \<in> set cs. no_config c \<Longrightarrow> configured (cs @ h) = configured h"
proof (induction cs)
  case (Cons c cs)
  then have "configured (c # cs @ h) = configured (cs @ h)"
    by (auto simp: no_config_def split: call.split radio.split)
  with Cons show ?case by simp
qed simp

lemma emits_no_listen: "emits no_listen p \<Longrightarrow> listen_timeouts (tr (exec p s)) = listen_timeouts (tr s)"
  using emitsD [of no_listen p s] listen_timeouts_append by fastforce

lemma emits_no_config: "emits no_config p \<Longrightarrow> configured (tr (exec p s)) = configured (tr s)"
  using emitsD [of no_config p s] configured_append by fastforce

lemma node_effects [effects]:
  "emits no_listen (configure_radios b i)" "keeps I (configure_radios b i)" "runs_on (configure_radios b i)"
  "emits no_listen (prepare_autoack E i)" "keeps I (prepare_autoack E i)" "runs_on (prepare_autoack E i)"
  "keeps I (listen_slot E b v)" "runs_on (listen_slot E b v)" "runs_on (refresh_timeout E c b v)"
  "emits no_listen (refresh_timeout E c b v)"
  unfolding configure_radios_def prepare_autoack_def listen_slot_def refresh_timeout_def
  by (intro effects; simp)+

lemma node_config_effects [effects]:
  "emits no_config (prepare_autoack E i)" "emits no_config (listen_slot E b v)"
  "emits no_config (refresh_timeout E c b v)"
  unfolding prepare_autoack_def listen_slot_def refresh_timeout_def put_def by (intro effects; simp)+

definition config_order :: "node_build \<Rightarrow> dev \<Rightarrow> dev list" where
  "config_order b i = (if dual b then [i, 1] else [i])"

lemma configure_radios_order:
  "\<not> halted s \<Longrightarrow> configured (tr (exec (configure_radios b i) s)) = configured (tr s) @ config_order b i"
  by (simp add: configure_radios_def config_order_def exec_def run_simps)

lemma node_slot_guard: "\<not> halted s \<Longrightarrow> ccp_count E (tr s) \<noteq> 0 \<Longrightarrow>
    exec (slot_cb_node E c b v) s =
      exec (if uwb_config_updated_node (glb s)
            then do { configure_radios b (tdma_dev b); upd (\<lambda>g. g\<lparr>uwb_config_updated_node := False\<rparr>);
                      prepare_autoack E (tdma_dev b); upd (\<lambda>g. g\<lparr>timeout_node := 0\<rparr>) }
            else do { refresh_timeout E c b v; listen_slot E b v })
        (s\<lparr>glb := (glb s)\<lparr>g_azimuth := NAN, g_zenith := NAN\<rparr>, tr := Os (SemGetCount CcpSem) # tr s\<rparr>)"
  by (simp add: slot_cb_node_def exec_bind exec_upd exec_unless_ccp Let_def)

lemma node_pending_kept:
  "keeps (\<lambda>g. uwb_config_updated_node g = x) (refresh_timeout E c b v)"
  unfolding refresh_timeout_def by (intro effects; simp)

lemma node_applies:
  assumes "\<not> halted s" and "\<And>h. ccp_count E h \<noteq> 0" and "uwb_config_updated_node (glb s)"
  shows "glb (exec (slot_cb_node E c b v) s) = (glb s)\<lparr>g_azimuth := NAN, g_zenith := NAN,
      uwb_config_updated_node := False, timeout_node := 0\<rparr>"
    and "\<not> halted (exec (slot_cb_node E c b v) s)"
    and "configured (tr (exec (slot_cb_node E c b v) s)) = configured (tr s) @ config_order b (tdma_dev b)"
    and "listen_timeouts (tr (exec (slot_cb_node E c b v) s)) = listen_timeouts (tr s)"
proof -
  let ?u = "s\<lparr>glb := (glb s)\<lparr>g_azimuth := NAN, g_zenith := NAN\<rparr>, tr := Os (SemGetCount CcpSem) # tr s\<rparr>"
  let ?v = "exec (configure_radios b (tdma_dev b)) ?u"
  let ?w = "?v\<lparr>glb := (glb ?v)\<lparr>uwb_config_updated_node := False\<rparr>\<rparr>"
  let ?x = "exec (prepare_autoack E (tdma_dev b)) ?w"
  have v: "\<not> halted ?v" "glb ?v = glb ?u"
    using runs_onD [OF node_effects(3), of ?u] assms(1) keeps_glb [OF node_effects(2)] by simp_all
  have x: "\<not> halted ?x" "glb ?x = glb ?w"
    using runs_onD [OF node_effects(6), of ?w] v keeps_glb [OF node_effects(5)] by simp_all
  have e: "exec (slot_cb_node E c b v) s = ?x\<lparr>glb := (glb ?x)\<lparr>timeout_node := 0\<rparr>\<rparr>"
    using assms v(1) x(1) by (simp add: node_slot_guard exec_bind exec_upd)
  show "glb (exec (slot_cb_node E c b v) s) = (glb s)\<lparr>g_azimuth := NAN, g_zenith := NAN,
      uwb_config_updated_node := False, timeout_node := 0\<rparr>" "\<not> halted (exec (slot_cb_node E c b v) s)"
    using v x by (simp_all add: e)
  show "configured (tr (exec (slot_cb_node E c b v) s)) = configured (tr s) @ config_order b (tdma_dev b)"
    using configure_radios_order [of ?u b "tdma_dev b"] assms(1) emits_no_config [OF node_config_effects(1), of E "tdma_dev b" ?w]
    by (simp add: e)
  show "listen_timeouts (tr (exec (slot_cb_node E c b v) s)) = listen_timeouts (tr s)"
    using emits_no_listen [OF node_effects(1), of b "tdma_dev b" ?u] emits_no_listen [OF node_effects(4), of E "tdma_dev b" ?w]
    by (simp add: e)
qed

lemma node_rests:
  assumes "\<not> halted s" and "\<And>h. ccp_count E h \<noteq> 0" and "\<not> uwb_config_updated_node (glb s)"
  shows "\<not> uwb_config_updated_node (glb (exec (slot_cb_node E c b v) s))"
    and "\<not> halted (exec (slot_cb_node E c b v) s)"
    and "configured (tr (exec (slot_cb_node E c b v) s)) = configured (tr s)"
proof -
  let ?u = "s\<lparr>glb := (glb s)\<lparr>g_azimuth := NAN, g_zenith := NAN\<rparr>, tr := Os (SemGetCount CcpSem) # tr s\<rparr>"
  have e: "exec (slot_cb_node E c b v) s = exec (do { refresh_timeout E c b v; listen_slot E b v }) ?u"
    using assms by (simp add: node_slot_guard)
  have k: "keeps (\<lambda>g. uwb_config_updated_node g = False) (do { refresh_timeout E c b v; listen_slot E b v })"
    using node_pending_kept by (intro effects)
  have r: "runs_on (do { refresh_timeout E c b v; listen_slot E b v })" by (intro effects)
  have m: "emits no_config (do { refresh_timeout E c b v; listen_slot E b v })" by (intro effects)
  show "\<not> uwb_config_updated_node (glb (exec (slot_cb_node E c b v) s))"
    using keepsD [OF k, of ?u] assms(3) by (simp add: e)
  show "\<not> halted (exec (slot_cb_node E c b v) s)" using runs_onD [OF r, of ?u] assms(1) by (simp add: e)
  show "configured (tr (exec (slot_cb_node E c b v) s)) = configured (tr s)"
    using emits_no_config [OF m, of ?u] by (simp add: e)
qed

lemma node_defers:
  assumes "\<not> halted s" and "eint E (tr s) (Os (SemGetCount (config_sem b))) \<noteq> 0"
  shows "exec (uwb_config_updated_func_node E b) s
    = s\<lparr>glb := (glb s)\<lparr>uwb_config_updated_node := True\<rparr>, tr := Os (SemGetCount (config_sem b)) # tr s\<rparr>"
  using assms by (simp add: uwb_config_updated_func_node_def exec_def run_simps)

text \<open>The handler keeps clear of the clock in every build. With one radio it meets the interface
  of deferred configuration, too.\<close>

interpretation node_guard: guarded_slot E "slot_cb_node E c b"
  by unfold_locales (simp add: slot_cb_node_def exec_bind exec_upd exec_unless_ccp Let_def)

lemma one_radio [simp]: "\<not> dual b \<Longrightarrow> tdma_dev b = 0" "\<not> dual b \<Longrightarrow> config_sem b = CcpSem"
    "\<not> dual b \<Longrightarrow> config_order b i = [i]"
  by (simp_all add: tdma_dev_def config_sem_def config_order_def)

interpretation node_slots: deferred_config E "slot_cb_node E c (b\<lparr>dual := False\<rparr>)" uwb_config_updated_node
    "uwb_config_updated_func_node E (b\<lparr>dual := False\<rparr>)" "\<lambda>h. ccp_count E h \<noteq> 0"
proof
  show "uwb_config_updated_node (glb (exec (uwb_config_updated_func_node E (b\<lparr>dual := False\<rparr>)) s))
      \<and> \<not> halted (exec (uwb_config_updated_func_node E (b\<lparr>dual := False\<rparr>)) s)
      \<and> reconfigs (exec (uwb_config_updated_func_node E (b\<lparr>dual := False\<rparr>)) s) = reconfigs s"
    if "\<not> halted s" "\<And>h. ccp_count E h \<noteq> 0" for s
    using that by (simp add: node_defers)
qed (use node_applies node_rests in \<open>simp_all add: reconfigs_configured\<close>)

text \<open>The handler that listens after the timeout has been looked after.\<close>

lemma node_listens:
  assumes "\<not> halted s" and "\<And>h. ccp_count E h \<noteq> 0" and "\<not> uwb_config_updated_node (glb s)"
    and "\<And>h. eint E h (Os (FrameDuration (tdma_dev b) (rng_request_size b))) = d"
  shows "listen_timeouts (tr (exec (slot_cb_node E c b v) s)) = listen_timeouts (tr s) @
    [if timeout_node (glb s) = 0 then slot_timeout E c (word_of_int d) (v_timeout_delay v) else timeout_node (glb s)]"
proof -
  let ?u = "s\<lparr>glb := (glb s)\<lparr>g_azimuth := NAN, g_zenith := NAN\<rparr>, tr := Os (SemGetCount CcpSem) # tr s\<rparr>"
  let ?t = "if timeout_node (glb s) = 0 then slot_timeout E c (word_of_int d) (v_timeout_delay v) else timeout_node (glb s)"
  let ?w = "exec (refresh_timeout E c b v) ?u"
  have e: "exec (slot_cb_node E c b v) s = exec (listen_slot E b v) ?w"
    using assms by (simp add: node_slot_guard exec_bind)
  have w: "timeout_node (glb ?w) = ?t" "\<not> halted ?w" "listen_timeouts (tr ?w) = listen_timeouts (tr s)"
    using assms(1) emits_no_listen [OF node_effects(10), of E c b v ?u] runs_onD [OF node_effects(9), of ?u]
    by (simp_all add: refresh_timeout_def exec_def run_simps put_def assms(4))
  have "listen_timeouts (tr (exec (listen_slot E b v) y)) = listen_timeouts (tr y) @ [timeout_node (glb y)]"
    if "\<not> halted y" for y
    using that by (simp add: listen_slot_def exec_def run_simps)
  from this [OF w(2)] w(1,3) show ?thesis by (simp add: e)
qed

text \<open>C35: A configuration change that waits for a slot refreshes the receive timeout: the slot
  after the one that applies it listens with the timeout computed from the frame duration the
  radio reports then, whatever was used before. With one radio it is configured once. With two
  the slot's radio is the second one, which is configured twice, and the first is not configured.\<close>

theorem node_config_refreshes_timeout:
  assumes "\<not> halted s" and "\<And>h. ccp_count E h \<noteq> 0"
    and "eint E (tr s) (Os (SemGetCount (config_sem b))) \<noteq> 0"
    and "\<And>h. eint E h (Os (FrameDuration (tdma_dev b) (rng_request_size b))) = d"
  shows "let t = exec (run_slots (slot_cb_node E c b) [v, w]) (exec (uwb_config_updated_func_node E b) s)
    in listen_timeouts (tr t) = listen_timeouts (tr s) @ [slot_timeout E c (word_of_int d) (v_timeout_delay w)]
      \<and> configured (tr t) = configured (tr s) @ (if dual b then [1, 1] else [0])"
proof -
  let ?s = "exec (uwb_config_updated_func_node E b) s"
  let ?t = "exec (slot_cb_node E c b v) ?s"
  have s: "\<not> halted ?s" "uwb_config_updated_node (glb ?s)" "listen_timeouts (tr ?s) = listen_timeouts (tr s)"
      "configured (tr ?s) = configured (tr s)"
    using node_defers [OF assms(1,3)] assms(1) by simp_all
  note t = node_applies [OF s(1) assms(2) s(2), of c b v]
  have "listen_timeouts (tr (exec (slot_cb_node E c b w) ?t))
      = listen_timeouts (tr ?t) @ [slot_timeout E c (word_of_int d) (v_timeout_delay w)]"
    using node_listens [OF t(2) assms(2) _ assms(4), of c w] t(1) by simp
  moreover have "configured (tr (exec (slot_cb_node E c b w) ?t)) = configured (tr ?t)"
    using node_rests(3) [OF t(2) assms(2)] t(1) by simp
  ultimately show ?thesis using t(3,4) s(3,4) by (simp add: exec_bind Let_def config_order_def tdma_dev_def)
qed

definition sample_node :: node_build where
  "sample_node = \<lparr>dual = True, cir_enabled = True, AOA_ANGLE_INVERT = True, rng_request_size = 12, role_bits = 1\<rparr>"

definition node0 :: node_globals where
  "node0 = \<lparr>uwb_config_updated_node = False, timeout_node = 77, g_azimuth = NAN, g_zenith = NAN\<rparr>"

lemma running_frame_duration: "eint running_env h (Os (FrameDuration i n)) = 0"
  by (simp add: running_env_def calm_env_def base_env_def)

theorem node_config_refreshes_timeout_witness:
  "let t = exec (run_slots (slot_cb_node running_env sample_cfg sample_node) [slot_at 1, slot_at 2])
      (exec (uwb_config_updated_func_node running_env sample_node) (boot node0))
   in listen_timeouts (tr t) = [slot_timeout running_env sample_cfg 0 0] \<and> configured (tr t) = [1, 1]"
proof -
  have "eint running_env [] (Os (SemGetCount x)) \<noteq> 0" for x by (simp add: running_env_def)
  then show ?thesis
    using node_config_refreshes_timeout [of "boot node0" running_env sample_node 0 sample_cfg "slot_at 1" "slot_at 2"]
      running_frame_duration by (simp add: slot_at_def sample_node_def)
qed

text \<open>C36: A change that finds the node waiting for the clock is applied at once, to the first
  radio and to the second when there is one, but does not touch the cached timeout: when the
  clock runs again the node goes on listening with the timeout of the old configuration, whatever
  frame duration the radio reports now.\<close>

theorem node_direct_config_keeps_timeout:
  assumes "\<not> halted s" and "eint E (tr s) (Os (SemGetCount (config_sem b))) = 0" and "timeout_node (glb s) \<noteq> 0"
    and "\<not> uwb_config_updated_node (glb s)" and "\<And>h. ccp_count F h \<noteq> 0"
    and "\<And>h. eint F h (Os (FrameDuration (tdma_dev b) (rng_request_size b))) = d"
  shows "configured (tr (exec (uwb_config_updated_func_node E b) s)) = configured (tr s) @ (if dual b then [0, 1] else [0])
    \<and> listen_timeouts (tr (exec (slot_cb_node F c b v) (exec (uwb_config_updated_func_node E b) s)))
      = listen_timeouts (tr s) @ [timeout_node (glb s)]"
proof -
  let ?u = "s\<lparr>tr := Radio (ForceTrxOff 0) # Os (SemGetCount (config_sem b)) # tr s\<rparr>"
  let ?v = "exec (configure_radios b 0) ?u"
  let ?w = "exec (prepare_autoack E 0) ?v"
  let ?x = "?w\<lparr>tr := Radio (StartRx 0) # tr ?w\<rparr>"
  have v: "\<not> halted ?v" "glb ?v = glb s" "configured (tr ?v) = configured (tr s) @ config_order b 0"
      "listen_timeouts (tr ?v) = listen_timeouts (tr s)"
    using runs_onD [OF node_effects(3), of ?u] assms(1) keeps_glb [OF node_effects(2)]
      configure_radios_order [of ?u b 0] emits_no_listen [OF node_effects(1), of b 0 ?u] by simp_all
  have w: "\<not> halted ?w" "glb ?w = glb s" "configured (tr ?w) = configured (tr ?v)" "listen_timeouts (tr ?w) = listen_timeouts (tr ?v)"
    using runs_onD [OF node_effects(6) v(1)] keeps_glb [OF node_effects(5)] v(2)
      emits_no_config [OF node_config_effects(1)] emits_no_listen [OF node_effects(4)] by simp_all
  have e: "exec (uwb_config_updated_func_node E b) s = ?x"
    using assms(1,2) w(1) by (simp add: uwb_config_updated_func_node_def exec_bind exec_act exec_ask)
  have "configured (tr ?x) = configured (tr ?w)" by simp
  moreover have "listen_timeouts (tr (exec (slot_cb_node F c b v) ?x)) = listen_timeouts (tr ?x) @ [timeout_node (glb s)]"
    using node_listens [of ?x F b d c v] w assms(3-6) by simp
  ultimately show ?thesis using v w by (simp add: e config_order_def)
qed

theorem node_direct_config_keeps_timeout_witness:
  "\<exists>E. let s = exec (uwb_config_updated_func_node E sample_node) (boot node0)
     in configured (tr s) = [0, 1]
      \<and> listen_timeouts (tr (exec (slot_cb_node running_env sample_cfg sample_node (slot_at 1)) s)) = [77]"
proof -
  let ?E = "calm_env\<lparr>eint := (\<lambda>h c. 0)\<rparr>"
  have "let s = exec (uwb_config_updated_func_node ?E sample_node) (boot node0)
     in configured (tr s) = [0, 1]
      \<and> listen_timeouts (tr (exec (slot_cb_node running_env sample_cfg sample_node (slot_at 1)) s)) = [77]"
    using node_direct_config_keeps_timeout [of "boot node0" ?E sample_node running_env 0 sample_cfg "slot_at 1"]
      running_frame_duration by (simp add: node0_def sample_node_def Let_def)
  then show ?thesis by (rule exI [of _ ?E])
qed

end
