(* ===== verification/Network.thy ===== *)
theory Network
  imports Twr
begin

text \<open>
  Start-up of the personal area network, which two applications contain in the same words: the
  pan-master looks itself up in its own table, copies its firmware version into the entry and
  takes address and slot from it.
\<close>

definition start_pan_master :: "env \<Rightarrow> board \<Rightarrow> ('g, unit) prog" where
  "start_pan_master E b = do {
     node \<leftarrow> ask E (Sys ''panmaster_idx_find_node'' [uint (euid (board_id b))]);
     c_assert (node \<noteq> 0);
     act (Sys ''imgr_my_version'' []);
     for_each [''iv_major'', ''iv_minor'', ''iv_revision'', ''iv_build_num''] (\<lambda>f. do {
       x \<leftarrow> ask E (GetField (''fw_ver.'' @ f));
       act (SetField (''node->fw_ver.'' @ f) x)
     });
     a \<leftarrow> ask E (GetField ''node->addr'');
     act (SetField ''udev->my_short_address'' a);
     i \<leftarrow> ask E (GetField ''node->slot_id'');
     act (SetField ''udev->slot_id'' i);
     act (Sys ''panmaster_postprocess'' []);
     act (Net (PanStart UWB_PAN_ROLE_MASTER NETWORK_ROLE_ANCHOR))
   }"

text \<open>The length of a listening window: three quarters of a slot, in unsigned 32-bit arithmetic.\<close>

definition listen_window :: "slot_view \<Rightarrow> u32" where
  "listen_window v = (3 * of_nat (v_period v)) div of_nat (v_nslots v) div 4"

definition nodes_found :: "env \<Rightarrow> bool" where
  "nodes_found E \<longleftrightarrow> (\<forall>h x. eint E h (Sys ''panmaster_idx_find_node'' [x]) \<noteq> 0)"

lemma pan_master_run [main_run]:
  "glb (exec (start_pan_master E b) s) = glb s"
  "assigned (tr (exec (start_pan_master E b) s)) = assigned (tr s)"
  "\<not> halted s \<Longrightarrow> nodes_found E \<Longrightarrow> \<not> halted (exec (start_pan_master E b) s)"
proof -
  show "glb (exec (start_pan_master E b) s) = glb s"
    unfolding start_pan_master_def by (rule keeps_glb; intro effects)
  show "assigned (tr (exec (start_pan_master E b) s)) = assigned (tr s)"
    unfolding start_pan_master_def by (rule emits_no_assign; intro effects; simp)
  show "\<not> halted s \<Longrightarrow> nodes_found E \<Longrightarrow> \<not> halted (exec (start_pan_master E b) s)"
    by (simp add: start_pan_master_def nodes_found_def exec_def run_simps)
qed

end
