(* ===== verification/Twr_Nranges.thy ===== *)
theory Twr_Nranges
  imports Network
begin

text \<open>
  \<open>apps/twr_nranges_tdma/src/main.c\<close>: ranging of a tag with many anchors at once, in the slots
  of a network whose members get their address and slot from the pan-master.
\<close>

record nranges_globals =
  uwb_config_updated_nr :: bool

definition uwb_config_updated_cb_nr :: "env \<Rightarrow> (nranges_globals, int) prog" where
  "uwb_config_updated_cb_nr E = do {
     n \<leftarrow> ask E (Os (SemGetCount CcpSem));
     if n = 0 then do {
       act (Radio (ForceTrxOff 0));
       act (Radio (MacConfig 0));
       act (Radio (TxrfConfig 0));
       act (Radio (StartRx 0));
       ret 0
     }
     else do { upd (\<lambda>g. g\<lparr>uwb_config_updated_nr := True\<rparr>); ret 0 }
   }"

text \<open>The frame codes of the driver the completion handler compares with and stores.\<close>

record nrng_codes =
  DS_TWR_NRNG_FINAL :: int
  DS_TWR_NRNG_EXT_FINAL :: int
  DS_TWR_NRNG_END :: int

definition nrng_complete_cb_nr :: "env \<Rightarrow> nrng_codes \<Rightarrow> (nranges_globals, unit) prog" where
  "nrng_complete_cb_nr E k = do {
     act (Os GpioToggle);
     c \<leftarrow> ask E (GetField ''nrng->frames[(nrng->idx)%nrng->nframes]->code'');
     onlyif (c = DS_TWR_NRNG_FINAL k \<or> c = DS_TWR_NRNG_EXT_FINAL k)
       (act (SetField ''nrng->frames[(nrng->idx)%nrng->nframes]->code'' (DS_TWR_NRNG_END k)))
   }"

definition complete_cb_nr :: "env \<Rightarrow> uwb_dev \<Rightarrow> (nranges_globals, bool) prog" where
  "complete_cb_nr E inst =
     (if \<not> range_frame E inst then ret False
      else do { act (Os (EventqPut NrngCompleteEvent)); ret True })"

text \<open>Every fourth slot away from the ends of the superframe may carry management packets.\<close>

definition nmgr_turn :: "slot_view \<Rightarrow> bool" where
  "nmgr_turn v \<longleftrightarrow> 6 < v_idx v \<and> int (v_idx v) < int (v_nslots v) - 6 \<and> v_idx v mod 4 = 0"

definition nmgr_first :: "env \<Rightarrow> slot_view \<Rightarrow> (nranges_globals, bool) prog" where
  "nmgr_first E v =
     (if nmgr_turn v then do {
        need_inst E ''UWBEXT_NMGR_UWB'';
        t \<leftarrow> ask E (Net (TdmaTxSlotStart (v_idx v)));
        r \<leftarrow> ask E (Net (NmgrProcessTx (word_of_int t)));
        ret (r \<noteq> 0)
      }
      else ret False)"

definition slot_cb_nr :: "env \<Rightarrow> slot_cfg \<Rightarrow> slot_view \<Rightarrow> (nranges_globals, unit) prog" where
  "slot_cb_nr E c v = unless_ccp E (do {
     p \<leftarrow> gets uwb_config_updated_nr;
     if p then do {
       upd (\<lambda>g. g\<lparr>uwb_config_updated_nr := False\<rparr>);
       act (Radio (ForceTrxOff 0));
       act (Radio (MacConfig 0));
       act (Radio (TxrfConfig 0))
     }
     else if \<not> v_synced v \<or> v_slot_id v = 0xffff then ret ()
     else do {
       sent \<leftarrow> nmgr_first E v;
       if sent then ret () else ranging_body E c v
     }
   })"

definition pan_complete_cb :: "env \<Rightarrow> (nranges_globals, unit) prog" where
  "pan_complete_cb E = do {
     i \<leftarrow> ask E (GetField ''pan->dev_inst->slot_id'');
     onlyif ((word_of_int i :: u16) \<noteq> 0xffff) (do {
       u \<leftarrow> utime E;
       i \<leftarrow> ask E (GetField ''pan->dev_inst->slot_id'');
       put (''{\"utime\": '' @ fmt_u (unat u) @ '',\"msg\": \"slot_id = '' @ fmt_d (uint (word_of_int i :: u16)) @ ''\"}'' @ [CHR 0x0A]);
       a \<leftarrow> ask E (GetField ''pan->dev_inst->my_short_address'');
       put (''{\"utime\": '' @ fmt_u (unat u) @ '',\"msg\": \"euid16 = 0x'' @ fmt_X (unat (word_of_int a :: u16)) @ ''\"}'' @ [CHR 0x0A])
     })
   }"

text \<open>
  The time of flight from the origin to the configured location, in radio time units. \<open>sqrtf\<close>
  and the driver's \<open>uwb_rng_tof_to_meters(1.0)\<close> are parameters.
\<close>

definition tof_comp_cb :: "(cfl \<Rightarrow> int) \<Rightarrow> (cfl \<Rightarrow> cfl) \<Rightarrow> cfl \<Rightarrow> cfl \<Rightarrow> cfl \<Rightarrow> cfl \<Rightarrow> u32" where
  "tof_comp_cb ub sqrtf meters_per_unit x y z =
     (let dist = sqrtf (fadd binary32 (fadd binary32 (fmul binary32 x x) (fmul binary32 y y)) (fmul binary32 z z))
      in word_of_int (to_c_int ub 0 (2 ^ 32 - 1) (fdiv binary32 dist meters_per_unit)))"

record nranges_build =
  SURVEY_ENABLED :: bool
  SURVEY_RANGE_SLOT :: nat
  SURVEY_BROADCAST_SLOT :: nat
  pan_master :: bool

definition survey_plan :: "nranges_build \<Rightarrow> (nat \<times> string) list" where
  "survey_plan n = (if SURVEY_ENABLED n
     then [(SURVEY_RANGE_SLOT n, ''survey_slot_range_cb''), (SURVEY_BROADCAST_SLOT n, ''survey_slot_broadcast_cb'')]
     else [])"

definition nranges_plan :: "nranges_build \<Rightarrow> nat \<Rightarrow> (nat \<times> string) list" where
  "nranges_plan n nslots = [(1, ''uwb_pan_slot_timer_cb''), (2, ''uwb_pan_slot_timer_cb'')] @ survey_plan n
     @ map (\<lambda>i. (i, ''slot_cb'')) [(if SURVEY_ENABLED n then 6 else 3)..<nslots]"

definition nranges_main :: "env \<Rightarrow> board \<Rightarrow> nranges_build \<Rightarrow> nat \<Rightarrow> (nranges_globals, unit) prog" where
  "nranges_main E b n nslots = do {
     act (Sys ''sysinit'' []);
     register_config;
     leds_out;
     act (SetField ''udev->config.rxauto_enable'' 0);
     act (SetField ''udev->config.dblbuffon_enabled'' 0);
     act (Radio (SetDblRxBuff 0 False));
     need_inst E ''UWBEXT_NRNG'';
     act (Net (MacAppendInterface ''complete_cb''));
     act (SetField ''udev->slot_id'' 0xffff);
     ble_init b;
     need_inst E ''UWBEXT_CCP'';
     need_inst E ''UWBEXT_PAN'';
     need_inst E ''UWBEXT_RNG'';
     (if ccp_master b then act (Net (CcpStart CCP_ROLE_MASTER))
      else do { act (Net (CcpStart CCP_ROLE_SLAVE)); act (Sys ''uwb_ccp_set_tof_comp_cb'' []) });
     (if pan_master n then start_pan_master E b
      else do {
        act (Sys ''uwb_pan_set_postprocess'' []);
        act (Net (PanStart UWB_PAN_ROLE_RELAY (if anchor_role b then NETWORK_ROLE_ANCHOR else NETWORK_ROLE_TAG)))
      });
     u \<leftarrow> banner E 0 b True [];
     put (holdoff_line E b u);
     need_inst E ''UWBEXT_TDMA'';
     assign_plan (nranges_plan n nslots)
   }"

end
