(* ===== verification/Rtdoa_Node.thy ===== *)
theory Rtdoa_Node
  imports Network
begin

text \<open>
  \<open>apps/rtdoa_node/src/main.c\<close>: an anchor of the RTDoA network. In its slots it sends or
  relays the positioning signal or serves management packets; in slot 31 the anchors range
  with one another, one of them asking, the others answering.
\<close>

record rnode_globals =
  uwb_config_updated_rn :: bool

definition uwb_config_upd_cb_node :: "env \<Rightarrow> (rnode_globals, int) prog" where
  "uwb_config_upd_cb_node E = do {
     n \<leftarrow> ask E (Os (SemGetCount CcpSem));
     valid \<leftarrow> (if n = 0 then ret 0 else ask E (GetField ''ccp->status.valid''));
     if n = 0 \<or> valid = 0 then do {
       act (Radio (MacConfig 0));
       act (Radio (TxrfConfig 0));
       n \<leftarrow> ask E (Os (SemGetCount CcpSem));
       onlyif (n = 0) (act (Radio (StartRx 0)));
       ret 0
     }
     else do { upd (\<lambda>g. g\<lparr>uwb_config_updated_rn := True\<rparr>); ret 0 }
   }"


section \<open>Ranging between anchors\<close>

definition anchor_ranging :: "env \<Rightarrow> slot_cfg \<Rightarrow> slot_view \<Rightarrow> ('g, unit) prog" where
  "anchor_ranging E c v = do {
     act (Os (GpioWrite True));
     (if v_seq_num v mod 8 = v_slot_id v then do {
        t \<leftarrow> ask E (Net (TdmaTxSlotStart (v_idx v)));
        act (Net (NrngRequest (BROADCAST E) (and (word_of_int t) 0xFFFFFFFFFE00) SS_TWR_NRNG 0xFFFF))
      }
      else do {
        t \<leftarrow> ask E (Net (TdmaRxSlotStart (v_idx v)));
        act (Radio (SetDelayStart 0 (word_of_int t)));
        d \<leftarrow> ask E (Os (FrameDuration 0 (request_size c)));
        act (Radio (SetRxTimeout 0 (uint (word_of_int d + v_timeout_delay v :: u16) + 0x100)));
        act (Net (NrngListen UWB_BLOCKING))
      });
     act (Os (GpioWrite False))
   }"

definition nrng_slot_timer_cb :: "env \<Rightarrow> slot_cfg \<Rightarrow> slot_view \<Rightarrow> ('g, unit) prog" where
  "nrng_slot_timer_cb E c v = unless_ccp E (if v_idx v = 0xffff then ret () else anchor_ranging E c v)"

text \<open>A frame of the ranging instance as the completion handler reads it.\<close>

record nrng_frame =
  nf_dst_address :: u16
  nf_code :: int
  nf_seq_num :: u8
  nf_tof :: cfl

definition nrng_complete_cb_node :: "nrng_frame list \<Rightarrow> nat \<Rightarrow> u8 \<Rightarrow> int \<Rightarrow> (rnode_globals, unit) prog" where
  "nrng_complete_cb_node fs idx seq final_code =
     for_each [0..<length fs] (\<lambda>i. let f = fs ! ((idx + i) mod length fs) in
       if nf_code f \<noteq> final_code \<or> nf_seq_num f \<noteq> seq then ret ()
       else act (Net (TofdbSet (nf_dst_address f) (nf_tof f))))"

definition complete_cb_rnode :: "env \<Rightarrow> uwb_dev \<Rightarrow> (rnode_globals, bool) prog" where
  "complete_cb_rnode E inst =
     (if \<not> range_frame E inst then ret False
      else do { act (Os (EventqPut SlotEvent)); ret True })"


section \<open>Positioning and management slots\<close>

definition rtdoa_emission :: "env \<Rightarrow> slot_view \<Rightarrow> (rnode_globals, unit) prog" where
  "rtdoa_emission E v = do {
     need_inst E ''UWBEXT_NMGR_UWB'';
     t \<leftarrow> ask E (Net (TdmaTxSlotStart (v_idx v)));
     sent \<leftarrow> ask E (Net (NmgrProcessTx (word_of_int t)));
     if sent \<noteq> 0 then ret ()
     else if v_master v then do {
       t \<leftarrow> ask E (Net (TdmaTxSlotStart (v_idx v)));
       e \<leftarrow> ask E (Net (RtdoaRequest (and (word_of_int t) 0xFFFFFFFFFE00)));
       onlyif (e \<noteq> 0) (put (''rtdoa_start_err'' @ [CHR 0x0A]))
     }
     else do {
       t \<leftarrow> ask E (Net (TdmaRxSlotStart (v_idx v)));
       e \<leftarrow> ask E (Net (RtdoaListen UWB_BLOCKING (word_of_int t) (uint (listen_window v))));
       onlyif (e \<noteq> 0) (put (''#rse'' @ [CHR 0x0A]))
     }
   }"

definition rtdoa_slot_timer_cb_node :: "env \<Rightarrow> slot_view \<Rightarrow> (rnode_globals, unit) prog" where
  "rtdoa_slot_timer_cb_node E v = unless_ccp E (do {
     p \<leftarrow> gets uwb_config_updated_rn;
     if p then do {
       act (Radio (MacConfig 0));
       act (Radio (TxrfConfig 0));
       upd (\<lambda>g. g\<lparr>uwb_config_updated_rn := False\<rparr>)
     }
     else rtdoa_emission E v
   })"

definition nmgr_slot_timer_cb_node :: "env \<Rightarrow> slot_view \<Rightarrow> ('g, unit) prog" where
  "nmgr_slot_timer_cb_node E v = unless_ccp E (do {
     t \<leftarrow> ask E (Net (TdmaTxSlotStart (v_idx v)));
     sent \<leftarrow> ask E (Net (NmgrProcessTx (word_of_int t)));
     onlyif (sent = 0) (do {
       t \<leftarrow> ask E (Net (TdmaRxSlotStart (v_idx v)));
       act (Net (NmgrListen UWB_BLOCKING (word_of_int t) (uint (ucast (listen_window v) :: u16))))
     })
   })"


section \<open>Start-up\<close>

definition periodic_plan :: "nat \<Rightarrow> (nat \<times> string) list" where
  "periodic_plan nslots = map (\<lambda>i. (i, if i mod 12 = 0 then ''nmgr_slot_timer_cb'' else ''rtdoa_slot_timer_cb''))
     (filter (\<lambda>i. i \<noteq> 31) [2..<nslots])"

definition node_plan :: "nat \<Rightarrow> (nat \<times> string) list" where
  "node_plan nslots = [(1, ''uwb_pan_slot_timer_cb''), (31, ''nrng_slot_timer_cb'')] @ periodic_plan nslots"

definition tdma_allocate_slots_node :: "env \<Rightarrow> nat \<Rightarrow> (rnode_globals, unit) prog" where
  "tdma_allocate_slots_node E nslots = do {
     need_inst E ''UWBEXT_PAN'';
     assign_plan [(1, ''uwb_pan_slot_timer_cb'')];
     need_inst E ''UWBEXT_NRNG'';
     assign_plan [(31, ''nrng_slot_timer_cb'')];
     need_inst E ''UWBEXT_NMGR_UWB'';
     need_inst E ''UWBEXT_RTDOA'';
     assign_plan (periodic_plan nslots)
   }"

definition rnode_main :: "env \<Rightarrow> board \<Rightarrow> u64 \<Rightarrow> bool \<Rightarrow> nat \<Rightarrow> (rnode_globals, unit) prog" where
  "rnode_main E b long_address esp_passthrough nslots = do {
     act (Sys ''sysinit'' []);
     led_init ''LED_BLINK_PIN'' 1;
     register_config;
     act (Net (MacAppendInterface ''complete_cb''));
     need_inst E ''UWBEXT_NRNG'';
     for_each [(''rxauto_enable'', 0), (''trxoff_enable'', 1), (''rxdiag_enable'', 1), (''sleep_enable'', 1),
         (''dblbuffon_enabled'', 0)]
       (\<lambda>(f, x). act (SetField (''udev->config.'' @ f) x));
     act (Radio (SetDblRxBuff 0 False));
     act (SetField ''udev->slot_id'' 0xffff);
     act (Sys ''ble_init'' [uint long_address]);
     need_inst E ''UWBEXT_CCP'';
     need_inst E ''UWBEXT_PAN'';
     (if ccp_master b then do {
        put (''{\"role\":\"ccp_master\"}'' @ [CHR 0x0A]);
        act (Net (CcpStart CCP_ROLE_MASTER));
        start_pan_master E b
      }
      else do {
        act (Net (CcpStart CCP_ROLE_RELAY));
        act (Net (PanStart UWB_PAN_ROLE_RELAY NETWORK_ROLE_ANCHOR))
      });
     for_each (identity_pieces True [] (board_id b)) put;
     need_inst E ''UWBEXT_TDMA'';
     tdma_allocate_slots_node E nslots;
     onlyif esp_passthrough (act (Sys ''hal_bsp_esp_bypass'' [1]))
   }"

end
