(* ===== verification/Rtdoa_Data.thy ===== *)
theory Rtdoa_Data
  imports Driver
begin

text \<open>
  The packet of the RTDoA backhaul (\<open>rtdoa_backhaul.h\<close>): its records, their packed
  layout in bytes, and the decoding a receiver performs by casting its buffer to the
  struct. Signed fields are kept as words and read with \<open>sint\<close>; the two \<open>float\<close> fields
  are kept as their 32 bits.

  The frame header \<open>_ieee_rng_request_frame_t\<close> is declared by the ranging package, so its
  layout is a parameter: a function from the header to its bytes. Only the fields this
  library names are kept.
\<close>

definition FCNTL_IEEE_RTDOABH :: u16 where "FCNTL_IEEE_RTDOABH = 0x88C1"
definition DWT_RTDOABH_CODE :: u16 where "DWT_RTDOABH_CODE = 0x6003"

definition COMPASS_ENABLED :: "14 word" where "COMPASS_ENABLED = 0x0008"
definition GPS_LAT_LONG_ENABLED :: "14 word" where "GPS_LAT_LONG_ENABLED = 0x0002"
definition ACCELEROMETER_ENABLED :: "14 word" where "ACCELEROMETER_ENABLED = 0x0010"
definition GYRO_ENABLED :: "14 word" where "GYRO_ENABLED = 0x0020"
definition PRESSURE_ENABLED :: "14 word" where "PRESSURE_ENABLED = 0x0040"
definition BATTERY_LEVELS_ENABLED :: "14 word" where "BATTERY_LEVELS_ENABLED = 0x0080"

definition MAXNUM_RANGES :: nat where "MAXNUM_RANGES = 16"

datatype rtdoa_backhaul_role_t =
  RTDOABH_ROLE_INVALID | RTDOABH_ROLE_BRIDGE | RTDOABH_ROLE_PRODUCER

record rng_head =
  fctrl :: u16
  seq_num :: u8
  PANID :: u16
  dst_address :: u16
  src_address :: u16
  code :: u16

record rtdoabh_sensor_data =
  ts :: u64
  sensors_valid :: "14 word"
  has_usb_power :: "1 word"
  is_anchor_data :: "1 word"
  gps_lat :: u32
  gps_long :: u32
  battery_voltage :: u8
  pressure :: u16
  compass :: "u16 list"
  acceleration :: "u16 list"
  gyro :: "u16 list"

record rtdoabh_range_data =
  anchor_addr :: u16
  diff_dist_mm :: u32
  rssi :: "14 word"
  quality :: "2 word"

record rtdoabh_tag_results_pkg =
  head :: rng_head
  sensors :: rtdoabh_sensor_data
  ref_anchor_addr :: u16
  num_ranges :: u8
  ranges :: "rtdoabh_range_data list"

definition zero_sensors :: rtdoabh_sensor_data where
  "zero_sensors = \<lparr>ts = 0, sensors_valid = 0, has_usb_power = 0, is_anchor_data = 0,
     gps_lat = 0, gps_long = 0, battery_voltage = 0, pressure = 0,
     compass = [0, 0, 0], acceleration = [0, 0, 0], gyro = [0, 0, 0]\<rparr>"

definition zero_range :: rtdoabh_range_data where
  "zero_range = \<lparr>anchor_addr = 0, diff_dist_mm = 0, rssi = 0, quality = 0\<rparr>"

text \<open>The initialiser shared by \<open>g_result_pkg\<close> and \<open>g_result_pkg_imu\<close>.\<close>

definition init_result_pkg :: rtdoabh_tag_results_pkg where
  "init_result_pkg = \<lparr>
     head = \<lparr>fctrl = FCNTL_IEEE_RTDOABH, seq_num = 0, PANID = 0xDECA, dst_address = 0xffff,
             src_address = 0x0000, code = DWT_RTDOABH_CODE\<rparr>,
     sensors = zero_sensors, ref_anchor_addr = 0, num_ranges = 0,
     ranges = replicate MAXNUM_RANGES zero_range\<rparr>"


section \<open>The packed layout\<close>

text \<open>Bit fields fill their unit from the least significant bit.\<close>

definition sensor_bits :: "rtdoabh_sensor_data \<Rightarrow> nat" where
  "sensor_bits d = unat (sensors_valid d) + 2 ^ 14 * unat (has_usb_power d)
     + 2 ^ 15 * unat (is_anchor_data d)"

definition sensor_bytes :: "rtdoabh_sensor_data \<Rightarrow> u8 list" where
  "sensor_bytes d = to_le 8 (ts d) @ le_bytes 2 (sensor_bits d)
     @ to_le 4 (gps_lat d) @ to_le 4 (gps_long d)
     @ to_le 1 (battery_voltage d) @ to_le 2 (pressure d)
     @ concat (map (to_le 2) (compass d)) @ concat (map (to_le 2) (acceleration d))
     @ concat (map (to_le 2) (gyro d))"

definition range_bytes :: "rtdoabh_range_data \<Rightarrow> u8 list" where
  "range_bytes r = to_le 2 (anchor_addr r) @ to_le 4 (diff_dist_mm r)
     @ le_bytes 2 (unat (rssi r) + 2 ^ 14 * unat (quality r))"

definition pkg_bytes :: "(rng_head \<Rightarrow> u8 list) \<Rightarrow> rtdoabh_tag_results_pkg \<Rightarrow> u8 list" where
  "pkg_bytes enc p = enc (head p) @ sensor_bytes (sensors p) @ to_le 2 (ref_anchor_addr p)
     @ to_le 1 (num_ranges p) @ concat (map range_bytes (ranges p))"

definition SENSOR_SIZE :: nat where "SENSOR_SIZE = 39"
definition RANGE_SIZE :: nat where "RANGE_SIZE = 8"

text \<open>\<open>sizeof(struct rtdoabh_tag_results_pkg)\<close> and \<open>offsetof(..., num_ranges)\<close> for a header
  of \<open>hl\<close> bytes.\<close>

definition PKG_SIZE :: "nat \<Rightarrow> nat" where
  "PKG_SIZE hl = hl + SENSOR_SIZE + 2 + 1 + RANGE_SIZE * MAXNUM_RANGES"

definition SPLIT_AT :: "nat \<Rightarrow> nat" where
  "SPLIT_AT hl = hl + SENSOR_SIZE + 2"

text \<open>Arrays have their declared length in every packet the program builds.\<close>

definition wf_sensors :: "rtdoabh_sensor_data \<Rightarrow> bool" where
  "wf_sensors d \<longleftrightarrow> length (compass d) = 3 \<and> length (acceleration d) = 3 \<and> length (gyro d) = 3"

definition wf_pkg :: "rtdoabh_tag_results_pkg \<Rightarrow> bool" where
  "wf_pkg p \<longleftrightarrow> wf_sensors (sensors p) \<and> length (ranges p) = MAXNUM_RANGES
     \<and> unat (num_ranges p) \<le> MAXNUM_RANGES"

definition head_layout :: "nat \<Rightarrow> (rng_head \<Rightarrow> u8 list) \<Rightarrow> (u8 list \<Rightarrow> rng_head) \<Rightarrow> bool" where
  "head_layout hl enc dec \<longleftrightarrow> (\<forall>h rest. length (enc h) = hl \<and> dec (enc h @ rest) = h)"

text \<open>Reading the struct back out of a buffer.\<close>

definition sensor_of :: "u8 list \<Rightarrow> rtdoabh_sensor_data" where
  "sensor_of bs = (let b = le_value (take 2 (drop 8 bs)) in
    \<lparr>ts = of_le (take 8 bs),
     sensors_valid = of_nat (b mod 2 ^ 14),
     has_usb_power = of_nat (b div 2 ^ 14 mod 2),
     is_anchor_data = of_nat (b div 2 ^ 15 mod 2),
     gps_lat = of_le (take 4 (drop 10 bs)), gps_long = of_le (take 4 (drop 14 bs)),
     battery_voltage = of_le (take 1 (drop 18 bs)), pressure = of_le (take 2 (drop 19 bs)),
     compass = map of_le (chunks 2 3 (drop 21 bs)),
     acceleration = map of_le (chunks 2 3 (drop 27 bs)),
     gyro = map of_le (chunks 2 3 (drop 33 bs))\<rparr>)"

definition range_of :: "u8 list \<Rightarrow> rtdoabh_range_data" where
  "range_of bs = (let b = le_value (take 2 (drop 6 bs)) in
    \<lparr>anchor_addr = of_le (take 2 bs), diff_dist_mm = of_le (take 4 (drop 2 bs)),
     rssi = of_nat (b mod 2 ^ 14), quality = of_nat (b div 2 ^ 14 mod 4)\<rparr>)"

definition pkg_of :: "nat \<Rightarrow> (u8 list \<Rightarrow> rng_head) \<Rightarrow> u8 list \<Rightarrow> rtdoabh_tag_results_pkg" where
  "pkg_of hl dec bs =
    \<lparr>head = dec (take hl bs), sensors = sensor_of (take SENSOR_SIZE (drop hl bs)),
     ref_anchor_addr = of_le (take 2 (drop (hl + SENSOR_SIZE) bs)),
     num_ranges = of_le (take 1 (drop (hl + SENSOR_SIZE + 2) bs)),
     ranges = map range_of (chunks RANGE_SIZE MAXNUM_RANGES (drop (hl + SENSOR_SIZE + 3) bs))\<rparr>"


section \<open>Sizes\<close>

lemmas size_defs = SENSOR_SIZE_def RANGE_SIZE_def MAXNUM_RANGES_def PKG_SIZE_def SPLIT_AT_def

lemma length_range_bytes [simp, codec_simps]: "length (range_bytes r) = RANGE_SIZE"
  by (simp add: range_bytes_def RANGE_SIZE_def)

lemma length_u16_array [simp]: "length (concat (map (to_le 2) (ws :: u16 list))) = 2 * length ws"
  by (rule length_concat_map_const) simp

lemma length_sensor_bytes [codec_simps]: "wf_sensors d \<Longrightarrow> length (sensor_bytes d) = SENSOR_SIZE"
  by (simp add: sensor_bytes_def wf_sensors_def SENSOR_SIZE_def)

lemma length_ranges [codec_simps]:
  "length (concat (map range_bytes rs)) = RANGE_SIZE * length rs"
  by (rule length_concat_map_const) simp

lemma wf_init [simp]: "wf_pkg init_result_pkg"
  by (simp add: wf_pkg_def wf_sensors_def init_result_pkg_def zero_sensors_def MAXNUM_RANGES_def)

lemma pkg_bytes_length:
  assumes "wf_pkg p" and "head_layout hl enc dec"
  shows "length (pkg_bytes enc p) = PKG_SIZE hl"
  using assms by (simp add: pkg_bytes_def wf_pkg_def head_layout_def codec_simps PKG_SIZE_def)


section \<open>Decoding inverts encoding\<close>

lemma of_nat_unat_1 [simp]: "(of_nat (unat (w :: 1 word)) :: 1 word) = w"
  by simp

lemma bits_14_1_1:
  fixes a b c :: nat
  assumes "a < 16384" and "b < 2" and "c < 2"
  shows "(a + 16384 * b + 32768 * c) mod 16384 = a"
    and "(a + 16384 * b + 32768 * c) div 16384 mod 2 = b"
    and "(a + 16384 * b + 32768 * c) div 32768 mod 2 = c"
    and "a + 16384 * b + 32768 * c < 65536"
proof -
  have x: "a + 16384 * b + 32768 * c = a + 16384 * (b + 2 * c)" by simp
  have m: "(a + 16384 * k) mod 16384 = a" and q: "(a + 16384 * k) div 16384 = k" for k
    using assms(1) by simp_all
  show "(a + 16384 * b + 32768 * c) mod 16384 = a"
    unfolding x using m .
  show "(a + 16384 * b + 32768 * c) div 16384 mod 2 = b"
    unfolding x q using assms(2) by simp
  have "(a + 16384 * (b + 2 * c)) div 32768 = (a + 16384 * (b + 2 * c)) div 16384 div 2"
    by (simp flip: div_mult2_eq)
  then show "(a + 16384 * b + 32768 * c) div 32768 mod 2 = c"
    unfolding x q using assms(2,3) by simp
  show "a + 16384 * b + 32768 * c < 65536"
    using assms by linarith
qed

lemma bits_14_2:
  fixes a b :: nat
  assumes "a < 16384" and "b < 4"
  shows "(a + 16384 * b) mod 16384 = a" and "(a + 16384 * b) div 16384 mod 4 = b"
    and "a + 16384 * b < 65536"
  using assms by simp_all

lemma sensor_bits_split:
  "sensor_bits d mod 16384 = unat (sensors_valid d)"
  "sensor_bits d div 16384 mod 2 = unat (has_usb_power d)"
  "sensor_bits d div 32768 mod 2 = unat (is_anchor_data d)"
  "sensor_bits d < 65536"
proof -
  have v: "unat (sensors_valid d) < 16384" "unat (has_usb_power d) < 2" "unat (is_anchor_data d) < 2"
    using unat_less [of "sensors_valid d"] unat_less [of "has_usb_power d"]
      unat_less [of "is_anchor_data d"] by simp_all
  show "sensor_bits d mod 16384 = unat (sensors_valid d)"
    "sensor_bits d div 16384 mod 2 = unat (has_usb_power d)"
    "sensor_bits d div 32768 mod 2 = unat (is_anchor_data d)"
    "sensor_bits d < 65536"
    using bits_14_1_1 [OF v] by (simp_all add: sensor_bits_def)
qed

lemma u16_array_roundtrip [codec_simps]:
  "length ws = n \<Longrightarrow> map of_le (chunks 2 n (concat (map (to_le 2) ws) @ ys)) = (ws :: u16 list)"
proof -
  assume "length ws = n"
  then have "chunks 2 n (concat (map (to_le 2) ws) @ ys) = map (to_le 2) ws"
    by (metis chunks_concat_map length_to_le)
  then show ?thesis by (simp add: comp_def codec_simps)
qed

lemma sensor_roundtrip [codec_simps]: "wf_sensors d \<Longrightarrow> sensor_of (sensor_bytes d) = d"
proof -
  assume wf: "wf_sensors d"
  then have l: "length (compass d) = 3" "length (acceleration d) = 3" "length (gyro d) = 3"
    by (simp_all add: wf_sensors_def)
  have b: "le_value (take 2 (drop 8 (sensor_bytes d))) = sensor_bits d"
    using sensor_bits_split(4) [of d] by (simp add: sensor_bytes_def codec_simps)
  have g: "map of_le (chunks 2 3 (concat (map (to_le 2) (gyro d)))) = gyro d"
    using u16_array_roundtrip [of "gyro d" 3 "[]"] l by simp
  show ?thesis
    unfolding sensor_of_def b Let_def
    by (simp add: sensor_bytes_def l u16_array_roundtrip g sensor_bits_split codec_simps)
qed

lemma range_roundtrip [codec_simps]: "range_of (range_bytes r) = r"
proof -
  have v: "unat (rssi r) < 16384" "unat (quality r) < 4"
    using unat_less [of "rssi r"] unat_less [of "quality r"] by simp_all
  have "le_value (take 2 (drop 6 (range_bytes r))) = unat (rssi r) + 16384 * unat (quality r)"
    using bits_14_2(3) [OF v] by (simp add: range_bytes_def codec_simps)
  then have q: "le_value (take 2 (drop 6 (range_bytes r))) mod 16384 = unat (rssi r)"
    "le_value (take 2 (drop 6 (range_bytes r))) div 16384 mod 4 = unat (quality r)"
    by (simp_all only: bits_14_2 [OF v])
  show ?thesis
    unfolding range_of_def Let_def
    by (simp add: q) (simp add: range_bytes_def codec_simps)
qed

lemma ranges_roundtrip [codec_simps]:
  "length rs = MAXNUM_RANGES \<Longrightarrow>
   map range_of (chunks RANGE_SIZE MAXNUM_RANGES (concat (map range_bytes rs) @ ys)) = rs"
proof -
  assume l: "length rs = MAXNUM_RANGES"
  have "chunks RANGE_SIZE (length rs) (concat (map range_bytes rs) @ ys) = map range_bytes rs"
    by (rule chunks_concat_map) simp
  with l show ?thesis by (simp add: comp_def codec_simps)
qed

lemma pkg_of_pkg_bytes:
  assumes "wf_pkg p" and "head_layout hl enc dec"
  shows "pkg_of hl dec (pkg_bytes enc p @ rest) = p"
proof -
  have h: "length (enc (head p)) = hl" "dec (enc (head p)) = head p"
    using assms(2) unfolding head_layout_def by (auto, metis append_Nil2)
  have s: "wf_sensors (sensors p)" and r: "length (ranges p) = MAXNUM_RANGES"
    using assms(1) by (auto simp: wf_pkg_def)
  show ?thesis
    unfolding pkg_of_def
    by (simp add: pkg_bytes_def h s r codec_simps)
qed

text \<open>A layout of the header that satisfies \<open>head_layout\<close>: the fields packed in their order.\<close>

definition packed_head :: "rng_head \<Rightarrow> u8 list" where
  "packed_head h = to_le 2 (fctrl h) @ to_le 1 (seq_num h) @ to_le 2 (PANID h)
     @ to_le 2 (dst_address h) @ to_le 2 (src_address h) @ to_le 2 (code h)"

definition unpacked_head :: "u8 list \<Rightarrow> rng_head" where
  "unpacked_head bs = \<lparr>fctrl = of_le (take 2 bs), seq_num = of_le (take 1 (drop 2 bs)),
     PANID = of_le (take 2 (drop 3 bs)), dst_address = of_le (take 2 (drop 5 bs)),
     src_address = of_le (take 2 (drop 7 bs)), code = of_le (take 2 (drop 9 bs))\<rparr>"

lemma packed_head_layout [simp]: "head_layout 11 packed_head unpacked_head"
  by (simp add: head_layout_def packed_head_def unpacked_head_def codec_simps)



end
