(* ===== verification/Rtdoa_Send.thy ===== *)
theory Rtdoa_Send
  imports Rtdoa_Data
begin

text \<open>
  The sending side of the RTDoA backhaul (\<open>rtdoa_backhaul.c\<close>): the library's globals, the
  filling of the range array, \<open>rtdoa_local_send\<close>, \<open>rtdoa_backhaul_send_imu_only\<close> and
  \<open>rtdoa_backhaul_send\<close>. The statistics are compiled in, as in \<open>syscfg.yml\<close>.
\<close>

record tag_stats =
  s_num_ranges :: u32
  s_tx_ok :: u32
  s_tx_err :: u32
  s_rx_ok :: u32
  s_rx_drop :: u32
  s_rx_error :: u32
  s_relay_ok :: u32
  s_relay_err :: u32
  a00_range :: u32
  a00_rssi :: u32
  a01_range :: u32
  a01_rssi :: u32
  a02_range :: u32
  a02_rssi :: u32
  a03_range :: u32
  a03_rssi :: u32

record bh_globals =
  g_msg_id :: u32
  g_role :: rtdoa_backhaul_role_t
  g_to_dx_time :: u64
  g_result_pkg :: rtdoabh_tag_results_pkg
  g_result_pkg_imu :: rtdoabh_tag_results_pkg
  g_tag_stats :: tag_stats
  last_address :: u16
  last_seq_num :: u8

definition zero_stats :: tag_stats where
  "zero_stats = \<lparr>s_num_ranges = 0, s_tx_ok = 0, s_tx_err = 0, s_rx_ok = 0, s_rx_drop = 0,
     s_rx_error = 0, s_relay_ok = 0, s_relay_err = 0, a00_range = 0, a00_rssi = 0, a01_range = 0, a01_rssi = 0, a02_range = 0,
     a02_rssi = 0, a03_range = 0, a03_rssi = 0\<rparr>"

definition init_bh :: bh_globals where
  "init_bh = \<lparr>g_msg_id = 0, g_role = RTDOABH_ROLE_INVALID, g_to_dx_time = 0,
     g_result_pkg = init_result_pkg, g_result_pkg_imu = init_result_pkg,
     g_tag_stats = zero_stats, last_address = 0, last_seq_num = 0\<rparr>"

text \<open>
  What the sender asks of the ranging packages about a received frame \<open>'f\<close>:
  \<open>rtdoa_tdoa_between_frames\<close>, \<open>uwb_calc_rssi\<close> and \<open>uwb_calc_fppl\<close> on its diagnostics,
  \<open>uwb_estimate_los\<close>, and the frame's \<open>src_address\<close>.
\<close>

record 'f rtdoa_lib =
  tdoa_between_frames :: "'f \<Rightarrow> 'f \<Rightarrow> cfl"
  calc_rssi :: "'f \<Rightarrow> cfl"
  calc_fppl :: "'f \<Rightarrow> cfl"
  estimate_los :: "cfl \<Rightarrow> cfl \<Rightarrow> cfl"
  frame_src :: "'f \<Rightarrow> u16"

record 'f rtdoa_instance =
  req_frame :: 'f
  frames :: "'f list"


section \<open>Filling the range array\<close>

text \<open>\<open>update_range_stats(anchor, range, rssi)\<close>: a cleared counter plus the new value.\<close>

definition update_range_stats :: "(cfl \<Rightarrow> int) \<Rightarrow> nat \<Rightarrow> int \<Rightarrow> cfl \<Rightarrow> tag_stats \<Rightarrow> tag_stats" where
  "update_range_stats ub anchor dist_mm rssi0 st =
    (let r = word_of_int dist_mm; a = word_of_int \<bar>to_c_int ub (- (2 ^ 31)) (2 ^ 31 - 1) (floorf rssi0)\<bar> in
     if anchor = 0 then st\<lparr>a00_range := r, a00_rssi := a\<rparr>
     else if anchor = 1 then st\<lparr>a01_range := r, a01_rssi := a\<rparr>
     else if anchor = 2 then st\<lparr>a02_range := r, a02_rssi := a\<rparr>
     else if anchor = 3 then st\<lparr>a03_range := r, a03_rssi := a\<rparr>
     else st)"

text \<open>\<open>(int32_t)(diff*1000.0f + 0.5f)\<close>.\<close>

definition diff_to_mm :: "(cfl \<Rightarrow> int) \<Rightarrow> cfl \<Rightarrow> int" where
  "diff_to_mm ub diff = to_c_int ub (- (2 ^ 31)) (2 ^ 31 - 1)
     (fadd binary32 (fmul binary32 diff (Fin 1000)) (Fin (1 / 2)))"

text \<open>The 14-bit field takes \<open>rssi*10\<close>, the 2-bit field the truncated estimate.\<close>

definition rssi_field :: "(cfl \<Rightarrow> int) \<Rightarrow> cfl \<Rightarrow> 14 word" where
  "rssi_field ub x = word_of_int (to_c_int ub (- 8192) 8191 (fmul binary32 x (Fin 10)))"

definition quality_field :: "(cfl \<Rightarrow> int) \<Rightarrow> cfl \<Rightarrow> 2 word" where
  "quality_field ub x = word_of_int (to_c_int ub (- (2 ^ 31)) (2 ^ 31 - 1) x)"

text \<open>
  The loop over \<open>rtdoa->frames\<close>, from frame number \<open>i\<close> on. The result is \<open>None\<close> when it
  writes to an element the array does not have.
\<close>

fun fill_ranges :: "(cfl \<Rightarrow> int) \<Rightarrow> 'f rtdoa_lib \<Rightarrow> 'f \<Rightarrow> nat \<Rightarrow> 'f list
    \<Rightarrow> rtdoabh_tag_results_pkg \<times> tag_stats \<Rightarrow> (rtdoabh_tag_results_pkg \<times> tag_stats) option" where
  "fill_ranges ub L req i [] (p, st) = Some (p, st)"
| "fill_ranges ub L req i (f # fs) (p, st) =
    (let diff = tdoa_between_frames L req f; n = unat (num_ranges p) in
     if isnan diff then fill_ranges ub L req (Suc i) fs (p, st)
     else if length (ranges p) \<le> n then None
     else let diff_mm = diff_to_mm ub diff;
              slot = (ranges p ! n)\<lparr>diff_dist_mm := word_of_int diff_mm\<rparr>;
              p1 = p\<lparr>ranges := (ranges p)[n := slot]\<rparr> in
       if frame_src L f = 0 then fill_ranges ub L req (Suc i) fs (p1, st)
       else let rssi0 = calc_rssi L f; fppl0 = calc_fppl L f;
                st1 = update_range_stats ub i diff_mm rssi0
                        (st\<lparr>s_num_ranges := s_num_ranges st + 1\<rparr>);
                slot1 = slot\<lparr>anchor_addr := frame_src L f, rssi := rssi_field ub rssi0,
                             quality := quality_field ub (estimate_los L rssi0 fppl0)\<rparr>
            in fill_ranges ub L req (Suc i) fs
                 (p1\<lparr>ranges := (ranges p1)[n := slot1], num_ranges := num_ranges p1 + 1\<rparr>, st1))"


section \<open>rtdoa_local_send\<close>

text \<open>\<open>hdr->dlen\<close> is a 15-bit field; the message header has two bytes.\<close>

definition rtdoa_local_send :: "env \<Rightarrow> u8 list \<Rightarrow> nat \<Rightarrow> ('g, int) prog" where
  "rtdoa_local_send E buf dlen = do {
     om \<leftarrow> ask E (Os (MbufGet 0 2));
     if om = 0 then ret (ENOMEM E)
     else do {
       rc \<leftarrow> ask E (Os (MbufCopyInto om 0 (take (dlen mod 2 ^ 15) buf)));
       if rc \<noteq> 0 then do { act (Os (MbufFree om)); ret rc }
       else do {
         rc \<leftarrow> ask E (Os (MqPut om));
         if rc \<noteq> 0 then do { act (Os (MbufFree om)); ret rc }
         else ret 0
       }
     }
   }"


section \<open>rtdoa_backhaul_send_imu_only and rtdoa_backhaul_send\<close>

definition rtdoa_backhaul_send_imu_only ::
    "env \<Rightarrow> nat \<Rightarrow> (rng_head \<Rightarrow> u8 list) \<Rightarrow> u64 \<Rightarrow> ('z bh_globals_scheme, unit) prog" where
  "rtdoa_backhaul_send_imu_only E hl enc t = do {
     upd (\<lambda>g. g\<lparr>g_result_pkg_imu := (g_result_pkg_imu g)
       \<lparr>head := (head (g_result_pkg_imu g))\<lparr>seq_num := seq_num (head (g_result_pkg_imu g)) + 1\<rparr>,
        sensors := (sensors (g_result_pkg_imu g))\<lparr>ts := t\<rparr>\<rparr>\<rparr>);
     p \<leftarrow> gets g_result_pkg_imu;
     rtdoa_local_send E (pkg_bytes enc p) (hl + SENSOR_SIZE);
     upd (\<lambda>g. g\<lparr>g_result_pkg_imu := (g_result_pkg_imu g)\<lparr>sensors := zero_sensors\<rparr>\<rparr>)
   }"

text \<open>The header and the counters at the start of a round.\<close>

definition begin_round :: "rtdoabh_tag_results_pkg \<Rightarrow> rtdoabh_tag_results_pkg" where
  "begin_round p = p\<lparr>head := (head p)\<lparr>seq_num := seq_num (head p) + 1, code := DWT_RTDOABH_CODE\<rparr>,
     num_ranges := 0\<rparr>"

definition clear_round :: "rtdoabh_tag_results_pkg \<Rightarrow> rtdoabh_tag_results_pkg" where
  "clear_round p = p\<lparr>sensors := zero_sensors, ranges := replicate MAXNUM_RANGES zero_range\<rparr>"

text \<open>\<open>dlen\<close>: the packet without its unused range slots.\<close>

definition send_dlen :: "nat \<Rightarrow> rtdoabh_tag_results_pkg \<Rightarrow> nat" where
  "send_dlen hl p = PKG_SIZE hl - RANGE_SIZE * (MAXNUM_RANGES - unat (num_ranges p))"

text \<open>
  The transmission of the filled packet: the rest of the frame from \<open>num_ranges\<close> on, then
  the start at \<open>dx_time\<close>. The result is whether the function goes on to the local bridge.
\<close>

definition transmit_rest :: "env \<Rightarrow> nat \<Rightarrow> (rng_head \<Rightarrow> u8 list) \<Rightarrow> dev \<Rightarrow> u64
    \<Rightarrow> rtdoabh_tag_results_pkg \<Rightarrow> ('z bh_globals_scheme, bool) prog" where
  "transmit_rest E hl enc i dx_time p = (let split_at = SPLIT_AT hl; dlen = send_dlen hl p in do {
     act (Radio (SetDelayStart i dx_time));
     act (Radio (WriteTxFctrl i dlen 0));
     act (Radio (WriteTx i (take (dlen - split_at) (drop split_at (pkg_bytes enc p))) split_at));
     e \<leftarrow> ask E (Radio (StartTx i));
     if e \<noteq> 0 then do {
       upd (\<lambda>g. g\<lparr>g_tag_stats := (g_tag_stats g)\<lparr>s_tx_err := s_tx_err (g_tag_stats g) + 1\<rparr>\<rparr>);
       t \<leftarrow> ask E (Os CputimeGet32);
       u \<leftarrow> ask E (Os (TicksToUsecs (word_of_int t)));
       act (Os (ConsoleWrite (''{\"utime\": '' @ fmt_u (unat (word_of_int u :: u32)) @
         '',\"msg\": \"rtdoabh_start_tx_error(res)\"}'' @ [CHR 0x0A])));
       ret False
     } else do {
       onlyif (1 < int dlen - int split_at)
         (upd (\<lambda>g. g\<lparr>g_tag_stats := (g_tag_stats g)\<lparr>s_tx_ok := s_tx_ok (g_tag_stats g) + 1\<rparr>\<rparr>));
       ret True
     }
   })"

text \<open>The part of the function that follows the loop, up to the label \<open>exit_err\<close>.\<close>

definition send_tail :: "env \<Rightarrow> nat \<Rightarrow> (rng_head \<Rightarrow> u8 list) \<Rightarrow> dev \<Rightarrow> u64
    \<Rightarrow> ('z bh_globals_scheme, unit) prog" where
  "send_tail E hl enc i dx_time = do {
     p \<leftarrow> gets g_result_pkg;
     ok \<leftarrow> (if dx_time \<noteq> 0 then transmit_rest E hl enc i dx_time p else ret True);
     role \<leftarrow> gets g_role;
     onlyif (ok \<and> role = RTDOABH_ROLE_BRIDGE) (do {
       rc \<leftarrow> rtdoa_local_send E (pkg_bytes enc p) (send_dlen hl p);
       ret ()
     })
   }"

definition rtdoa_backhaul_send :: "env \<Rightarrow> nat \<Rightarrow> (rng_head \<Rightarrow> u8 list) \<Rightarrow> 'f rtdoa_lib \<Rightarrow> dev
    \<Rightarrow> 'f rtdoa_instance \<Rightarrow> u64 \<Rightarrow> ('z bh_globals_scheme, unit) prog" where
  "rtdoa_backhaul_send E hl enc L i rtdoa dx_time = do {
     upd (\<lambda>g. g\<lparr>g_result_pkg := begin_round (g_result_pkg g)\<rparr>);
     p0 \<leftarrow> gets g_result_pkg;
     onlyif (dx_time \<noteq> 0) (act (Radio (WriteTx i (take (SPLIT_AT hl + 1) (pkg_bytes enc p0)) 0)));
     upd (\<lambda>g. g\<lparr>g_result_pkg := (g_result_pkg g)\<lparr>ref_anchor_addr := frame_src L (req_frame rtdoa)\<rparr>\<rparr>);
     q \<leftarrow> gets (\<lambda>g. fill_ranges (eub E) L (req_frame rtdoa) 0 (frames rtdoa) (g_result_pkg g, g_tag_stats g));
     (case q of
        None \<Rightarrow> halt
      | Some (p, st) \<Rightarrow> do {
          upd (\<lambda>g. g\<lparr>g_result_pkg := p, g_tag_stats := st\<rparr>);
          send_tail E hl enc i dx_time
        });
     upd (\<lambda>g. g\<lparr>g_result_pkg := clear_round (g_result_pkg g)\<rparr>)
   }"

end
