(* ===== verification/Rtdoa_Print.thy ===== *)
theory Rtdoa_Print
  imports Rtdoa_Data
begin

text \<open>
  \<open>rtdoa_backhaul_print\<close>: the JSON line the bridge writes for a packet. Both settings of
  \<open>RTDOABH_COMPACT_MEAS\<close> are modelled (the flag \<open>compact_meas\<close>; it is 1 in \<open>syscfg.yml\<close>). The
  result is \<open>None\<close> when the function reads a range the array does not have.
  \<open>uwb_dwt_usecs_to_usecs\<close> belongs to the driver and is the parameter \<open>to_us\<close>.
\<close>

definition sep :: "bool \<Rightarrow> string" where
  "sep further = (if further then '','' else '''')"

definition print_ts :: "(cfl \<Rightarrow> int) \<Rightarrow> (u64 \<Rightarrow> cfl) \<Rightarrow> u64 \<Rightarrow> string" where
  "print_ts ub to_us t = (let f = to_us t;
     ts_s = to_c_int ub 0 (2 ^ 64 - 1) (fdiv binary64 f (Fin 1000000));
     ts_tms = to_c_int ub 0 (2 ^ 32 - 1) (fdiv binary64
       (fsub binary64 f (of_c_int binary64 (ts_s * 1000000 mod 2 ^ 64))) (Fin 100))
   in '',\"ts\":\"'' @ fmt_u (unat (word_of_int ts_s :: u64)) @ ''.''
      @ pad0 4 (fmt_u (unat (word_of_int ts_tms :: u32))) @ ''\"'')"

text \<open>\<open>%d.%d\<close> with \<open>k\<close> units behind the point.\<close>

definition print_float :: "(cfl \<Rightarrow> int) \<Rightarrow> int \<Rightarrow> cfl \<Rightarrow> string" where
  "print_float ub k f = fmt_d (int_part ub f) @ ''.'' @ fmt_d (frac_part ub k f)"

definition print_gps :: "(cfl \<Rightarrow> int) \<Rightarrow> rtdoabh_sensor_data \<Rightarrow> string" where
  "print_gps ub d =
     '',\"gps\":[\"'' @ print_float ub 1000000 (float_of_bits (gps_lat d)) @ ''\"''
     @ '',\"'' @ print_float ub 1000000 (float_of_bits (gps_long d)) @ ''\"]''"

definition print_battery :: "(cfl \<Rightarrow> int) \<Rightarrow> rtdoabh_sensor_data \<Rightarrow> string" where
  "print_battery ub d = (let f = fdiv binary32 (fmul binary32
       (of_c_int binary32 (sint (battery_voltage d))) (Fin 5)) (Fin 128)
   in '',\"vbat\":\"'' @ fmt_d (int_part ub f) @ ''.'' @ fmt_0d 2 (frac_part ub 100 f) @ ''\"''
      @ '',\"usb\":'' @ fmt_d (uint (has_usb_power d)))"

text \<open>A vector of three scaled values, as one JSON string.\<close>

definition print_vec :: "(cfl \<Rightarrow> int) \<Rightarrow> int \<Rightarrow> u16 list \<Rightarrow> string" where
  "print_vec ub k xs = ''\"['' @ concat (map (\<lambda>i. (if i = 0 then '''' else '','') @
       print_float ub k (fdiv binary32 (of_c_int binary32 (sint (xs ! i))) (of_c_int binary32 k))) [0..<3])
     @ '']\"''"

definition print_compass :: "u16 list \<Rightarrow> string" where
  "print_compass xs = '',\"m\":['' @ fmt_d (sint (xs ! 0)) @ '','' @ fmt_d (sint (xs ! 1)) @ '',''
     @ fmt_d (sint (xs ! 2)) @ '']''"

definition enabled :: "rtdoabh_sensor_data \<Rightarrow> 14 word \<Rightarrow> bool" where
  "enabled d m \<longleftrightarrow> and (sensors_valid d) m \<noteq> 0"

definition print_sensors :: "(cfl \<Rightarrow> int) \<Rightarrow> rtdoabh_sensor_data \<Rightarrow> string" where
  "print_sensors ub d =
     (if enabled d GPS_LAT_LONG_ENABLED then print_gps ub d else '''')
   @ (if enabled d BATTERY_LEVELS_ENABLED then print_battery ub d else '''')
   @ (if enabled d ACCELEROMETER_ENABLED then '',\"a\":'' @ print_vec ub 1000 (acceleration d) else '''')
   @ (if enabled d GYRO_ENABLED then '',\"g\":'' @ print_vec ub 10 (gyro d) else '''')
   @ (if enabled d COMPASS_ENABLED then print_compass (compass d) else '''')
   @ (if enabled d PRESSURE_ENABLED then '',\"p\":'' @ fmt_d (sint (pressure d) + 101300) else '''')"


section \<open>The measurements\<close>

definition print_addr :: "rtdoabh_range_data \<Rightarrow> string" where
  "print_addr r = ''\"'' @ fmt_x (unat (anchor_addr r)) @ ''\"''"

definition print_ddist :: "rtdoabh_range_data \<Rightarrow> string" where
  "print_ddist r = (let d = sint (diff_dist_mm r); ddist_m = d sdiv 1000;
       ddist_mm = \<bar>d - ddist_m * 1000\<bar>
   in (if d > 0 then '''' else ''-'') @ fmt_d \<bar>ddist_m\<bar> @ ''.'' @ fmt_0d 3 ddist_mm)"

definition rssi_float :: "rtdoabh_range_data \<Rightarrow> cfl" where
  "rssi_float r = fdiv binary32 (of_c_int binary32 (sint (rssi r))) (Fin 10)"

definition print_rssi :: "(cfl \<Rightarrow> int) \<Rightarrow> rtdoabh_range_data \<Rightarrow> string" where
  "print_rssi ub r = print_float ub 10 (rssi_float r)"

definition print_quality :: "rtdoabh_range_data \<Rightarrow> string" where
  "print_quality r = fmt_x (unat (word_of_int (sint (quality r)) :: u32))"

text \<open>One pass of the loop over \<open>j\<close>: the array of one field of all ranges.\<close>

definition print_column :: "string \<Rightarrow> (rtdoabh_range_data \<Rightarrow> string) \<Rightarrow> rtdoabh_range_data list \<Rightarrow> string" where
  "print_column key f rs = ''\"'' @ key @ ''\":[''
     @ concat (map (\<lambda>i. f (rs ! i) @ sep (i + 1 < length rs)) [0..<length rs])"

definition print_compact :: "(cfl \<Rightarrow> int) \<Rightarrow> u16 \<Rightarrow> rtdoabh_range_data list \<Rightarrow> string" where
  "print_compact ub ref rs =
     (if rs = [] then '''' else
        '',\"meas\":{'' @ ''\"ref\":\"'' @ fmt_x (unat ref) @ ''\",''
        @ print_column ''a'' print_addr rs @ ''],''
        @ print_column ''dd'' print_ddist rs @ ''],''
        @ print_column ''rs'' (print_rssi ub) rs @ ''],''
        @ print_column ''qf'' print_quality rs @ '']}'')
     @ ''}'' @ [CHR 0x0A]"

definition print_plain_range :: "(cfl \<Rightarrow> int) \<Rightarrow> bool \<Rightarrow> bool \<Rightarrow> rtdoabh_range_data \<Rightarrow> string" where
  "print_plain_range ub tight further r = (let d = sint (diff_dist_mm r); dist_m = d sdiv 1000 in
     ''{\"addr\":\"'' @ fmt_x (unat (anchor_addr r)) @ ''\",\"ddist\":\"''
     @ (if d < 0 then ''-'' else '''') @ fmt_d \<bar>dist_m\<bar> @ ''.'' @ fmt_0d 3 \<bar>d - dist_m * 1000\<bar>
     @ ''\",\"tqf\":'' @ fmt_d (sint (quality r)) @ '',\"rssi\":\"'' @ print_rssi ub r @ ''\"}''
     @ (if further then '','' else '']'') @ (if tight then '''' else [CHR 0x0A] @ ''  ''))"

definition print_plain :: "(cfl \<Rightarrow> int) \<Rightarrow> bool \<Rightarrow> u16 \<Rightarrow> rtdoabh_range_data list \<Rightarrow> string" where
  "print_plain ub tight ref rs =
     '',\"ref_anchor\":\"'' @ fmt_x (unat ref) @ ''\"''
     @ '',\"meas\":['' @ (if tight \<or> rs = [] then '''' else [CHR 0x0A] @ '' '')
     @ concat (map (\<lambda>i. print_plain_range ub tight (i + 1 < length rs) (rs ! i)) [0..<length rs])
     @ '']}'' @ [CHR 0x0A]"

definition print_prefix :: "(cfl \<Rightarrow> int) \<Rightarrow> (u64 \<Rightarrow> cfl) \<Rightarrow> u32 \<Rightarrow> rtdoabh_tag_results_pkg \<Rightarrow> string" where
  "print_prefix ub to_us mid p = (let d = sensors p in
     ''{\"id\":\"0x'' @ pad0 4 (fmt_x (unat (src_address (head p)))) @ ''\"''
     @ (if is_anchor_data d \<noteq> 0 then '',\"mode\":\"anchor\"'' else '''')
     @ (if ts d \<noteq> 0 then print_ts ub to_us (ts d) else '''')
     @ '',\"mid\":'' @ fmt_d (sint mid)
     @ print_sensors ub d)"

definition rtdoa_backhaul_print :: "(cfl \<Rightarrow> int) \<Rightarrow> (u64 \<Rightarrow> cfl) \<Rightarrow> bool \<Rightarrow> bool \<Rightarrow> u32
    \<Rightarrow> rtdoabh_tag_results_pkg \<Rightarrow> string option" where
  "rtdoa_backhaul_print ub to_us compact_meas tight mid p =
     (let n = unat (num_ranges p) in
      if length (ranges p) < n then None
      else Some (print_prefix ub to_us mid p @
        (if compact_meas then print_compact ub (ref_anchor_addr p) (take n (ranges p))
         else print_plain ub tight (ref_anchor_addr p) (take n (ranges p)))))"

end
