(* ===== verification/Rtdoa_Rx.thy ===== *)
theory Rtdoa_Rx
  imports Rtdoa_Send Rtdoa_Print
begin

text \<open>
  The receiving side of the RTDoA backhaul (\<open>rtdoa_backhaul.c\<close>): the blocking listen, the
  completion callbacks of the radio, the loop that prints the received messages, the
  sensor callbacks and the small setters.

  \<open>rtdoa_backhaul_listen\<close> blocks twice in \<open>os_sem_pend\<close>. It is split at the second one into
  \<open>listen_begin\<close> and \<open>listen_end\<close>, so that the callbacks can run while a caller waits. The
  driver status the function returns is the driver's own and is not kept.
\<close>

section \<open>Listening\<close>

definition stat_inc :: "((u32 \<Rightarrow> u32) \<Rightarrow> tag_stats \<Rightarrow> tag_stats) \<Rightarrow> ('z bh_globals_scheme, unit) prog" where
  "stat_inc f = upd (\<lambda>g. g\<lparr>g_tag_stats := f (\<lambda>n. n + 1) (g_tag_stats g)\<rparr>)"

definition listen_begin :: "env \<Rightarrow> dev \<Rightarrow> u64 \<Rightarrow> u16 \<Rightarrow> ('z bh_globals_scheme, unit) prog" where
  "listen_begin E i dx_time timeout_uus = do {
     err \<leftarrow> ask E (Os (SemPend BhSem));
     c_assert (err = 0);
     upd (\<lambda>g. g\<lparr>g_to_dx_time := dx_time + push_bit 16 (ucast timeout_uus)\<rparr>);
     act (Radio (SetDelayStart i dx_time));
     act (Radio (SetRxTimeout i (uint timeout_uus)));
     e \<leftarrow> ask E (Radio (StartRx i));
     onlyif (e \<noteq> 0) (do {
       err \<leftarrow> ask E (Os (SemRelease BhSem));
       c_assert (err = 0);
       stat_inc s_rx_error_update
     })
   }"

definition listen_end :: "env \<Rightarrow> ('z bh_globals_scheme, unit) prog" where
  "listen_end E = do {
     err \<leftarrow> ask E (Os (SemPend BhSem));
     c_assert (err = 0);
     err \<leftarrow> ask E (Os (SemRelease BhSem));
     c_assert (err = 0);
     upd (\<lambda>g. g\<lparr>g_to_dx_time := 0\<rparr>)
   }"

text \<open>The release every callback ends with: it wakes a waiting listener.\<close>

definition wake_listener :: "env \<Rightarrow> ('g, unit) prog" where
  "wake_listener E = do {
     n \<leftarrow> ask E (Os (SemGetCount BhSem));
     onlyif (n = 0) (do {
       err \<leftarrow> ask E (Os (SemRelease BhSem));
       c_assert (err = 0)
     })
   }"


section \<open>The completion callbacks\<close>

definition tx_complete_cb :: "env \<Rightarrow> uwb_dev \<Rightarrow> ('z bh_globals_scheme, bool) prog" where
  "tx_complete_cb E inst =
     (if d_fctrl inst \<noteq> FCNTL_IEEE_RTDOABH then ret False
      else do {
        t \<leftarrow> gets g_to_dx_time;
        if t \<noteq> 0 then ret False
        else do { wake_listener E; ret True }
      })"

text \<open>\<open>(g_to_dx_time - inst->rxtimestamp) >> 16\<close>, stored in 16 bits.\<close>

definition remaining_uus :: "u64 \<Rightarrow> u64 \<Rightarrow> u16" where
  "remaining_uus t rxts = ucast (drop_bit 16 (t - rxts))"

text \<open>
  A fresh frame: count it, put a copy on the queue. The result is \<open>False\<close> where the code
  returns without waking the listener.
\<close>

definition rx_enqueue :: "env \<Rightarrow> uwb_dev \<Rightarrow> ('z bh_globals_scheme, bool) prog" where
  "rx_enqueue E inst = do {
     stat_inc s_rx_ok_update;
     om \<leftarrow> ask E (Os (MbufGet 0 2));
     if om \<noteq> 0 then do {
       rc \<leftarrow> ask E (Os (MbufCopyInto om 0 (take (d_frame_len inst mod 2 ^ 15) (d_rxbuf inst))));
       if rc \<noteq> 0 then ret False
       else do {
         rc \<leftarrow> ask E (Os (MqPut om));
         ret (rc = 0)
       }
     }
     else do { stat_inc s_rx_drop_update; ret True }
   }"

definition rx_complete_cb :: "env \<Rightarrow> (u8 list \<Rightarrow> rng_head) \<Rightarrow> uwb_dev \<Rightarrow> ('z bh_globals_scheme, bool) prog" where
  "rx_complete_cb E dec inst = do {
     t \<leftarrow> gets g_to_dx_time;
     onlyif (t \<noteq> 0)
       (act (Radio (SetRxTimeout (d_idx inst) (uint (remaining_uus t (d_rxtimestamp inst))))));
     (if d_fctrl inst \<noteq> FCNTL_IEEE_RTDOABH then ret False
      else let frame = dec (d_rxbuf inst) in
        if code frame < DWT_RTDOABH_CODE then ret False
        else do {
          g \<leftarrow> gets (\<lambda>g. g);
          if (dst_address frame \<noteq> d_my_short_address inst \<and> dst_address frame \<noteq> BROADCAST E)
             \<or> g_role g = RTDOABH_ROLE_INVALID \<or> g_role g = RTDOABH_ROLE_PRODUCER
          then do { wake_listener E; ret True }
          else if SENSOR_SIZE \<le> d_frame_len inst then
            (if src_address frame = last_address g \<and> seq_num frame = last_seq_num g
             then do { stat_inc s_rx_drop_update; ret True }
             else do {
               upd (\<lambda>g. g\<lparr>last_address := src_address frame, last_seq_num := seq_num frame\<rparr>);
               go_on \<leftarrow> rx_enqueue E inst;
               onlyif go_on (wake_listener E);
               ret True
             })
          else do { wake_listener E; ret True }
        })
   }"


section \<open>Printing the received messages\<close>

text \<open>The \<open>printf\<close> of the packet, which also counts the lines printed.\<close>

definition print_pkg :: "env \<Rightarrow> (u64 \<Rightarrow> cfl) \<Rightarrow> rtdoabh_tag_results_pkg \<Rightarrow> ('z bh_globals_scheme, unit) prog" where
  "print_pkg E to_us p = do {
     mid \<leftarrow> gets g_msg_id;
     (case rtdoa_backhaul_print (eub E) to_us True True mid p of
        None \<Rightarrow> halt
      | Some line \<Rightarrow> do {
          act (Os (ConsoleWrite line));
          upd (\<lambda>g. g\<lparr>g_msg_id := g_msg_id g + 1\<rparr>)
        })
   }"

text \<open>The local packet: cleared, then overwritten by what fits of the message.\<close>

definition received_pkg :: "nat \<Rightarrow> (u8 list \<Rightarrow> rng_head) \<Rightarrow> u8 list \<Rightarrow> rtdoabh_tag_results_pkg" where
  "received_pkg hl dec bs = pkg_of hl dec (overlay (replicate (PKG_SIZE hl) 0) 0 bs)"

definition process_message :: "env \<Rightarrow> nat \<Rightarrow> (u8 list \<Rightarrow> rng_head) \<Rightarrow> (u64 \<Rightarrow> cfl) \<Rightarrow> int
    \<Rightarrow> ('z bh_globals_scheme, unit) prog" where
  "process_message E hl dec to_us om = do {
     len \<leftarrow> ask E (Os (MbufPktLen om));
     role \<leftarrow> gets g_role;
     onlyif (role = RTDOABH_ROLE_BRIDGE) (do {
       (rc, bs) \<leftarrow> ask_bytes E (Os (MbufCopyData om 0 (min (nat len) (PKG_SIZE hl))));
       onlyif (rc = 0) (print_pkg E to_us (received_pkg hl dec bs))
     });
     act (Os (MbufFree om))
   }"

text \<open>
  The loop runs until the queue is empty. \<open>n\<close> bounds the number of messages; the result
  is whether the loop has ended.
\<close>

fun process_rx_data_queue :: "nat \<Rightarrow> env \<Rightarrow> nat \<Rightarrow> (u8 list \<Rightarrow> rng_head) \<Rightarrow> (u64 \<Rightarrow> cfl)
    \<Rightarrow> ('z bh_globals_scheme, bool) prog" where
  "process_rx_data_queue 0 E hl dec to_us = ret False"
| "process_rx_data_queue (Suc n) E hl dec to_us = do {
     om \<leftarrow> ask E (Os MqGet);
     if om = 0 then ret True
     else do {
       process_message E hl dec to_us om;
       process_rx_data_queue n E hl dec to_us
     }
   }"


section \<open>Sensors\<close>

datatype sensor_type_t = SENSOR_TYPE_ACCELEROMETER | SENSOR_TYPE_LINEAR_ACCEL
  | SENSOR_TYPE_GRAVITY | SENSOR_TYPE_MAGNETIC_FIELD | SENSOR_TYPE_GYROSCOPE
  | SENSOR_TYPE_PRESSURE | SENSOR_TYPE_OTHER

text \<open>A reading: its three axes (or the one value of a pressure) with their validity flags.\<close>

record sensor_reading =
  s_x :: cfl
  s_y :: cfl
  s_z :: cfl
  s_x_is_valid :: bool
  s_y_is_valid :: bool
  s_z_is_valid :: bool

definition s16 :: "(cfl \<Rightarrow> int) \<Rightarrow> cfl \<Rightarrow> u16" where
  "s16 ub x = word_of_int (to_c_int ub (- (2 ^ 15)) (2 ^ 15 - 1) x)"

definition all_valid :: "sensor_reading \<Rightarrow> bool" where
  "all_valid r \<longleftrightarrow> s_x_is_valid r \<and> s_y_is_valid r \<and> s_z_is_valid r"

definition set_valid :: "14 word \<Rightarrow> rtdoabh_sensor_data \<Rightarrow> rtdoabh_sensor_data" where
  "set_valid m d = d\<lparr>sensors_valid := or (sensors_valid d) m\<rparr>"

definition store_sensor :: "(cfl \<Rightarrow> int) \<Rightarrow> sensor_type_t \<Rightarrow> sensor_reading
    \<Rightarrow> rtdoabh_sensor_data \<Rightarrow> rtdoabh_sensor_data" where
  "store_sensor ub t r d =
     (if t \<in> {SENSOR_TYPE_ACCELEROMETER, SENSOR_TYPE_LINEAR_ACCEL, SENSOR_TYPE_GRAVITY} then
        (if all_valid r then set_valid ACCELEROMETER_ENABLED (d\<lparr>acceleration := (acceleration d)
            [2 := s16 ub (roundf (fmul binary32 (Fin 1000) (s_x r))),
             0 := s16 ub (roundf (fmul binary32 (Fin 1000) (s_y r))),
             1 := s16 ub (roundf (fmul binary32 (Fin 1000) (s_z r)))]\<rparr>) else d)
      else if t = SENSOR_TYPE_MAGNETIC_FIELD then
        (if all_valid r then set_valid COMPASS_ENABLED (d\<lparr>compass := (compass d)
            [2 := s16 ub (s_x r), 1 := s16 ub (s_y r), 0 := s16 ub (s_z r)]\<rparr>) else d)
      else if t = SENSOR_TYPE_GYROSCOPE then
        (if all_valid r then set_valid GYRO_ENABLED (d\<lparr>gyro := (gyro d)
            [2 := s16 ub (roundf (fmul binary32 (Fin 10) (s_x r))),
             0 := s16 ub (roundf (fmul binary32 (Fin 10) (s_y r))),
             1 := s16 ub (roundf (fmul binary32 (Fin 10) (s_z r)))]\<rparr>) else d)
      else if t = SENSOR_TYPE_PRESSURE then
        (if s_x_is_valid r then set_valid PRESSURE_ENABLED (d\<lparr>pressure :=
            s16 ub (fsub binary32 (s_x r) (of_c_int binary32 101300))\<rparr>) else d)
      else d)"

definition upd_imu :: "(rtdoabh_sensor_data \<Rightarrow> rtdoabh_sensor_data) \<Rightarrow> ('z bh_globals_scheme, unit) prog" where
  "upd_imu f = upd (\<lambda>g. g\<lparr>g_result_pkg_imu := (g_result_pkg_imu g)
     \<lparr>sensors := f (sensors (g_result_pkg_imu g))\<rparr>\<rparr>)"

definition rtdoa_backhaul_sensor_data_cb :: "env \<Rightarrow> sensor_type_t \<Rightarrow> sensor_reading
    \<Rightarrow> ('z bh_globals_scheme, int) prog" where
  "rtdoa_backhaul_sensor_data_cb E t r = do { upd_imu (store_sensor (eub E) t r); ret 0 }"

definition battery_field :: "(cfl \<Rightarrow> int) \<Rightarrow> cfl \<Rightarrow> u8" where
  "battery_field ub v = word_of_int (to_c_int ub (- 128) 127
     (fdiv binary64 (fmul binary32 v (Fin 128)) (Fin 5)))"

definition rtdoa_backhaul_battery_cb :: "env \<Rightarrow> cfl \<Rightarrow> ('z bh_globals_scheme, unit) prog" where
  "rtdoa_backhaul_battery_cb E v = upd_imu (\<lambda>d. set_valid BATTERY_LEVELS_ENABLED
     (d\<lparr>battery_voltage := battery_field (eub E) v\<rparr>))"

definition rtdoa_backhaul_usb_cb :: "cfl \<Rightarrow> ('z bh_globals_scheme, unit) prog" where
  "rtdoa_backhaul_usb_cb v = upd_imu (\<lambda>d. d\<lparr>has_usb_power := of_bool (fless (Fin 3) v)\<rparr>)"


section \<open>Setters and initialisation\<close>

definition rtdoa_backhaul_set_role :: "rtdoa_backhaul_role_t \<Rightarrow> ('z bh_globals_scheme, unit) prog" where
  "rtdoa_backhaul_set_role r = upd (\<lambda>g. g\<lparr>g_role := r\<rparr>)"

definition rtdoa_backhaul_set_a2a :: "('z bh_globals_scheme, unit) prog" where
  "rtdoa_backhaul_set_a2a = upd (\<lambda>g. g\<lparr>g_result_pkg := (g_result_pkg g)
     \<lparr>sensors := (sensors (g_result_pkg g))\<lparr>is_anchor_data := 1\<rparr>\<rparr>\<rparr>)"

definition rtdoa_backhaul_set_ts :: "u64 \<Rightarrow> ('z bh_globals_scheme, unit) prog" where
  "rtdoa_backhaul_set_ts t = upd (\<lambda>g. g\<lparr>g_result_pkg := (g_result_pkg g)
     \<lparr>sensors := (sensors (g_result_pkg g))\<lparr>ts := t\<rparr>\<rparr>\<rparr>)"

definition rtdoa_backhaul_queue_size :: "env \<Rightarrow> ('g, int) prog" where
  "rtdoa_backhaul_queue_size E = do {
     n \<leftarrow> ask E (Os (MempoolBlocks ''rtdoabh_mpool''));
     k \<leftarrow> ask E (Os (MempoolFree ''rtdoabh_mpool''));
     ret (n - k)
   }"

definition RTDOABH_NUM_MBUFS :: nat where "RTDOABH_NUM_MBUFS = 64"

definition create_mbuf_pool :: "env \<Rightarrow> ('g, unit) prog" where
  "create_mbuf_pool E = do {
     rc \<leftarrow> ask E (Os (MempoolInit ''rtdoabh_mpool'' RTDOABH_NUM_MBUFS));
     c_assert (rc = 0);
     rc \<leftarrow> ask E (Os (MbufPoolInit ''rtdoabh_mpool'' RTDOABH_NUM_MBUFS));
     c_assert (rc = 0)
   }"

definition set_src :: "u16 \<Rightarrow> rtdoabh_tag_results_pkg \<Rightarrow> rtdoabh_tag_results_pkg" where
  "set_src a p = p\<lparr>head := (head p)\<lparr>src_address := a\<rparr>\<rparr>"

definition rtdoa_backhaul_init :: "env \<Rightarrow> uwb_dev option \<Rightarrow> ('z bh_globals_scheme, unit) prog" where
  "rtdoa_backhaul_init E inst = (case inst of None \<Rightarrow> halt | Some i \<Rightarrow> do {
     create_mbuf_pool E;
     act (Os MqInit);
     upd (\<lambda>g. g\<lparr>g_result_pkg := set_src (d_my_short_address i) (g_result_pkg g)\<rparr>);
     upd (\<lambda>g. g\<lparr>g_result_pkg_imu := set_src (d_my_short_address i) (g_result_pkg_imu g)\<rparr>);
     act (Net (MacAppendInterface ''UWBEXT_RTDOA_BH''))
   })"

definition rtdoa_backhaul_pkg_init :: "env \<Rightarrow> uwb_dev option \<Rightarrow> ('z bh_globals_scheme, unit) prog" where
  "rtdoa_backhaul_pkg_init E inst = do {
     rtdoa_backhaul_init E inst;
     err \<leftarrow> ask E (Os (SemInit BhSem 1));
     c_assert (err = 0);
     rc \<leftarrow> ask E (Os (StatsInit ''rtdoabh''));
     c_assert (rc = 0)
   }"

end
