(* ===== verification/Rtdoa_Tag.thy ===== *)
theory Rtdoa_Tag
  imports Network Rtdoa_Rx
begin

text \<open>
  \<open>apps/rtdoa_tag/src/main.c\<close>: the tag that listens for the anchors' signal and hands its
  measurements to the RTDoA backhaul, whose globals its own extend. The sensor timer reads the
  sensors (the reading of one sensor may be tried again without end; the loop takes fuel),
  watches the battery and sends the readings. The sensor framework calls
  \<open>rtdoa_backhaul_sensor_data_cb\<close> with a reading when it has one; \<open>decode\<close> is its layout.
\<close>

record rtag_globals = bh_globals +
  last_batt_update :: u32
  last_mp_update :: u32
  g_battery_voltage :: cfl
  uwb_config_updated_rt :: bool

record rtag_build =
  BATT_V_PIN :: bool
  USB_V_PIN :: bool
  IMU_RATE :: nat


section \<open>Sensors\<close>

fun sensor_name :: "sensor_type_t \<Rightarrow> string" where
  "sensor_name SENSOR_TYPE_ACCELEROMETER = ''accelerometer''"
| "sensor_name SENSOR_TYPE_LINEAR_ACCEL = ''linear_accel''"
| "sensor_name SENSOR_TYPE_GRAVITY = ''gravity''"
| "sensor_name SENSOR_TYPE_MAGNETIC_FIELD = ''magnetic_field''"
| "sensor_name SENSOR_TYPE_GYROSCOPE = ''gyroscope''"
| "sensor_name SENSOR_TYPE_PRESSURE = ''pressure''"
| "sensor_name SENSOR_TYPE_OTHER = ''other''"

text \<open>\<open>os_cputime_get32() - last > os_cputime_usecs_to_ticks(period)\<close>, in unsigned arithmetic.\<close>

definition due :: "env \<Rightarrow> u32 \<Rightarrow> nat \<Rightarrow> ('g, bool) prog" where
  "due E previous period = do {
     t \<leftarrow> ask E (Os CputimeGet32);
     p \<leftarrow> ask E (Os (UsecsToTicks period));
     ret ((word_of_int p :: u32) < word_of_int t - previous)
   }"

text \<open>The sensors to read: compass and pressure at most twenty times a second.\<close>

definition choose_sensors :: "env \<Rightarrow> (rtag_globals, sensor_type_t list) prog" where
  "choose_sensors E = do {
     prev \<leftarrow> gets last_mp_update;
     d \<leftarrow> due E prev 50000;
     if d then do {
       t \<leftarrow> ask E (Os CputimeGet32);
       upd (\<lambda>g. g\<lparr>last_mp_update := word_of_int t\<rparr>);
       ret [SENSOR_TYPE_ACCELEROMETER, SENSOR_TYPE_GYROSCOPE, SENSOR_TYPE_MAGNETIC_FIELD, SENSOR_TYPE_PRESSURE]
     }
     else ret [SENSOR_TYPE_ACCELEROMETER, SENSOR_TYPE_GYROSCOPE]
   }"

text \<open>One pass of the loop: the return code, 0 when there is no such sensor.\<close>

definition read_sensor :: "env \<Rightarrow> (u8 list \<Rightarrow> sensor_reading) \<Rightarrow> sensor_type_t \<Rightarrow> ('z bh_globals_scheme, int) prog" where
  "read_sensor E decode t = do {
     s \<leftarrow> ask E (Sys (''sensor_mgr_find_next_bytype '' @ sensor_name t) []);
     if s = 0 then ret 0
     else do {
       (rc, bs) \<leftarrow> ask_bytes E (Sys (''sensor_read '' @ sensor_name t) [TICKS_PER_SEC E sdiv 100]);
       onlyif (bs \<noteq> []) (do { x \<leftarrow> rtdoa_backhaul_sensor_data_cb E t (decode bs); ret () });
       ret rc
     }
   }"

text \<open>The loop; the result is whether it ended within its fuel.\<close>

fun read_sensors :: "nat \<Rightarrow> env \<Rightarrow> (u8 list \<Rightarrow> sensor_reading) \<Rightarrow> sensor_type_t list
    \<Rightarrow> ('z bh_globals_scheme, bool) prog" where
  "read_sensors n E decode [] = ret True"
| "read_sensors 0 E decode (t # rest) = ret False"
| "read_sensors (Suc n) E decode (t # rest) = do {
     rc \<leftarrow> read_sensor E decode t;
     if rc \<noteq> 0 then read_sensors n E decode (t # rest) else read_sensors n E decode rest
   }"


section \<open>Battery\<close>

definition mv2V :: cfl where
  "mv2V = fin binary32 (1 / 1000)"

definition bvf :: cfl where
  "bvf = fin binary32 (1 / 10)"

text \<open>The first reading is taken as it is, later ones are averaged into the running value.\<close>

definition filter_battery :: "cfl \<Rightarrow> int \<Rightarrow> cfl" where
  "filter_battery g mv =
     (if fless (Fin 5) g then fmul binary32 (of_c_int binary32 mv) mv2V
      else fconv binary32 (fadd binary64 (fmul binary64 g (fsub binary64 (Fin 1) bvf))
        (fmul binary32 (fmul binary32 bvf (of_c_int binary32 mv)) mv2V)))"

definition read_mv :: "env \<Rightarrow> bool \<Rightarrow> string \<Rightarrow> ('g, int) prog" where
  "read_mv E pin f = (if pin then do { x \<leftarrow> ask E (Sys f []); ret (sint (word_of_int x :: u16)) } else ret (- 1))"

text \<open>The waiting loop of \<open>low_battery_mode\<close>: blink, let other events run, read again.\<close>

definition low_battery_wait :: "env \<Rightarrow> rtag_build \<Rightarrow> int \<Rightarrow> ('g, int) prog" where
  "low_battery_wait E b mv = do {
     put (''{\"battery_low\"='' @ fmt_d mv @ '',\"usb\"='' @ fmt_d 0 @ ''}'' @ [CHR 0x0A]);
     for_each [0..<3] (\<lambda>i. do {
       act (Os (GpioWrite True));
       act (Os (TimeDelay 1));
       act (Os (GpioWrite False));
       act (Os (TimeDelay (nat (TICKS_PER_SEC E div 10))))
     });
     for_each [0..<50] (\<lambda>i. do {
       ev \<leftarrow> ask E (Sys ''dpl_eventq_get_no_wait'' []);
       onlyif (ev \<noteq> 0) (act (Sys ''dpl_event_run'' [ev]));
       act (Os (TimeDelay (nat (TICKS_PER_SEC E div 10))))
     });
     read_mv E (BATT_V_PIN b) ''hal_bsp_read_battery_voltage''
   }"

fun low_battery_loop :: "nat \<Rightarrow> env \<Rightarrow> rtag_build \<Rightarrow> int \<Rightarrow> ('g, int option) prog" where
  "low_battery_loop n E b mv =
     (if 3000 \<le> mv then ret (Some mv)
      else case n of 0 \<Rightarrow> ret None
      | Suc k \<Rightarrow> do { mv' \<leftarrow> low_battery_wait E b mv; low_battery_loop k E b mv' })"

declare low_battery_loop.simps [simp del]

text \<open>The radio is shut down before the loop; after it the system restarts, which ends the run.\<close>

definition low_battery_enter :: "env \<Rightarrow> ('g, unit) prog" where
  "low_battery_enter E = do {
     act (Net TdmaStop);
     act (Net CcpStop);
     act (Os IrqDisable);
     act (SetField ''inst->config.rxauto_enable'' 0);
     act (Radio (ForceTrxOff 0));
     act (Radio (MacConfig 0));
     act (Radio (SetRxTimeout 0 1));
     act (Radio (ForceTrxOff 0));
     act (Os (TimeDelay (nat (TICKS_PER_SEC E div 10))));
     act (Radio (SleepConfig 0));
     act (Radio (EnterSleep 0))
   }"

definition low_battery_mode :: "nat \<Rightarrow> env \<Rightarrow> rtag_build \<Rightarrow> ('g, unit) prog" where
  "low_battery_mode fuel E b = do {
     low_battery_enter E;
     mv \<leftarrow> read_mv E (BATT_V_PIN b) ''hal_bsp_read_battery_voltage'';
     r \<leftarrow> low_battery_loop fuel E b mv;
     (case r of None \<Rightarrow> ret ()
      | Some mv \<Rightarrow> do {
          put (''{\"rebooting at mv\"='' @ fmt_d mv @ ''}'' @ [CHR 0x0A]);
          act (Os (TimeDelay (nat (TICKS_PER_SEC E))));
          act (Os SystemReset);
          halt
        })
   }"

definition update_battery :: "nat \<Rightarrow> env \<Rightarrow> rtag_build \<Rightarrow> (rtag_globals, unit) prog" where
  "update_battery fuel E b = do {
     t \<leftarrow> ask E (Os CputimeGet32);
     upd (\<lambda>g. g\<lparr>last_batt_update := word_of_int t\<rparr>);
     mv \<leftarrow> read_mv E (BATT_V_PIN b) ''hal_bsp_read_battery_voltage'';
     onlyif (- 1 < mv) (do {
       upd (\<lambda>g. g\<lparr>g_battery_voltage := filter_battery (g_battery_voltage g) mv\<rparr>);
       v \<leftarrow> gets g_battery_voltage;
       rtdoa_backhaul_battery_cb E v
     });
     usb \<leftarrow> read_mv E (USB_V_PIN b) ''hal_bsp_read_usb_voltage'';
     onlyif (- 1 < usb) (rtdoa_backhaul_usb_cb (fmul binary32 (of_c_int binary32 usb) mv2V));
     v \<leftarrow> gets g_battery_voltage;
     onlyif (fless v (fin binary64 (29 / 10)) \<and> usb < 3000) (low_battery_mode fuel E b)
   }"


section \<open>The sensor timer\<close>

definition send_readings :: "env \<Rightarrow> nat \<Rightarrow> (rng_head \<Rightarrow> u8 list) \<Rightarrow> u64 \<Rightarrow> ('z bh_globals_scheme, unit) prog" where
  "send_readings E hl enc local_ts = do {
     n \<leftarrow> rtdoa_backhaul_queue_size E;
     onlyif (\<not> 2 < n) (do {
       valid \<leftarrow> ask E (GetField ''ccp->status.valid'');
       if valid \<noteq> 0 then do {
         t \<leftarrow> ask E (Net (WcsLocalToMaster local_ts));
         rtdoa_backhaul_send_imu_only E hl enc (drop_bit 16 (word_of_int t))
       }
       else rtdoa_backhaul_send_imu_only E hl enc 0
     })
   }"

text \<open>The result is whether the sensor loop ended within its fuel; if not, nothing after it happens.\<close>

definition sensor_timer_ev_cb :: "nat \<Rightarrow> env \<Rightarrow> rtag_build \<Rightarrow> nat \<Rightarrow> (rng_head \<Rightarrow> u8 list)
    \<Rightarrow> (u8 list \<Rightarrow> sensor_reading) \<Rightarrow> (rtag_globals, bool) prog" where
  "sensor_timer_ev_cb fuel E b hl enc decode = do {
     local_ts \<leftarrow> ask E (Os (ReadSystime 0));
     types \<leftarrow> choose_sensors E;
     done \<leftarrow> read_sensors fuel E decode types;
     if \<not> done then ret False
     else do {
       prev \<leftarrow> gets last_batt_update;
       d \<leftarrow> due E prev 1000000;
       onlyif d (update_battery fuel E b);
       send_readings E hl enc (word_of_int local_ts);
       onlyif (IMU_RATE b \<noteq> 0) (act (Os (CalloutReset SensorCallout (TICKS_PER_SEC E sdiv int (IMU_RATE b)))));
       ret True
     }
   }"

definition init_sensor_timer :: "rtag_build \<Rightarrow> (rtag_globals, unit) prog" where
  "init_sensor_timer b = onlyif (IMU_RATE b \<noteq> 0) (act (Os (CalloutReset SensorCallout 0)))"


section \<open>Slots\<close>

definition uwb_config_upd_cb_tag :: "env \<Rightarrow> (rtag_globals, int) prog" where
  "uwb_config_upd_cb_tag E = do {
     n \<leftarrow> ask E (Os (SemGetCount CcpSem));
     valid \<leftarrow> (if n = 0 then ret 0 else ask E (GetField ''ccp->status.valid''));
     if n = 0 \<or> valid = 0 then do {
       act (Radio (MacConfig 0));
       act (Radio (TxrfConfig 0));
       n \<leftarrow> ask E (Os (SemGetCount CcpSem));
       onlyif (n = 0) (act (Radio (StartRx 0)));
       ret 0
     }
     else do { upd (\<lambda>g. g\<lparr>uwb_config_updated_rt := True\<rparr>); ret 0 }
   }"

definition rtdoa_slot_timer_cb_tag :: "env \<Rightarrow> nat \<Rightarrow> (rng_head \<Rightarrow> u8 list) \<Rightarrow> 'f rtdoa_lib \<Rightarrow> 'f rtdoa_instance
    \<Rightarrow> slot_view \<Rightarrow> ('z bh_globals_scheme, unit) prog" where
  "rtdoa_slot_timer_cb_tag E hl enc L r v = unless_ccp E (do {
     act (Os (GpioWrite True));
     t \<leftarrow> ask E (Net (TdmaRxSlotStart (v_idx v)));
     e \<leftarrow> ask E (Net (RtdoaListen UWB_BLOCKING (word_of_int t) (uint (listen_window v))));
     onlyif (e \<noteq> 0) (put (''#rse'' @ [CHR 0x0A]));
     act (Os (GpioWrite False));
     unless_ccp E (do {
       m \<leftarrow> ask E (Net (WcsLocalToMaster (word_of_int t)));
       rtdoa_backhaul_set_ts (drop_bit 16 (word_of_int m));
       rtdoa_backhaul_send E hl enc L 0 r 0
     })
   })"

definition nmgr_slot_timer_cb_tag :: "env \<Rightarrow> slot_view \<Rightarrow> (rtag_globals, unit) prog" where
  "nmgr_slot_timer_cb_tag E v = do {
     p \<leftarrow> gets uwb_config_updated_rt;
     onlyif p (do {
       act (Radio (MacConfig 0));
       act (Radio (TxrfConfig 0));
       upd (\<lambda>g. g\<lparr>uwb_config_updated_rt := False\<rparr>)
     });
     unless_ccp E (do {
       t \<leftarrow> ask E (Net (TdmaTxSlotStart (v_idx v)));
       sent \<leftarrow> ask E (Net (NmgrProcessTx (word_of_int t)));
       onlyif (sent = 0) (do {
         t \<leftarrow> ask E (Net (TdmaRxSlotStart (v_idx v)));
         act (Net (NmgrListen UWB_BLOCKING (word_of_int t) (uint (listen_window v))))
       })
     })
   }"


section \<open>Start-up\<close>

definition tag_plan :: "nat \<Rightarrow> (nat \<times> string) list" where
  "tag_plan nslots = map (\<lambda>i. (i, if i mod 12 = 0 then ''nmgr_slot_timer_cb'' else ''rtdoa_slot_timer_cb''))
     (filter (\<lambda>i. i \<noteq> 31) [2..<nslots])"

definition tdma_allocate_slots_tag :: "env \<Rightarrow> nat \<Rightarrow> (rtag_globals, unit) prog" where
  "tdma_allocate_slots_tag E nslots = do {
     need_inst E ''UWBEXT_NMGR_UWB'';
     need_inst E ''UWBEXT_RTDOA'';
     assign_plan (tag_plan nslots)
   }"

definition rtag_main :: "env \<Rightarrow> board \<Rightarrow> rtag_build \<Rightarrow> u64 \<Rightarrow> bool \<Rightarrow> nat \<Rightarrow> (rtag_globals, unit) prog" where
  "rtag_main E bd b long_address esp_passthrough nslots = do {
     act (Sys ''sysinit'' []);
     led_init ''LED_BLINK_PIN'' 1;
     register_config;
     for_each [(''rxauto_enable'', 1), (''trxoff_enable'', 1), (''rxdiag_enable'', 1), (''sleep_enable'', 1),
         (''dblbuffon_enabled'', 0)]
       (\<lambda>(f, x). act (SetField (''udev->config.'' @ f) x));
     act (Radio (SetDblRxBuff 0 False));
     act (SetField ''udev->slot_id'' 0);
     act (Sys ''ble_init'' [uint long_address]);
     for_each (identity_pieces False [] (board_id bd)) put;
     need_inst E ''UWBEXT_CCP'';
     need_inst E ''UWBEXT_TDMA'';
     tdma_allocate_slots_tag E nslots;
     act (Net (CcpStart CCP_ROLE_SLAVE));
     rtdoa_backhaul_set_role RTDOABH_ROLE_BRIDGE;
     init_sensor_timer b;
     onlyif esp_passthrough (act (Sys ''hal_bsp_esp_bypass'' [1]))
   }"

end
