(* ===== verification/Rtdoa_Send_Props.thy ===== *)
theory Rtdoa_Send_Props
  imports Rtdoa_Send
begin

text \<open>
  Correctness of the sending side: what the range loop stores and exactly when it leaves
  the array, what bytes reach the transmitter and the local bridge, that message buffers
  are not leaked, and that a round starts from a cleared packet.
\<close>


section \<open>The range loop\<close>

definition measured :: "'f rtdoa_lib \<Rightarrow> 'f \<Rightarrow> 'f \<Rightarrow> bool" where
  "measured L req f \<longleftrightarrow> \<not> isnan (tdoa_between_frames L req f)"

definition usable :: "'f rtdoa_lib \<Rightarrow> 'f \<Rightarrow> 'f \<Rightarrow> bool" where
  "usable L req f \<longleftrightarrow> measured L req f \<and> frame_src L f \<noteq> 0"

text \<open>The specification of one stored range.\<close>

definition range_entry :: "(cfl \<Rightarrow> int) \<Rightarrow> 'f rtdoa_lib \<Rightarrow> 'f \<Rightarrow> 'f \<Rightarrow> rtdoabh_range_data" where
  "range_entry ub L req f =
    \<lparr>anchor_addr = frame_src L f,
     diff_dist_mm = word_of_int (diff_to_mm ub (tdoa_between_frames L req f)),
     rssi = rssi_field ub (calc_rssi L f),
     quality = quality_field ub (estimate_los L (calc_rssi L f) (calc_fppl L f))\<rparr>"

text \<open>A measured frame arrives when \<open>cap\<close> ranges are already stored.\<close>

definition overflows :: "'f rtdoa_lib \<Rightarrow> 'f \<Rightarrow> nat \<Rightarrow> nat \<Rightarrow> 'f list \<Rightarrow> bool" where
  "overflows L req cap n fs \<longleftrightarrow> (\<exists>xs f ys. fs = xs @ f # ys \<and> measured L req f \<and>
     cap \<le> n + length (filter (usable L req) xs))"

lemma overflows_Nil [simp]: "\<not> overflows L req cap n []"
  by (simp add: overflows_def)

lemma overflows_Cons [simp]:
  "overflows L req cap n (f # fs) \<longleftrightarrow> (measured L req f \<and> cap \<le> n) \<or>
     overflows L req cap (n + (if usable L req f then 1 else 0)) fs"
proof
  assume "overflows L req cap n (f # fs)"
  then obtain xs g ys where *: "f # fs = xs @ g # ys" "measured L req g"
    "cap \<le> n + length (filter (usable L req) xs)"
    by (auto simp: overflows_def)
  show "(measured L req f \<and> cap \<le> n) \<or>
     overflows L req cap (n + (if usable L req f then 1 else 0)) fs"
  proof (cases xs)
    case Nil
    with * show ?thesis by simp
  next
    case (Cons x xs')
    with * have "overflows L req cap (n + (if usable L req f then 1 else 0)) fs"
      unfolding overflows_def by (intro exI [of _ xs'] exI [of _ g] exI [of _ ys]) auto
    then show ?thesis ..
  qed
next
  assume "(measured L req f \<and> cap \<le> n) \<or>
     overflows L req cap (n + (if usable L req f then 1 else 0)) fs"
  then show "overflows L req cap n (f # fs)"
  proof
    assume "measured L req f \<and> cap \<le> n"
    then show ?thesis unfolding overflows_def by (intro exI [of _ "[]"]) auto
  next
    assume "overflows L req cap (n + (if usable L req f then 1 else 0)) fs"
    then obtain xs g ys where "fs = xs @ g # ys" "measured L req g"
      "cap \<le> n + (if usable L req f then 1 else 0) + length (filter (usable L req) xs)"
      by (auto simp: overflows_def)
    then show ?thesis
      unfolding overflows_def by (intro exI [of _ "f # xs"] exI [of _ g] exI [of _ ys]) auto
  qed
qed

lemma unat_plus_1_u8: "unat (n :: u8) < 255 \<Longrightarrow> unat (n + 1) = Suc (unat n)"
  by (simp add: unat_word_ariths)

lemma fill_ranges_None:
  assumes "length (ranges p) < 256" and "unat (num_ranges p) \<le> length (ranges p)"
  shows "fill_ranges ub L req i fs (p, st) = None \<longleftrightarrow>
     overflows L req (length (ranges p)) (unat (num_ranges p)) fs"
  using assms
proof (induction fs arbitrary: i p st)
  case Nil
  then show ?case by simp
next
  case (Cons f fs)
  then show ?case
    by (auto simp: Let_def measured_def usable_def unat_plus_1_u8 not_le)
qed

lemma fill_ranges_Some:
  assumes "fill_ranges ub L req i fs (p, st) = Some (p', st')"
    and "length (ranges p) < 256" and "unat (num_ranges p) \<le> length (ranges p)"
  shows "unat (num_ranges p') = unat (num_ranges p) + length (filter (usable L req) fs)
    \<and> unat (num_ranges p') \<le> length (ranges p)
    \<and> take (unat (num_ranges p')) (ranges p') =
        take (unat (num_ranges p)) (ranges p) @ map (range_entry ub L req) (filter (usable L req) fs)
    \<and> length (ranges p') = length (ranges p)
    \<and> head p' = head p \<and> sensors p' = sensors p \<and> ref_anchor_addr p' = ref_anchor_addr p"
  using assms
proof (induction fs arbitrary: i p st)
  case Nil
  then show ?case by simp
next
  case (Cons f fs)
  let ?n = "unat (num_ranges p)"
  show ?case
  proof (cases "measured L req f")
    case False
    then have skip: "filter (usable L req) (f # fs) = filter (usable L req) fs"
      by (simp add: usable_def)
    have "fill_ranges ub L req (Suc i) fs (p, st) = Some (p', st')"
      using Cons.prems(1) False by (simp add: measured_def)
    then show ?thesis unfolding skip by (rule Cons.IH [OF _ Cons.prems(2,3)])
  next
    case True
    with Cons.prems have n: "?n < length (ranges p)"
      by (auto simp: Let_def measured_def split: if_splits)
    show ?thesis
    proof (cases "frame_src L f = 0")
      case True
      with Cons.prems n \<open>measured L req f\<close> show ?thesis
        by (auto simp: Let_def measured_def usable_def dest!: Cons.IH)
    next
      case False
      have "unat (num_ranges p + 1) = Suc ?n" using n Cons.prems(2) by (intro unat_plus_1_u8) simp
      with Cons.prems n \<open>measured L req f\<close> False show ?thesis
        by (auto simp: Let_def measured_def usable_def range_entry_def take_Suc_conv_app_nth
            dest!: Cons.IH)
    qed
  qed
qed


section \<open>rtdoa_local_send\<close>

lemma run_local_send:
  assumes "\<not> halted s"
  shows "\<exists>rc s'. run_state (rtdoa_local_send E buf dlen) s = (rc, s') \<and>
     glb s' = glb s \<and> \<not> halted s' \<and> on_air E i (tr s') = on_air E i (tr s) \<and>
     radio_calls s' = radio_calls s \<and>
     (ENOMEM E \<noteq> 0 \<longrightarrow> enqueued E (tr s') = enqueued E (tr s)
        @ (if rc = 0 then [take (dlen mod 2 ^ 15) buf] else [])) \<and>
     (mbuf_fresh E \<longrightarrow> owned E (tr s') = owned E (tr s))"
proof -
  have fresh: "eint E (tr s) (Os (MbufGet 0 2)) \<notin> owned E (tr s)" if "mbuf_fresh E"
    using that by (auto simp: mbuf_fresh_def)
  show ?thesis
    using assms fresh
    by (auto simp: rtdoa_local_send_def run_simps radio_calls_def calls_def)
qed

lemma local_send_effects:
  assumes "\<not> halted s" and "s' = exec (rtdoa_local_send E buf dlen) s"
  shows local_send_glb: "glb s' = glb s" and local_send_halted: "\<not> halted s'"
    and local_send_on_air: "on_air E i (tr s') = on_air E i (tr s)"
    and local_send_owned: "mbuf_fresh E \<Longrightarrow> owned E (tr s') = owned E (tr s)"
    and local_send_enqueued: "ENOMEM E \<noteq> 0 \<Longrightarrow> enqueued E (tr s') = enqueued E (tr s)
        @ (if result (rtdoa_local_send E buf dlen) s = 0 then [take (dlen mod 2 ^ 15) buf] else [])"
proof -
  obtain rc t where r: "run_state (rtdoa_local_send E buf dlen) s = (rc, t)"
    and p: "glb t = glb s" "\<not> halted t" "on_air E i (tr t) = on_air E i (tr s)"
      "ENOMEM E \<noteq> 0 \<longrightarrow> enqueued E (tr t) = enqueued E (tr s)
         @ (if rc = 0 then [take (dlen mod 2 ^ 15) buf] else [])"
      "mbuf_fresh E \<longrightarrow> owned E (tr t) = owned E (tr s)"
    using run_local_send [OF assms(1), of E buf dlen i] by blast
  have t: "s' = t" and rc: "result (rtdoa_local_send E buf dlen) s = rc"
    using assms(2) r by (simp_all add: exec_def result_def)
  show "glb s' = glb s" "\<not> halted s'" "on_air E i (tr s') = on_air E i (tr s)"
    "mbuf_fresh E \<Longrightarrow> owned E (tr s') = owned E (tr s)"
    "ENOMEM E \<noteq> 0 \<Longrightarrow> enqueued E (tr s') = enqueued E (tr s)
        @ (if result (rtdoa_local_send E buf dlen) s = 0 then [take (dlen mod 2 ^ 15) buf] else [])"
    unfolding t rc using p by blast+
qed


section \<open>The bytes of a round\<close>

text \<open>The packet is what precedes \<open>num_ranges\<close> and what follows.\<close>

definition front_bytes :: "(rng_head \<Rightarrow> u8 list) \<Rightarrow> rtdoabh_tag_results_pkg \<Rightarrow> u8 list" where
  "front_bytes enc p = enc (head p) @ sensor_bytes (sensors p) @ to_le 2 (ref_anchor_addr p)"

definition back_bytes :: "rtdoabh_tag_results_pkg \<Rightarrow> u8 list" where
  "back_bytes p = to_le 1 (num_ranges p) @ concat (map range_bytes (ranges p))"

lemma pkg_bytes_parts: "pkg_bytes enc p = front_bytes enc p @ back_bytes p"
  by (simp add: pkg_bytes_def front_bytes_def back_bytes_def)

lemma length_front: "wf_sensors (sensors p) \<Longrightarrow> head_layout hl enc dec \<Longrightarrow>
    length (front_bytes enc p) = SPLIT_AT hl"
  by (simp add: front_bytes_def head_layout_def codec_simps SPLIT_AT_def)

lemma length_back: "length (ranges p) = MAXNUM_RANGES \<Longrightarrow>
    length (back_bytes p) = 1 + RANGE_SIZE * MAXNUM_RANGES"
  by (simp add: back_bytes_def codec_simps)

lemma send_dlen_eq: "unat (num_ranges p) \<le> MAXNUM_RANGES \<Longrightarrow>
    send_dlen hl p = SPLIT_AT hl + 1 + RANGE_SIZE * unat (num_ranges p)"
  by (simp add: send_dlen_def size_defs)

lemma take_overlay: "n \<le> length xs \<Longrightarrow> take (n + length bs) (overlay xs n bs) = take n xs @ bs"
  by (simp add: overlay_def min_def)

lemma overlay_twice:
  assumes "length f0 = n" and "length f1 = n" and "0 < length b0" and "k \<le> length b1"
  shows "take (n + k) (overlay (overlay xs 0 (take (n + 1) (f0 @ b0))) n (take k (drop n (f1 @ b1))))
    = f0 @ take k b1"
proof -
  let ?o = "overlay xs 0 (take (n + 1) (f0 @ b0))"
  have t: "take n ?o = f0" and l: "n \<le> length ?o"
    using assms by (simp_all add: overlay_def)
  have k: "take k (drop n (f1 @ b1)) = take k b1" "length (take k b1) = k"
    using assms by simp_all
  show ?thesis
    using take_overlay [OF l, of "take k b1"] unfolding k t by simp
qed

lemma unused_ranges_cut:
  "wf_pkg p \<Longrightarrow> head_layout hl enc dec \<Longrightarrow>
   take (send_dlen hl p) (pkg_bytes enc p) = front_bytes enc p
     @ take (1 + RANGE_SIZE * unat (num_ranges p)) (back_bytes p)"
  by (simp add: pkg_bytes_parts wf_pkg_def length_front send_dlen_eq)



section \<open>rtdoa_backhaul_send\<close>

lemma run_transmit_rest:
  assumes "\<not> halted s"
  shows "\<exists>ok s'. run_state (transmit_rest E hl enc i dx p) s = (ok, s') \<and>
     \<not> halted s' \<and> g_result_pkg (glb s') = g_result_pkg (glb s) \<and> g_role (glb s') = g_role (glb s)
     \<and> g_result_pkg_imu (glb s') = g_result_pkg_imu (glb s)
     \<and> enqueued E (tr s') = enqueued E (tr s) \<and> owned E (tr s') = owned E (tr s)
     \<and> on_air E i (tr s') = on_air E i (tr s) @ (if ok
          then [take (send_dlen hl p) (overlay (txbuf i (tr s)) (SPLIT_AT hl)
                 (take (send_dlen hl p - SPLIT_AT hl) (drop (SPLIT_AT hl) (pkg_bytes enc p))))]
          else [])
     \<and> ((\<forall>h. eint E h (Radio (StartTx i)) = 0) \<longrightarrow> ok)"
  using assms
  by (auto simp: transmit_rest_def run_simps Let_def)


text \<open>The kernel never runs out of message buffers.\<close>

definition mbufs_available :: "env \<Rightarrow> bool" where
  "mbufs_available E \<longleftrightarrow> (\<forall>h a b. eint E h (Os (MbufGet a b)) \<noteq> 0) \<and>
     (\<forall>h m off bs. eint E h (Os (MbufCopyInto m off bs)) = 0) \<and>
     (\<forall>h m. eint E h (Os (MqPut m)) = 0)"

lemma local_send_available:
  "\<not> halted s \<Longrightarrow> mbufs_available E \<Longrightarrow> result (rtdoa_local_send E buf dlen) s = 0"
  by (simp add: result_def rtdoa_local_send_def run_simps mbufs_available_def)

lemma local_send_available_enqueued:
  assumes "\<not> halted s" and "mbufs_available E"
  shows "enqueued E (tr (exec (rtdoa_local_send E buf dlen) s))
    = enqueued E (tr s) @ [take (dlen mod 2 ^ 15) buf]"
  using assms by (simp add: exec_def rtdoa_local_send_def run_simps mbufs_available_def)

lemma tail_effects:
  assumes nh: "\<not> halted s" and s': "s' = exec (send_tail E hl enc i dx) s"
  defines "p \<equiv> g_result_pkg (glb s)"
  shows tail_halted: "\<not> halted s'" and tail_pkg: "g_result_pkg (glb s') = p"
    and tail_owned: "mbuf_fresh E \<Longrightarrow> owned E (tr s') = owned E (tr s)"
    and tail_on_air: "dx \<noteq> 0 \<Longrightarrow> (\<forall>h. eint E h (Radio (StartTx i)) = 0) \<Longrightarrow>
       on_air E i (tr s') = on_air E i (tr s) @ [take (send_dlen hl p) (overlay (txbuf i (tr s))
         (SPLIT_AT hl) (take (send_dlen hl p - SPLIT_AT hl) (drop (SPLIT_AT hl) (pkg_bytes enc p))))]"
    and tail_bridge: "dx = 0 \<Longrightarrow> g_role (glb s) = RTDOABH_ROLE_BRIDGE \<Longrightarrow> mbufs_available E \<Longrightarrow>
       enqueued E (tr s') = enqueued E (tr s) @ [take (send_dlen hl p mod 2 ^ 15) (pkg_bytes enc p)]"
proof -
  let ?m = "if dx \<noteq> 0 then transmit_rest E hl enc i dx p else ret True"
  obtain ok t where r: "run_state ?m s = (ok, t)"
    and t: "\<not> halted t" "g_result_pkg (glb t) = p" "g_role (glb t) = g_role (glb s)"
      "enqueued E (tr t) = enqueued E (tr s)" "owned E (tr t) = owned E (tr s)"
      "dx = 0 \<longrightarrow> ok \<and> t = s"
      "dx \<noteq> 0 \<and> (\<forall>h. eint E h (Radio (StartTx i)) = 0) \<longrightarrow> on_air E i (tr t) = on_air E i (tr s)
        @ [take (send_dlen hl p) (overlay (txbuf i (tr s)) (SPLIT_AT hl)
             (take (send_dlen hl p - SPLIT_AT hl) (drop (SPLIT_AT hl) (pkg_bytes enc p))))]"
  proof (cases "dx = 0")
    case True
    with that [of True s] nh show ?thesis by (simp add: run_simps p_def)
  next
    case False
    with that run_transmit_rest [OF nh, of E hl enc i dx p] show ?thesis
      by (auto simp: p_def)
  qed
  define u where "u = exec (rtdoa_local_send E (pkg_bytes enc p) (send_dlen hl p)) t"
  have s'_eq: "s' = (if ok \<and> g_role (glb s) = RTDOABH_ROLE_BRIDGE then u else t)"
  proof -
    have e: "exec ?m s = t" "result ?m s = ok"
      by (simp_all only: exec_def result_def r fst_conv snd_conv)
    show ?thesis
      unfolding s' send_tail_def
      by (simp only: exec_bind exec_gets exec_onlyif exec_ret e t(3) u_def flip: p_def)
  qed
  note u = local_send_effects [OF t(1) u_def]
  show "\<not> halted s'" "g_result_pkg (glb s') = p" "mbuf_fresh E \<Longrightarrow> owned E (tr s') = owned E (tr s)"
    unfolding s'_eq using t u by auto
  show "on_air E i (tr s') = on_air E i (tr s) @ [take (send_dlen hl p) (overlay (txbuf i (tr s))
         (SPLIT_AT hl) (take (send_dlen hl p - SPLIT_AT hl) (drop (SPLIT_AT hl) (pkg_bytes enc p))))]"
    if "dx \<noteq> 0" "\<forall>h. eint E h (Radio (StartTx i)) = 0"
    using that t u(3) [of i] by (simp add: s'_eq)
  show "enqueued E (tr s') = enqueued E (tr s) @ [take (send_dlen hl p mod 2 ^ 15) (pkg_bytes enc p)]"
    if "dx = 0" "g_role (glb s) = RTDOABH_ROLE_BRIDGE" "mbufs_available E"
    using that t local_send_available_enqueued [OF t(1) that(3)] by (simp add: s'_eq u_def)
qed


text \<open>The packet and the statistics a round leaves before it is cleared.\<close>

definition round_result :: "env \<Rightarrow> 'f rtdoa_lib \<Rightarrow> 'f rtdoa_instance \<Rightarrow> 'z bh_globals_scheme
    \<Rightarrow> (rtdoabh_tag_results_pkg \<times> tag_stats) option" where
  "round_result E L rtdoa g = fill_ranges (eub E) L (req_frame rtdoa) 0 (frames rtdoa)
     ((begin_round (g_result_pkg g))\<lparr>ref_anchor_addr := frame_src L (req_frame rtdoa)\<rparr>, g_tag_stats g)"

lemma begin_round_simps [simp]:
  "num_ranges (begin_round p) = 0" "ranges (begin_round p) = ranges p"
  "sensors (begin_round p) = sensors p" "ref_anchor_addr (begin_round p) = ref_anchor_addr p"
  by (simp_all add: begin_round_def)

lemma round_result_facts:
  assumes "round_result E L r g = Some (p', st')" and "wf_pkg (g_result_pkg g)"
  shows round_num: "unat (num_ranges p') = length (filter (usable L (req_frame r)) (frames r))"
    and round_ranges: "take (unat (num_ranges p')) (ranges p')
      = map (range_entry (eub E) L (req_frame r)) (filter (usable L (req_frame r)) (frames r))"
    and round_head: "head p' = head (begin_round (g_result_pkg g))"
    and round_sensors: "sensors p' = sensors (g_result_pkg g)"
    and round_ref: "ref_anchor_addr p' = frame_src L (req_frame r)"
    and round_wf: "wf_pkg p'"
  using fill_ranges_Some [OF assms(1) [unfolded round_result_def]] assms(2)
  by (auto simp: wf_pkg_def MAXNUM_RANGES_def)

lemma exec_send:
  assumes nh: "\<not> halted s" and q: "round_result E L r (glb s) = Some (p', st')"
    and t: "t = s\<lparr>tr := (if dx \<noteq> 0 then [Radio (WriteTx i (take (SPLIT_AT hl + 1)
       (pkg_bytes enc (begin_round (g_result_pkg (glb s))))) 0)] else []) @ tr s,
     glb := (glb s)\<lparr>g_result_pkg := p', g_tag_stats := st'\<rparr>\<rparr>"
  shows "exec (rtdoa_backhaul_send E hl enc L i r dx) s
    = exec (upd (\<lambda>g. g\<lparr>g_result_pkg := clear_round (g_result_pkg g)\<rparr>)) (exec (send_tail E hl enc i dx) t)"
  using nh q
  by (auto simp: rtdoa_backhaul_send_def exec_bind exec_upd exec_act round_result_def t)

lemma send_state:
  assumes nh: "\<not> halted s" and q: "round_result E L r (glb s) = Some (p', st')"
    and s': "s' = exec (rtdoa_backhaul_send E hl enc L i r dx) s"
  obtains t u where "\<not> halted t" "glb t = (glb s)\<lparr>g_result_pkg := p', g_tag_stats := st'\<rparr>"
    "tr t = (if dx \<noteq> 0 then [Radio (WriteTx i (take (SPLIT_AT hl + 1)
       (pkg_bytes enc (begin_round (g_result_pkg (glb s))))) 0)] else []) @ tr s"
    "u = exec (send_tail E hl enc i dx) t" "\<not> halted u" "g_result_pkg (glb u) = p'"
    "glb s' = (glb u)\<lparr>g_result_pkg := clear_round p'\<rparr>" "tr s' = tr u" "\<not> halted s'"
proof -
  define t where "t = s\<lparr>tr := (if dx \<noteq> 0 then [Radio (WriteTx i (take (SPLIT_AT hl + 1)
       (pkg_bytes enc (begin_round (g_result_pkg (glb s))))) 0)] else []) @ tr s,
     glb := (glb s)\<lparr>g_result_pkg := p', g_tag_stats := st'\<rparr>\<rparr>"
  define u where "u = exec (send_tail E hl enc i dx) t"
  have t: "\<not> halted t" using nh by (simp add: t_def)
  note u = tail_effects [OF t u_def]
  have "s' = exec (upd (\<lambda>g. g\<lparr>g_result_pkg := clear_round (g_result_pkg g)\<rparr>)) u"
    unfolding s' u_def by (rule exec_send [OF nh q t_def])
  then have "s' = u\<lparr>glb := (glb u)\<lparr>g_result_pkg := clear_round p'\<rparr>\<rparr>"
    using u by (simp add: exec_upd t_def)
  with t u that [of t u] u_def show ?thesis by (simp add: t_def)
qed

section \<open>A concrete round\<close>

text \<open>Two anchors answer: anchor 1 is measured at half a metre, anchor 2 gives no measurement.\<close>

definition ex_lib :: "nat rtdoa_lib" where
  "ex_lib = \<lparr>tdoa_between_frames = (\<lambda>a b. if b = 1 then Fin (1 / 2) else NaN),
     calc_rssi = (\<lambda>_. Fin (- 80)), calc_fppl = (\<lambda>_. Fin (- 82)),
     estimate_los = (\<lambda>_ _. Fin 1), frame_src = of_nat\<rparr>"

definition ex_rtdoa :: "nat rtdoa_instance" where
  "ex_rtdoa = \<lparr>req_frame = 7, frames = [1, 2]\<rparr>"

definition bridge_bh :: bh_globals where
  "bridge_bh = init_bh\<lparr>g_role := RTDOABH_ROLE_BRIDGE\<rparr>"

lemma ex_round:
  obtains p' st' where "round_result calm_env ex_lib ex_rtdoa bridge_bh = Some (p', st')"
    "num_ranges p' = 1" "ranges p' ! 0 = \<lparr>anchor_addr = 1, diff_dist_mm = 500, rssi = word_of_int (- 800), quality = 1\<rparr>"
proof -
  have d: "diff_to_mm (\<lambda>_. 0) (Fin (1 / 2)) = 500" "rssi_field (\<lambda>_. 0) (Fin (- 80)) = word_of_int (- 800)"
    "quality_field (\<lambda>_. 0) (Fin 1) = 1"
    by code_simp+
  show thesis
    using that
    by (simp add: round_result_def ex_lib_def ex_rtdoa_def bridge_bh_def init_bh_def init_result_pkg_def
        begin_round_def isnan_def Let_def d MAXNUM_RANGES_def zero_range_def)
qed

lemma bridge_bh_simps [simp]: "g_result_pkg bridge_bh = init_result_pkg" "g_role bridge_bh = RTDOABH_ROLE_BRIDGE"
  by (simp_all add: bridge_bh_def init_bh_def)

lemma init_ref: "ref_anchor_addr init_result_pkg = 0"
  by (simp add: init_result_pkg_def)

lemma calm_mbufs [simp]: "mbufs_available calm_env"
  using unused_mbuf_pos by (auto simp: mbufs_available_def less_le)


section \<open>Properties\<close>

lemma send_on_air:
  assumes "\<not> halted s" and "wf_pkg (g_result_pkg (glb s))" and "head_layout hl enc dec"
    and "dx \<noteq> 0" and "\<forall>h. eint E h (Radio (StartTx i)) = 0"
    and "round_result E L r (glb s) = Some (p', st')"
  shows "on_air E i (tr (exec (rtdoa_backhaul_send E hl enc L i r dx) s)) = on_air E i (tr s)
    @ [take (send_dlen hl p')
        (pkg_bytes enc (p'\<lparr>ref_anchor_addr := ref_anchor_addr (g_result_pkg (glb s))\<rparr>))]"
proof -
  define p where "p = g_result_pkg (glb s)"
  note p' = round_result_facts [OF assms(6,2)]
  obtain t u where t: "\<not> halted t" "glb t = (glb s)\<lparr>g_result_pkg := p', g_tag_stats := st'\<rparr>"
    "tr t = (if dx \<noteq> 0 then [Radio (WriteTx i (take (SPLIT_AT hl + 1)
       (pkg_bytes enc (begin_round (g_result_pkg (glb s))))) 0)] else []) @ tr s"
    and u: "u = exec (send_tail E hl enc i dx) t"
      "tr (exec (rtdoa_backhaul_send E hl enc L i r dx) s) = tr u"
    by (rule send_state [OF assms(1,6) refl, where hl = hl and enc = enc and i = i and dx = dx])
  have trt: "tr t = Radio (WriteTx i (take (SPLIT_AT hl + 1) (pkg_bytes enc (begin_round p))) 0) # tr s"
    using t(3) assms(4) by (simp add: p_def)
  have gt: "g_result_pkg (glb t) = p'" using t(2) by simp
  let ?k = "1 + RANGE_SIZE * unat (num_ranges p')"
  have wf: "wf_sensors (sensors p')" "length (ranges p') = MAXNUM_RANGES"
    "unat (num_ranges p') \<le> MAXNUM_RANGES"
    using p'(6) by (auto simp: wf_pkg_def)
  have len: "length (front_bytes enc (begin_round p)) = SPLIT_AT hl"
    "length (front_bytes enc p') = SPLIT_AT hl" "?k \<le> length (back_bytes p')"
    "0 < length (back_bytes (begin_round p))"
    using assms(2,3) wf by (auto simp: length_front p_def wf_pkg_def back_bytes_def length_ranges)
  have dlen: "send_dlen hl p' = SPLIT_AT hl + ?k" using send_dlen_eq [OF wf(3)] by simp
  have new: "front_bytes enc (begin_round p) @ take ?k (back_bytes p')
    = take (send_dlen hl p') (pkg_bytes enc (p'\<lparr>ref_anchor_addr := ref_anchor_addr p\<rparr>))"
  proof -
    have "front_bytes enc (p'\<lparr>ref_anchor_addr := ref_anchor_addr p\<rparr>) = front_bytes enc (begin_round p)"
      using p' by (simp add: front_bytes_def p_def)
    then show ?thesis using len by (simp add: pkg_bytes_parts dlen back_bytes_def)
  qed
  have "on_air E i (tr u) = on_air E i (tr t) @ [front_bytes enc (begin_round p) @ take ?k (back_bytes p')]"
    using tail_on_air [OF t(1) u(1) assms(4,5)]
      overlay_twice [OF len(1,2,4,3), of "txbuf i (tr s)"]
    by (simp add: trt gt pkg_bytes_parts dlen)
  then show ?thesis unfolding u(2) new by (simp add: trt p_def)
qed


text \<open>C12: When the radio accepts the frame, exactly one frame goes on the air, cut behind
  the last range in use, and it carries the round's ranges and sensor values. Its reference
  anchor, however, is the one of the round before: the field is set after its bytes have been
  written to the transmit buffer.\<close>

theorem send_frame_on_air:
  assumes "\<not> halted s" and "wf_pkg (g_result_pkg (glb s))" and "head_layout hl enc dec"
    and "dx \<noteq> 0" and "\<forall>h. eint E h (Radio (StartTx i)) = 0"
    and "round_result E L r (glb s) = Some (p', st')"
  shows "on_air E i (tr (exec (rtdoa_backhaul_send E hl enc L i r dx) s)) = on_air E i (tr s)
    @ [take (send_dlen hl p')
        (pkg_bytes enc (p'\<lparr>ref_anchor_addr := ref_anchor_addr (g_result_pkg (glb s))\<rparr>))]"
  by (rule send_on_air [OF assms])

theorem send_frame_on_air_witness:
  "\<exists>p' st'. round_result calm_env ex_lib ex_rtdoa bridge_bh = Some (p', st') \<and> num_ranges p' = 1 \<and>
    on_air calm_env 0 (tr (exec (rtdoa_backhaul_send calm_env 11 packed_head ex_lib 0 ex_rtdoa 9) (boot bridge_bh)))
    = [take (send_dlen 11 p') (pkg_bytes packed_head (p'\<lparr>ref_anchor_addr := 0\<rparr>))]"
proof -
  obtain p' st' where r: "round_result calm_env ex_lib ex_rtdoa bridge_bh = Some (p', st')" "num_ranges p' = 1"
    by (rule ex_round)
  show ?thesis
    using r send_frame_on_air [of "boot bridge_bh" 11 packed_head unpacked_head 9 calm_env 0 ex_lib ex_rtdoa p' st']
    by (auto simp: init_ref)
qed

lemma range_bytes_zero: "range_bytes zero_range = replicate RANGE_SIZE 0"
  by code_simp

lemma zero_ranges_bytes:
  "concat (map range_bytes (replicate k zero_range)) = replicate (RANGE_SIZE * k) 0"
  by (induction k) (simp_all add: range_bytes_zero replicate_add)

lemma take_concat_map_const:
  "(\<And>x. length (f x) = n) \<Longrightarrow> take (n * k) (concat (map f xs)) = concat (map f (take k xs))"
proof (induction xs arbitrary: k)
  case Nil
  then show ?case by simp
next
  case (Cons x xs)
  then show ?case by (cases k) auto
qed

text \<open>What is cut off the end of the packet is the bytes of zero ranges.\<close>

lemma padded_packet:
  assumes "wf_pkg p"
  shows "take (1 + RANGE_SIZE * unat (num_ranges p)) (back_bytes p)
       @ replicate (RANGE_SIZE * (MAXNUM_RANGES - unat (num_ranges p))) 0
    = back_bytes (p\<lparr>ranges := take (unat (num_ranges p)) (ranges p)
         @ replicate (MAXNUM_RANGES - unat (num_ranges p)) zero_range\<rparr>)"
proof -
  have "take (RANGE_SIZE * unat (num_ranges p)) (concat (map range_bytes (ranges p)))
    = concat (map range_bytes (take (unat (num_ranges p)) (ranges p)))"
    by (rule take_concat_map_const) simp
  then show ?thesis
    unfolding back_bytes_def
    by (simp flip: zero_ranges_bytes)
qed

text \<open>A trimmed packet, padded with zero bytes again, decodes to the packet with its unused range
  entries cleared.\<close>

definition trimmed :: "nat \<Rightarrow> (rng_head \<Rightarrow> u8 list) \<Rightarrow> rtdoabh_tag_results_pkg \<Rightarrow> u8 list" where
  "trimmed hl enc p = take (send_dlen hl p) (pkg_bytes enc p)"

definition cleared_rest :: "rtdoabh_tag_results_pkg \<Rightarrow> rtdoabh_tag_results_pkg" where
  "cleared_rest p = p\<lparr>ranges := take (unat (num_ranges p)) (ranges p)
     @ replicate (MAXNUM_RANGES - unat (num_ranges p)) zero_range\<rparr>"

lemma length_trimmed:
  assumes "wf_pkg p" and "head_layout hl enc dec"
  shows "length (trimmed hl enc p) = send_dlen hl p" and "send_dlen hl p \<le> PKG_SIZE hl"
  using pkg_bytes_length [OF assms] by (simp_all add: trimmed_def send_dlen_def)

lemma trimmed_decodes:
  assumes wf: "wf_pkg p" and hl: "head_layout hl enc dec"
  shows "pkg_of hl dec (trimmed hl enc p @ replicate (PKG_SIZE hl - send_dlen hl p) 0) = cleared_rest p"
proof -
  let ?n = "unat (num_ranges p)"
  have n: "?n \<le> MAXNUM_RANGES" and l: "length (ranges p) = MAXNUM_RANGES"
    using wf by (auto simp: wf_pkg_def)
  have wf': "wf_pkg (cleared_rest p)" using wf by (auto simp: wf_pkg_def cleared_rest_def)
  have z: "PKG_SIZE hl - send_dlen hl p = RANGE_SIZE * (MAXNUM_RANGES - ?n)"
    using n by (simp add: send_dlen_def size_defs)
  have "trimmed hl enc p @ replicate (PKG_SIZE hl - send_dlen hl p) 0 = front_bytes enc p
      @ take (1 + RANGE_SIZE * ?n) (back_bytes p) @ replicate (RANGE_SIZE * (MAXNUM_RANGES - ?n)) 0"
    unfolding trimmed_def z by (simp add: unused_ranges_cut [OF wf hl])
  also have "\<dots> = front_bytes enc p @ back_bytes (cleared_rest p)"
    unfolding cleared_rest_def by (simp only: padded_packet [OF wf])
  also have "\<dots> = pkg_bytes enc (cleared_rest p)"
    by (simp add: pkg_bytes_parts front_bytes_def cleared_rest_def)
  finally show ?thesis
    using pkg_of_pkg_bytes [OF wf' hl, of "[]"] by simp
qed

text \<open>C16: On a node with the bridge role a round without a transmission time puts one message
  on the local queue. Padded with zero bytes to the size of the struct it decodes to the
  packet of the round: its header, sensor values and reference anchor, one entry per frame
  with a measurement and a source address, in the order of the frames, and zero entries after.\<close>

theorem send_local_bridge:
  assumes "\<not> halted s" and "wf_pkg (g_result_pkg (glb s))" and "head_layout hl enc dec"
    and "g_role (glb s) = RTDOABH_ROLE_BRIDGE" and "mbufs_available E" and "PKG_SIZE hl < 2 ^ 15"
    and "round_result E L r (glb s) = Some (p', st')"
  shows "\<exists>msg. enqueued E (tr (exec (rtdoa_backhaul_send E hl enc L i r 0) s))
      = enqueued E (tr s) @ [msg] \<and> length msg = send_dlen hl p' \<and>
    pkg_of hl dec (msg @ replicate (PKG_SIZE hl - length msg) 0) =
      p'\<lparr>ranges := map (range_entry (eub E) L (req_frame r)) (filter (usable L (req_frame r)) (frames r))
         @ replicate (MAXNUM_RANGES - unat (num_ranges p')) zero_range\<rparr>"
proof -
  note p' = round_result_facts [OF assms(7,2)]
  obtain t u where t: "\<not> halted t" "glb t = (glb s)\<lparr>g_result_pkg := p', g_tag_stats := st'\<rparr>"
    "tr t = (if (0::u64) \<noteq> 0 then [Radio (WriteTx i (take (SPLIT_AT hl + 1)
       (pkg_bytes enc (begin_round (g_result_pkg (glb s))))) 0)] else []) @ tr s"
    and u: "u = exec (send_tail E hl enc i 0) t"
      "tr (exec (rtdoa_backhaul_send E hl enc L i r 0) s) = tr u"
    by (rule send_state [OF assms(1,7) refl, where hl = hl and enc = enc and i = i and dx = 0])
  have len: "length (trimmed hl enc p') = send_dlen hl p'" "send_dlen hl p' < 2 ^ 15"
    using length_trimmed [OF p'(6) assms(3)] assms(6) by simp_all
  have "enqueued E (tr u) = enqueued E (tr t) @ [take (send_dlen hl p' mod 2 ^ 15) (pkg_bytes enc p')]"
    using tail_bridge [OF t(1) u(1) refl _ assms(5)] assms(4) t(2) by simp
  then have "enqueued E (tr u) = enqueued E (tr s) @ [trimmed hl enc p']"
    using len(2) t(3) by (simp add: trimmed_def)
  then show ?thesis
    using trimmed_decodes [OF p'(6) assms(3)] len(1) p'(2) unfolding u(2)
    by (auto simp: cleared_rest_def)
qed

theorem send_local_bridge_witness:
  "\<exists>p' st'. round_result calm_env ex_lib ex_rtdoa bridge_bh = Some (p', st') \<and> num_ranges p' = 1 \<and>
   (\<exists>msg. enqueued calm_env (tr (exec (rtdoa_backhaul_send calm_env 11 packed_head ex_lib 0 ex_rtdoa 0) (boot bridge_bh)))
      = [msg] \<and> length msg = send_dlen 11 p' \<and>
    pkg_of 11 unpacked_head (msg @ replicate (PKG_SIZE 11 - length msg) 0) =
      p'\<lparr>ranges := map (range_entry (eub calm_env) ex_lib 7) [1]
         @ replicate (MAXNUM_RANGES - unat (num_ranges p')) zero_range\<rparr>)"
proof -
  obtain p' st' where r: "round_result calm_env ex_lib ex_rtdoa bridge_bh = Some (p', st')" "num_ranges p' = 1"
    by (rule ex_round)
  have "filter (usable ex_lib (req_frame ex_rtdoa)) (frames ex_rtdoa) = [1]" "req_frame ex_rtdoa = 7"
    by (simp_all add: usable_def measured_def ex_lib_def ex_rtdoa_def isnan_def)
  then show ?thesis
    using r send_local_bridge [of "boot bridge_bh" 11 packed_head unpacked_head calm_env ex_lib ex_rtdoa p' st' 0]
    by (auto simp: size_defs)
qed

text \<open>C32: A round that stays inside the array ends with an empty packet for the next one: its
  sensor values and all range entries are zero, the sequence number has advanced by one
  (modulo 256), and the packet is well formed. The range count keeps its value until the next
  round begins.\<close>

theorem send_clears_round:
  assumes "\<not> halted s" and "wf_pkg (g_result_pkg (glb s))"
    and "round_result E L r (glb s) = Some (p', st')"
    and "g' = glb (exec (rtdoa_backhaul_send E hl enc L i r dx) s)"
  shows "wf_pkg (g_result_pkg g') \<and> sensors (g_result_pkg g') = zero_sensors
    \<and> ranges (g_result_pkg g') = replicate MAXNUM_RANGES zero_range
    \<and> seq_num (head (g_result_pkg g')) = seq_num (head (g_result_pkg (glb s))) + 1
    \<and> unat (num_ranges (g_result_pkg g')) = length (filter (usable L (req_frame r)) (frames r))"
proof -
  note p' = round_result_facts [OF assms(3,2)]
  have "g_result_pkg g' = clear_round p'"
    unfolding assms(4)
    by (rule send_state [OF assms(1,3) refl, where hl = hl and enc = enc and i = i and dx = dx]) simp
  then show ?thesis
    using p' by (simp add: clear_round_def wf_pkg_def wf_sensors_def zero_sensors_def begin_round_def)
qed

theorem send_clears_round_witness:
  "wf_pkg (g_result_pkg (glb (exec (rtdoa_backhaul_send calm_env 11 packed_head ex_lib 0 ex_rtdoa 9) (boot bridge_bh))))"
proof -
  obtain p' st' where r: "round_result calm_env ex_lib ex_rtdoa bridge_bh = Some (p', st')"
    by (rule ex_round)
  show ?thesis
    using r send_clears_round [of "boot bridge_bh" calm_env ex_lib ex_rtdoa p' st'
      "glb (exec (rtdoa_backhaul_send calm_env 11 packed_head ex_lib 0 ex_rtdoa 9) (boot bridge_bh))" 11 packed_head 0 9]
    by simp
qed

text \<open>C25: The function leaves the range array exactly when a frame with a measurement comes
  after 16 frames that were stored. Nothing in the function checks it: the precondition on the
  number of anchors in range that its callers have to keep is this one and no weaker one.\<close>

theorem send_leaves_array_iff:
  assumes "\<not> halted s" and "wf_pkg (g_result_pkg (glb s))"
  shows "halted (exec (rtdoa_backhaul_send E hl enc L i r dx) s) \<longleftrightarrow>
    overflows L (req_frame r) MAXNUM_RANGES 0 (frames r)"
proof (cases "round_result E L r (glb s)")
  case None
  then have "overflows L (req_frame r) MAXNUM_RANGES 0 (frames r)"
    using assms(2) by (auto simp: round_result_def fill_ranges_None wf_pkg_def MAXNUM_RANGES_def)
  moreover have "halted (exec (rtdoa_backhaul_send E hl enc L i r dx) s)"
    using None assms(1)
    by (auto simp: rtdoa_backhaul_send_def exec_bind exec_upd exec_act round_result_def
        exec_upd_halted)
  ultimately show ?thesis by simp
next
  case (Some q)
  then obtain p' st' where q: "round_result E L r (glb s) = Some (p', st')" by (cases q) auto
  then have "\<not> overflows L (req_frame r) MAXNUM_RANGES 0 (frames r)"
    using assms(2) fill_ranges_None [of "(begin_round (g_result_pkg (glb s)))
        \<lparr>ref_anchor_addr := frame_src L (req_frame r)\<rparr>" "eub E" L "req_frame r" 0 "frames r"]
    by (auto simp: round_result_def wf_pkg_def MAXNUM_RANGES_def)
  moreover have "\<not> halted (exec (rtdoa_backhaul_send E hl enc L i r dx) s)"
    by (rule send_state [OF assms(1) q refl, where hl = hl and enc = enc and i = i and dx = dx]) simp
  ultimately show ?thesis by simp
qed

theorem send_leaves_array_iff_witness:
  "halted (exec (rtdoa_backhaul_send calm_env 11 packed_head ex_lib 0 \<lparr>req_frame = 7, frames = replicate 17 1\<rparr> 9) (boot bridge_bh))
   \<and> \<not> halted (exec (rtdoa_backhaul_send calm_env 11 packed_head ex_lib 0 \<lparr>req_frame = 7, frames = replicate 16 1\<rparr> 9) (boot bridge_bh))"
proof -
  have "replicate 17 (1 :: nat) = replicate 16 1 @ [1]" by (simp add: replicate_append_same flip: replicate_Suc)
  then have "overflows ex_lib 7 MAXNUM_RANGES 0 (replicate 17 1)"
    unfolding overflows_def
    by (intro exI [of _ "replicate 16 1"] exI [of _ 1] exI [of _ "[]"])
      (simp add: usable_def measured_def ex_lib_def isnan_def MAXNUM_RANGES_def)
  moreover have "\<not> overflows ex_lib 7 MAXNUM_RANGES 0 (replicate 16 1)"
  proof
    assume "overflows ex_lib 7 MAXNUM_RANGES 0 (replicate 16 1)"
    then obtain xs f ys where *: "replicate 16 1 = xs @ f # ys"
      "MAXNUM_RANGES \<le> length (filter (usable ex_lib 7) xs)" by (auto simp: overflows_def)
    have "length xs < 16" using arg_cong [OF *(1), of length] by simp
    with *(2) length_filter_le [of "usable ex_lib 7" xs] show False by (simp add: MAXNUM_RANGES_def)
  qed
  ultimately show ?thesis
    using send_leaves_array_iff [of "boot bridge_bh" calm_env 11 packed_head ex_lib 0 _ 9] by simp
qed

text \<open>C33: A round neither keeps nor loses a message buffer, whatever the calls of the kernel
  return: each buffer it takes from the pool ends on the queue or is freed.\<close>

theorem send_keeps_no_mbuf:
  assumes "\<not> halted s" and "round_result E L r (glb s) = Some (p', st')" and "mbuf_fresh E"
  shows "owned E (tr (exec (rtdoa_backhaul_send E hl enc L i r dx) s)) = owned E (tr s)"
proof -
  obtain t u where t: "\<not> halted t" "glb t = (glb s)\<lparr>g_result_pkg := p', g_tag_stats := st'\<rparr>"
    "tr t = (if dx \<noteq> 0 then [Radio (WriteTx i (take (SPLIT_AT hl + 1)
       (pkg_bytes enc (begin_round (g_result_pkg (glb s))))) 0)] else []) @ tr s"
    and u: "u = exec (send_tail E hl enc i dx) t"
      "tr (exec (rtdoa_backhaul_send E hl enc L i r dx) s) = tr u"
    by (rule send_state [OF assms(1,2) refl, where hl = hl and enc = enc and i = i and dx = dx])
  have "owned E (tr u) = owned E (tr t)" by (rule tail_owned [OF t(1) u(1) assms(3)])
  then show ?thesis by (auto simp: u(2) t(3))
qed

theorem send_keeps_no_mbuf_witness:
  "owned calm_env (tr (exec (rtdoa_backhaul_send calm_env 11 packed_head ex_lib 0 ex_rtdoa 0) (boot bridge_bh))) = {}"
proof -
  obtain p' st' where r: "round_result calm_env ex_lib ex_rtdoa bridge_bh = Some (p', st')"
    by (rule ex_round)
  show ?thesis
    using r send_keeps_no_mbuf [of "boot bridge_bh" calm_env ex_lib ex_rtdoa p' st' 11 packed_head 0 0] by simp
qed

end
