(* ===== verification/Rtdoa_Print_Props.thy ===== *)
theory Rtdoa_Print_Props
  imports Rtdoa_Print Json
begin

text \<open>
  What the bridge writes: the line of a packet is a JSON text, it is written exactly when
  the range count fits the array, and a distance difference can be read back from it.
\<close>


section \<open>Members of an open object\<close>

text \<open>A fragment that adds members to an object and leaves it open.\<close>

definition members :: "string \<Rightarrow> bool" where
  "members s \<longleftrightarrow> (\<forall>st m. num_end m \<longrightarrow>
     (\<exists>m'. num_end m' \<and> jrun (Obj # st, m) s = Some (Obj # st, m')))"

lemma members_Nil [intro, simp]: "members ''''"
  by (auto simp: members_def)

lemma members_append [intro]:
  assumes "members s" and "members t"
  shows "members (s @ t)"
  unfolding members_def
proof (intro allI impI)
  fix st m assume "num_end m"
  then obtain m1 where m1: "num_end m1" "jrun (Obj # st, m) s = Some (Obj # st, m1)"
    using assms(1) unfolding members_def by meson
  then obtain m2 where "num_end m2" "jrun (Obj # st, m1) t = Some (Obj # st, m2)"
    using assms(2) unfolding members_def by meson
  with m1 show "\<exists>m'. num_end m' \<and> jrun (Obj # st, m) (s @ t) = Some (Obj # st, m')" by auto
qed

lemma members_if [intro]: "(b \<Longrightarrow> members s) \<Longrightarrow> members (if b then s else '''')"
  by simp

text \<open>A complete value where one is expected: a string, an integer, a number, an array.\<close>

definition value_text :: "string \<Rightarrow> bool" where
  "value_text v \<longleftrightarrow> (\<forall>st x. val_mode x \<longrightarrow> (\<exists>m. num_end m \<and> jrun (st, x) v = Some (st, m)))"

lemma value_textD: "value_text v \<Longrightarrow> \<exists>m. num_end m \<and> jrun (st, Val) v = Some (st, m)"
  by (simp add: value_text_def val_mode_def)

lemma members_value:
  assumes "plains k" and "value_text v"
  shows "members ('','' @ [CHR 0x22] @ k @ [CHR 0x22] @ '':'' @ v)"
  unfolding members_def
proof (intro allI impI)
  fix st m assume m: "num_end m"
  have "jrun (Obj # st, m) ('','' @ [CHR 0x22] @ k @ [CHR 0x22] @ '':'' @ v)
    = jrun (Obj # st, Key) ([CHR 0x22] @ k @ [CHR 0x22] @ '':'' @ v)"
    using num_end_step(2) [OF m] by (simp del: jrun.simps)
  also have "\<dots> = jrun (Obj # st, Val) v"
    using assms(1) by simp
  finally show "\<exists>m'. num_end m' \<and>
      jrun (Obj # st, m) ('','' @ [CHR 0x22] @ k @ [CHR 0x22] @ '':'' @ v) = Some (Obj # st, m')"
    using value_textD [OF assms(2)] by simp
qed

lemma value_str: "plains s \<Longrightarrow> value_text ([CHR 0x22] @ s @ [CHR 0x22])"
  by (auto simp: value_text_def val_mode_def)

lemma value_d: "value_text (fmt_d i)"
  unfolding value_text_def using jrun_fmt_d num_end_simps by blast

lemma value_fixed:
  assumes "t \<noteq> []" and "\<forall>c \<in> set t. is_digit c"
  shows "value_text (fmt_d i @ ''.'' @ t)"
  unfolding value_text_def
  using jrun_fixed [OF jrun_fmt_d assms] num_end_simps by blast

lemma value_array:
  assumes "\<forall>x \<in> set xs. value_text x" and "xs \<noteq> []"
  shows "value_text (''['' @ join xs @ '']'')"
  unfolding value_text_def
proof (intro allI impI)
  fix st x assume x: "val_mode x"
  have v: "val_mode ValOrEnd" by (simp add: val_mode_def)
  obtain m where m: "num_end m" "jrun (Arr # st, ValOrEnd) (join xs) = Some (Arr # st, m)"
    using jrun_join [of xs st ValOrEnd] assms v by (auto simp: value_text_def)
  have "jrun (st, x) (''['' @ join xs @ '']'') = jrun (Arr # st, ValOrEnd) (join xs @ '']'')"
    using x by (auto simp: val_mode_def)
  also have "\<dots> = Some (st, After)"
    using m num_end_step(3) [OF m(1), of st "[]"] by simp
  finally show "\<exists>m. num_end m \<and> jrun (st, x) (''['' @ join xs @ '']'') = Some (st, m)"
    by (auto intro: exI [of _ After])
qed


section \<open>The fields of the sensors\<close>

lemma print_float_plain [simp]: "plains (print_float ub k f)"
  by (simp add: print_float_def)

lemma members_ts: "members (print_ts ub to_us t)"
proof -
  have "members ('','' @ [CHR 0x22] @ ''ts'' @ [CHR 0x22] @ '':'' @ ([CHR 0x22]
     @ (fmt_u a @ ''.'' @ pad0 4 (fmt_u b)) @ [CHR 0x22]))" for a b
    by (rule members_value [OF _ value_str]) simp_all
  then show ?thesis unfolding print_ts_def Let_def by simp
qed

lemma members_gps: "members (print_gps ub d)"
proof -
  let ?v = "\<lambda>w. [CHR 0x22] @ print_float ub 1000000 (float_of_bits w) @ [CHR 0x22]"
  have "value_text (''['' @ join [?v (gps_lat d), ?v (gps_long d)] @ '']'')"
    by (rule value_array) (auto simp: value_str [simplified])
  then have "members ('','' @ [CHR 0x22] @ ''gps'' @ [CHR 0x22] @ '':'' @
      ''['' @ join [?v (gps_lat d), ?v (gps_long d)] @ '']'')"
    by (rule members_value [rotated]) simp
  then show ?thesis by (simp add: print_gps_def)
qed

lemma members_battery: "members (print_battery ub d)"
proof -
  have v: "members ('','' @ [CHR 0x22] @ ''vbat'' @ [CHR 0x22] @ '':'' @ ([CHR 0x22]
     @ (fmt_d a @ ''.'' @ fmt_0d 2 b) @ [CHR 0x22]))" for a b
    by (rule members_value [OF _ value_str]) simp_all
  have u: "members ('','' @ [CHR 0x22] @ ''usb'' @ [CHR 0x22] @ '':'' @ fmt_d b)" for b
    by (rule members_value [OF _ value_d]) simp
  show ?thesis unfolding print_battery_def Let_def
    using members_append [OF v u] by simp
qed

lemma members_vec: "plain c \<Longrightarrow> members ('','' @ [CHR 0x22] @ [c] @ [CHR 0x22] @ '':'' @ print_vec ub k xs)"
proof -
  assume c: "plain c"
  have "plains (concat (map (\<lambda>i. (if i = 0 then '''' else '','') @ print_float ub k (f i)) js))" for f js
    by (induction js) auto
  then have "value_text ([CHR 0x22] @ (''['' @ concat (map (\<lambda>i. (if i = 0 then '''' else '','') @
      print_float ub k (f i)) [0..<3]) @ '']'') @ [CHR 0x22])" for f :: "nat \<Rightarrow> cfl"
    by (intro value_str) simp
  then have "value_text (print_vec ub k xs)"
    unfolding print_vec_def by (simp del: upt_Suc)
  with c show ?thesis by (intro members_value) auto
qed

lemma members_compass: "members (print_compass xs)"
proof -
  have "value_text (''['' @ join (map (\<lambda>i. fmt_d (sint (xs ! i))) [0, 1, 2]) @ '']'')"
    by (rule value_array) (auto simp: value_d)
  then have "members ('','' @ [CHR 0x22] @ ''m'' @ [CHR 0x22] @ '':'' @
      ''['' @ join (map (\<lambda>i. fmt_d (sint (xs ! i))) [0, 1, 2]) @ '']'')"
    by (rule members_value [rotated]) simp
  then show ?thesis by (simp add: print_compass_def)
qed

lemma members_sensors: "members (print_sensors ub d)"
proof -
  have a: "members ('',\"a\":'' @ print_vec ub 1000 (acceleration d))"
    and g: "members ('',\"g\":'' @ print_vec ub 10 (gyro d))"
    using members_vec [of "CHR ''a''"] members_vec [of "CHR ''g''"] by simp_all
  have "members ('','' @ [CHR 0x22] @ ''p'' @ [CHR 0x22] @ '':'' @ fmt_d i)" for i
    by (rule members_value [OF _ value_d]) simp
  then have p: "members ('',\"p\":'' @ fmt_d i)" for i by simp
  show ?thesis unfolding print_sensors_def
    by (rule a g p members_gps members_battery members_compass members_if members_append)+
qed

text \<open>The line up to the measurements opens one object and adds its members.\<close>

lemma jrun_prefix:
  "\<exists>m. num_end m \<and> jrun ([], Val) (print_prefix ub to_us mid p) = Some ([Obj], m)"
proof -
  have i: "jrun ([], Val) (''{\"id\":\"0x'' @ pad0 4 (fmt_x n) @ ''\"'') = Some ([Obj], After)" for n
    by simp
  have mode: "members ('',\"mode\":\"anchor\"'')"
    using members_value [OF _ value_str, of "''mode''" "''anchor''"] by simp
  have mid: "members ('',\"mid\":'' @ fmt_d j)" for j
    using members_value [OF _ value_d, of "''mid''" j] by simp
  have "members ((if is_anchor_data (sensors p) \<noteq> 0 then '',\"mode\":\"anchor\"'' else '''')
     @ (if ts (sensors p) \<noteq> 0 then print_ts ub to_us (ts (sensors p)) else '''')
     @ ('',\"mid\":'' @ fmt_d (sint mid))
     @ print_sensors ub (sensors p))"
    by (rule members_ts members_sensors mode mid members_if members_append)+
  then obtain m where "num_end m" "jrun ([Obj], After)
     ((if is_anchor_data (sensors p) \<noteq> 0 then '',\"mode\":\"anchor\"'' else '''')
     @ (if ts (sensors p) \<noteq> 0 then print_ts ub to_us (ts (sensors p)) else '''')
     @ ('',\"mid\":'' @ fmt_d (sint mid)) @ print_sensors ub (sensors p)) = Some ([Obj], m)"
    unfolding members_def by (meson num_end_simps(4))
  then show ?thesis unfolding print_prefix_def Let_def
    using jrun_append_Some [OF i] by (simp del: jrun.simps)
qed


section \<open>The measurements\<close>

lemma value_addr: "value_text (print_addr r)"
  using value_str [of "fmt_x (unat (anchor_addr r))"] by (simp add: print_addr_def)

lemma value_rssi: "value_text (print_rssi ub r)"
proof -
  have "\<forall>c \<in> set (fmt_d (frac_part ub 10 (rssi_float r))). is_digit c"
    by (intro ballI fmt_d_nonneg_digits [of "frac_part ub 10 (rssi_float r)"]) (simp_all add: frac_part_def)
  then show ?thesis unfolding print_rssi_def print_float_def by (intro value_fixed) simp_all
qed

lemma value_minus:
  assumes "0 \<le> i" and "t \<noteq> []" and "\<forall>c \<in> set t. is_digit c"
  shows "value_text (''-'' @ fmt_d i @ ''.'' @ t)"
  unfolding value_text_def
proof (intro allI impI)
  fix st x assume x: "val_mode x"
  have "jrun (st, NumMinus) (fmt_d i @ ''.'' @ t) = Some (st, NumFrac)"
    using jrun_fixed [OF jrun_fmt_u_Minus assms(2,3)] assms(1) by (simp add: fmt_d_def)
  then show "\<exists>m. num_end m \<and> jrun (st, x) (''-'' @ fmt_d i @ ''.'' @ t) = Some (st, m)"
    unfolding jrun_minus [OF x] by (intro exI [of _ NumFrac]) simp
qed

lemma value_ddist: "value_text (print_ddist r)"
proof -
  have "\<forall>c \<in> set (fmt_0d 3 \<bar>d\<bar>). is_digit c" for d
    by (intro ballI fmt_0d_nonneg_digits [of "\<bar>d\<bar>"]) simp_all
  then show ?thesis
    unfolding print_ddist_def Let_def
    using value_fixed [of "fmt_0d 3 \<bar>d\<bar>" for d] value_minus [of _ "fmt_0d 3 \<bar>d\<bar>" for d] by simp
qed

definition plain_quality :: "rtdoabh_range_data \<Rightarrow> bool" where
  "plain_quality r \<longleftrightarrow> quality r = 0 \<or> quality r = 1"

lemma value_quality: "plain_quality r \<Longrightarrow> value_text (print_quality r)"
proof -
  have "print_quality r = fmt_d (sint (quality r))" if "plain_quality r"
    using that by (auto simp: plain_quality_def print_quality_def fmt_d_def fmt_x_def fmt_u_def)
  moreover assume "plain_quality r"
  ultimately show ?thesis by (simp add: value_d)
qed

text \<open>A column is one member of the object of measurements.\<close>

lemma print_column_join: "print_column key f rs = [CHR 0x22] @ key @ [CHR 0x22] @ '':['' @ join (map f rs)"
proof -
  have "concat (map (\<lambda>i. f (rs ! i) @ sep (i + 1 < length rs)) [0..<length rs]) = join (map f rs)"
    using comma_loop [of f rs] unfolding sep_def .
  then show ?thesis by (simp add: print_column_def)
qed

lemma members_column:
  assumes "plains key" and "\<forall>r \<in> set rs. value_text (f r)" and "rs \<noteq> []"
  shows "members ('','' @ print_column key f rs @ '']'')"
proof -
  have "value_text (''['' @ join (map f rs) @ '']'')"
    using assms by (intro value_array) auto
  from members_value [OF assms(1) this] show ?thesis by (simp add: print_column_join)
qed

lemma jrun_compact:
  assumes "num_end m" and "\<forall>r \<in> set rs. plain_quality r"
  shows "jrun ([Obj], m) (print_compact ub ref rs) = Some ([], After)"
proof (cases "rs = []")
  case True
  with num_end_step(4) [OF assms(1), of "[]" "[CHR 0x0A]"] show ?thesis
    by (simp add: print_compact_def del: jrun.simps) simp
next
  case False
  have o: "jrun ([Obj], m) ('',\"meas\":{'' @ (''\"ref\":\"'' @ fmt_x (unat ref) @ ''\"'') @ s)
     = jrun ([Obj, Obj], After) s" for s
    using num_end_step(2) [OF assms(1), of "[]"] by (simp del: jrun.simps) simp
  have "members (('','' @ print_column ''a'' print_addr rs @ '']'')
    @ ('','' @ print_column ''dd'' print_ddist rs @ '']'')
    @ ('','' @ print_column ''rs'' (print_rssi ub) rs @ '']'')
    @ ('','' @ print_column ''qf'' print_quality rs @ '']''))"
    using assms(2) False
    by (intro members_append members_column)
      (simp_all add: value_addr value_ddist value_rssi value_quality)
  then obtain m' where m': "num_end m'"
    "jrun ([Obj, Obj], After) (('','' @ print_column ''a'' print_addr rs @ '']'')
    @ ('','' @ print_column ''dd'' print_ddist rs @ '']'')
    @ ('','' @ print_column ''rs'' (print_rssi ub) rs @ '']'')
    @ ('','' @ print_column ''qf'' print_quality rs @ '']'')) = Some ([Obj, Obj], m')"
    unfolding members_def by (meson num_end_simps(4))
  have e: "jrun ([Obj, Obj], m') (''}}'' @ [CHR 0x0A]) = Some ([], After)"
    using num_end_step(4) [OF m'(1), of "[Obj]" "''}'' @ [CHR 0x0A]"] by (simp del: jrun.simps) simp
  show ?thesis
    using False o [of "(('','' @ print_column ''a'' print_addr rs @ '']'')
    @ ('','' @ print_column ''dd'' print_ddist rs @ '']'')
    @ ('','' @ print_column ''rs'' (print_rssi ub) rs @ '']'')
    @ ('','' @ print_column ''qf'' print_quality rs @ '']'')) @ ''}}'' @ [CHR 0x0A]"]
      jrun_append_Some [OF m'(2), of "''}}'' @ [CHR 0x0A]"] e
    by (simp add: print_compact_def del: jrun.simps)
qed


section \<open>The plain format\<close>

text \<open>A loop that tells its body whether a further element follows.\<close>

fun each_last :: "(bool \<Rightarrow> 'a \<Rightarrow> string) \<Rightarrow> 'a list \<Rightarrow> string" where
  "each_last f [] = []"
| "each_last f (x # xs) = f (xs \<noteq> []) x @ each_last f xs"

lemma each_last_loop:
  "concat (map (\<lambda>i. f (i + 1 < length xs) (xs ! i)) [0..<length xs]) = each_last f xs"
proof (induction xs)
  case (Cons x xs)
  let ?g = "\<lambda>ys i. f (i + 1 < length ys) (ys ! i)"
  have "map (?g (x # xs)) [0..<length (x # xs)] = ?g (x # xs) 0 # map (?g xs) [0..<length xs]"
    by (simp add: upt_conv_Cons flip: map_Suc_upt del: upt_Suc)
  with Cons show ?case by simp
qed simp

text \<open>One range is a complete object, closed by a comma or by the end of the array.\<close>

definition plain_object :: "(cfl \<Rightarrow> int) \<Rightarrow> rtdoabh_range_data \<Rightarrow> string" where
  "plain_object ub r = (let d = sint (diff_dist_mm r); dist_m = d sdiv 1000 in
     ''{\"addr\":\"'' @ fmt_x (unat (anchor_addr r)) @ ''\",\"ddist\":\"''
     @ (if d < 0 then ''-'' else '''') @ fmt_d \<bar>dist_m\<bar> @ ''.'' @ fmt_0d 3 \<bar>d - dist_m * 1000\<bar>
     @ ''\",\"tqf\":'' @ fmt_d (sint (quality r)) @ '',\"rssi\":\"'' @ print_rssi ub r @ ''\"}'')"

lemma plain_range_object: "print_plain_range ub tight further r =
    plain_object ub r @ (if further then '','' else '']'') @ (if tight then '''' else [CHR 0x0A] @ ''  '')"
  by (simp add: print_plain_range_def plain_object_def Let_def)

lemma value_plain_object: "value_text (plain_object ub r)"
  unfolding value_text_def
proof (intro allI impI)
  fix st x assume x: "val_mode x"
  obtain m where m: "num_end m" "jrun (Obj # st, Val) (fmt_d (sint (quality r))) = Some (Obj # st, m)"
    using value_textD [OF value_d] by meson
  have r: "jrun (Obj # st, m) ('',\"rssi\":\"'' @ print_rssi ub r @ ''\"}'') = Some (st, After)"
    using num_end_step(2) [OF m(1)] by (simp add: print_rssi_def del: jrun.simps) (simp add: print_float_plain)
  have f: "jrun (st, x) (''{\"addr\":\"'' @ fmt_x a @ ''\",\"ddist\":\"'' @ b @ ''\",\"tqf\":'' @ t)
     = jrun (Obj # st, Val) t" if "plains b" for a b t
    using x that by (auto simp: val_mode_def)
  have p: "plains ((if d < 0 then ''-'' else '''') @ fmt_d i @ ''.'' @ fmt_0d 3 j)" for d i j :: int
    by simp
  show "\<exists>m. num_end m \<and> jrun (st, x) (plain_object ub r) = Some (st, m)"
    using f [OF p] m(2) r by (intro exI [of _ After]) (simp add: plain_object_def Let_def del: jrun.simps)
qed

lemma jrun_plain_ranges:
  "rs \<noteq> [] \<Longrightarrow> val_mode v \<Longrightarrow>
   jrun (Arr # st, v) (each_last (print_plain_range ub tight) rs) = Some (st, After)"
proof (induction rs arbitrary: v)
  case (Cons r rs)
  obtain m where m: "num_end m" "jrun (Arr # st, v) (plain_object ub r) = Some (Arr # st, m)"
    using value_plain_object Cons.prems(2) unfolding value_text_def by meson
  show ?case
  proof (cases "rs = []")
    case True
    then show ?thesis
      using m(2) num_end_step(3) [OF m(1), of st]
      by (auto simp: plain_range_object simp del: jrun.simps) simp_all
  next
    case False
    then have "jrun (Arr # st, Val) (each_last (print_plain_range ub tight) rs) = Some (st, After)"
      by (rule Cons.IH) (simp add: val_mode_def)
    with False m(2) num_end_step(1) [OF m(1), of st] show ?thesis
      by (cases tight) (simp_all add: plain_range_object [of ub _ _ r] del: jrun.simps, simp_all)
  qed
qed simp

lemma jrun_plain:
  assumes "num_end m"
  shows "jrun ([Obj], m) (print_plain ub tight ref rs) = (if rs = [] then Some ([], After) else None)"
proof -
  have h: "jrun ([Obj], m) ('',\"ref_anchor\":\"'' @ fmt_x (unat ref) @ ''\"'' @ '',\"meas\":['' @ s)
     = jrun ([Arr, Obj], ValOrEnd) s" for s
    using num_end_step(2) [OF assms, of "[]"] by (simp del: jrun.simps) simp
  have w: "jrun ([Arr, Obj], ValOrEnd) ((if tight \<or> rs = [] then '''' else [CHR 0x0A] @ '' '') @ s)
     = jrun ([Arr, Obj], ValOrEnd) s" for s
    by simp
  have l: "jrun ([Arr, Obj], ValOrEnd) (each_last (print_plain_range ub tight) rs @ '']}'' @ [CHR 0x0A])
     = (if rs = [] then Some ([], After) else None)"
    using jrun_plain_ranges [of rs ValOrEnd "[Obj]" ub tight] by (auto simp: val_mode_def)
  show ?thesis
    unfolding print_plain_def each_last_loop [of "print_plain_range ub tight"]
    using h w l by (simp del: jrun.simps)
qed


section \<open>Tenths of a decibel\<close>

lemma sint_14_bounds: "- 8192 \<le> sint (w :: 14 word)" "sint (w :: 14 word) < 8192"
  using sint_greater_eq [of w] sint_less [of w] by simp_all

lemma sdiv_10_split: "r = 10 * (r sdiv 10) + r smod 10" "\<bar>r smod 10\<bar> = \<bar>r\<bar> mod 10" for r :: int
proof -
  have "r = - (10 * (- r div 10)) - - r mod 10" using mult_div_mod_eq [of 10 "- r"] by linarith
  then show "r = 10 * (r sdiv 10) + r smod 10"
    by (simp add: signed_divide_int_def signed_modulo_int_def sgn_if)
  show "\<bar>r smod 10\<bar> = \<bar>r\<bar> mod 10"
    by (simp add: signed_divide_int_def signed_modulo_int_def sgn_if)
qed

lemma rssi_int_part:
  obtains y where "rssi_float r = Fin y" and "\<bar>y - of_int (sint (rssi r)) / 10\<bar> \<le> 2 powi (- 15)"
    and "trunc y = sint (rssi r) sdiv 10"
    and "sint (rssi r) mod 10 = 0 \<Longrightarrow> y = of_int (sint (rssi r) sdiv 10)"
proof -
  define k where "k = sint (rssi r)"
  have b: "- 8192 \<le> k" "k < 8192" using sint_14_bounds [of "rssi r"] by (simp_all add: k_def)
  have bq: "- 8192 \<le> (of_int k :: rat)" "(of_int k :: rat) < 8192"
    using b by (metis of_int_le_iff of_int_minus of_int_numeral, metis of_int_less_iff of_int_numeral)
  have f: "rssi_float r = fin binary32 (of_int k / 10)"
    using b by (simp add: rssi_float_def of_c_int_small flip: k_def)
  have "\<bar>of_int k / 10\<bar> < (2 :: rat) powi 10" using bq by (simp add: abs_less_iff)
  then obtain y where y: "fin binary32 (of_int k / 10) = Fin y" "\<bar>y - of_int k / 10\<bar> \<le> 2 powi (10 - 25)"
    by (rule fin32_near) simp_all
  have z: "y = of_int (k sdiv 10)" if "k mod 10 = 0"
  proof -
    have "- k mod 10 = 0" using that by (simp add: zmod_zminus1_eq_if)
    with that have "k smod 10 = 0" by (simp add: signed_modulo_int_def signed_divide_int_def sgn_if)
    then have "(of_int k :: rat) / 10 = of_int (k sdiv 10)"
      using sdiv_10_split(1) [of k] by (metis add_0_right nonzero_mult_div_cancel_left of_int_mult of_int_numeral zero_neq_numeral)
    moreover have "\<bar>k sdiv 10\<bar> < 2 ^ 24"
      using b by (simp add: signed_divide_int_def sgn_if) linarith
    ultimately show ?thesis using y(1) of_c_int_small [of "k sdiv 10"] by (simp add: of_c_int_def)
  qed
  have t: "trunc y = k sdiv 10"
  proof (cases "k mod 10 = 0")
    case True
    then show ?thesis using z by (simp add: trunc_def)
  next
    case False
    have "\<bar>y - of_int k / 10\<bar> < 1 / 10" using y(2) by simp
    with False show ?thesis by (intro trunc_near_tenth)
  qed
  show thesis using that [of y] f y t z by (simp add: k_def)
qed

lemma rssi_frac_part:
  "frac_part ub 10 (rssi_float r) \<in> {\<bar>sint (rssi r)\<bar> mod 10, \<bar>sint (rssi r)\<bar> mod 10 - 1}
   \<and> int_part ub (rssi_float r) = sint (rssi r) sdiv 10
   \<and> 0 \<le> frac_part ub 10 (rssi_float r)
   \<and> (sint (rssi r) mod 10 = 0 \<longrightarrow> frac_part ub 10 (rssi_float r) = 0)"
proof -
  define k where "k = sint (rssi r)"
  let ?q = "k sdiv 10"
  obtain y where y: "rssi_float r = Fin y" "\<bar>y - of_int k / 10\<bar> \<le> 2 powi (- 15)" "trunc y = ?q"
    "k mod 10 = 0 \<Longrightarrow> y = of_int ?q"
    using rssi_int_part [of r] unfolding k_def by metis
  have b: "- 8192 \<le> k" "k < 8192" using sint_14_bounds [of "rssi r"] by (simp_all add: k_def)
  have q: "\<bar>?q\<bar> < 1000" using b by (simp add: signed_divide_int_def sgn_if abs_if) linarith
  have i: "int_part ub (Fin y) = ?q"
    using y(3) q by (auto simp: int_part_def to_c_int_def abs_less_iff)
  define m where "m = k smod 10"
  have m: "k = 10 * ?q + m" "\<bar>m\<bar> = \<bar>k\<bar> mod 10" using sdiv_10_split [of k] by (simp_all add: m_def)
  have mb: "\<bar>m\<bar> \<le> 9" unfolding m(2) by simp
  have mq: "\<bar>of_int m :: rat\<bar> \<le> 9" using mb by (metis of_int_abs of_int_le_iff of_int_numeral)
  have kq: "(of_int k :: rat) = 10 * of_int ?q + of_int m" using m(1) by (metis of_int_add of_int_mult of_int_numeral)
  have e: "(2 :: rat) powi (- 15) = 1 / 32768" by simp
  have s: "\<bar>(y - of_int ?q) - of_int m / 10\<bar> \<le> 1 / 32768"
    using y(2) kq unfolding e by linarith
  then have "\<bar>y - of_int ?q\<bar> < 1" using mq by linarith
  then have "\<bar>y - of_int ?q\<bar> < 2 powi 0" by simp
  then obtain g where g: "fin binary32 (y - of_int ?q) = Fin g" "\<bar>g - (y - of_int ?q)\<bar> \<le> 2 powi (0 - 25)"
    by (rule fin32_near) simp_all
  have "\<bar>g - (y - of_int ?q)\<bar> \<le> 1 / 33554432" using g(2) by simp
  then have g': "\<bar>g - of_int m / 10\<bar> \<le> 1 / 32768 + 1 / 33554432" using s by linarith
  then have "\<bar>10 * g\<bar> < 16" using mq by linarith
  then have "\<bar>10 * g\<bar> < 2 powi 4" by simp
  then obtain h where h: "fin binary32 (10 * g) = Fin h" "\<bar>h - 10 * g\<bar> \<le> 2 powi (4 - 25)"
    by (rule fin32_near) simp_all
  have "\<bar>h - 10 * g\<bar> \<le> 1 / 2097152" using h(2) by simp
  then have hm: "\<bar>h - of_int m\<bar> < 1" using g' by linarith
  have th: "\<bar>trunc h\<bar> = \<bar>m\<bar> \<or> \<bar>trunc h\<bar> = \<bar>m\<bar> - 1 \<or> (m = 0 \<and> trunc h = 0)"
    by (rule trunc_near_int [OF hm])
  have small: "\<bar>trunc h\<bar> \<le> 9" using th mb by auto
  have fr: "frac_part ub 10 (rssi_float r) = \<bar>trunc h\<bar>"
  proof -
    have "of_c_int binary32 10 = Fin 10" "of_c_int binary32 ?q = Fin (of_int ?q)"
      using of_c_int_small [of 10] of_c_int_small [of ?q] q by simp_all
    then have "fmul binary32 (of_c_int binary32 10) (fsub binary32 (Fin y) (of_c_int binary32 ?q)) = Fin h"
      using g(1) h(1) by (simp add: fsub_def)
    then show ?thesis
      using small y(1) i by (auto simp: frac_part_def int_part_def to_c_int_def abs_le_iff)
  qed
  have "trunc h = 0" if "k mod 10 = 0"
  proof -
    have "y - of_int ?q = 0" using y(4) that by simp
    then have "g = 0" using g(1) by (simp add: fin_def rnd_def binary32_def)
    then have "h = 0" using h(1) by (simp add: fin_def rnd_def binary32_def)
    then show ?thesis by (simp add: trunc_def)
  qed
  with th fr m(2) i y(1) show ?thesis unfolding k_def [symmetric] by auto
qed

section \<open>Properties\<close>

text \<open>With \<open>RTDOABH_COMPACT_MEAS\<close> off the array of ranges is closed by the loop after the last
  range and once more by the code that follows.\<close>

lemma print_plain_json_iff:
  assumes "rtdoa_backhaul_print ub to_us False tight mid p = Some line"
  shows "json_text line \<longleftrightarrow> num_ranges p = 0"
proof -
  obtain m where m: "num_end m" "jrun ([], Val) (print_prefix ub to_us mid p) = Some ([Obj], m)"
    using jrun_prefix by meson
  have n: "unat (num_ranges p) \<le> length (ranges p)"
    and l: "line = print_prefix ub to_us mid p @ print_plain ub tight (ref_anchor_addr p)
      (take (unat (num_ranges p)) (ranges p))"
    using assms by (auto simp: rtdoa_backhaul_print_def Let_def split: if_splits)
  have "take (unat (num_ranges p)) (ranges p) = [] \<longleftrightarrow> num_ranges p = 0"
    using n by (auto simp: unat_eq_0)
  with m jrun_plain [OF m(1)] show ?thesis unfolding l json_text_def by simp
qed


definition ex_pkg :: rtdoabh_tag_results_pkg where
  "ex_pkg = init_result_pkg\<lparr>num_ranges := 1, ranges := (replicate MAXNUM_RANGES zero_range)
     [0 := \<lparr>anchor_addr = 0x1234, diff_dist_mm = word_of_int (- 1500), rssi = word_of_int (- 800), quality = 1\<rparr>]\<rparr>"

lemma ex_pkg_ranges: "num_ranges ex_pkg = 1" "length (ranges ex_pkg) = 16"
  "\<forall>r \<in> set (take 1 (ranges ex_pkg)). plain_quality r"
  by (simp_all add: ex_pkg_def MAXNUM_RANGES_def plain_quality_def take_Suc hd_conv_nth)


text \<open>The function stays inside the range array exactly when the count fits it.\<close>

lemma print_in_bounds_iff:
  "rtdoa_backhaul_print ub to_us compact_meas tight mid p \<noteq> None
     \<longleftrightarrow> unat (num_ranges p) \<le> length (ranges p)"
  by (simp add: rtdoa_backhaul_print_def Let_def)


text \<open>Reading a printed difference: an optional sign, metres, a point, three digits.\<close>

definition read_mm :: "string \<Rightarrow> int" where
  "read_mm s = (let neg = (s \<noteq> [] \<and> hd s = CHR ''-''); b = (if neg then tl s else s);
       v = int (1000 * read_num 10 (takeWhile is_digit b) + read_num 10 (tl (dropWhile is_digit b)))
   in if neg then - v else v)"

lemma read_mm_parts:
  assumes "0 \<le> a" and "0 \<le> b"
  shows "read_mm (''-'' @ fmt_d a @ ''.'' @ fmt_0d 3 b) = - (1000 * a + b)"
    and "read_mm (fmt_d a @ ''.'' @ fmt_0d 3 b) = 1000 * a + b"
proof -
  have dig: "\<forall>c \<in> set (fmt_d a). is_digit c" using assms fmt_d_nonneg_digits by blast
  have tw: "takeWhile is_digit (fmt_d a @ ''.'' @ t) = fmt_d a"
    "dropWhile is_digit (fmt_d a @ ''.'' @ t) = ''.'' @ t" for t
    using dig by (simp_all add: takeWhile_append2 dropWhile_append2 del: char_class_bits add: char_class_bits(1))
  have h: "hd (fmt_d a @ t) \<noteq> CHR ''-''" for t
  proof -
    have "hd (fmt_d a) \<in> set (fmt_d a)" by (rule hd_in_set) simp
    then have "is_digit (hd (fmt_d a))" using dig by blast
    then have "hd (fmt_d a) \<noteq> CHR ''-''" by (auto simp: digit_not_special)
    then show ?thesis by simp
  qed
  have v: "int (read_num 10 (fmt_d a)) = a" "int (read_num 10 (fmt_0d 3 b)) = b"
    using assms by (simp_all add: fmt_d_def fmt_0d_def fmt_simps)
  show "read_mm (''-'' @ fmt_d a @ ''.'' @ fmt_0d 3 b) = - (1000 * a + b)"
    unfolding read_mm_def Let_def using tw v by simp
  show "read_mm (fmt_d a @ ''.'' @ fmt_0d 3 b) = 1000 * a + b"
    unfolding read_mm_def Let_def using tw v h [of "''.'' @ fmt_0d 3 b"] by simp
qed

lemma sdiv_1000_abs: "1000 * \<bar>d sdiv 1000\<bar> + \<bar>d - d sdiv 1000 * 1000\<bar> = \<bar>d\<bar>" for d :: int
proof -
  have p: "1000 * \<bar>x div 1000\<bar> + \<bar>x - x div 1000 * 1000\<bar> = x" if "0 \<le> x" for x :: int
  proof -
    have "0 \<le> x div 1000" "x - x div 1000 * 1000 = x mod 1000" "0 \<le> x mod 1000"
      using that by (simp_all add: minus_div_mult_eq_mod pos_imp_zdiv_nonneg_iff)
    then show ?thesis by simp
  qed
  show ?thesis
  proof (cases "d < 0")
    case True
    then have "d sdiv 1000 = - (- d div 1000)" by (simp add: signed_divide_int_def sgn_if)
    with p [of "- d"] True show ?thesis by (simp add: abs_minus_commute)
  next
    case False
    then have "d sdiv 1000 = d div 1000" by (simp add: signed_divide_int_def sgn_if)
    with p [of d] False show ?thesis by simp
  qed
qed

text \<open>Reading the printed distance difference back gives the stored number of
  millimetres, for every 32-bit value: sign, metres and the three digits agree, although a
  zero difference is printed as \<open>-0.000\<close>.\<close>

lemma ddist_roundtrip: "read_mm (print_ddist r) = sint (diff_dist_mm r)"
proof -
  let ?d = "sint (diff_dist_mm r)"
  show ?thesis
    using sdiv_1000_abs [of ?d] read_mm_parts [of "\<bar>?d sdiv 1000\<bar>" "\<bar>?d - ?d sdiv 1000 * 1000\<bar>"]
    by (auto simp: print_ddist_def Let_def)
qed


text \<open>The received level of a range is printed with its exact number of decibels and
  with a digit of tenths that is the exact one or one less: the division by ten, the
  subtraction of the integer part and the multiplication by ten, each rounded to single
  precision, lose at most one tenth. No conversion leaves its type.\<close>

lemma print_rssi_digits:
  "\<exists>d \<in> (if sint (rssi r) mod 10 = 0 then {0}
          else {\<bar>sint (rssi r)\<bar> mod 10, \<bar>sint (rssi r)\<bar> mod 10 - 1}).
     0 \<le> d \<and> print_rssi ub r = fmt_d (sint (rssi r) sdiv 10) @ ''.'' @ fmt_d d"
  unfolding print_rssi_def print_float_def
  using rssi_frac_part [of ub r] by (intro bexI [of _ "frac_part ub 10 (rssi_float r)"]) auto

text \<open>Both cases occur, and a level between -1 and 0 loses its sign.\<close>

lemma print_rssi_examples:
  "print_rssi (\<lambda>_. 0) (zero_range\<lparr>rssi := word_of_int (- 613)\<rparr>) = ''-61.2''"
  "print_rssi (\<lambda>_. 0) (zero_range\<lparr>rssi := word_of_int (- 5)\<rparr>) = ''0.5''"
  by (simp add: print_rssi_def rssi_float_def print_float_def, code_simp)+

text \<open>The accelerometer prints thousandths without padding: 1.005 comes out as \<open>1.4\<close>, and -0.5
  as \<open>0.500\<close>.\<close>

lemma print_accel_examples:
  "print_float (\<lambda>_. 0) 1000 (fdiv binary32 (of_c_int binary32 1005) (of_c_int binary32 1000)) = ''1.4''"
  "print_float (\<lambda>_. 0) 1000 (fdiv binary32 (of_c_int binary32 (- 500)) (of_c_int binary32 1000)) = ''0.500''"
  by code_simp+

end
