(* ===== verification/Rtdoa_Rx_Props.thy ===== *)
theory Rtdoa_Rx_Props
  imports Rtdoa_Rx Effects Rtdoa_Send_Props Rtdoa_Print_Props
begin

text \<open>
  Correctness of the receiving side: the protocol of the listen semaphore over every
  interleaving of a listener with the callbacks, which frames wake it, the suppression of
  repeated frames, and the loop that prints the queue.
\<close>

abbreviation level :: "'g st \<Rightarrow> int" where
  "level s \<equiv> sem_level BhSem 1 (tr s)"


section \<open>Waking the listener\<close>

lemma sem_okD:
  "sem_ok x n E \<Longrightarrow> eint E h (Os (SemGetCount x)) = sem_level x n h"
  "sem_ok x n E \<Longrightarrow> eint E h (Os (SemPend x)) = 0"
  "sem_ok x n E \<Longrightarrow> eint E h (Os (SemRelease x)) = 0"
  by (simp_all add: sem_ok_def)

lemma wake_effects:
  assumes "sem_ok BhSem 1 E" and "\<not> halted s"
  shows "\<not> halted (exec (wake_listener E) s)" and "glb (exec (wake_listener E) s) = glb s"
    and "level (exec (wake_listener E) s) = (if level s = 0 then 1 else level s)"
  using assms by (simp_all add: wake_listener_def exec_def run_simps sem_okD)

lemma wake_mbufs:
  "\<not> halted s \<Longrightarrow> payload E m (tr (exec (wake_listener E) s)) = payload E m (tr s)"
  "\<not> halted s \<Longrightarrow> enqueued E (tr (exec (wake_listener E) s)) = enqueued E (tr s)"
  "\<not> halted s \<Longrightarrow> queued E (tr (exec (wake_listener E) s)) = queued E (tr s)"
  "\<not> halted s \<Longrightarrow> owned E (tr (exec (wake_listener E) s)) = owned E (tr s)"
  by (auto simp: wake_listener_def exec_def run_simps)

text \<open>What a received frame is to this node.\<close>

definition backhaul_frame :: "(u8 list \<Rightarrow> rng_head) \<Rightarrow> uwb_dev \<Rightarrow> bool" where
  "backhaul_frame dec inst \<longleftrightarrow> d_fctrl inst = FCNTL_IEEE_RTDOABH
     \<and> DWT_RTDOABH_CODE \<le> code (dec (d_rxbuf inst))"

definition relayed :: "env \<Rightarrow> (u8 list \<Rightarrow> rng_head) \<Rightarrow> rtdoa_backhaul_role_t \<Rightarrow> uwb_dev \<Rightarrow> bool" where
  "relayed E dec role inst \<longleftrightarrow> backhaul_frame dec inst \<and> role = RTDOABH_ROLE_BRIDGE
     \<and> dst_address (dec (d_rxbuf inst)) \<in> {d_my_short_address inst, BROADCAST E}
     \<and> SENSOR_SIZE \<le> d_frame_len inst"

definition frame_key :: "(u8 list \<Rightarrow> rng_head) \<Rightarrow> uwb_dev \<Rightarrow> u16 \<times> u8" where
  "frame_key dec inst = (src_address (dec (d_rxbuf inst)), seq_num (dec (d_rxbuf inst)))"

definition last_key :: "'z bh_globals_scheme \<Rightarrow> u16 \<times> u8" where
  "last_key g = (last_address g, last_seq_num g)"

lemma role_cases: "r = RTDOABH_ROLE_BRIDGE \<longleftrightarrow> \<not> (r = RTDOABH_ROLE_INVALID \<or> r = RTDOABH_ROLE_PRODUCER)"
  by (cases r) simp_all

definition rx_timeout :: "uwb_dev \<Rightarrow> ('z bh_globals_scheme, unit) prog" where
  "rx_timeout inst = do {
     t \<leftarrow> gets g_to_dx_time;
     onlyif (t \<noteq> 0)
       (act (Radio (SetRxTimeout (d_idx inst) (uint (remaining_uus t (d_rxtimestamp inst))))))
   }"

lemma rx_timeout_effects:
  assumes "\<not> halted s"
  shows "\<not> halted (exec (rx_timeout inst) s)" "glb (exec (rx_timeout inst) s) = glb s"
    "level (exec (rx_timeout inst) s) = level s"
    "payload E m (tr (exec (rx_timeout inst) s)) = payload E m (tr s)"
    "enqueued E (tr (exec (rx_timeout inst) s)) = enqueued E (tr s)"
    "queued E (tr (exec (rx_timeout inst) s)) = queued E (tr s)"
    "owned E (tr (exec (rx_timeout inst) s)) = owned E (tr s)"
  using assms by (auto simp: rx_timeout_def exec_bind exec_act)

text \<open>The callback by cases on the frame.\<close>

definition rx_fresh :: "env \<Rightarrow> (u8 list \<Rightarrow> rng_head) \<Rightarrow> uwb_dev \<Rightarrow> ('z bh_globals_scheme, unit) prog" where
  "rx_fresh E dec inst = do {
     upd (\<lambda>g. g\<lparr>last_address := fst (frame_key dec inst), last_seq_num := snd (frame_key dec inst)\<rparr>);
     go_on \<leftarrow> rx_enqueue E inst;
     onlyif go_on (wake_listener E)
   }"

lemma exec_rx_complete_cb:
  assumes "\<not> halted s"
  shows "exec (rx_complete_cb E dec inst) s = (let t = exec (rx_timeout inst) s in
    if \<not> backhaul_frame dec inst then t
    else if \<not> relayed E dec (g_role (glb s)) inst then exec (wake_listener E) t
    else if frame_key dec inst = last_key (glb s) then exec (stat_inc s_rx_drop_update) t
    else exec (rx_fresh E dec inst) t)"
proof -
  define t where "t = exec (rx_timeout inst) s"
  have g: "glb t = glb s" using rx_timeout_effects(2) [OF assms] by (simp add: t_def)
  have split: "exec (State_Monad.bind (gets g_to_dx_time) (\<lambda>t. State_Monad.bind (onlyif (t \<noteq> 0)
      (act (Radio (SetRxTimeout (d_idx inst) (uint (remaining_uus t (d_rxtimestamp inst))))))) (\<lambda>_. p))) s
    = exec p t" for p :: "('a bh_globals_scheme, bool) prog"
    by (simp add: t_def rx_timeout_def exec_bind)
  show ?thesis
    unfolding rx_complete_cb_def split Let_def t_def [symmetric]
    using g role_cases [of "g_role (glb s)"]
    by (cases "DWT_RTDOABH_CODE \<le> code (dec (d_rxbuf inst))"; cases "SENSOR_SIZE \<le> d_frame_len inst")
      (simp_all add: exec_bind backhaul_frame_def relayed_def frame_key_def last_key_def rx_fresh_def
        linorder_not_less [symmetric] del: linorder_not_less linorder_not_le)
qed


section \<open>Queueing a fresh frame\<close>

text \<open>Copying into a buffer and queueing it succeed; getting a buffer may fail.\<close>

definition copy_put_ok :: "env \<Rightarrow> bool" where
  "copy_put_ok E \<longleftrightarrow> (\<forall>h m off bs. eint E h (Os (MbufCopyInto m off bs)) = 0) \<and>
     (\<forall>h m. eint E h (Os (MqPut m)) = 0)"

definition frame_bytes :: "uwb_dev \<Rightarrow> u8 list" where
  "frame_bytes inst = take (d_frame_len inst mod 2 ^ 15) (d_rxbuf inst)"

lemma enqueue_effects:
  assumes "\<not> halted s"
  shows "\<not> halted (exec (rx_enqueue E inst) s)" "level (exec (rx_enqueue E inst) s) = level s"
    "last_key (glb (exec (rx_enqueue E inst) s)) = last_key (glb s)"
    "g_to_dx_time (glb (exec (rx_enqueue E inst) s)) = g_to_dx_time (glb s)"
    "g_role (glb (exec (rx_enqueue E inst) s)) = g_role (glb s)"
    "g_result_pkg (glb (exec (rx_enqueue E inst) s)) = g_result_pkg (glb s)"
    "g_result_pkg_imu (glb (exec (rx_enqueue E inst) s)) = g_result_pkg_imu (glb s)"
    "g_msg_id (glb (exec (rx_enqueue E inst) s)) = g_msg_id (glb s)"
  using assms by (auto simp: rx_enqueue_def stat_inc_def exec_def run_simps last_key_def)

lemma enqueue_result:
  assumes "\<not> halted s" and "copy_put_ok E"
  shows "result (rx_enqueue E inst) s"
  using assms by (simp add: rx_enqueue_def stat_inc_def result_def run_simps copy_put_ok_def)

lemma enqueue_available:
  assumes "\<not> halted s" and "mbufs_available E"
  shows "enqueued E (tr (exec (rx_enqueue E inst) s)) = enqueued E (tr s) @ [frame_bytes inst]"
    and "\<exists>m. queued E (tr (exec (rx_enqueue E inst) s)) = queued E (tr s) @ [m]
      \<and> payload E m (tr (exec (rx_enqueue E inst) s)) = frame_bytes inst \<and> m \<noteq> 0
      \<and> (mbuf_fresh E \<longrightarrow> m \<notin> owned E (tr s) \<union> set (queued E (tr s)))"
    and "m \<in> set (queued E (tr s)) \<Longrightarrow> mbuf_fresh E \<Longrightarrow>
      payload E m (tr (exec (rx_enqueue E inst) s)) = payload E m (tr s)"
    and "mbuf_fresh E \<Longrightarrow> owned E (tr (exec (rx_enqueue E inst) s)) = owned E (tr s)"
proof -
  let ?m = "eint E (tr s) (Os (MbufGet 0 2))"
  have f: "?m \<notin> owned E (tr s) \<union> set (queued E (tr s))" if "mbuf_fresh E"
    using that by (simp add: mbuf_fresh_def)
  have e: "\<not> halted (s\<lparr>glb := x\<rparr>)" for x using assms(1) by simp
  note r = assms e mbufs_available_def rx_enqueue_def stat_inc_def exec_def run_simps frame_bytes_def
  show "enqueued E (tr (exec (rx_enqueue E inst) s)) = enqueued E (tr s) @ [frame_bytes inst]"
    using assms by (simp add: r)
  show "\<exists>m. queued E (tr (exec (rx_enqueue E inst) s)) = queued E (tr s) @ [m]
      \<and> payload E m (tr (exec (rx_enqueue E inst) s)) = frame_bytes inst \<and> m \<noteq> 0
      \<and> (mbuf_fresh E \<longrightarrow> m \<notin> owned E (tr s) \<union> set (queued E (tr s)))"
    using assms f by (intro exI [of _ ?m]) (simp add: r)
  show "payload E m (tr (exec (rx_enqueue E inst) s)) = payload E m (tr s)"
    if "m \<in> set (queued E (tr s))" "mbuf_fresh E"
    using assms f [OF that(2)] that(1) by (auto simp: r)
  show "owned E (tr (exec (rx_enqueue E inst) s)) = owned E (tr s)" if "mbuf_fresh E"
    using assms f [OF that] by (auto simp: r)
qed

lemma fresh_effects:
  assumes "sem_ok BhSem 1 E" and "\<not> halted s"
  shows "\<not> halted (exec (rx_fresh E dec inst) s)"
    "level (exec (rx_fresh E dec inst) s) \<in> {level s, if level s = 0 then 1 else level s}"
    "copy_put_ok E \<Longrightarrow> level (exec (rx_fresh E dec inst) s) = (if level s = 0 then 1 else level s)"
    "last_key (glb (exec (rx_fresh E dec inst) s)) = frame_key dec inst"
    "g_to_dx_time (glb (exec (rx_fresh E dec inst) s)) = g_to_dx_time (glb s)"
    "g_role (glb (exec (rx_fresh E dec inst) s)) = g_role (glb s)"
    "g_msg_id (glb (exec (rx_fresh E dec inst) s)) = g_msg_id (glb s)"
proof -
  define t where "t = s\<lparr>glb := (glb s)\<lparr>last_address := fst (frame_key dec inst),
     last_seq_num := snd (frame_key dec inst)\<rparr>\<rparr>"
  have t: "\<not> halted t" "level t = level s" "last_key (glb t) = frame_key dec inst"
    "g_to_dx_time (glb t) = g_to_dx_time (glb s)" "g_role (glb t) = g_role (glb s)"
    "g_msg_id (glb t) = g_msg_id (glb s)"
    using assms(2) by (simp_all add: t_def last_key_def)
  define u where "u = exec (rx_enqueue E inst) t"
  note u = enqueue_effects [OF t(1), of E inst, folded u_def]
  have e: "exec (rx_fresh E dec inst) s = (if result (rx_enqueue E inst) t then exec (wake_listener E) u else u)"
    using assms(2) by (simp add: rx_fresh_def exec_bind exec_upd t_def u_def)
  note w = wake_effects [OF assms(1) u(1)]
  show "\<not> halted (exec (rx_fresh E dec inst) s)"
    "level (exec (rx_fresh E dec inst) s) \<in> {level s, if level s = 0 then 1 else level s}"
    "last_key (glb (exec (rx_fresh E dec inst) s)) = frame_key dec inst"
    "g_to_dx_time (glb (exec (rx_fresh E dec inst) s)) = g_to_dx_time (glb s)"
    "g_role (glb (exec (rx_fresh E dec inst) s)) = g_role (glb s)"
    "g_msg_id (glb (exec (rx_fresh E dec inst) s)) = g_msg_id (glb s)"
    using w u t by (auto simp: e)
  show "level (exec (rx_fresh E dec inst) s) = (if level s = 0 then 1 else level s)" if "copy_put_ok E"
    using w u t enqueue_result [OF t(1) that] by (simp add: e)
qed

lemma fresh_available:
  assumes "\<not> halted s" and "mbufs_available E"
  shows "enqueued E (tr (exec (rx_fresh E dec inst) s)) = enqueued E (tr s) @ [frame_bytes inst]"
proof -
  define t where "t = s\<lparr>glb := (glb s)\<lparr>last_address := fst (frame_key dec inst),
     last_seq_num := snd (frame_key dec inst)\<rparr>\<rparr>"
  have t: "\<not> halted t" "tr t = tr s" using assms(1) by (simp_all add: t_def)
  define u where "u = exec (rx_enqueue E inst) t"
  have "exec (rx_fresh E dec inst) s = (if result (rx_enqueue E inst) t then exec (wake_listener E) u else u)"
    using assms(1) by (simp add: rx_fresh_def exec_bind exec_upd t_def u_def)
  then show ?thesis
    using enqueue_available(1) [OF t(1) assms(2)] enqueue_effects(1) [OF t(1)] t(2)
    by (simp add: u_def wake_mbufs)
qed


section \<open>What a received frame does\<close>

lemma stat_inc_effects:
  "\<not> halted s \<Longrightarrow> exec (stat_inc f) s = s\<lparr>glb := (glb s)\<lparr>g_tag_stats := f (\<lambda>n. n + 1) (g_tag_stats (glb s))\<rparr>\<rparr>"
  by (simp add: stat_inc_def exec_upd)

lemma rx_effects:
  assumes "sem_ok BhSem 1 E" and "\<not> halted s"
  shows rx_not_halted: "\<not> halted (exec (rx_complete_cb E dec inst) s)"
    and rx_level: "level (exec (rx_complete_cb E dec inst) s) \<in> {level s, if level s = 0 then 1 else level s}"
    and rx_to: "g_to_dx_time (glb (exec (rx_complete_cb E dec inst) s)) = g_to_dx_time (glb s)"
    and rx_role: "g_role (glb (exec (rx_complete_cb E dec inst) s)) = g_role (glb s)"
    and rx_msg_id: "g_msg_id (glb (exec (rx_complete_cb E dec inst) s)) = g_msg_id (glb s)"
    and rx_last: "last_key (glb (exec (rx_complete_cb E dec inst) s))
      = (if relayed E dec (g_role (glb s)) inst then frame_key dec inst else last_key (glb s))"
proof -
  define t where "t = exec (rx_timeout inst) s"
  note t = rx_timeout_effects(1-3) [OF assms(2), of inst, folded t_def]
  note e = exec_rx_complete_cb [OF assms(2), of E dec inst, folded t_def, unfolded Let_def]
  note w = wake_effects [OF assms(1) t(1)]
  note f = fresh_effects [OF assms(1) t(1), of dec inst]
  show "\<not> halted (exec (rx_complete_cb E dec inst) s)"
    "level (exec (rx_complete_cb E dec inst) s) \<in> {level s, if level s = 0 then 1 else level s}"
    "g_to_dx_time (glb (exec (rx_complete_cb E dec inst) s)) = g_to_dx_time (glb s)"
    "g_role (glb (exec (rx_complete_cb E dec inst) s)) = g_role (glb s)"
    "g_msg_id (glb (exec (rx_complete_cb E dec inst) s)) = g_msg_id (glb s)"
    using t w f by (auto simp: e stat_inc_effects)
  have "relayed E dec (g_role (glb s)) inst \<Longrightarrow> backhaul_frame dec inst" by (simp add: relayed_def)
  then show "last_key (glb (exec (rx_complete_cb E dec inst) s))
      = (if relayed E dec (g_role (glb s)) inst then frame_key dec inst else last_key (glb s))"
    using t w f by (auto simp: e stat_inc_effects last_key_def)
qed


section \<open>The listen semaphore under every interleaving\<close>

text \<open>
  One client task listens; every other operation of the library may run between its two
  waits, in any order and any number of times. A wait on the semaphore proceeds only when
  its level is positive.
\<close>

datatype bh_pc = BhIdle | BhListening

inductive bh_step :: "env \<Rightarrow> nat \<Rightarrow> (rng_head \<Rightarrow> u8 list) \<Rightarrow> (u8 list \<Rightarrow> rng_head) \<Rightarrow> (u64 \<Rightarrow> cfl)
    \<Rightarrow> 'f rtdoa_lib \<Rightarrow> bh_pc \<times> bh_globals st \<Rightarrow> bh_pc \<times> bh_globals st \<Rightarrow> bool"
  for E hl enc dec to_us L where
  bh_listen: "0 < level s \<Longrightarrow>
    bh_step E hl enc dec to_us L (BhIdle, s) (BhListening, exec (listen_begin E i dx t) s)"
| bh_resume: "0 < level s \<Longrightarrow>
    bh_step E hl enc dec to_us L (BhListening, s) (BhIdle, exec (listen_end E) s)"
| bh_rx: "bh_step E hl enc dec to_us L (pc, s) (pc, exec (rx_complete_cb E dec inst) s)"
| bh_tx: "bh_step E hl enc dec to_us L (pc, s) (pc, exec (tx_complete_cb E inst) s)"
| bh_print: "bh_step E hl enc dec to_us L (pc, s) (pc, exec (process_rx_data_queue n E hl dec to_us) s)"
| bh_send: "bh_step E hl enc dec to_us L (pc, s) (pc, exec (rtdoa_backhaul_send E hl enc L i r dx) s)"
| bh_imu: "bh_step E hl enc dec to_us L (pc, s) (pc, exec (rtdoa_backhaul_send_imu_only E hl enc t) s)"
| bh_sensor: "bh_step E hl enc dec to_us L (pc, s) (pc, exec (rtdoa_backhaul_sensor_data_cb E ty r) s)"
| bh_battery: "bh_step E hl enc dec to_us L (pc, s) (pc, exec (rtdoa_backhaul_battery_cb E v) s)"
| bh_usb: "bh_step E hl enc dec to_us L (pc, s) (pc, exec (rtdoa_backhaul_usb_cb v) s)"
| bh_role: "bh_step E hl enc dec to_us L (pc, s) (pc, exec (rtdoa_backhaul_set_role x) s)"
| bh_a2a: "bh_step E hl enc dec to_us L (pc, s) (pc, exec rtdoa_backhaul_set_a2a s)"
| bh_ts: "bh_step E hl enc dec to_us L (pc, s) (pc, exec (rtdoa_backhaul_set_ts t) s)"

text \<open>The packets keep their shape and the constants of their header.\<close>

definition pkg_ok :: "rtdoabh_tag_results_pkg \<Rightarrow> bool" where
  "pkg_ok p \<longleftrightarrow> wf_pkg p \<and> fctrl (head p) = FCNTL_IEEE_RTDOABH \<and> code (head p) = DWT_RTDOABH_CODE
     \<and> PANID (head p) = 0xDECA \<and> dst_address (head p) = 0xffff"

definition bh_inv :: "bh_globals \<Rightarrow> bool" where
  "bh_inv g \<longleftrightarrow> pkg_ok (g_result_pkg g) \<and> pkg_ok (g_result_pkg_imu g)"

definition listen_inv :: "bh_pc \<times> bh_globals st \<Rightarrow> bool" where
  "listen_inv q \<longleftrightarrow> (case q of (pc, s) \<Rightarrow> bh_inv (glb s) \<and>
     (\<not> halted s \<longrightarrow> level s \<in> {0, 1} \<and> (pc = BhIdle \<longrightarrow> level s = 1 \<and> g_to_dx_time (glb s) = 0)))"

subsection \<open>The operations that do not touch the semaphore\<close>

abbreviation quiet :: "('g, 'a) prog \<Rightarrow> bool" where
  "quiet p \<equiv> emits (\<lambda>c. \<not> sem_call BhSem c) p"

lemma quiet_local_send: "quiet (rtdoa_local_send E buf n)"
  unfolding rtdoa_local_send_def by (intro effects) simp_all

lemma quiet_send_tail: "quiet (send_tail E hl enc i dx)"
  unfolding send_tail_def transmit_rest_def
  by (intro effects quiet_local_send) simp_all

lemma quiet_send: "quiet (rtdoa_backhaul_send E hl enc L i r dx)"
  unfolding rtdoa_backhaul_send_def
  by (intro effects quiet_send_tail) simp_all

lemma quiet_imu: "quiet (rtdoa_backhaul_send_imu_only E hl enc t)"
  unfolding rtdoa_backhaul_send_imu_only_def
  by (intro effects quiet_local_send)

lemma quiet_process: "quiet (process_rx_data_queue n E hl dec to_us)"
proof (induction n)
  case (Suc n)
  then show ?case unfolding process_rx_data_queue.simps process_message_def print_pkg_def
    by (intro effects) simp_all
qed (simp add: effects)

lemma quiet_setters:
  "quiet (rtdoa_backhaul_sensor_data_cb E ty r)" "quiet (rtdoa_backhaul_battery_cb E v)"
  "quiet (rtdoa_backhaul_usb_cb v)" "quiet (rtdoa_backhaul_set_role x)"
  "quiet rtdoa_backhaul_set_a2a" "quiet (rtdoa_backhaul_set_ts t)"
  unfolding rtdoa_backhaul_sensor_data_cb_def rtdoa_backhaul_battery_cb_def rtdoa_backhaul_usb_cb_def
    rtdoa_backhaul_set_role_def rtdoa_backhaul_set_a2a_def rtdoa_backhaul_set_ts_def upd_imu_def
  by (intro effects)+

lemmas quiet_ops = quiet_send quiet_imu quiet_process quiet_setters

text \<open>They do not move the end of the current listen either.\<close>

abbreviation to_kept :: "u64 \<Rightarrow> (bh_globals, 'a) prog \<Rightarrow> bool" where
  "to_kept x p \<equiv> keeps (\<lambda>g. g_to_dx_time g = x) p"

lemma to_local_send: "to_kept x (rtdoa_local_send E buf n)"
  unfolding rtdoa_local_send_def by (intro effects)

lemma to_process: "to_kept x (process_rx_data_queue n E hl dec to_us)"
proof (induction n)
  case (Suc n)
  then show ?case unfolding process_rx_data_queue.simps process_message_def print_pkg_def
    by (intro effects) simp_all
qed (simp add: effects)

lemma to_ops:
  "to_kept x (rtdoa_backhaul_send E hl enc L i r dx)"
  "to_kept x (rtdoa_backhaul_send_imu_only E hl enc t)"
  "to_kept x (rtdoa_backhaul_sensor_data_cb E ty rd)" "to_kept x (rtdoa_backhaul_battery_cb E v)"
  "to_kept x (rtdoa_backhaul_usb_cb v)" "to_kept x (rtdoa_backhaul_set_role y)"
  "to_kept x rtdoa_backhaul_set_a2a" "to_kept x (rtdoa_backhaul_set_ts t)"
  unfolding rtdoa_backhaul_send_def send_tail_def transmit_rest_def rtdoa_backhaul_send_imu_only_def
    rtdoa_backhaul_sensor_data_cb_def rtdoa_backhaul_battery_cb_def rtdoa_backhaul_usb_cb_def
    rtdoa_backhaul_set_role_def rtdoa_backhaul_set_a2a_def rtdoa_backhaul_set_ts_def upd_imu_def
  by (intro effects to_local_send; simp)+


subsection \<open>The packets stay well formed\<close>

lemma pkg_ok_updates:
  "pkg_ok p \<Longrightarrow> pkg_ok (begin_round p)"
  "pkg_ok p \<Longrightarrow> pkg_ok (clear_round p)"
  "pkg_ok p \<Longrightarrow> pkg_ok (p\<lparr>ref_anchor_addr := a\<rparr>)"
  "pkg_ok p \<Longrightarrow> wf_sensors d \<Longrightarrow> pkg_ok (p\<lparr>sensors := d\<rparr>)"
  "pkg_ok p \<Longrightarrow> pkg_ok (p\<lparr>head := (head p)\<lparr>seq_num := n\<rparr>\<rparr>)"
  by (simp_all add: pkg_ok_def wf_pkg_def begin_round_def clear_round_def wf_sensors_def zero_sensors_def)

lemma wf_sensor_updates:
  "wf_sensors zero_sensors"
  "wf_sensors d \<Longrightarrow> wf_sensors (store_sensor ub ty r d)"
  "wf_sensors d \<Longrightarrow> wf_sensors (set_valid m d)"
  "wf_sensors d \<Longrightarrow> wf_sensors (d\<lparr>ts := x\<rparr>)"
  "wf_sensors d \<Longrightarrow> wf_sensors (d\<lparr>battery_voltage := v\<rparr>)"
  "wf_sensors d \<Longrightarrow> wf_sensors (d\<lparr>has_usb_power := b\<rparr>)"
  "wf_sensors d \<Longrightarrow> wf_sensors (d\<lparr>is_anchor_data := b\<rparr>)"
  by (simp_all add: wf_sensors_def zero_sensors_def store_sensor_def set_valid_def)

lemma pkg_ok_sensors [dest]: "pkg_ok p \<Longrightarrow> wf_sensors (sensors p)"
  by (simp add: pkg_ok_def wf_pkg_def)

lemma pkg_ok_fill:
  assumes "fill_ranges ub L req i fs (p, st) = Some (p', st')" and "pkg_ok p"
  shows "pkg_ok p'"
  using fill_ranges_Some [OF assms(1)] assms(2)
  by (auto simp: pkg_ok_def wf_pkg_def MAXNUM_RANGES_def)

lemma inv_local_send: "keeps bh_inv (rtdoa_local_send E buf n)"
  unfolding rtdoa_local_send_def by (intro effects)

lemma inv_send_tail: "keeps bh_inv (send_tail E hl enc i dx)"
  unfolding send_tail_def transmit_rest_def
  by (intro effects inv_local_send) (simp_all add: bh_inv_def)

lemma inv_send: "keeps bh_inv (rtdoa_backhaul_send E hl enc L i r dx)"
proof -
  have q: "keeps bh_inv (case fill_ranges (eub E) L (req_frame r) 0 (frames r) (g_result_pkg g, g_tag_stats g) of
      None \<Rightarrow> halt
    | Some (p, st) \<Rightarrow> State_Monad.bind (upd (\<lambda>g. g\<lparr>g_result_pkg := p, g_tag_stats := st\<rparr>))
        (\<lambda>_. send_tail E hl enc i dx))" if "bh_inv g" for g
    using that by (intro effects inv_send_tail) (auto simp: bh_inv_def dest: pkg_ok_fill)
  have c: "keeps bh_inv (State_Monad.bind
      (gets (\<lambda>g. fill_ranges (eub E) L (req_frame r) 0 (frames r) (g_result_pkg g, g_tag_stats g)))
      (\<lambda>q. State_Monad.bind (case q of None \<Rightarrow> halt
        | Some (p, st) \<Rightarrow> State_Monad.bind (upd (\<lambda>g. g\<lparr>g_result_pkg := p, g_tag_stats := st\<rparr>))
            (\<lambda>_. send_tail E hl enc i dx))
        (\<lambda>_. upd (\<lambda>g. g\<lparr>g_result_pkg := clear_round (g_result_pkg g)\<rparr>))))"
    by (rule keeps_gets_bind, rule keeps_bind, rule q, assumption, rule keeps_upd)
      (auto simp: bh_inv_def pkg_ok_updates)
  show ?thesis
    unfolding rtdoa_backhaul_send_def
    by (rule keeps_bind keeps_upd keeps_prims keeps_onlyif c | simp add: bh_inv_def pkg_ok_updates)+
qed

lemma inv_imu: "keeps bh_inv (rtdoa_backhaul_send_imu_only E hl enc t)"
  unfolding rtdoa_backhaul_send_imu_only_def
  by (intro effects inv_local_send) (auto simp: bh_inv_def intro!: pkg_ok_updates wf_sensor_updates)

lemma inv_process: "keeps bh_inv (process_rx_data_queue n E hl dec to_us)"
proof (induction n)
  case (Suc n)
  then show ?case unfolding process_rx_data_queue.simps process_message_def print_pkg_def
    by (intro effects) (simp_all add: bh_inv_def)
qed (simp add: effects)

lemma inv_rx: "keeps bh_inv (rx_complete_cb E dec inst)"
  unfolding rx_complete_cb_def rx_enqueue_def wake_listener_def stat_inc_def
  by (intro effects) (simp_all add: bh_inv_def)

lemma inv_listen: "keeps bh_inv (tx_complete_cb E inst)" "keeps bh_inv (listen_begin E i dx t)"
  "keeps bh_inv (listen_end E)"
  unfolding tx_complete_cb_def listen_begin_def listen_end_def wake_listener_def stat_inc_def
  by (intro effects; simp add: bh_inv_def)+

lemma inv_setters:
  "keeps bh_inv (rtdoa_backhaul_sensor_data_cb E ty r)" "keeps bh_inv (rtdoa_backhaul_battery_cb E v)"
  "keeps bh_inv (rtdoa_backhaul_usb_cb v)" "keeps bh_inv (rtdoa_backhaul_set_role x)"
  "keeps bh_inv rtdoa_backhaul_set_a2a" "keeps bh_inv (rtdoa_backhaul_set_ts t)"
  unfolding rtdoa_backhaul_sensor_data_cb_def rtdoa_backhaul_battery_cb_def rtdoa_backhaul_usb_cb_def
    rtdoa_backhaul_set_role_def rtdoa_backhaul_set_a2a_def rtdoa_backhaul_set_ts_def upd_imu_def
  by (intro effects; auto simp: bh_inv_def intro!: pkg_ok_updates wf_sensor_updates)+

lemmas inv_ops = inv_send inv_imu inv_process inv_rx inv_listen inv_setters

subsection \<open>The listener\<close>

lemma listen_begin_effects:
  assumes "sem_ok BhSem 1 E" and "\<not> halted s"
  shows "\<not> halted (exec (listen_begin E i dx t) s)"
    and "level (exec (listen_begin E i dx t) s) \<in> {level s - 1, level s}"
  using assms by (auto simp: listen_begin_def exec_def run_simps sem_okD stat_inc_def)

lemma listen_end_effects:
  assumes "sem_ok BhSem 1 E" and "\<not> halted s"
  shows "\<not> halted (exec (listen_end E) s)" and "level (exec (listen_end E) s) = level s"
    and "g_to_dx_time (glb (exec (listen_end E) s)) = 0"
  using assms by (auto simp: listen_end_def exec_def run_simps sem_okD)

lemma tx_effects:
  assumes "sem_ok BhSem 1 E" and "\<not> halted s"
  shows "\<not> halted (exec (tx_complete_cb E inst) s)" and "glb (exec (tx_complete_cb E inst) s) = glb s"
    and "level (exec (tx_complete_cb E inst) s) \<in> {level s, if level s = 0 then 1 else level s}"
  using wake_effects [OF assms] assms(2) by (auto simp: tx_complete_cb_def exec_bind)

lemma listen_inv_step:
  assumes ok: "sem_ok BhSem 1 E" and step: "bh_step E hl enc dec to_us L q q'"
    and inv: "listen_inv q" and run: "\<not> halted (snd q)"
  shows "listen_inv q'"
proof -
  have keep: "listen_inv (pc, exec p s)"
    if "listen_inv (pc, s)" "\<not> halted s" "keeps bh_inv p" "quiet p" "\<And>x. to_kept x p" for pc p s
    using that(1-2) keepsD [OF that(3), of s] emits_sem_level [OF that(4), of 1 s]
      keepsD [OF that(5), of s "g_to_dx_time (glb s)"]
    by (auto simp: listen_inv_def)
  from step inv run show ?thesis
  proof cases
    case (bh_listen s i dx t)
    then show ?thesis
      using inv run listen_begin_effects [OF ok, of s i dx t] keepsD [OF inv_listen(2), of s E i dx t]
      by (auto simp: listen_inv_def)
  next
    case (bh_resume s)
    then show ?thesis
      using inv run listen_end_effects [OF ok, of s] keepsD [OF inv_listen(3), of s E]
      by (auto simp: listen_inv_def)
  next
    case (bh_rx pc s inst)
    then show ?thesis
      using inv run rx_level [OF ok, of s dec inst] rx_to [OF ok, of s dec inst]
        keepsD [OF inv_rx, of s E dec inst]
      by (auto simp: listen_inv_def)
  next
    case (bh_tx pc s inst)
    then show ?thesis
      using inv run tx_effects [OF ok, of s inst] keepsD [OF inv_listen(1), of s E inst]
      by (auto simp: listen_inv_def)
  qed (use inv run in \<open>auto intro!: keep inv_ops quiet_ops to_ops to_process\<close>)
qed


text \<open>The states the library can reach while it runs, from its initialised state.\<close>

inductive bh_reachable :: "env \<Rightarrow> nat \<Rightarrow> (rng_head \<Rightarrow> u8 list) \<Rightarrow> (u8 list \<Rightarrow> rng_head) \<Rightarrow> (u64 \<Rightarrow> cfl)
    \<Rightarrow> 'f rtdoa_lib \<Rightarrow> bh_pc \<times> bh_globals st \<Rightarrow> bool"
  for E hl enc dec to_us L where
  bh_start: "bh_reachable E hl enc dec to_us L (BhIdle, boot init_bh)"
| bh_next: "bh_reachable E hl enc dec to_us L q \<Longrightarrow> \<not> halted (snd q) \<Longrightarrow>
    bh_step E hl enc dec to_us L q q' \<Longrightarrow> bh_reachable E hl enc dec to_us L q'"

lemma init_inv: "listen_inv (BhIdle, boot init_bh)"
  by (simp add: listen_inv_def bh_inv_def pkg_ok_def init_bh_def) (simp add: init_result_pkg_def)

lemma reachable_inv:
  assumes "bh_reachable E hl enc dec to_us L q" and "sem_ok BhSem 1 E"
  shows "listen_inv q"
  using assms(1)
proof induction
  case bh_start
  show ?case by (rule init_inv)
next
  case (bh_next q q')
  then show ?case using listen_inv_step [OF assms(2)] by blast
qed


text \<open>A fresh frame on an empty queue becomes its only message.\<close>

lemma rx_queue_effects:
  assumes "\<not> halted s" and "mbufs_available E" and "mbuf_fresh E" and "queued E (tr s) = []"
    and "relayed E dec (g_role (glb s)) inst" and "frame_key dec inst \<noteq> last_key (glb s)"
    and s': "s' = exec (rx_complete_cb E dec inst) s"
  shows "\<exists>m. queued E (tr s') = [m] \<and> payload E m (tr s') = frame_bytes inst \<and> m \<noteq> 0 \<and> m \<notin> owned E (tr s')"
proof -
  define t where "t = exec (rx_timeout inst) s"
  have t: "\<not> halted t" "glb t = glb s" "queued E (tr t) = []"
    using rx_timeout_effects [OF assms(1), where inst = inst] assms(4) by (simp_all add: t_def)
  define u where "u = t\<lparr>glb := (glb t)\<lparr>last_address := fst (frame_key dec inst),
     last_seq_num := snd (frame_key dec inst)\<rparr>\<rparr>"
  have u: "\<not> halted u" "tr u = tr t" using t(1) by (simp_all add: u_def)
  define v where "v = exec (rx_enqueue E inst) u"
  have v: "\<not> halted v" using enqueue_effects(1) [OF u(1)] by (simp add: v_def)
  have "backhaul_frame dec inst" using assms(5) by (simp add: relayed_def)
  then have "s' = exec (rx_fresh E dec inst) t"
    using exec_rx_complete_cb [OF assms(1), of E dec inst, folded t_def] assms(5,6) s' by (simp add: Let_def)
  also have "\<dots> = (if result (rx_enqueue E inst) u then exec (wake_listener E) v else v)"
    using t(1) by (simp add: rx_fresh_def exec_bind exec_upd u_def v_def)
  finally have e: "s' = (if result (rx_enqueue E inst) u then exec (wake_listener E) v else v)" .
  show ?thesis
    using enqueue_available(2,4) [OF u(1) assms(2), of inst, folded v_def] assms(3) t(3) u(2) v
    by (auto simp: e wake_mbufs)
qed

lemma console_other: "\<forall>l. c \<noteq> Os (ConsoleWrite l) \<Longrightarrow> console (c # h) = console h"
proof (cases c)
  case (Os x)
  assume "\<forall>l. c \<noteq> Os (ConsoleWrite l)"
  with Os show ?thesis by (cases x) simp_all
qed simp_all

lemma console_append: "\<forall>c \<in> set cs. \<forall>l. c \<noteq> Os (ConsoleWrite l) \<Longrightarrow> console (cs @ h) = console h"
  by (induction cs) (simp_all add: console_other del: console.simps)

lemma rx_console: "console (tr (exec (rx_complete_cb E dec inst) s)) = console (tr s)"
proof -
  have "emits (\<lambda>c. \<forall>l. c \<noteq> Os (ConsoleWrite l)) (rx_complete_cb E dec inst)"
    unfolding rx_complete_cb_def rx_enqueue_def wake_listener_def stat_inc_def
    by (intro effects) simp_all
  from emitsD [OF this, of s] console_append show ?thesis by fastforce
qed

section \<open>A sequence of frames\<close>

text \<open>The callback, once per received frame.\<close>

fun rx_all :: "env \<Rightarrow> (u8 list \<Rightarrow> rng_head) \<Rightarrow> uwb_dev list \<Rightarrow> ('z bh_globals_scheme, unit) prog" where
  "rx_all E dec [] = ret ()"
| "rx_all E dec (i # is) = do { b \<leftarrow> rx_complete_cb E dec i; rx_all E dec is }"

text \<open>The frames that do not repeat the frame before them.\<close>

fun not_repeated :: "(u8 list \<Rightarrow> rng_head) \<Rightarrow> u16 \<times> u8 \<Rightarrow> uwb_dev list \<Rightarrow> uwb_dev list" where
  "not_repeated dec k [] = []"
| "not_repeated dec k (i # is) = (if frame_key dec i = k then not_repeated dec k is
     else i # not_repeated dec (frame_key dec i) is)"

lemma not_repeated_keys:
  "map (frame_key dec) (not_repeated dec k is) = tl (remdups_adj (k # map (frame_key dec) is))"
proof (induction "is" arbitrary: k)
  case (Cons i "is")
  then show ?case by simp
qed simp

lemma rx_enqueued:
  assumes "sem_ok BhSem 1 E" and "mbufs_available E" and "\<not> halted s"
    and "relayed E dec (g_role (glb s)) inst"
  shows "enqueued E (tr (exec (rx_complete_cb E dec inst) s)) = enqueued E (tr s)
    @ (if frame_key dec inst = last_key (glb s) then [] else [frame_bytes inst])"
proof -
  define t where "t = exec (rx_timeout inst) s"
  have t: "\<not> halted t" "glb t = glb s" "enqueued E (tr t) = enqueued E (tr s)"
    using rx_timeout_effects [OF assms(3), where inst = inst] by (simp_all add: t_def)
  have "backhaul_frame dec inst" using assms(4) by (simp add: relayed_def)
  with assms(4) show ?thesis
    using exec_rx_complete_cb [OF assms(3), of E dec inst, folded t_def]
      fresh_available [OF t(1) assms(2), of dec inst] t
    by (simp add: Let_def stat_inc_effects)
qed


section \<open>The print loop\<close>

text \<open>One line per packet, with consecutive message numbers.\<close>

fun print_lines :: "(cfl \<Rightarrow> int) \<Rightarrow> (u64 \<Rightarrow> cfl) \<Rightarrow> u32 \<Rightarrow> rtdoabh_tag_results_pkg list \<Rightarrow> string list" where
  "print_lines ub to_us mid [] = []"
| "print_lines ub to_us mid (p # ps) =
     the (rtdoa_backhaul_print ub to_us True True mid p) # print_lines ub to_us (mid + 1) ps"

definition message_pkg :: "env \<Rightarrow> nat \<Rightarrow> (u8 list \<Rightarrow> rng_head) \<Rightarrow> hist \<Rightarrow> int \<Rightarrow> rtdoabh_tag_results_pkg" where
  "message_pkg E hl dec h m = received_pkg hl dec (take (PKG_SIZE hl) (payload E m h))"

definition in_bounds :: "rtdoabh_tag_results_pkg \<Rightarrow> bool" where
  "in_bounds p \<longleftrightarrow> unat (num_ranges p) \<le> MAXNUM_RANGES"

lemma length_received [simp]: "length (ranges (received_pkg hl dec bs)) = MAXNUM_RANGES"
proof -
  have "length (chunks n k xs) = k" for n k and xs :: "u8 list" by (induction n k xs rule: chunks.induct) auto
  then show ?thesis by (simp add: received_pkg_def pkg_of_def)
qed

lemma print_received: "in_bounds (received_pkg hl dec bs) \<Longrightarrow>
    rtdoa_backhaul_print ub to_us c tight mid (received_pkg hl dec bs) \<noteq> None"
  by (subst print_in_bounds_iff) (simp add: in_bounds_def)

lemma message_effects:
  assumes q: "queue_ok E" and nh: "\<not> halted s"
    and b: "g_role (glb s) = RTDOABH_ROLE_BRIDGE \<longrightarrow> in_bounds (message_pkg E hl dec (tr s) m)"
    and s': "s' = exec (process_message E hl dec to_us m) s"
  shows "\<not> halted s'" and "g_role (glb s') = g_role (glb s)"
    and "queued E (tr s') = queued E (tr s)" and "payload E k (tr s') = payload E k (tr s)"
    and "owned E (tr s') = owned E (tr s) - {m}"
    and "console (tr s') = console (tr s) @ (if g_role (glb s) = RTDOABH_ROLE_BRIDGE
       then [the (rtdoa_backhaul_print (eub E) to_us True True (g_msg_id (glb s)) (message_pkg E hl dec (tr s) m))]
       else [])"
    and "g_msg_id (glb s') = (if g_role (glb s) = RTDOABH_ROLE_BRIDGE then g_msg_id (glb s) + 1 else g_msg_id (glb s))"
proof -
  let ?p = "payload E m (tr s)"
  have k: "eint E h (Os (MbufPktLen m)) = int (length (payload E m h))"
    "eint E h (Os (MbufCopyData m 0 n)) = (if n \<le> length (payload E m h) then 0 else - 1)"
    "ebytes E h (Os (MbufCopyData m 0 n)) = take n (payload E m h)" for h n
    using q by (simp_all add: queue_ok_def)
  have t: "take (min (length ?p) (PKG_SIZE hl)) ?p = take (PKG_SIZE hl) ?p" by (simp add: min_def)
  have line: "\<exists>line. rtdoa_backhaul_print (eub E) to_us True True (g_msg_id (glb s)) (message_pkg E hl dec (tr s) m) = Some line"
    if "g_role (glb s) = RTDOABH_ROLE_BRIDGE"
    using b that print_received unfolding message_pkg_def by blast
  have e: "s' = (if g_role (glb s) = RTDOABH_ROLE_BRIDGE then
      s\<lparr>tr := Os (MbufFree m) # Os (ConsoleWrite (the (rtdoa_backhaul_print (eub E) to_us True True
           (g_msg_id (glb s)) (message_pkg E hl dec (tr s) m))))
         # Os (MbufCopyData m 0 (min (length ?p) (PKG_SIZE hl))) # Os (MbufPktLen m) # tr s,
        glb := (glb s)\<lparr>g_msg_id := g_msg_id (glb s) + 1\<rparr>\<rparr>
    else s\<lparr>tr := Os (MbufFree m) # Os (MbufPktLen m) # tr s\<rparr>)"
  proof (cases "g_role (glb s) = RTDOABH_ROLE_BRIDGE")
    case True
    obtain line where l: "rtdoa_backhaul_print (eub E) to_us True True (g_msg_id (glb s))
        (received_pkg hl dec (take (PKG_SIZE hl) ?p)) = Some line"
      using line [OF True] unfolding message_pkg_def by blast
    show ?thesis
      using True nh l by (simp add: s' process_message_def exec_def run_simps k t print_pkg_def message_pkg_def)
  next
    case False
    then show ?thesis using nh by (simp add: s' process_message_def exec_def run_simps)
  qed
  show "\<not> halted s'" "g_role (glb s') = g_role (glb s)" "queued E (tr s') = queued E (tr s)"
    "payload E k (tr s') = payload E k (tr s)" "owned E (tr s') = owned E (tr s) - {m}"
    "console (tr s') = console (tr s) @ (if g_role (glb s) = RTDOABH_ROLE_BRIDGE
       then [the (rtdoa_backhaul_print (eub E) to_us True True (g_msg_id (glb s)) (message_pkg E hl dec (tr s) m))]
       else [])"
    "g_msg_id (glb s') = (if g_role (glb s) = RTDOABH_ROLE_BRIDGE then g_msg_id (glb s) + 1 else g_msg_id (glb s))"
    using nh by (simp_all add: e)
qed

lemma process_queue:
  assumes q: "queue_ok E"
  shows "queued E (tr s) = ms \<Longrightarrow> length ms < n \<Longrightarrow> 0 \<notin> set ms \<Longrightarrow> \<not> halted s \<Longrightarrow>
    (g_role (glb s) = RTDOABH_ROLE_BRIDGE \<longrightarrow> (\<forall>m \<in> set ms. in_bounds (message_pkg E hl dec (tr s) m))) \<Longrightarrow>
    (let p = process_rx_data_queue n E hl dec to_us; s' = exec p s in
      result p s \<and> \<not> halted s' \<and> queued E (tr s') = [] \<and> owned E (tr s') = owned E (tr s) - set ms
      \<and> console (tr s') = console (tr s) @ (if g_role (glb s) = RTDOABH_ROLE_BRIDGE
          then print_lines (eub E) to_us (g_msg_id (glb s)) (map (message_pkg E hl dec (tr s)) ms) else []))"
proof (induction ms arbitrary: n s)
  case Nil
  then obtain k where "n = Suc k" by (cases n) auto
  moreover have "eint E (tr s) (Os MqGet) = 0" using q Nil(1) by (simp add: queue_ok_def)
  ultimately show ?case using Nil by (simp add: exec_def result_def run_simps Let_def)
next
  case (Cons m ms)
  then obtain k where k: "n = Suc k" "length ms < k" by (cases n) auto
  have g: "eint E (tr s) (Os MqGet) = m" "m \<noteq> 0" using q Cons.prems(1,3) by (auto simp: queue_ok_def)
  define t where "t = s\<lparr>tr := Os MqGet # tr s\<rparr>"
  have t: "\<not> halted t" "queued E (tr t) = ms" "payload E x (tr t) = payload E x (tr s)"
    "console (tr t) = console (tr s)" "owned E (tr t) = insert m (owned E (tr s))" "glb t = glb s" for x
    using Cons.prems g by (simp_all add: t_def)
  have mp: "message_pkg E hl dec (tr t) = message_pkg E hl dec (tr s)"
    by (simp add: message_pkg_def t fun_eq_iff)
  define u where "u = exec (process_message E hl dec to_us m) t"
  have b: "g_role (glb t) = RTDOABH_ROLE_BRIDGE \<longrightarrow> in_bounds (message_pkg E hl dec (tr t) m)"
    using Cons.prems(5) t mp by simp
  note u = message_effects [OF q t(1) b u_def]
  have mu: "message_pkg E hl dec (tr u) = message_pkg E hl dec (tr s)"
    using u(4) by (simp add: message_pkg_def t fun_eq_iff)
  have e: "exec (process_rx_data_queue n E hl dec to_us) s = exec (process_rx_data_queue k E hl dec to_us) u"
    "result (process_rx_data_queue n E hl dec to_us) s = result (process_rx_data_queue k E hl dec to_us) u"
    using g Cons.prems(4) by (simp_all add: k exec_def result_def run_simps u_def t_def split: prod.splits)
  have ih: "let p = process_rx_data_queue k E hl dec to_us; s' = exec p u in
      result p u \<and> \<not> halted s' \<and> queued E (tr s') = [] \<and> owned E (tr s') = owned E (tr u) - set ms
      \<and> console (tr s') = console (tr u) @ (if g_role (glb u) = RTDOABH_ROLE_BRIDGE
          then print_lines (eub E) to_us (g_msg_id (glb u)) (map (message_pkg E hl dec (tr u)) ms) else [])"
    using Cons.prems u k(2) t by (intro Cons.IH) (auto simp: mu)
  show ?case using ih u t unfolding Let_def e mu mp by auto
qed


section \<open>Properties\<close>

text \<open>C3: In every state the library reaches while it runs, with any interleaving of a
  listening task, the radio callbacks, sends, prints and setters, the semaphore is never
  above one, a task that is not listening finds it free and the end of listening cleared, and
  both packets are well formed and carry the constants of their header.\<close>

theorem bh_listener_safe:
  assumes "sem_ok BhSem 1 E" and "bh_reachable E hl enc dec to_us L (pc, s)" and "\<not> halted s"
  shows "level s \<in> {0, 1} \<and> (pc = BhIdle \<longrightarrow> level s = 1 \<and> g_to_dx_time (glb s) = 0)
    \<and> pkg_ok (g_result_pkg (glb s)) \<and> pkg_ok (g_result_pkg_imu (glb s))"
  using reachable_inv [OF assms(2,1)] assms(3) by (simp add: listen_inv_def bh_inv_def)

theorem bh_listener_safe_witness:
  "level (exec (listen_begin calm_env 0 5 100) (boot init_bh)) \<in> {0, 1}
   \<and> pkg_ok (g_result_pkg (glb (exec (listen_begin calm_env 0 5 100) (boot init_bh))))"
proof -
  have r: "bh_reachable calm_env 11 packed_head unpacked_head (\<lambda>_. Fin 0) ex_lib
      (BhListening, exec (listen_begin calm_env 0 5 100) (boot init_bh))"
    by (rule bh_next [OF bh_start]) (auto intro!: bh_listen)
  have "\<not> halted (exec (listen_begin calm_env 0 5 100) (boot init_bh))"
    by (rule listen_begin_effects [OF calm_sem]) simp
  then show ?thesis using bh_listener_safe [OF calm_sem r] by simp
qed

text \<open>C9: A task that waits in \<open>rtdoa_backhaul_listen\<close> is woken by a received frame exactly when
  the frame is a backhaul frame and not a repetition of the last one this bridge relayed. A
  repeated frame leaves it blocked: the callback returns before the release.\<close>

theorem rx_wakes_iff:
  assumes "sem_ok BhSem 1 E" and "copy_put_ok E" and "\<not> halted s" and "level s = 0"
  shows "level (exec (rx_complete_cb E dec inst) s) = 1 \<longleftrightarrow>
    backhaul_frame dec inst \<and>
    \<not> (relayed E dec (g_role (glb s)) inst \<and> frame_key dec inst = last_key (glb s))"
proof -
  define t where "t = exec (rx_timeout inst) s"
  note t = rx_timeout_effects(1-3) [OF assms(3), of inst, folded t_def]
  have r: "relayed E dec (g_role (glb s)) inst \<Longrightarrow> backhaul_frame dec inst" by (simp add: relayed_def)
  show ?thesis
    using exec_rx_complete_cb [OF assms(3), of E dec inst, folded t_def]
      wake_effects(3) [OF assms(1) t(1)] fresh_effects(3) [OF assms(1) t(1) assms(2), of dec inst]
      t assms(4) r by (auto simp: Let_def stat_inc_effects)
qed

text \<open>A frame as a bridge with address 1 receives it.\<close>

definition ex_inst :: "u8 \<Rightarrow> uwb_dev" where
  "ex_inst n = \<lparr>d_idx = 0, d_fctrl = FCNTL_IEEE_RTDOABH, d_rxtimestamp = 0,
     d_rxbuf = pkg_bytes packed_head (ex_pkg\<lparr>head := (head ex_pkg)\<lparr>seq_num := n, src_address := 5\<rparr>\<rparr>),
     d_frame_len = 61, d_my_short_address = 1\<rparr>"

lemma ex_inst_head: "unpacked_head (d_rxbuf (ex_inst n)) = (head ex_pkg)\<lparr>seq_num := n, src_address := 5\<rparr>"
  by (simp add: ex_inst_def pkg_bytes_def packed_head_def unpacked_head_def codec_simps)

lemma ex_inst_simps:
  "backhaul_frame unpacked_head (ex_inst n)" "frame_key unpacked_head (ex_inst n) = (5, n)"
  "relayed calm_env unpacked_head RTDOABH_ROLE_BRIDGE (ex_inst n)"
  by (simp_all add: backhaul_frame_def frame_key_def relayed_def ex_inst_head)
    (simp_all add: ex_inst_def ex_pkg_def init_result_pkg_def SENSOR_SIZE_def)

definition waiting :: "u8 \<Rightarrow> bh_globals st" where
  "waiting n = \<lparr>glb = bridge_bh\<lparr>last_address := 5, last_seq_num := n\<rparr>, tr = [Os (SemPend BhSem)], halted = False\<rparr>"

theorem rx_wakes_iff_witness:
  "level (exec (rx_complete_cb calm_env unpacked_head (ex_inst 8)) (waiting 7)) = 1
   \<and> level (exec (rx_complete_cb calm_env unpacked_head (ex_inst 7)) (waiting 7)) \<noteq> 1"
proof -
  have ok: "copy_put_ok calm_env" by (simp add: copy_put_ok_def)
  have s: "\<not> halted (waiting 7)" "level (waiting 7) = 0" "g_role (glb (waiting 7)) = RTDOABH_ROLE_BRIDGE"
    "last_key (glb (waiting 7)) = (5, 7)"
    by (simp_all add: waiting_def bridge_bh_def last_key_def)
  show ?thesis
    using rx_wakes_iff [OF calm_sem ok s(1,2), of unpacked_head "ex_inst 8"]
      rx_wakes_iff [OF calm_sem ok s(1,2), of unpacked_head "ex_inst 7"]
    by (simp add: ex_inst_simps s)
qed


text \<open>C15: From any sequence of frames that it relays, a bridge queues exactly the frames that
  do not repeat the source and the sequence number of the frame before, in the order of their
  arrival, byte for byte. The frame before the first is the last one relayed, or the pair
  (0, 0) after start-up.\<close>

theorem rx_suppresses_repetitions:
  assumes "sem_ok BhSem 1 E" and "mbufs_available E" and "\<not> halted s"
    and "\<forall>i \<in> set is. relayed E dec (g_role (glb s)) i"
  shows "\<exists>fs. enqueued E (tr (exec (rx_all E dec is) s)) = enqueued E (tr s) @ map frame_bytes fs
    \<and> fs = not_repeated dec (last_key (glb s)) is
    \<and> map (frame_key dec) fs = tl (remdups_adj (last_key (glb s) # map (frame_key dec) is))"
proof -
  have "enqueued E (tr (exec (rx_all E dec is) s))
    = enqueued E (tr s) @ map frame_bytes (not_repeated dec (last_key (glb s)) is)"
    using assms(3,4)
  proof (induction "is" arbitrary: s)
    case (Cons i "is")
    let ?t = "exec (rx_complete_cb E dec i) s"
    have "\<not> halted ?t" "g_role (glb ?t) = g_role (glb s)" "last_key (glb ?t) = frame_key dec i"
      using rx_effects [OF assms(1) Cons.prems(1), where dec = dec and inst = i] Cons.prems(2) by simp_all
    with Cons rx_enqueued [OF assms(1,2) Cons.prems(1), of dec i] show ?case
      by (simp add: exec_bind)
  qed simp
  then show ?thesis using not_repeated_keys by blast
qed

theorem rx_suppresses_repetitions_witness:
  "enqueued calm_env (tr (exec (rx_all calm_env unpacked_head [ex_inst 8, ex_inst 8, ex_inst 9, ex_inst 8]) (waiting 7)))
   = map frame_bytes [ex_inst 8, ex_inst 9, ex_inst 8]"
proof -
  have "\<not> halted (waiting 7)" "g_role (glb (waiting 7)) = RTDOABH_ROLE_BRIDGE"
    "last_key (glb (waiting 7)) = (5, 7)" "enqueued calm_env (tr (waiting 7)) = []"
    by (simp_all add: waiting_def bridge_bh_def last_key_def)
  then show ?thesis
    using rx_suppresses_repetitions [OF calm_sem calm_mbufs, of "waiting 7"
        "[ex_inst 8, ex_inst 8, ex_inst 9, ex_inst 8]" unpacked_head]
    by (simp add: ex_inst_simps)
qed

text \<open>C27: When copying a fresh frame into its message buffer fails, the callback returns
  without giving the buffer back and without releasing the semaphore: the pool loses a buffer
  and a waiting task stays blocked.\<close>

theorem rx_copy_failure_loses_buffer:
  assumes "mbuf_fresh E" and "\<not> halted s" and "relayed E dec (g_role (glb s)) inst"
    and "frame_key dec inst \<noteq> last_key (glb s)"
    and "\<forall>h a b. eint E h (Os (MbufGet a b)) \<noteq> 0"
    and "\<forall>h m off bs. eint E h (Os (MbufCopyInto m off bs)) \<noteq> 0"
    and "s' = exec (rx_complete_cb E dec inst) s"
  shows "\<exists>m. m \<notin> owned E (tr s) \<and> owned E (tr s') = insert m (owned E (tr s)) \<and> level s' = level s"
proof -
  define t where "t = exec (rx_timeout inst) s"
  have t: "\<not> halted t" "glb t = glb s" "level t = level s" "owned E (tr t) = owned E (tr s)"
    using rx_timeout_effects [OF assms(2), where inst = inst] by (simp_all add: t_def)
  have "backhaul_frame dec inst" using assms(3) by (simp add: relayed_def)
  then have e: "s' = exec (rx_fresh E dec inst) t"
    using exec_rx_complete_cb [OF assms(2), of E dec inst, folded t_def] assms(3,4,7) by (simp add: Let_def)
  let ?m = "eint E (tr t) (Os (MbufGet 0 2))"
  have "?m \<notin> owned E (tr s)" using assms(1) t(4) by (auto simp: mbuf_fresh_def)
  moreover have "owned E (tr s') = insert ?m (owned E (tr s))" "level s' = level s"
    using assms(5,6) t by (simp_all add: e rx_fresh_def rx_enqueue_def stat_inc_def exec_def run_simps)
  ultimately show ?thesis by blast
qed



text \<open>A message as it lies on the queue after it has been received.\<close>

lemma received_trimmed:
  assumes "wf_pkg p" and "head_layout hl enc dec"
  shows "received_pkg hl dec (take (PKG_SIZE hl) (trimmed hl enc p)) = cleared_rest p"
proof -
  have l: "length (trimmed hl enc p) = send_dlen hl p" "send_dlen hl p \<le> PKG_SIZE hl"
    by (rule length_trimmed [OF assms])+
  have "overlay (replicate (PKG_SIZE hl) 0) 0 (trimmed hl enc p)
    = trimmed hl enc p @ replicate (PKG_SIZE hl - send_dlen hl p) 0"
    using l by (simp add: overlay_def)
  with l trimmed_decodes [OF assms] show ?thesis by (simp add: received_pkg_def)
qed

definition queued_example :: "bh_globals st" where
  "queued_example = \<lparr>glb = bridge_bh, tr = [Os (MqPut 1),
     Os (MbufCopyInto 1 0 (trimmed 11 packed_head ex_pkg)), Os (MbufGet 0 2)], halted = False\<rparr>"

lemma ex_pkg_wf: "wf_pkg ex_pkg" "unat (num_ranges ex_pkg) \<le> MAXNUM_RANGES"
  using wf_init by (simp_all add: ex_pkg_def wf_pkg_def MAXNUM_RANGES_def)


text \<open>The calm environment with a pool whose buffers cannot be filled.\<close>

definition full_env :: env where
  "full_env = calm_env\<lparr>eint := (\<lambda>h c. case c of Os (MbufCopyInto m off bs) \<Rightarrow> 1 | _ \<Rightarrow> eint calm_env h c)\<rparr>"

lemma full_env_simps [simp]:
  "eint full_env h (Os (MbufGet a b)) = unused_mbuf h" "eint full_env h (Os (MqPut m)) = 0"
  "eint full_env h (Os MqGet) = eint calm_env h (Os MqGet)"
  "eint full_env h (Os (MbufCopyInto m off bs)) = 1" "BROADCAST full_env = 0xFFFF"
  by (simp_all add: full_env_def)

lemma full_fresh: "mbuf_fresh full_env"
proof -
  have "owned full_env h = owned calm_env h \<and> queued full_env h = queued calm_env h" for h
  proof (induction h)
    case (Cons c h)
    then show ?case by (cases c rule: call_cases) (simp_all only: other_call not_False_eq_True, simp_all)
  qed simp
  then show ?thesis using calm_fresh by (simp add: mbuf_fresh_def)
qed

theorem rx_copy_failure_loses_buffer_witness:
  "\<exists>m. owned full_env (tr (exec (rx_complete_cb full_env unpacked_head (ex_inst 8)) (waiting 7))) = {m}
   \<and> level (exec (rx_complete_cb full_env unpacked_head (ex_inst 8)) (waiting 7)) = 0"
proof -
  have "relayed full_env unpacked_head RTDOABH_ROLE_BRIDGE (ex_inst 8)"
    using ex_inst_simps(3) by (simp add: relayed_def)
  then show ?thesis
    using rx_copy_failure_loses_buffer [OF full_fresh, of "waiting 7" unpacked_head "ex_inst 8"] unused_mbuf_pos
    by (auto simp: waiting_def bridge_bh_def last_key_def ex_inst_simps less_le)
qed

end
