(* ===== verification/Plans.thy ===== *)
theory Plans
  imports Streaming_Props Twr_Props Twr_Nranges Rtdoa_Node Rtdoa_Tag Rtdoa_Rx_Props
begin

text \<open>
  The superframes of the TDMA applications: which slots a \<open>main\<close> assigns, that the slot
  handlers keep clear of the clock, and how the superframes of the RTDoA anchors and tags fit.
\<close>

section \<open>What the main functions assign\<close>

lemma main_steps [main_run]:
  assumes "\<not> halted s"
  shows "exec (for_each xs (\<lambda>(f, x). act (k f x))) s = s\<lparr>tr := rev (map (\<lambda>(f, x). k f x) xs) @ tr s\<rparr>"
    and "exec (for_each ys put) s = s\<lparr>tr := rev (map (\<lambda>x. Os (ConsoleWrite x)) ys) @ tr s\<rparr>"
proof -
  show "exec (for_each xs (\<lambda>(f, x). act (k f x))) s = s\<lparr>tr := rev (map (\<lambda>(f, x). k f x) xs) @ tr s\<rparr>"
    using assms by (induction xs arbitrary: s) (auto simp: exec_bind exec_act)
qed (rule exec_for_each_put [OF assms])

lemma assigned_quiet [simp]:
  "assigned (map (\<lambda>x. Os (ConsoleWrite x)) ys @ h) = assigned h"
  "assigned (rev (map (\<lambda>x. Os (ConsoleWrite x)) ys) @ h) = assigned h"
  by (rule assigned_no_assign; auto)+

lemma twr_tag_main_assigns:
  "insts_found E \<Longrightarrow> \<not> halted s \<Longrightarrow>
    assigned (tr (exec (twr_tag_main E b nslots) s)) = assigned (tr s) @ twr_tag_plan nslots"
  by (simp add: twr_tag_main_def main_run)

lemma twr_node_main_assigns:
  "insts_found E \<Longrightarrow> \<not> halted s \<Longrightarrow>
    assigned (tr (exec (twr_node_main E bd b nslots) s)) = assigned (tr s) @ twr_node_plan nslots"
  by (simp add: twr_node_main_def main_run exec_for_each_act)

lemma nranges_main_assigns:
  "insts_found E \<Longrightarrow> nodes_found E \<Longrightarrow> \<not> halted s \<Longrightarrow>
    assigned (tr (exec (nranges_main E b n nslots) s)) = assigned (tr s) @ nranges_plan n nslots"
  by (simp add: nranges_main_def main_run)

lemma rnode_main_assigns:
  "insts_found E \<Longrightarrow> nodes_found E \<Longrightarrow> \<not> halted s \<Longrightarrow>
    assigned (tr (exec (rnode_main E b a esp nslots) s)) = assigned (tr s) @ node_plan nslots"
  by (simp add: rnode_main_def tdma_allocate_slots_node_def node_plan_def main_run)

lemma rtag_steps [main_run]:
  assumes "\<not> halted s"
  shows "assigned (tr (exec (init_sensor_timer b) s)) = assigned (tr s)" "\<not> halted (exec (init_sensor_timer b) s)"
    "insts_found E \<Longrightarrow> assigned (tr (exec (tdma_allocate_slots_tag E nslots) s)) = assigned (tr s) @ tag_plan nslots"
    "insts_found E \<Longrightarrow> \<not> halted (exec (tdma_allocate_slots_tag E nslots) s)"
  using assms by (simp_all add: init_sensor_timer_def tdma_allocate_slots_tag_def main_run)

lemma rtag_main_assigns:
  "insts_found E \<Longrightarrow> \<not> halted s \<Longrightarrow>
    assigned (tr (exec (rtag_main E bd b a esp nslots) s)) = assigned (tr s) @ tag_plan nslots"
  by (simp add: rtag_main_def rtdoa_backhaul_set_role_def main_run)


section \<open>The plans\<close>

text \<open>A plan that serves exactly the slots of a set, each with one handler.\<close>

definition covers :: "(nat \<times> string) list \<Rightarrow> nat set \<Rightarrow> bool" where
  "covers p S \<longleftrightarrow> distinct (map fst p) \<and> fst ` set p = S"

lemma covers_map: "covers (map (\<lambda>i. (i, f i)) xs) S \<longleftrightarrow> distinct xs \<and> set xs = S"
  by (simp add: covers_def comp_def image_image)

lemma covers_append:
  "covers p S \<Longrightarrow> covers q T \<Longrightarrow> S \<inter> T = {} \<Longrightarrow> covers (p @ q) (S \<union> T)"
  by (simp add: covers_def image_Un)

lemma covers_plan: "covers p S \<Longrightarrow> S \<subseteq> {1..<n} \<Longrightarrow> slot_plan p n"
  by unfold_locales (auto simp: covers_def)

lemma covers_stream: "covers (stream_plan c n) {1..<n - 1}"
  by (simp add: stream_plan_def covers_map)

lemma covers_twr: "covers (twr_tag_plan n) {1..<n}" "covers (twr_node_plan n) {1..<n}"
  by (simp_all add: twr_tag_plan_def twr_node_plan_def covers_map)

lemma covers_tag: "covers (tag_plan n) ({2..<n} - {31})"
  by (auto simp: tag_plan_def covers_map)

lemma periodic_tag: "periodic_plan n = tag_plan n"
  by (simp add: periodic_plan_def tag_plan_def)

lemma covers_node: "31 < n \<Longrightarrow> covers (node_plan n) {1..<n}"
proof -
  assume n: "31 < n"
  have "covers [(1, ''uwb_pan_slot_timer_cb''), (31, ''nrng_slot_timer_cb'')] {1, 31 :: nat}"
    by (simp add: covers_def)
  from covers_append [OF this covers_tag [of n]]
  have "covers (node_plan n) ({1, 31} \<union> ({2..<n} - {31}))" by (simp add: node_plan_def periodic_tag)
  moreover have "{1, 31} \<union> ({2..<n} - {31}) = {1..<n}" using n by auto
  ultimately show ?thesis by simp
qed

text \<open>The survey takes two of the slots 3, 4 and 5, which ranging leaves to it.\<close>

definition survey_ok :: "nranges_build \<Rightarrow> bool" where
  "survey_ok b \<longleftrightarrow> {SURVEY_RANGE_SLOT b, SURVEY_BROADCAST_SLOT b} \<subseteq> {3, 4, 5}
     \<and> SURVEY_RANGE_SLOT b \<noteq> SURVEY_BROADCAST_SLOT b"

definition nranges_slots :: "nranges_build \<Rightarrow> nat \<Rightarrow> nat set" where
  "nranges_slots b n = (if SURVEY_ENABLED b
     then {1, 2, SURVEY_RANGE_SLOT b, SURVEY_BROADCAST_SLOT b} \<union> {6..<n} else {1..<n})"

lemma covers_nranges:
  assumes "survey_ok b" and "6 \<le> n"
  shows "covers (nranges_plan b n) (nranges_slots b n)"
proof (cases "SURVEY_ENABLED b")
  case True
  have "covers ([(1, ''uwb_pan_slot_timer_cb''), (2, ''uwb_pan_slot_timer_cb'')] @ survey_plan b)
      {1, 2, SURVEY_RANGE_SLOT b, SURVEY_BROADCAST_SLOT b}"
    using assms(1) True by (auto simp: covers_def survey_plan_def survey_ok_def)
  moreover have "covers (map (\<lambda>i. (i, ''slot_cb'')) [6..<n]) {6..<n}" by (simp add: covers_map)
  moreover have "{1, 2, SURVEY_RANGE_SLOT b, SURVEY_BROADCAST_SLOT b} \<inter> {6..<n} = {}"
    using assms(1) by (auto simp: survey_ok_def)
  ultimately show ?thesis
    using covers_append True by (fastforce simp: nranges_plan_def nranges_slots_def)
next
  case False
  have "covers [(1, ''uwb_pan_slot_timer_cb''), (2 :: nat, ''uwb_pan_slot_timer_cb'')] {1, 2}"
    by (simp add: covers_def)
  moreover have "covers (map (\<lambda>i. (i, ''slot_cb'')) [3..<n]) {3..<n}" by (simp add: covers_map)
  moreover have "{1, 2} \<inter> {3..<n} = {}" by auto
  ultimately have "covers (nranges_plan b n) ({1, 2} \<union> {3..<n})"
    using covers_append False by (fastforce simp: nranges_plan_def survey_plan_def)
  moreover have "{1, 2} \<union> {3..<n} = {1..<n}" using assms(2) by auto
  ultimately show ?thesis using False by (simp add: nranges_slots_def)
qed

interpretation stream_plan: slot_plan "stream_plan c n" n
  using covers_stream by (rule covers_plan) auto

interpretation twr_tag_plan: slot_plan "twr_tag_plan n" n
  using covers_twr(1) by (rule covers_plan) simp

interpretation twr_node_plan: slot_plan "twr_node_plan n" n
  using covers_twr(2) by (rule covers_plan) simp

interpretation tag_plan: slot_plan "tag_plan n" n
  using covers_tag by (rule covers_plan) auto

interpretation node_plan: slot_plan "node_plan 64" 64
  using covers_node by (rule covers_plan) simp_all


definition sample_survey :: nranges_build where
  "sample_survey = \<lparr>SURVEY_ENABLED = True, SURVEY_RANGE_SLOT = 3, SURVEY_BROADCAST_SLOT = 4, pan_master = True\<rparr>"

definition rtag0 :: rtag_globals where
  "rtag0 = bh_globals.extend bridge_bh
     \<lparr>last_batt_update = 0, last_mp_update = 0, g_battery_voltage = Fin 10, uwb_config_updated_rt = False\<rparr>"


end
