(* ===== verification/Slot_Props.thy ===== *)
theory Slot_Props
  imports Plans
begin

text \<open>
  The contracts of the slot handlers, over all the networked applications: a handler leaves
  the transceiver alone while the clock's packet holds it, and a configuration change that
  arrives while the clock runs waits for a slot, which applies it once.
\<close>

section \<open>The handlers against the interfaces\<close>

definition clock_valid :: "env \<Rightarrow> bool" where
  "clock_valid E \<longleftrightarrow> (\<forall>h. eint E h (GetField ''ccp->status.valid'') \<noteq> 0)"

lemma need_inst_emits: "P (Sys (''uwb_mac_find_cb_inst_ptr '' @ ext) []) \<Longrightarrow> emits P (need_inst E ext)"
  unfolding need_inst_def by (intro effects)

lemma nmgr_first_effects:
  "emits (\<lambda>c. c \<noteq> Radio (MacConfig 0)) (nmgr_first E v)" "keeps I (nmgr_first E v)"
  "insts_found E \<Longrightarrow> runs_on (nmgr_first E v)"
  unfolding nmgr_first_def by (intro effects need_inst_emits need_inst_runs; simp)+

definition nr_traffic :: "env \<Rightarrow> slot_cfg \<Rightarrow> slot_view \<Rightarrow> (nranges_globals, unit) prog" where
  "nr_traffic E c v = (if \<not> v_synced v \<or> v_slot_id v = 0xffff then ret ()
     else do { b \<leftarrow> nmgr_first E v; if b then ret () else ranging_body E c v })"

lemma nr_traffic_effects:
  "emits (\<lambda>c. c \<noteq> Radio (MacConfig 0)) (nr_traffic E c v)" "keeps I (nr_traffic E c v)"
  "insts_found E \<Longrightarrow> runs_on (nr_traffic E c v)"
  unfolding nr_traffic_def by (intro effects nmgr_first_effects; simp)+

lemma emission_effects:
  "emits (\<lambda>c. c \<noteq> Radio (MacConfig 0)) (rtdoa_emission E v)" "keeps I (rtdoa_emission E v)"
  "insts_found E \<Longrightarrow> runs_on (rtdoa_emission E v)"
  unfolding rtdoa_emission_def by (intro effects need_inst_emits need_inst_runs; simp)+

text \<open>A handler that configures when a change is pending and otherwise runs traffic that does
  not configure meets the interface.\<close>

lemma rests:
  assumes "exec h s = exec p (s\<lparr>tr := c # tr s\<rparr>)" and "c \<noteq> Radio (MacConfig 0)" and "\<not> halted s"
    and "emits (\<lambda>c. c \<noteq> Radio (MacConfig 0)) p" and "\<And>I. keeps I p" and "runs_on p"
  shows "glb (exec h s) = glb s \<and> \<not> halted (exec h s) \<and> reconfigs (exec h s) = reconfigs s"
  using assms(2,3) reconfigs_kept [OF assms(4), of "s\<lparr>tr := c # tr s\<rparr>"] runs_onD [OF assms(6), of "s\<lparr>tr := c # tr s\<rparr>"]
    keeps_glb [OF assms(5), of "s\<lparr>tr := c # tr s\<rparr>"]
  by (simp add: assms(1))

interpretation nranges_slots: deferred_config E "slot_cb_nr E c" uwb_config_updated_nr
    "uwb_config_updated_cb_nr E" "\<lambda>h. ccp_count E h \<noteq> 0 \<and> insts_found E"
proof
  fix v and s :: "nranges_globals st"
  assume s: "\<not> halted s" "\<And>h. ccp_count E h \<noteq> 0 \<and> insts_found E" "\<not> uwb_config_updated_nr (glb s)"
  have "exec (slot_cb_nr E c v) s = exec (nr_traffic E c v) (s\<lparr>tr := Os (SemGetCount CcpSem) # tr s\<rparr>)"
    using s by (simp add: slot_cb_nr_def nr_traffic_def exec_unless_ccp exec_bind)
  from rests [OF this _ s(1) nr_traffic_effects(1,2)] s nr_traffic_effects(3)
  show "\<not> uwb_config_updated_nr (glb (exec (slot_cb_nr E c v) s)) \<and> \<not> halted (exec (slot_cb_nr E c v) s)
      \<and> reconfigs (exec (slot_cb_nr E c v) s) = reconfigs s"
    by simp
qed (simp_all add: slot_cb_nr_def uwb_config_updated_cb_nr_def unless_ccp_def exec_def run_simps reconfigs_def)

interpretation rnode_slots: deferred_config E "rtdoa_slot_timer_cb_node E" uwb_config_updated_rn
    "uwb_config_upd_cb_node E" "\<lambda>h. ccp_count E h \<noteq> 0 \<and> insts_found E \<and> clock_valid E"
proof
  fix v and s :: "rnode_globals st"
  assume s: "\<not> halted s" "\<And>h. ccp_count E h \<noteq> 0 \<and> insts_found E \<and> clock_valid E" "\<not> uwb_config_updated_rn (glb s)"
  have "exec (rtdoa_slot_timer_cb_node E v) s = exec (rtdoa_emission E v) (s\<lparr>tr := Os (SemGetCount CcpSem) # tr s\<rparr>)"
    using s by (simp add: rtdoa_slot_timer_cb_node_def exec_unless_ccp exec_bind)
  from rests [OF this _ s(1) emission_effects(1,2)] s emission_effects(3)
  show "\<not> uwb_config_updated_rn (glb (exec (rtdoa_slot_timer_cb_node E v) s)) \<and> \<not> halted (exec (rtdoa_slot_timer_cb_node E v) s)
      \<and> reconfigs (exec (rtdoa_slot_timer_cb_node E v) s) = reconfigs s"
    by simp
qed (simp_all add: rtdoa_slot_timer_cb_node_def uwb_config_upd_cb_node_def clock_valid_def unless_ccp_def
    exec_def run_simps reconfigs_def)

interpretation nrng_slots: guarded_slot E "nrng_slot_timer_cb E c"
  by unfold_locales (simp add: nrng_slot_timer_cb_def exec_unless_ccp)

interpretation nmgr_slots: guarded_slot E "nmgr_slot_timer_cb_node E"
  by unfold_locales (simp add: nmgr_slot_timer_cb_node_def exec_unless_ccp)

interpretation rtag_slots: guarded_slot E "rtdoa_slot_timer_cb_tag E hl enc L r"
  by unfold_locales (simp add: rtdoa_slot_timer_cb_tag_def exec_unless_ccp)


section \<open>Over all applications\<close>

text \<open>C14: While the clock's packet holds the transceiver, the slot handlers of the networked
  applications do nothing with it, over any run of slots. Two handlers do not keep to this: the
  ranging tag's, which does not look at the clock, asks for a range in every slot, and the
  management slot of the RTDoA tag configures the radio when a change is pending.\<close>

theorem silent_while_clock_holds:
  assumes "\<And>h. ccp_count E h = 0"
    and "\<not> halted s1" "\<not> halted s2" "\<not> halted s3" "\<not> halted s4" "\<not> halted s5" "\<not> halted s6" "\<not> halted s7"
  shows "traffic_of (exec (run_slots (stream_slot_cb E c) vs) s1) = traffic_of s1
    \<and> traffic_of (exec (run_slots (range_slot_cb E c) vs) s1) = traffic_of s1
    \<and> traffic_of (exec (run_slots (slot_cb_node E c nb) vs) s2) = traffic_of s2
    \<and> traffic_of (exec (run_slots (slot_cb_nr E c) vs) s3) = traffic_of s3
    \<and> traffic_of (exec (run_slots (rtdoa_slot_timer_cb_node E) vs) s4) = traffic_of s4
    \<and> traffic_of (exec (run_slots (nmgr_slot_timer_cb_node E) vs) s4) = traffic_of s4
    \<and> traffic_of (exec (run_slots (nrng_slot_timer_cb E c) vs) s4) = traffic_of s4
    \<and> traffic_of (exec (run_slots (rtdoa_slot_timer_cb_tag E hl enc L r) vs) s5) = traffic_of s5
    \<and> length (traffic_of (exec (run_slots (slot_cb_tag E) vs) s6)) = length (traffic_of s6) + length vs
    \<and> (uwb_config_updated_rt (glb s7) \<longrightarrow> traffic_of (exec (nmgr_slot_timer_cb_tag E v) s7)
         = traffic_of s7 @ [Radio (MacConfig 0), Radio (TxrfConfig 0)])"
proof -
  have "length (traffic_of (exec (run_slots (slot_cb_tag E) vs) s6)) = length (traffic_of s6) + length vs"
    using assms(7)
  proof (induction vs arbitrary: s6)
    case (Cons v vs)
    have "\<not> halted (exec (slot_cb_tag E v) s6)"
      "length (traffic_of (exec (slot_cb_tag E v) s6)) = Suc (length (traffic_of s6))"
      using Cons.prems by (simp_all add: slot_cb_tag_def exec_def run_simps traffic_of_def calls_def)
    with Cons.IH show ?case by (simp add: exec_bind)
  qed simp
  then show ?thesis using assms
    by (simp add: stream_slots.silent_run range_slots.silent_run node_guard.silent_run nranges_slots.silent_run
        rnode_slots.silent_run nmgr_slots.silent_run nrng_slots.silent_run rtag_slots.silent_run)
      (simp add: nmgr_slot_timer_cb_tag_def unless_ccp_def exec_def run_simps traffic_of_def calls_def)
qed

text \<open>The clock holds the transceiver all the time.\<close>

definition busy_env :: env where
  "busy_env = calm_env\<lparr>eint := (\<lambda>h c. case c of Os (SemGetCount x) \<Rightarrow> 0 | _ \<Rightarrow> eint calm_env h c)\<rparr>"

theorem silent_while_clock_holds_witness:
  "traffic_of (exec (run_slots (stream_slot_cb busy_env sample_cfg) [slot_at 3, slot_at 4]) (boot stream0))
     = traffic_of (boot stream0)
   \<and> length (traffic_of (exec (run_slots (slot_cb_tag busy_env) [slot_at 3, slot_at 4]) (boot tag0)))
     = length (traffic_of (boot tag0)) + 2
   \<and> traffic_of (exec (nmgr_slot_timer_cb_tag busy_env (slot_at 12)) (boot (rtag0\<lparr>uwb_config_updated_rt := True\<rparr>)))
     = traffic_of (boot (rtag0\<lparr>uwb_config_updated_rt := True\<rparr>)) @ [Radio (MacConfig 0), Radio (TxrfConfig 0)]"
proof -
  have "ccp_count busy_env h = 0" for h by (simp add: busy_env_def)
  from silent_while_clock_holds [OF this, of "boot stream0" "boot node0" "boot \<lparr>uwb_config_updated_nr = False\<rparr>"
      "boot \<lparr>uwb_config_updated_rn = False\<rparr>" "boot rtag0" "boot tag0" "boot (rtag0\<lparr>uwb_config_updated_rt := True\<rparr>)"
      sample_cfg "[slot_at 3, slot_at 4]" sample_node 11 packed_head ex_lib ex_rtdoa "slot_at 12"]
  show ?thesis by simp
qed

text \<open>C5: Configuration changes refine their specification in the four applications whose slots
  look for one. While the clock runs, any sequence of changes and slots leaves the pending bit
  and the number of times the radio was configured as the specification says: a change alone
  configures nothing, the slot after it configures once however many changes there were, and
  other slots never configure. (The ranging anchor does so with one radio; what it does with two
  is shown with its receive timeout.)\<close>

theorem config_refines_spec:
  assumes "\<And>h. ccp_count E h \<noteq> 0" and "insts_found E" and "clock_valid E"
    and "\<not> halted s1" "\<not> halted s2" "\<not> halted s3" "\<not> halted s4" and "\<not> dual b"
  shows "(let t = exec (run_config (uwb_config_updated_func E) (stream_slot_cb E c) es) s1
      in (uwb_config_updated (glb t), reconfigs t) = foldl config_spec (uwb_config_updated (glb s1), reconfigs s1) es)
    \<and> (let t = exec (run_config (uwb_config_updated_func_node E b) (slot_cb_node E c b) es) s2
      in (uwb_config_updated_node (glb t), reconfigs t) = foldl config_spec (uwb_config_updated_node (glb s2), reconfigs s2) es)
    \<and> (let t = exec (run_config (uwb_config_updated_cb_nr E) (slot_cb_nr E c) es) s3
      in (uwb_config_updated_nr (glb t), reconfigs t) = foldl config_spec (uwb_config_updated_nr (glb s3), reconfigs s3) es)
    \<and> (let t = exec (run_config (uwb_config_upd_cb_node E) (rtdoa_slot_timer_cb_node E) es) s4
      in (uwb_config_updated_rn (glb t), reconfigs t) = foldl config_spec (uwb_config_updated_rn (glb s4), reconfigs s4) es)"
proof -
  have b: "b\<lparr>dual := False\<rparr> = b" using assms(8) by (cases b) simp
  show ?thesis
    using assms stream_slots.refines_spec [of s1 E c es] node_slots.refines_spec [of s2 E b c es, unfolded b]
      nranges_slots.refines_spec [of s3 E c es] rnode_slots.refines_spec [of s4 E es]
    by (simp add: Let_def)
qed

text \<open>A kernel that has every instance, a running clock, and accepts everything.\<close>

definition network_env :: env where
  "network_env = calm_env\<lparr>eint := (\<lambda>h c. case c of Os (SemGetCount x) \<Rightarrow> 1 | Sys f xs \<Rightarrow> 1 | GetField f \<Rightarrow> 1
     | _ \<Rightarrow> eint calm_env h c)\<rparr>"

lemma network_env_ok [simp]:
  "ccp_count network_env h \<noteq> 0" "insts_found network_env" "clock_valid network_env"
  by (simp_all add: network_env_def insts_found_def clock_valid_def)

theorem config_refines_spec_witness:
  "let t = exec (run_config (uwb_config_upd_cb_node network_env) (rtdoa_slot_timer_cb_node network_env)
       [Change, Change, InSlot (slot_at 2), InSlot (slot_at 3)]) (boot \<lparr>uwb_config_updated_rn = False\<rparr>)
   in (uwb_config_updated_rn (glb t), reconfigs t) = (False, 1)"
  using config_refines_spec [of network_env "boot stream0" "boot node0" "boot \<lparr>uwb_config_updated_nr = False\<rparr>"
      "boot \<lparr>uwb_config_updated_rn = False\<rparr>" "sample_node\<lparr>dual := False\<rparr>" sample_cfg
      "[Change, Change, InSlot (slot_at 2), InSlot (slot_at 3)]"]
  by (simp add: Let_def reconfigs_def del: run_config.simps)

end
