(* ===== verification/Rtdoa_Net.thy ===== *)
theory Rtdoa_Net
  imports Slot_Props
begin

text \<open>
  The RTDoA network: its anchors range with one another in turns, its tag turns the anchors'
  signals into one round of the backhaul, and reads its sensors and its battery in between.
\<close>

section \<open>Anchors take turns\<close>

fun asks :: "hist \<Rightarrow> nat" where
  "asks [] = 0"
| "asks (c # h) = (case c of Net (NrngRequest a t m w) \<Rightarrow> Suc (asks h) | _ \<Rightarrow> asks h)"

fun answers :: "hist \<Rightarrow> nat" where
  "answers [] = 0"
| "answers (c # h) = (case c of Net (NrngListen m) \<Rightarrow> Suc (answers h) | _ \<Rightarrow> answers h)"

text \<open>The slot as anchor \<open>i\<close> sees it in the superframe with clock sequence number \<open>n\<close>.\<close>

definition anchor_view :: "slot_view \<Rightarrow> nat \<Rightarrow> nat \<Rightarrow> slot_view" where
  "anchor_view v n i = v\<lparr>v_slot_id := i, v_seq_num := n\<rparr>"

lemma anchor_slot:
  assumes "\<not> halted s" and "\<And>h. ccp_count E h \<noteq> 0" and "v_idx v \<noteq> 0xffff"
  shows "asks (tr (exec (nrng_slot_timer_cb E c (anchor_view v n i)) s)) = asks (tr s) + of_bool (n mod 8 = i)"
    and "answers (tr (exec (nrng_slot_timer_cb E c (anchor_view v n i)) s)) = answers (tr s) + of_bool (n mod 8 \<noteq> i)"
  using assms by (simp_all add: nrng_slot_timer_cb_def anchor_ranging_def anchor_view_def unless_ccp_def exec_def run_simps)

lemma sum_list_turn: "distinct ids \<Longrightarrow> (\<Sum>i\<leftarrow>ids. of_bool (k = i)) = (of_bool (k \<in> set ids) :: nat)"
  by (induction ids) auto

lemma sum_list_rest: "distinct ids \<Longrightarrow> (\<Sum>i\<leftarrow>ids. of_bool (k \<noteq> i)) + of_bool (k \<in> set ids) = (length ids :: nat)"
  by (induction ids) auto

lemma residue_turns:
  "\<forall>r \<in> set [0..<8]. \<forall>i \<in> set [0..<8]. (\<Sum>k\<leftarrow>[0..<8]. if (r + k) mod 8 = i then 1 else 0 :: nat) = (1 :: nat)"
  by code_simp

lemma one_turn: "(\<Sum>k\<leftarrow>[0..<8]. of_bool ((n + k) mod 8 = i)) = (of_bool (i < 8) :: nat)"
proof (cases "i < 8")
  case True
  have "(n + k) mod 8 = (n mod 8 + k) mod 8" for k by (simp add: mod_simps)
  moreover have "n mod 8 \<in> set [0..<8]" "i \<in> set [0..<8]" using True by auto
  ultimately show ?thesis using residue_turns True by (simp only: of_bool_def) simp
next
  case False
  then have "(n + k) mod 8 \<noteq> i" for k using mod_less_divisor [of 8 "n + k"] by linarith
  with False show ?thesis by simp
qed

text \<open>C17: Anchors with different slot numbers that share the clock's sequence number range in
  turns: in the anchors' slot at most one of them asks, the one whose number is the sequence
  number modulo eight, and all others answer. In eight superframes in a row each anchor with a
  number below eight asks once; one with a larger number never does.\<close>

theorem anchors_take_turns:
  fixes E c s
  assumes "distinct ids" and "v_idx v \<noteq> 0xffff" and "\<And>i h. ccp_count (E i) h \<noteq> 0" and "\<And>i. \<not> halted (s i)"
  defines "after \<equiv> \<lambda>n i. tr (exec (nrng_slot_timer_cb (E i) c (anchor_view v n i)) (s i))"
  shows "(\<Sum>i\<leftarrow>ids. asks (after n i) - asks (tr (s i))) = of_bool (n mod 8 \<in> set ids)
    \<and> (\<Sum>i\<leftarrow>ids. answers (after n i) - answers (tr (s i))) + of_bool (n mod 8 \<in> set ids) = length ids
    \<and> (\<Sum>k\<leftarrow>[0..<8]. asks (after (n + k) i) - asks (tr (s i))) = of_bool (i < 8)"
  using assms(1-4) sum_list_turn [OF assms(1), of "n mod 8"] sum_list_rest [OF assms(1), of "n mod 8"] one_turn [of n i]
  by (simp add: after_def anchor_slot)

theorem anchors_take_turns_witness:
  "(\<Sum>i\<leftarrow>[0, 3, 9]. asks (tr (exec (nrng_slot_timer_cb running_env sample_cfg (anchor_view (slot_at 31) 11 i))
      (boot ())))) = 1"
  using anchors_take_turns [of "[0, 3, 9]" "slot_at 31" "\<lambda>_. running_env" "\<lambda>_. boot ()" sample_cfg 11 0]
  by (simp add: slot_at_def)


section \<open>The sensor loop\<close>

text \<open>Sensors that always answer the same: which exist, and what reading them returns.\<close>

definition steady :: "env \<Rightarrow> (sensor_type_t \<Rightarrow> bool) \<Rightarrow> (sensor_type_t \<Rightarrow> int) \<Rightarrow> bool" where
  "steady E found rc \<longleftrightarrow> (\<forall>t h. (eint E h (Sys (''sensor_mgr_find_next_bytype '' @ sensor_name t) []) \<noteq> 0 \<longleftrightarrow> found t)
     \<and> eint E h (Sys (''sensor_read '' @ sensor_name t) [TICKS_PER_SEC E sdiv 100]) = rc t)"

definition failing :: "(sensor_type_t \<Rightarrow> bool) \<Rightarrow> (sensor_type_t \<Rightarrow> int) \<Rightarrow> sensor_type_t \<Rightarrow> bool" where
  "failing found rc t \<longleftrightarrow> found t \<and> rc t \<noteq> 0"

lemma runs_on_ask_bytes_let: "(\<And>x. runs_on (f x)) \<Longrightarrow> runs_on (State_Monad.bind (ask_bytes E c) f)"
  by (intro effects)

lemma read_sensor_effects [effects]:
  "runs_on (read_sensor E decode t)"
  "(\<And>f xs. P (Sys f xs)) \<Longrightarrow> emits P (read_sensor E decode t)"
  unfolding read_sensor_def rtdoa_backhaul_sensor_data_cb_def upd_imu_def by (intro effects; simp)+

lemma read_sensor_result:
  assumes "\<not> halted s" and "steady E found rc"
  shows "result (read_sensor E decode t) s \<noteq> 0 \<longleftrightarrow> failing found rc t"
proof -
  let ?f = "eint E (tr s) (Sys (''sensor_mgr_find_next_bytype '' @ sensor_name t) [])"
  have f: "?f \<noteq> 0 \<longleftrightarrow> found t"
    "eint E h (Sys (''sensor_read '' @ sensor_name t) [TICKS_PER_SEC E sdiv 100]) = rc t" for h
    using assms(2) by (auto simp: steady_def)
  show ?thesis
  proof (cases "?f = 0")
    case True
    then show ?thesis using assms(1) f(1)
      by (simp add: read_sensor_def result_bind exec_ask failing_def del: append.simps)
  next
    case False
    then show ?thesis using assms(1) f
      by (simp add: read_sensor_def result_bind exec_bind exec_ask exec_ask_bytes failing_def del: append.simps)
  qed
qed

text \<open>The loop ends exactly when no sensor fails and the fuel covers one pass for each.\<close>

lemma read_sensors_ends_iff:
  assumes "steady E found rc" and "\<not> halted s"
  shows "result (read_sensors n E decode tys) s \<longleftrightarrow> length tys \<le> n \<and> (\<forall>t \<in> set tys. \<not> failing found rc t)"
  using assms(2)
proof (induction n arbitrary: tys s)
  case 0
  then show ?case by (cases tys) simp_all
next
  case (Suc n)
  show ?case
  proof (cases tys)
    case (Cons t rest)
    let ?s = "exec (read_sensor E decode t) s"
    have h: "\<not> halted ?s" using runs_onD [OF read_sensor_effects(1) Suc.prems] .
    have "result (read_sensors (Suc n) E decode tys) s
        = (if failing found rc t then result (read_sensors n E decode tys) ?s else result (read_sensors n E decode rest) ?s)"
      using read_sensor_result [OF Suc.prems assms(1), of decode t] by (simp add: Cons result_bind)
    with Suc.IH [OF h] show ?thesis by (auto simp: Cons)
  qed simp
qed

fun timer_sets :: "hist \<Rightarrow> nat" where
  "timer_sets [] = 0"
| "timer_sets (c # h) = (case c of Os (CalloutReset SensorCallout n) \<Rightarrow> Suc (timer_sets h) | _ \<Rightarrow> timer_sets h)"

definition no_timer :: "call \<Rightarrow> bool" where
  "no_timer c \<longleftrightarrow> (\<forall>n. c \<noteq> Os (CalloutReset SensorCallout n))"

lemma no_timer_simps [simp]:
  "no_timer (Radio r)" "no_timer (Net n)" "no_timer (Sys f xs)" "no_timer (GetField k)" "no_timer (SetField k v)"
  "no_timer (Os x) \<longleftrightarrow> (\<forall>n. x \<noteq> CalloutReset SensorCallout n)"
  by (auto simp: no_timer_def)

lemma timer_sets_kept: "emits no_timer p \<Longrightarrow> timer_sets (tr (exec p s)) = timer_sets (tr s)"
proof -
  have "\<forall>c \<in> set cs. no_timer c \<Longrightarrow> timer_sets (cs @ h) = timer_sets h" for cs h
    by (induction cs) (auto simp: no_timer_def split: call.split os.split callout_id.split)
  moreover assume "emits no_timer p"
  ultimately show ?thesis using emitsD [of no_timer p s] by auto
qed

lemma read_sensors_no_timer:
  "emits no_timer (read_sensors n E decode tys :: ('z bh_globals_scheme, bool) prog)"
  by (induction n E decode tys rule: read_sensors.induct) (auto intro!: effects)

lemma choose_sensors_effects:
  "runs_on (choose_sensors E)" "emits no_timer (choose_sensors E)"
  unfolding choose_sensors_def due_def by (intro effects; simp)+

lemma chosen:
  "result (choose_sensors E) s \<in> {[SENSOR_TYPE_ACCELEROMETER, SENSOR_TYPE_GYROSCOPE],
     [SENSOR_TYPE_ACCELEROMETER, SENSOR_TYPE_GYROSCOPE, SENSOR_TYPE_MAGNETIC_FIELD, SENSOR_TYPE_PRESSURE]}"
  by (simp add: choose_sensors_def result_bind)


text \<open>A board whose gyroscope fails.\<close>

definition gyro_env :: env where
  "gyro_env = calm_env\<lparr>eint := (\<lambda>h c. if c = Sys ''sensor_mgr_find_next_bytype gyroscope'' []
     \<or> c = Sys ''sensor_read gyroscope'' [TICKS_PER_SEC calm_env sdiv 100] then 1 else eint calm_env h c)\<rparr>"



section \<open>The low battery\<close>

abbreviation read_batt :: call where
  "read_batt \<equiv> Sys ''hal_bsp_read_battery_voltage'' []"

fun batt_reads :: "hist \<Rightarrow> nat" where
  "batt_reads [] = 0"
| "batt_reads (c # h) = (if c = read_batt then Suc (batt_reads h) else batt_reads h)"

fun restarts :: "hist \<Rightarrow> nat" where
  "restarts [] = 0"
| "restarts (c # h) = (if c = Os SystemReset then Suc (restarts h) else restarts h)"

text \<open>A battery whose voltage is \<open>v k\<close> millivolts at the reading number \<open>k\<close>.\<close>

definition metered :: "env \<Rightarrow> (nat \<Rightarrow> int) \<Rightarrow> bool" where
  "metered E v \<longleftrightarrow> (\<forall>h. sint (word_of_int (eint E h read_batt) :: u16) = v (batt_reads h))"

lemma batt_reads_append: "batt_reads (g @ h) = batt_reads g + batt_reads h"
  by (induction g) simp_all

lemma restarts_append: "restarts (g @ h) = restarts g + restarts h"
  by (induction g) simp_all

text \<open>Calls that count neither as readings nor as restarts, nor command the radio.\<close>

definition idle_call :: "call \<Rightarrow> bool" where
  "idle_call c \<longleftrightarrow> c \<noteq> read_batt \<and> c \<noteq> Os SystemReset \<and> \<not> is_radio c"

lemma idle_kept:
  assumes "emits idle_call p"
  shows "batt_reads (tr (exec p s)) = batt_reads (tr s)" and "restarts (tr (exec p s)) = restarts (tr s)"
    and "radio_calls (exec p s) = radio_calls s"
proof -
  obtain cs where cs: "tr (exec p s) = cs @ tr s" "\<forall>c \<in> set cs. idle_call c" using emitsD [OF assms] by blast
  from cs(2) have "batt_reads cs = 0 \<and> restarts cs = 0 \<and> filter is_radio cs = []"
    by (induction cs) (simp_all add: idle_call_def)
  with cs(1) show "batt_reads (tr (exec p s)) = batt_reads (tr s)" "restarts (tr (exec p s)) = restarts (tr s)"
    "radio_calls (exec p s) = radio_calls s"
    by (simp_all add: batt_reads_append restarts_append radio_calls_def calls_def flip: rev_filter)
qed

definition wait_quietly :: "env \<Rightarrow> int \<Rightarrow> ('g, unit) prog" where
  "wait_quietly E mv = do {
     put (''{\"battery_low\"='' @ fmt_d mv @ '',\"usb\"='' @ fmt_d 0 @ ''}'' @ [CHR 0x0A]);
     for_each [0..<3] (\<lambda>i. do {
       act (Os (GpioWrite True));
       act (Os (TimeDelay 1));
       act (Os (GpioWrite False));
       act (Os (TimeDelay (nat (TICKS_PER_SEC E div 10))))
     });
     for_each [0..<50] (\<lambda>i. do {
       ev \<leftarrow> ask E (Sys ''dpl_eventq_get_no_wait'' []);
       onlyif (ev \<noteq> 0) (act (Sys ''dpl_event_run'' [ev]));
       act (Os (TimeDelay (nat (TICKS_PER_SEC E div 10))))
     })
   }"

lemma wait_quietly_effects:
  "runs_on (wait_quietly E mv)" "emits idle_call (wait_quietly E mv)" "keeps I (wait_quietly E mv)"
  unfolding wait_quietly_def by (intro effects; simp add: idle_call_def)+

lemma wait_run:
  fixes s :: "'g st"
  assumes "\<not> halted s" and "metered E v" and "BATT_V_PIN b"
  shows "result (low_battery_wait E b mv) s = v (batt_reads (tr s))"
    and "exec (low_battery_wait E b mv) s = (let t = exec (wait_quietly E mv) s in t\<lparr>tr := read_batt # tr t\<rparr>)"
proof -
  let ?t = "exec (wait_quietly E mv) s"
  have t: "\<not> halted ?t" "batt_reads (tr ?t) = batt_reads (tr s)"
    using runs_onD [OF wait_quietly_effects(1) assms(1)] idle_kept(1) [OF wait_quietly_effects(2)] by auto
  have "low_battery_wait E b mv = (State_Monad.bind (wait_quietly E mv)
      (\<lambda>_. read_mv E (BATT_V_PIN b) ''hal_bsp_read_battery_voltage'') :: ('g, int) prog)"
    by (simp add: low_battery_wait_def wait_quietly_def)
  then show "result (low_battery_wait E b mv) s = v (batt_reads (tr s))"
    "exec (low_battery_wait E b mv) s = (let t = ?t in t\<lparr>tr := read_batt # tr t\<rparr>)"
    using t assms(2,3) by (simp_all add: exec_bind result_bind read_mv_def exec_ask metered_def Let_def)
qed

lemma battery_loop_run:
  assumes "metered E v" and "BATT_V_PIN b"
  shows "\<not> halted s \<Longrightarrow> \<exists>t. exec (low_battery_loop n E b mv) s = t \<and> \<not> halted t \<and> restarts (tr t) = restarts (tr s)
    \<and> radio_calls t = radio_calls s
    \<and> (result (low_battery_loop n E b mv) s \<noteq> None \<longleftrightarrow> 3000 \<le> mv \<or> (\<exists>k < n. 3000 \<le> v (batt_reads (tr s) + k)))"
proof (induction n arbitrary: s mv)
  case 0
  then show ?case by (simp add: low_battery_loop.simps)
next
  case (Suc n)
  show ?case
  proof (cases "3000 \<le> mv")
    case True
    with Suc.prems show ?thesis by (simp add: low_battery_loop.simps)
  next
    case False
    define t where "t = exec (low_battery_wait E b mv) s"
    note w = wait_run [OF Suc.prems assms, of mv]
    have t: "\<not> halted t" "batt_reads (tr t) = Suc (batt_reads (tr s))" "restarts (tr t) = restarts (tr s)"
      "radio_calls t = radio_calls s"
      using w(2) runs_onD [OF wait_quietly_effects(1) Suc.prems] idle_kept [OF wait_quietly_effects(2), of E mv s]
      by (simp_all add: t_def Let_def radio_calls_def)
    have e: "exec (low_battery_loop (Suc n) E b mv) s = exec (low_battery_loop n E b (v (batt_reads (tr s)))) t"
      "result (low_battery_loop (Suc n) E b mv) s = result (low_battery_loop n E b (v (batt_reads (tr s)))) t"
      using False w(1) by (simp_all add: low_battery_loop.simps [of "Suc n"] exec_bind result_bind t_def)
    have "(\<exists>k < Suc n. 3000 \<le> v (batt_reads (tr s) + k)) \<longleftrightarrow>
        3000 \<le> v (batt_reads (tr s)) \<or> (\<exists>k < n. 3000 \<le> v (Suc (batt_reads (tr s)) + k))"
      by (auto simp: less_Suc_eq_0_disj)
    with Suc.IH [OF t(1), of "v (batt_reads (tr s))"] e t False show ?thesis by simp
  qed
qed

lemma battery_loop_blind:
  assumes "\<not> BATT_V_PIN b"
  shows "\<not> halted s \<Longrightarrow> \<exists>t. exec (low_battery_loop n E b (- 1)) s = t \<and> \<not> halted t \<and> restarts (tr t) = restarts (tr s)
    \<and> radio_calls t = radio_calls s \<and> result (low_battery_loop n E b (- 1)) s = None"
proof (induction n arbitrary: s)
  case 0
  then show ?case by (simp add: low_battery_loop.simps)
next
  case (Suc n)
  have w: "low_battery_wait E b mv = do { wait_quietly E mv; ret (- 1) }" for mv
    using assms by (simp add: low_battery_wait_def wait_quietly_def read_mv_def)
  note t = runs_onD [OF wait_quietly_effects(1) Suc.prems] idle_kept [OF wait_quietly_effects(2), of E "- 1" s]
  show ?case using Suc.IH [OF t(1)] t(2-4) by (simp add: low_battery_loop.simps [of "Suc n"] w exec_bind result_bind)
qed

definition sleep_calls :: "call list" where
  "sleep_calls = map Radio [ForceTrxOff 0, MacConfig 0, SetRxTimeout 0 1, ForceTrxOff 0, SleepConfig 0, EnterSleep 0]"

lemma enter_run:
  assumes "\<not> halted s"
  shows "\<not> halted (exec (low_battery_enter E) s)" "restarts (tr (exec (low_battery_enter E) s)) = restarts (tr s)"
    "batt_reads (tr (exec (low_battery_enter E) s)) = batt_reads (tr s)"
    "radio_calls (exec (low_battery_enter E) s) = radio_calls s @ sleep_calls"
  using assms by (simp_all add: low_battery_enter_def exec_bind exec_act radio_calls_def sleep_calls_def calls_def)


text \<open>A battery that is read as 2800, 2900, 3000 and so on.\<close>

definition charging_env :: env where
  "charging_env = calm_env\<lparr>eint := (\<lambda>h c. if c = read_batt then 2800 + 100 * int (min (batt_reads h) 10) else eint calm_env h c)\<rparr>"


end
