(* ===== verification/Rtdoa_Sensors.thy ===== *)
theory Rtdoa_Sensors
  imports Rtdoa_Net
begin

text \<open>
  One firing of the RTDoA tag's sensor timer: what it gathers from the sensors and the voltages,
  and the message it puts on the local queue. The judgement \<open>gathers\<close> follows the part of the
  handler that only collects values for the packet of readings.
\<close>

section \<open>Values\<close>

datatype imu_value = Reading sensor_type_t sensor_reading | Battery cfl | Usb cfl

fun store_value :: "(cfl \<Rightarrow> int) \<Rightarrow> imu_value \<Rightarrow> rtdoabh_sensor_data \<Rightarrow> rtdoabh_sensor_data" where
  "store_value ub (Reading t r) d = store_sensor ub t r d"
| "store_value ub (Battery v) d = set_valid BATTERY_LEVELS_ENABLED (d\<lparr>battery_voltage := battery_field ub v\<rparr>)"
| "store_value ub (Usb v) d = d\<lparr>has_usb_power := of_bool (fless (Fin 3) v)\<rparr>"

definition read_call :: "env \<Rightarrow> sensor_type_t \<Rightarrow> call" where
  "read_call E t = Sys (''sensor_read '' @ sensor_name t) [TICKS_PER_SEC E sdiv 100]"

abbreviation usb_call :: call where
  "usb_call \<equiv> Sys ''hal_bsp_read_usb_voltage'' []"

text \<open>A value that comes from the outside: a reading the sensor gave, the voltage the board
  reported; a battery voltage is the average the tag keeps.\<close>

fun genuine :: "env \<Rightarrow> (u8 list \<Rightarrow> sensor_reading) \<Rightarrow> imu_value \<Rightarrow> bool" where
  "genuine E decode (Reading t r) \<longleftrightarrow> (\<exists>h. r = decode (ebytes E h (read_call E t)))"
| "genuine E decode (Usb v) \<longleftrightarrow>
     (\<exists>h. v = fmul binary32 (of_c_int binary32 (sint (word_of_int (eint E h usb_call) :: u16))) mv2V)"
| "genuine E decode (Battery v) \<longleftrightarrow> True"

lemma store_value_fun:
  "store_value ub (Reading t r) = store_sensor ub t r"
  "store_value ub (Battery v) = (\<lambda>d. set_valid BATTERY_LEVELS_ENABLED (d\<lparr>battery_voltage := battery_field ub v\<rparr>))"
  "store_value ub (Usb v) = (\<lambda>d. d\<lparr>has_usb_power := of_bool (fless (Fin 3) v)\<rparr>)"
  by (rule ext; simp)+

lemma wf_store_value: "wf_sensors d \<Longrightarrow> wf_sensors (store_value ub x d)"
  by (cases x) (simp_all add: wf_sensor_updates)

lemma wf_store_values: "wf_sensors d \<Longrightarrow> wf_sensors (fold (store_value ub) xs d)"
  by (induction xs arbitrary: d) (simp_all add: wf_store_value)

text \<open>What of the globals belongs to the backhaul, with new readings stored.\<close>

definition bh_part :: "'z bh_globals_scheme \<Rightarrow> bh_globals" where
  "bh_part g = bh_globals.truncate g"

definition stored :: "(cfl \<Rightarrow> int) \<Rightarrow> imu_value list \<Rightarrow> bh_globals \<Rightarrow> bh_globals" where
  "stored ub xs g = g\<lparr>g_result_pkg_imu := (g_result_pkg_imu g)
     \<lparr>sensors := fold (store_value ub) xs (sensors (g_result_pkg_imu g))\<rparr>\<rparr>"

lemma stored_stored [simp]: "stored ub ys (stored ub xs g) = stored ub (xs @ ys) g" "stored ub [] g = g"
  by (simp_all add: stored_def)

lemma bh_part_sels [simp]:
  "g_result_pkg (bh_part g) = g_result_pkg g" "g_result_pkg_imu (bh_part g) = g_result_pkg_imu g"
  "g_role (bh_part g) = g_role g" "g_msg_id (bh_part g) = g_msg_id g"
  by (simp_all add: bh_part_def bh_globals.truncate_def)

lemma bh_part_rtag [simp]:
  "bh_part (g\<lparr>last_mp_update := x\<rparr>) = bh_part g" "bh_part (g\<lparr>last_batt_update := x\<rparr>) = bh_part g"
  "bh_part (g\<lparr>g_battery_voltage := v\<rparr>) = bh_part g"
  by (simp_all add: bh_part_def bh_globals.truncate_def)


section \<open>The judgement\<close>

text \<open>Calls that touch neither buffers nor queues nor the console.\<close>

fun bystander :: "call \<Rightarrow> bool" where
  "bystander (Os (MbufGet a b)) = False"
| "bystander (Os (MbufCopyInto m off bs)) = False"
| "bystander (Os (MbufFree m)) = False"
| "bystander (Os (MqPut m)) = False"
| "bystander (Os MqGet) = False"
| "bystander (Os (ConsoleWrite l)) = False"
| "bystander c = True"

lemma bystander_step:
  assumes "bystander c"
  shows "queued E (c # h) = queued E h" and "payload E m (c # h) = payload E m h"
    and "owned E (c # h) = owned E h" and "console (c # h) = console h"
  using assms by (cases c rule: bystander.cases; simp)+

lemma bystanders:
  assumes "\<forall>c \<in> set cs. bystander c"
  shows "queued E (cs @ h) = queued E h" and "owned E (cs @ h) = owned E h" and "console (cs @ h) = console h"
  using assms by (induction cs) (simp_all add: bystander_step del: queued.simps owned.simps console.simps)

definition gathers :: "env \<Rightarrow> (u8 list \<Rightarrow> sensor_reading) \<Rightarrow> ('z bh_globals_scheme, 'a) prog \<Rightarrow> bool" where
  "gathers E decode p \<longleftrightarrow> (\<forall>s. \<not> halted s \<longrightarrow> \<not> halted (exec p s)
     \<and> (\<exists>cs. tr (exec p s) = cs @ tr s \<and> (\<forall>c \<in> set cs. bystander c))
     \<and> (\<exists>xs. list_all (genuine E decode) xs \<and> bh_part (glb (exec p s)) = stored (eub E) xs (bh_part (glb s))))"

lemma gathersD:
  assumes "gathers E decode p" and "\<not> halted s"
  obtains cs xs where "\<not> halted (exec p s)" and "tr (exec p s) = cs @ tr s" and "\<forall>c \<in> set cs. bystander c"
    and "list_all (genuine E decode) xs" and "bh_part (glb (exec p s)) = stored (eub E) xs (bh_part (glb s))"
  using assms unfolding gathers_def by blast

named_theorems gathering \<open>rules of the judgement gathers\<close>

lemma gathersI:
  assumes "\<And>s. \<not> halted s \<Longrightarrow> \<exists>cs xs. \<not> halted (exec p s) \<and> tr (exec p s) = cs @ tr s
    \<and> (\<forall>c \<in> set cs. bystander c) \<and> list_all (genuine E decode) xs
    \<and> bh_part (glb (exec p s)) = stored (eub E) xs (bh_part (glb s))"
  shows "gathers E decode p"
  using assms unfolding gathers_def by blast

lemma gathers_still:
  fixes p :: "('z bh_globals_scheme, 'a) prog"
  assumes "\<And>s. \<not> halted s \<Longrightarrow> \<not> halted (exec p s)"
    and "\<And>s. \<not> halted s \<Longrightarrow> tr (exec p s) \<in> {cs @ tr s | cs. \<forall>c \<in> set cs. bystander c}"
    and "\<And>s. \<not> halted s \<Longrightarrow> bh_part (glb (exec p s)) = bh_part (glb s)"
  shows "gathers E decode p"
proof (rule gathersI)
  fix s :: "'z bh_globals_scheme st"
  assume s: "\<not> halted s"
  obtain cs where "tr (exec p s) = cs @ tr s" "\<forall>c \<in> set cs. bystander c" using assms(2) [OF s] by auto
  with assms(1,3) [OF s] show "\<exists>cs xs. \<not> halted (exec p s) \<and> tr (exec p s) = cs @ tr s
    \<and> (\<forall>c \<in> set cs. bystander c) \<and> list_all (genuine E decode) xs
    \<and> bh_part (glb (exec p s)) = stored (eub E) xs (bh_part (glb s))"
    by (intro exI [of _ cs] exI [of _ "[]"]) simp
qed

lemma bystander_one: "bystander c \<Longrightarrow> c # h \<in> {cs @ h | cs. \<forall>c \<in> set cs. bystander c}"
  by (auto intro!: exI [of _ "[c]"])

lemma gathers_prims [gathering]:
  "gathers E decode (ret x)" "gathers E decode (gets f)"
  "(\<And>g. bh_part (f' g) = bh_part g) \<Longrightarrow> gathers E decode (upd f')"
  "bystander c \<Longrightarrow> gathers E decode (act c)" "bystander c \<Longrightarrow> gathers E decode (ask F c)"
  by (rule gathers_still; use bystander_one in \<open>auto simp: exec_upd exec_act exec_ask\<close>)+

lemma gathers_bind:
  fixes p :: "('z bh_globals_scheme, 'a) prog"
  assumes "\<And>s. \<not> halted s \<Longrightarrow> \<exists>cs xs. \<not> halted (exec p s) \<and> tr (exec p s) = cs @ tr s
    \<and> (\<forall>c \<in> set cs. bystander c) \<and> list_all (genuine E decode) xs
    \<and> bh_part (glb (exec p s)) = stored (eub E) xs (bh_part (glb s)) \<and> gathers E decode (f (result p s))"
  shows "gathers E decode (State_Monad.bind p f)"
proof (rule gathersI)
  fix s :: "'z bh_globals_scheme st"
  assume "\<not> halted s"
  from assms [OF this] obtain cs xs where p: "\<not> halted (exec p s)" "tr (exec p s) = cs @ tr s"
    "\<forall>c \<in> set cs. bystander c" "list_all (genuine E decode) xs"
    "bh_part (glb (exec p s)) = stored (eub E) xs (bh_part (glb s))" "gathers E decode (f (result p s))" by blast
  obtain ds ys where "\<not> halted (exec (f (result p s)) (exec p s))"
    "tr (exec (f (result p s)) (exec p s)) = ds @ tr (exec p s)" "\<forall>c \<in> set ds. bystander c"
    "list_all (genuine E decode) ys"
    "bh_part (glb (exec (f (result p s)) (exec p s))) = stored (eub E) ys (bh_part (glb (exec p s)))"
    using gathersD [OF p(6,1)] .
  with p show "\<exists>cs xs. \<not> halted (exec (State_Monad.bind p f) s) \<and> tr (exec (State_Monad.bind p f) s) = cs @ tr s
    \<and> (\<forall>c \<in> set cs. bystander c) \<and> list_all (genuine E decode) xs
    \<and> bh_part (glb (exec (State_Monad.bind p f) s)) = stored (eub E) xs (bh_part (glb s))"
    by (intro exI [of _ "ds @ cs"] exI [of _ "xs @ ys"]) (auto simp: exec_bind)
qed

lemma gathers_seq [gathering]:
  "gathers E decode p \<Longrightarrow> (\<And>x. gathers E decode (f x)) \<Longrightarrow> gathers E decode (State_Monad.bind p f)"
  by (rule gathers_bind) (metis gathersD)

text \<open>After a call the rest may depend on what the outside can answer.\<close>

lemma gathers_ask:
  assumes "bystander c" and "\<And>h. gathers E decode (f (eint E h c))"
  shows "gathers E decode (State_Monad.bind (ask E c) f)"
  by (rule gathers_bind, rule exI [of _ "[c]"], rule exI [of _ "[]"]) (simp add: exec_ask assms)

lemma gathers_ask_bytes:
  assumes "bystander c" and "\<And>h. gathers E decode (f (eint E h c, ebytes E h c))"
  shows "gathers E decode (State_Monad.bind (ask_bytes E c) f)"
  by (rule gathers_bind, rule exI [of _ "[c]"], rule exI [of _ "[]"]) (simp add: exec_ask_bytes assms)

lemma gathers_if [gathering]:
  "(b \<Longrightarrow> gathers E decode p) \<Longrightarrow> (\<not> b \<Longrightarrow> gathers E decode q) \<Longrightarrow> gathers E decode (if b then p else q)"
  "(b \<Longrightarrow> gathers E decode u) \<Longrightarrow> gathers E decode (onlyif b u)"
  by (simp_all add: onlyif_def gathers_prims)

lemma gathers_store:
  assumes "genuine E decode x"
  shows "gathers E decode (upd_imu (store_value (eub E) x))"
proof (rule gathersI)
  fix s :: "'a bh_globals_scheme st"
  assume "\<not> halted s"
  then show "\<exists>cs xs. \<not> halted (exec (upd_imu (store_value (eub E) x)) s)
    \<and> tr (exec (upd_imu (store_value (eub E) x)) s) = cs @ tr s
    \<and> (\<forall>c \<in> set cs. bystander c) \<and> list_all (genuine E decode) xs
    \<and> bh_part (glb (exec (upd_imu (store_value (eub E) x)) s)) = stored (eub E) xs (bh_part (glb s))"
    using assms by (intro exI [of _ "[]"] exI [of _ "[x]"])
      (simp add: upd_imu_def exec_upd stored_def bh_part_def bh_globals.truncate_def)
qed


section \<open>The parts of the handler\<close>

lemma gathers_reading [gathering]: "gathers E decode (read_sensor E decode t)"
proof -
  have "gathers E decode (upd_imu (store_sensor (eub E) t (decode (ebytes E h (read_call E t)))))" for h
    using gathers_store [of E decode "Reading t (decode (ebytes E h (read_call E t)))"] by (auto simp: store_value_fun)
  then have "gathers E decode (rtdoa_backhaul_sensor_data_cb E t (decode (ebytes E h (read_call E t))))" for h
    unfolding rtdoa_backhaul_sensor_data_cb_def by (intro gathering)
  then show ?thesis
    unfolding read_sensor_def read_call_def [symmetric]
    by (intro gathers_ask_bytes gathering) (auto simp: read_call_def intro!: gathering)
qed

lemma gathers_readings [gathering]: "gathers E decode (read_sensors n E decode tys)"
  by (induction n E decode tys rule: read_sensors.induct) (auto intro!: gathering)

lemma gathers_choose [gathering]:
  "gathers E decode (due E prev period)" "gathers E decode (choose_sensors E)"
  unfolding choose_sensors_def due_def by (intro gathering; simp)+

lemma gathers_read_mv:
  assumes "\<And>x. (pin \<longrightarrow> (\<exists>h. x = sint (word_of_int (eint E h (Sys f []) :: int) :: u16))) \<Longrightarrow> gathers E decode (p x)"
  shows "gathers E decode (State_Monad.bind (read_mv E pin f) p)"
proof (cases pin)
  case True
  have "gathers E decode (State_Monad.bind (ask E (Sys f [])) (\<lambda>x. p (sint (word_of_int x :: u16))))"
    by (rule gathers_ask) (use assms in auto)
  moreover have "State_Monad.bind (read_mv E pin f) p
      = State_Monad.bind (ask E (Sys f [])) (\<lambda>x. p (sint (word_of_int x :: u16)))"
    using True by (simp add: read_mv_def ret_def State_Monad.bind_assoc)
  ultimately show ?thesis by simp
next
  case False
  then show ?thesis using assms [of "- 1"] by (simp add: read_mv_def ret_def)
qed

text \<open>The outside of a tag on USB power whose sensors answer: no reading fails, the USB voltage
  is at least three volts, and while nothing is queued at most two buffers are in use.\<close>

definition sensor_board :: "env \<Rightarrow> rtag_build \<Rightarrow> bool" where
  "sensor_board E b \<longleftrightarrow> (\<forall>h t. eint E h (read_call E t) = 0)
     \<and> USB_V_PIN b \<and> (\<forall>h. 3000 \<le> sint (word_of_int (eint E h usb_call) :: u16))
     \<and> (\<forall>h. queued E h = [] \<longrightarrow> eint E h (Os (MempoolBlocks ''rtdoabh_mpool''))
          - eint E (Os (MempoolBlocks ''rtdoabh_mpool'') # h) (Os (MempoolFree ''rtdoabh_mpool'')) \<le> 2)"

lemma gathers_battery:
  assumes "sensor_board E b"
  shows "gathers E decode (update_battery fuel E b)"
proof -
  have b: "gathers E decode (rtdoa_backhaul_battery_cb E v)" for v
    using gathers_store [of E decode "Battery v"] by (simp add: rtdoa_backhaul_battery_cb_def store_value_fun)
  have u: "gathers E decode (rtdoa_backhaul_usb_cb v)" if "genuine E decode (Usb v)" for v
    using gathers_store [OF that] by (simp add: rtdoa_backhaul_usb_cb_def store_value_fun)
  have usb: "USB_V_PIN b" "\<And>h. 3000 \<le> sint (word_of_int (eint E h usb_call) :: u16)"
    using assms by (simp_all add: sensor_board_def)
  show ?thesis
    unfolding update_battery_def
  proof (intro gathers_read_mv gathering b)
    fix x y v assume "USB_V_PIN b \<longrightarrow> (\<exists>h. y = sint (word_of_int (eint E h usb_call) :: u16))"
    with usb(1) obtain h where y: "y = sint (word_of_int (eint E h usb_call) :: u16)" by blast
    then show "gathers E decode (rtdoa_backhaul_usb_cb (fmul binary32 (of_c_int binary32 y) mv2V))"
      by (intro u) auto
    show "gathers E decode (low_battery_mode fuel E b)" if "fless v (fin binary64 (29 / 10)) \<and> y < 3000"
      using that usb(2) [of h] by (simp add: y)
  qed simp_all
qed

lemma readings_end:
  assumes "\<not> halted s" and "\<And>h t. eint E h (read_call E t) = 0" and "length tys \<le> n"
  shows "result (read_sensors n E decode tys) s"
  using assms(1,3)
proof (induction tys arbitrary: n s)
  case (Cons t rest)
  then obtain k where k: "n = Suc k" "length rest \<le> k" by (cases n) auto
  have "result (read_sensor E decode t) s = 0"
    using Cons.prems(1) assms(2) by (simp add: read_sensor_def result_bind exec_bind exec_ask exec_ask_bytes read_call_def
        del: append.simps)
  then show ?case
    using Cons.IH [OF runs_onD [OF read_sensor_effects(1) Cons.prems(1)] k(2)] by (simp add: k(1) result_bind)
qed simp

section \<open>The message\<close>

definition imu_packet :: "(cfl \<Rightarrow> int) \<Rightarrow> u64 \<Rightarrow> imu_value list \<Rightarrow> rtdoabh_tag_results_pkg \<Rightarrow> rtdoabh_tag_results_pkg" where
  "imu_packet ub t xs p = p\<lparr>head := (head p)\<lparr>seq_num := seq_num (head p) + 1\<rparr>,
     sensors := (fold (store_value ub) xs (sensors p))\<lparr>ts := t\<rparr>\<rparr>"

definition readings_only :: "rtdoabh_tag_results_pkg \<Rightarrow> rtdoabh_tag_results_pkg" where
  "readings_only p = p\<lparr>ref_anchor_addr := 0, num_ranges := 0, ranges := replicate MAXNUM_RANGES zero_range\<rparr>"

lemma wf_imu_packet: "wf_pkg p \<Longrightarrow> wf_pkg (imu_packet ub t xs p)"
  by (simp add: imu_packet_def wf_pkg_def wf_store_values wf_sensor_updates)

text \<open>The message is the packet up to the readings; the receiver's packet is cleared behind them.\<close>

lemma received_readings:
  assumes "wf_pkg p" and "head_layout hl enc dec"
  shows "received_pkg hl dec (take (PKG_SIZE hl) (take (hl + SENSOR_SIZE) (pkg_bytes enc p))) = readings_only p"
proof -
  let ?q = "readings_only p"
  have w: "wf_pkg ?q" using assms(1) by (simp add: readings_only_def wf_pkg_def)
  have l: "length (enc (head p)) = hl" "length (sensor_bytes (sensors p)) = SENSOR_SIZE"
    using assms by (simp_all add: head_layout_def wf_pkg_def length_sensor_bytes)
  have t: "take (hl + SENSOR_SIZE) (pkg_bytes enc p) = enc (head p) @ sensor_bytes (sensors p)"
    using l by (simp add: pkg_bytes_def)
  have "to_le 2 (0 :: u16) = [0, 0]" "to_le 1 (0 :: u8) = [0]" by code_simp+
  moreover have "replicate (PKG_SIZE hl - (hl + SENSOR_SIZE)) (0 :: u8) = [0, 0] @ [0] @ replicate (RANGE_SIZE * MAXNUM_RANGES) 0"
    by (simp add: PKG_SIZE_def numeral_3_eq_3)
  moreover have "concat (map range_bytes (ranges ?q)) = replicate (RANGE_SIZE * MAXNUM_RANGES) 0"
    using zero_ranges_bytes [of MAXNUM_RANGES] by (simp add: readings_only_def del: map_replicate)
  ultimately have "pkg_bytes enc ?q = enc (head p) @ sensor_bytes (sensors p) @ replicate (PKG_SIZE hl - (hl + SENSOR_SIZE)) 0"
    unfolding pkg_bytes_def by (simp add: readings_only_def)
  then have "overlay (replicate (PKG_SIZE hl) 0) 0 (enc (head p) @ sensor_bytes (sensors p)) = pkg_bytes enc ?q"
    using l by (simp add: overlay_def)
  moreover have "take (PKG_SIZE hl) (enc (head p) @ sensor_bytes (sensors p)) = enc (head p) @ sensor_bytes (sensors p)"
    using l by (simp add: PKG_SIZE_def)
  ultimately show ?thesis
    using pkg_of_pkg_bytes [OF w assms(2), of "[]"] by (simp add: t received_pkg_def)
qed

lemma imu_send:
  assumes "\<not> halted s" and "mbufs_available E" and "mbuf_fresh E" and "queued E (tr s) = []"
    and "u = exec (rtdoa_backhaul_send_imu_only E hl enc t) s" and "PKG_SIZE hl < 2 ^ 15"
    and "p = imu_packet (eub E) t [] (g_result_pkg_imu (glb s))"
  obtains m where "\<not> halted u" and "glb u = (glb s)\<lparr>g_result_pkg_imu := p\<lparr>sensors := zero_sensors\<rparr>\<rparr>"
    and "queued E (tr u) = [m]" and "m \<noteq> 0" and "m \<notin> owned E (tr u)" and "owned E (tr u) = owned E (tr s)"
    and "payload E m (tr u) = take (hl + SENSOR_SIZE) (pkg_bytes enc p)" and "console (tr u) = console (tr s)"
proof -
  define m where "m = eint E (tr s) (Os (MbufGet 0 2))"
  have m: "m \<noteq> 0" "m \<notin> owned E (tr s)"
    using assms(2,3) by (auto simp: m_def mbufs_available_def mbuf_fresh_def)
  have n: "(hl + SENSOR_SIZE) mod 2 ^ 15 = hl + SENSOR_SIZE" using assms(6) by (simp add: PKG_SIZE_def)
  have "u = s\<lparr>tr := Os (MqPut m) # Os (MbufCopyInto m 0 (take (hl + SENSOR_SIZE) (pkg_bytes enc p))) # Os (MbufGet 0 2) # tr s,
      glb := (glb s)\<lparr>g_result_pkg_imu := p\<lparr>sensors := zero_sensors\<rparr>\<rparr>\<rparr>"
    using assms(1,2) m(1) n
    by (simp add: assms(5,7) rtdoa_backhaul_send_imu_only_def rtdoa_local_send_def exec_def run_simps mbufs_available_def
        m_def [symmetric] imu_packet_def)
  then show thesis
    using that [of m] assms(1-4) m by (simp add: mbufs_available_def) (simp add: m_def)
qed


section \<open>One firing\<close>

text \<open>A time of the tag in the clock of the network.\<close>

definition master_time :: "env \<Rightarrow> u64 \<Rightarrow> bool" where
  "master_time E t \<longleftrightarrow> (\<exists>h x. t = drop_bit 16 (word_of_int (eint E h (Net (WcsLocalToMaster x)))))"

lemma readings_sent:
  assumes "\<not> halted s" and "sensor_board E b" and "queued E (tr s) = []"
  obtains t w where "t = 0 \<or> master_time E t" and "\<not> halted w" and "glb w = glb s"
    and "exec (send_readings E hl enc lts) s = exec (rtdoa_backhaul_send_imu_only E hl enc t) w"
    and "queued E (tr w) = []" and "owned E (tr w) = owned E (tr s)" and "console (tr w) = console (tr s)"
proof -
  define h1 where "h1 = Os (MempoolFree ''rtdoabh_mpool'') # Os (MempoolBlocks ''rtdoabh_mpool'') # tr s"
  define h2 where "h2 = GetField ''ccp->status.valid'' # h1"
  define v where "v = eint E h1 (GetField ''ccp->status.valid'')"
  define t where "t = (if v \<noteq> 0 then drop_bit 16 (word_of_int (eint E h2 (Net (WcsLocalToMaster lts)))) else 0 :: u64)"
  define w where "w = s\<lparr>tr := (if v \<noteq> 0 then [Net (WcsLocalToMaster lts)] else []) @ h2\<rparr>"
  have "exec (send_readings E hl enc lts) s = exec (rtdoa_backhaul_send_imu_only E hl enc t) w"
    using assms by (simp add: send_readings_def rtdoa_backhaul_queue_size_def exec_bind result_bind exec_ask sensor_board_def
        w_def t_def v_def h2_def h1_def not_less)
  moreover have "t = 0 \<or> master_time E t" by (auto simp: t_def master_time_def)
  ultimately show thesis using that [of t w] assms(1,3) by (simp add: w_def h2_def h1_def)
qed

text \<open>The handler as what it gathers and what it sends.\<close>

definition gathering_part :: "env \<Rightarrow> rtag_build \<Rightarrow> (u8 list \<Rightarrow> sensor_reading) \<Rightarrow> (rtag_globals, unit) prog" where
  "gathering_part E b decode = do { types \<leftarrow> choose_sensors E; done \<leftarrow> read_sensors 4 E decode types;
     prev \<leftarrow> gets last_batt_update; d \<leftarrow> due E prev 1000000; onlyif d (update_battery 4 E b) }"

definition sending_part :: "env \<Rightarrow> rtag_build \<Rightarrow> nat \<Rightarrow> (rng_head \<Rightarrow> u8 list) \<Rightarrow> u64 \<Rightarrow> (rtag_globals, unit) prog" where
  "sending_part E b hl enc lts = do { send_readings E hl enc lts;
     onlyif (IMU_RATE b \<noteq> 0) (act (Os (CalloutReset SensorCallout (TICKS_PER_SEC E sdiv int (IMU_RATE b))))) }"

lemma timer_parts:
  assumes "\<not> halted s" and "sensor_board E b"
  obtains lts w xs where "exec (sensor_timer_ev_cb 4 E b hl enc decode) s = exec (sending_part E b hl enc lts) w"
    and "\<not> halted w" and "list_all (genuine E decode) xs" and "bh_part (glb w) = stored (eub E) xs (bh_part (glb s))"
    and "queued E (tr w) = queued E (tr s)" and "owned E (tr w) = owned E (tr s)" and "console (tr w) = console (tr s)"
proof -
  define s1 where "s1 = s\<lparr>tr := Os (ReadSystime 0) # tr s\<rparr>"
  define lts where "lts = (word_of_int (eint E (tr s) (Os (ReadSystime 0))) :: u64)"
  define w where "w = exec (gathering_part E b decode) s1"
  have s1: "\<not> halted s1" using assms(1) by (simp add: s1_def)
  have "gathers E decode (gathering_part E b decode)"
    unfolding gathering_part_def by (intro gathering gathers_battery assms(2))
  then obtain cs xs where w: "\<not> halted w" "tr w = cs @ tr s1" "\<forall>c \<in> set cs. bystander c"
    "list_all (genuine E decode) xs" "bh_part (glb w) = stored (eub E) xs (bh_part (glb s1))"
    unfolding w_def by (rule gathersD [OF _ s1])
  have "result (read_sensors 4 E decode (result (choose_sensors E) s1)) (exec (choose_sensors E) s1)"
    using readings_end [OF runs_onD [OF choose_sensors_effects(1) s1]] assms(2) chosen [of E s1] by (auto simp: sensor_board_def)
  then have "exec (sensor_timer_ev_cb 4 E b hl enc decode) s = exec (sending_part E b hl enc lts) w"
    using assms(1) by (simp add: sensor_timer_ev_cb_def sending_part_def gathering_part_def exec_bind result_bind exec_ask
        w_def s1_def lts_def)
  then show thesis using that [of lts w xs] w bystanders [OF w(3)] by (simp add: s1_def)
qed

lemma timer_fires:
  fixes s :: "rtag_globals st"
  assumes "\<not> halted s" and "mbufs_available E" and "mbuf_fresh E" and "sensor_board E b" and "queued E (tr s) = []"
    and "PKG_SIZE hl < 2 ^ 15" and "u = exec (sensor_timer_ev_cb 4 E b hl enc decode) s"
  obtains t xs m p where "t = 0 \<or> master_time E t" and "list_all (genuine E decode) xs"
    and "p = imu_packet (eub E) t xs (g_result_pkg_imu (glb s))" and "\<not> halted u"
    and "bh_part (glb u) = (bh_part (glb s))\<lparr>g_result_pkg_imu := p\<lparr>sensors := zero_sensors\<rparr>\<rparr>"
    and "queued E (tr u) = [m]" and "m \<noteq> 0" and "m \<notin> owned E (tr u)" and "owned E (tr u) = owned E (tr s)"
    and "payload E m (tr u) = take (hl + SENSOR_SIZE) (pkg_bytes enc p)" and "console (tr u) = console (tr s)"
proof -
  obtain lts y xs where y: "u = exec (sending_part E b hl enc lts) y" "\<not> halted y" "list_all (genuine E decode) xs"
    "bh_part (glb y) = stored (eub E) xs (bh_part (glb s))"
    "queued E (tr y) = queued E (tr s)" "owned E (tr y) = owned E (tr s)" "console (tr y) = console (tr s)"
    using timer_parts [OF assms(1,4), where hl = hl and enc = enc and decode = decode] assms(7) by metis
  obtain t w where w: "t = 0 \<or> master_time E t" "\<not> halted w" "glb w = glb y"
    "exec (send_readings E hl enc lts) y = exec (rtdoa_backhaul_send_imu_only E hl enc t) w"
    "queued E (tr w) = []" "owned E (tr w) = owned E (tr s)" "console (tr w) = console (tr s)"
    using readings_sent [OF y(2) assms(4), where hl = hl and enc = enc and lts = lts] y(5-7) assms(5) by metis
  define p where "p = imu_packet (eub E) t [] (g_result_pkg_imu (glb w))"
  define v where "v = exec (rtdoa_backhaul_send_imu_only E hl enc t) w"
  obtain m where m: "\<not> halted v" "glb v = (glb w)\<lparr>g_result_pkg_imu := p\<lparr>sensors := zero_sensors\<rparr>\<rparr>"
    "queued E (tr v) = [m]" "m \<noteq> 0" "m \<notin> owned E (tr v)" "owned E (tr v) = owned E (tr w)"
    "payload E m (tr v) = take (hl + SENSOR_SIZE) (pkg_bytes enc p)" "console (tr v) = console (tr w)"
    by (rule imu_send [OF w(2) assms(2,3) w(5) v_def assms(6) p_def])
  have e: "u = (if IMU_RATE b \<noteq> 0 then v\<lparr>tr := Os (CalloutReset SensorCallout (TICKS_PER_SEC E sdiv int (IMU_RATE b))) # tr v\<rparr> else v)"
    using m(1) by (simp add: y(1) sending_part_def exec_bind w(4) v_def [symmetric] exec_act)
  have "g_result_pkg_imu (glb w) = g_result_pkg_imu (stored (eub E) xs (bh_part (glb s)))"
    using y(4) bh_part_sels(2) [of "glb y"] by (simp add: w(3))
  then have p: "p = imu_packet (eub E) t xs (g_result_pkg_imu (glb s))"
    by (simp add: p_def imu_packet_def stored_def)
  have "bh_part (glb v) = (bh_part (glb w))\<lparr>g_result_pkg_imu := p\<lparr>sensors := zero_sensors\<rparr>\<rparr>"
    by (simp add: m(2) bh_part_def bh_globals.truncate_def)
  then have b: "bh_part (glb u) = (bh_part (glb s))\<lparr>g_result_pkg_imu := p\<lparr>sensors := zero_sensors\<rparr>\<rparr>"
    using y(4) by (simp add: e w(3) stored_def)
  show thesis
    using that [OF w(1) y(3) p _ b, of m] m w(6,7) by (simp add: e)
qed

end
