(* ===== verification/Rtdoa_Round.thy ===== *)
theory Rtdoa_Round
  imports Rtdoa_Sensors
begin

text \<open>
  The tag's slots and the firings of its sensor timer, each with the loop that prints its
  queue, in any order and number: a specification on the two packets alone, which the handlers
  refine.
\<close>

section \<open>The specification\<close>

text \<open>
  The inputs: the frames of a round with the time of the slot in the clock of the network, and
  the values gathered in a firing of the timer with their time. A round yields the packet with
  its ranges, stamped with the time; what stays is a cleared packet. A firing yields the packet
  of readings with the values stored in their order; what stays has no values. The two packets
  count separately.
\<close>

datatype 'f tag_input = Frames u64 "'f rtdoa_instance" | Values u64 "imu_value list"

definition stamped :: "u64 \<Rightarrow> 'z bh_globals_scheme \<Rightarrow> 'z bh_globals_scheme" where
  "stamped t g = g\<lparr>g_result_pkg := (g_result_pkg g)\<lparr>sensors := (sensors (g_result_pkg g))\<lparr>ts := t\<rparr>\<rparr>\<rparr>"

fun tag_spec :: "env \<Rightarrow> 'f rtdoa_lib \<Rightarrow> bh_globals \<Rightarrow> 'f tag_input list \<Rightarrow> rtdoabh_tag_results_pkg list" where
  "tag_spec E L g [] = []"
| "tag_spec E L g (Frames t r # is) = (case round_result E L r (stamped t g) of None \<Rightarrow> []
     | Some (p, st) \<Rightarrow> cleared_rest p # tag_spec E L (g\<lparr>g_result_pkg := clear_round p, g_tag_stats := st\<rparr>) is)"
| "tag_spec E L g (Values t xs # is) = (let p = imu_packet (eub E) t xs (g_result_pkg_imu g)
     in readings_only p # tag_spec E L (g\<lparr>g_result_pkg_imu := p\<lparr>sensors := zero_sensors\<rparr>\<rparr>) is)"

text \<open>The number of lines printed so far does not matter, nor what the application adds.\<close>

lemma tag_spec_msg_id: "tag_spec E L (g\<lparr>g_msg_id := k\<rparr>) is = tag_spec E L g is"
proof (induction E L g "is" rule: tag_spec.induct)
  case (2 E L g t r "is")
  have "round_result E L r (stamped t (g\<lparr>g_msg_id := k\<rparr>)) = round_result E L r (stamped t g)"
    by (simp add: round_result_def stamped_def)
  moreover have "(g\<lparr>g_msg_id := k\<rparr>)\<lparr>g_result_pkg := p, g_tag_stats := st\<rparr> = (g\<lparr>g_result_pkg := p, g_tag_stats := st\<rparr>)\<lparr>g_msg_id := k\<rparr>" for p st
    by simp
  ultimately show ?case using 2 by (simp only: tag_spec.simps split: option.splits) auto
next
  case (3 E L g t xs "is")
  have "(g\<lparr>g_msg_id := k\<rparr>)\<lparr>g_result_pkg_imu := p\<rparr> = (g\<lparr>g_result_pkg_imu := p\<rparr>)\<lparr>g_msg_id := k\<rparr>" for p by simp
  then show ?case using 3 by (simp only: tag_spec.simps Let_def) simp
qed simp

lemma bh_part_round [simp]: "round_result E L r (stamped t (bh_part g)) = round_result E L r (stamped t g)"
  by (simp add: round_result_def stamped_def bh_part_def bh_globals.truncate_def)

lemma bh_part_updates:
  "bh_part (g\<lparr>g_result_pkg := p, g_tag_stats := st\<rparr>) = (bh_part g)\<lparr>g_result_pkg := p, g_tag_stats := st\<rparr>"
  "bh_part (g\<lparr>g_msg_id := k\<rparr>) = (bh_part g)\<lparr>g_msg_id := k\<rparr>"
  by (simp_all add: bh_part_def bh_globals.truncate_def)

section \<open>One slot\<close>

text \<open>The console without the marks that slots leave when listening fails.\<close>

definition shown :: "hist \<Rightarrow> string list" where
  "shown h = filter (\<lambda>l. take 1 l \<noteq> ''#'') (console h)"

lemma shown_append: "console h = console k @ ls \<Longrightarrow> shown h = shown k @ filter (\<lambda>l. take 1 l \<noteq> ''#'') ls"
  by (simp add: shown_def)

lemma print_shown: "rtdoa_backhaul_print ub to_us c tight mid p = Some l \<Longrightarrow> take 1 l \<noteq> ''#''"
  by (auto simp: rtdoa_backhaul_print_def print_prefix_def Let_def split: if_splits)

lemma slot_before_send:
  assumes "\<not> halted s" and "\<And>h. ccp_count E h \<noteq> 0"
  obtains t w where "master_time E t" and "\<not> halted w" and "glb w = stamped t (glb s)"
    and "exec (rtdoa_slot_timer_cb_tag E hl enc L r v) s = exec (rtdoa_backhaul_send E hl enc L 0 r 0) w"
    and "queued E (tr w) = queued E (tr s)" and "owned E (tr w) = owned E (tr s)" and "shown (tr w) = shown (tr s)"
proof -
  define h1 where "h1 = Os (GpioWrite True) # Os (SemGetCount CcpSem) # tr s"
  define t0 where "t0 = (word_of_int (eint E h1 (Net (TdmaRxSlotStart (v_idx v)))) :: u64)"
  define h2 where "h2 = Net (TdmaRxSlotStart (v_idx v)) # h1"
  define c where "c = Net (RtdoaListen UWB_BLOCKING t0 (uint (listen_window v)))"
  define h3 where "h3 = (if eint E h2 c \<noteq> 0 then [Os (ConsoleWrite (''#rse'' @ [CHR 0x0A]))] else []) @ c # h2"
  define h4 where "h4 = Os (SemGetCount CcpSem) # Os (GpioWrite False) # h3"
  define t where "t = (drop_bit 16 (word_of_int (eint E h4 (Net (WcsLocalToMaster t0)))) :: u64)"
  define w where "w = s\<lparr>tr := Net (WcsLocalToMaster t0) # h4, glb := stamped t (glb s)\<rparr>"
  have "exec (rtdoa_slot_timer_cb_tag E hl enc L r v) s = exec (rtdoa_backhaul_send E hl enc L 0 r 0) w"
    using assms
    by (simp add: rtdoa_slot_timer_cb_tag_def exec_unless_ccp Let_def exec_bind result_bind exec_act exec_ask exec_upd
        put_def rtdoa_backhaul_set_ts_def w_def t_def h4_def h3_def c_def h2_def t0_def h1_def stamped_def)
  moreover have "master_time E t" by (auto simp: master_time_def t_def)
  ultimately show thesis
    using that [of t w] assms(1) by (simp add: w_def h4_def h3_def c_def h2_def h1_def shown_def)
qed

lemma bridge_send:
  assumes "\<not> halted s" and "wf_pkg (g_result_pkg (glb s))" and "head_layout hl enc dec" and "PKG_SIZE hl < 2 ^ 15"
    and "g_role (glb s) = RTDOABH_ROLE_BRIDGE" and "mbufs_available E" and "mbuf_fresh E" and "queued E (tr s) = []"
    and "round_result E L r (glb s) = Some (p', st')" and "u = exec (rtdoa_backhaul_send E hl enc L i r 0) s"
  obtains m where "\<not> halted u" and "glb u = (glb s)\<lparr>g_result_pkg := clear_round p', g_tag_stats := st'\<rparr>"
    and "queued E (tr u) = [m]" and "m \<noteq> 0" and "m \<notin> owned E (tr u)" and "owned E (tr u) = owned E (tr s)"
    and "payload E m (tr u) = trimmed hl enc p'" and "console (tr u) = console (tr s)"
proof -
  have wf: "wf_pkg p'" using round_result_facts [OF assms(9,2)] by simp
  define bs where "bs = take (send_dlen hl p' mod 2 ^ 15) (pkg_bytes enc p')"
  have bs: "bs = trimmed hl enc p'"
    using length_trimmed [OF wf assms(3)] assms(4) by (simp add: bs_def trimmed_def)
  define m where "m = eint E (tr s) (Os (MbufGet 0 2))"
  have m: "m \<noteq> 0" "m \<notin> owned E (tr s)"
    using assms(6,7) by (auto simp: m_def mbufs_available_def mbuf_fresh_def)
  obtain t v where t: "\<not> halted t" "glb t = (glb s)\<lparr>g_result_pkg := p', g_tag_stats := st'\<rparr>" "tr t = tr s"
    and v: "v = exec (send_tail E hl enc i 0) t" "\<not> halted v" "glb u = (glb v)\<lparr>g_result_pkg := clear_round p'\<rparr>"
      "tr u = tr v" "\<not> halted u"
    by (rule send_state [OF assms(1,9) refl, where hl = hl and enc = enc and i = i and dx = 0]) (simp add: assms(10))
  have "v = t\<lparr>tr := Os (MqPut m) # Os (MbufCopyInto m 0 bs) # Os (MbufGet 0 2) # tr s\<rparr>"
    using t assms(5,6) m(1) by (simp add: v(1) send_tail_def rtdoa_local_send_def exec_def run_simps mbufs_available_def
        bs_def m_def [symmetric])
  then show thesis
    using that [of m] v(3-5) t(2) m assms(6,8) bs by (simp add: mbufs_available_def) (simp add: m_def)
qed

lemma print_message:
  assumes "queue_ok E" and "\<not> halted s" and "g_role (glb s) = RTDOABH_ROLE_BRIDGE" and "queued E (tr s) = [m]" and "m \<noteq> 0"
    and "m \<notin> owned E (tr s)" and mp: "message_pkg E hl dec (tr s) m = q" and ib: "in_bounds q"
    and u: "u = exec (process_rx_data_queue 2 E hl dec to_us) s"
  shows "\<not> halted u" and "glb u = (glb s)\<lparr>g_msg_id := g_msg_id (glb s) + 1\<rparr>" and "queued E (tr u) = []"
    and "owned E (tr u) = owned E (tr s)"
    and "console (tr u) = console (tr s) @ print_lines (eub E) to_us (g_msg_id (glb s)) [q]"
proof -
  from process_queue [OF assms(1,4), of 2 hl dec to_us] show "\<not> halted u" "queued E (tr u) = []"
    "owned E (tr u) = owned E (tr s)"
    "console (tr u) = console (tr s) @ print_lines (eub E) to_us (g_msg_id (glb s)) [q]"
    using assms(2,3,5,6) u mp ib by (simp_all add: Let_def)
  define t where "t = s\<lparr>tr := Os MqGet # tr s\<rparr>"
  have g: "eint E (tr s) (Os MqGet) = m" using assms(1,4) by (simp add: queue_ok_def)
  have t: "\<not> halted t" "g_role (glb t) = RTDOABH_ROLE_BRIDGE" "message_pkg E hl dec (tr t) m = q"
    "queued E (tr t) = []"
    using assms(2-4) mp by (simp_all add: t_def message_pkg_def)
  define w where "w = exec (process_message E hl dec to_us m) t"
  note w = message_effects [OF assms(1) t(1) _ w_def, unfolded t(2,3)]
  have id: "g_msg_id (glb w) = g_msg_id (glb s) + 1" using w(7) ib by (simp add: t_def)
  have "keeps (\<lambda>g. g\<lparr>g_msg_id := 0\<rparr> = (glb s)\<lparr>g_msg_id := 0\<rparr>) (process_message E hl dec to_us m)"
    unfolding process_message_def print_pkg_def by (intro effects) (auto split: option.split intro!: effects)
  from keepsD [OF this, of t] have k: "(glb w)\<lparr>g_msg_id := 0\<rparr> = (glb s)\<lparr>g_msg_id := 0\<rparr>" by (simp add: w_def t_def)
  have "\<not> halted w" "queued E (tr w) = []" using w(1,3) ib t(4) by simp_all
  moreover have "eint E (tr w) (Os MqGet) = 0" using assms(1) \<open>queued E (tr w) = []\<close> by (simp add: queue_ok_def)
  ultimately have "glb u = glb w"
    using assms(2,5) g by (simp add: u numeral_2_eq_2 exec_bind exec_ask result_bind t_def [symmetric] w_def [symmetric])
  moreover have "glb w = (glb s)\<lparr>g_msg_id := g_msg_id (glb w)\<rparr>"
    using arg_cong [OF k, of "\<lambda>g. g\<lparr>g_msg_id := g_msg_id (glb w)\<rparr>"] by simp
  ultimately show "glb u = (glb s)\<lparr>g_msg_id := g_msg_id (glb s) + 1\<rparr>" using id by simp
qed

lemma print_one:
  assumes "queue_ok E" and "\<not> halted s" and "g_role (glb s) = RTDOABH_ROLE_BRIDGE" and "queued E (tr s) = [m]" and "m \<noteq> 0"
    and "m \<notin> owned E (tr s)" and "payload E m (tr s) = trimmed hl enc p" and "wf_pkg p" and "head_layout hl enc dec"
    and "u = exec (process_rx_data_queue 2 E hl dec to_us) s"
  shows "\<not> halted u" and "glb u = (glb s)\<lparr>g_msg_id := g_msg_id (glb s) + 1\<rparr>" and "queued E (tr u) = []"
    and "owned E (tr u) = owned E (tr s)"
    and "console (tr u) = console (tr s) @ print_lines (eub E) to_us (g_msg_id (glb s)) [cleared_rest p]"
proof -
  have "message_pkg E hl dec (tr s) m = cleared_rest p"
    using received_trimmed [OF assms(8,9)] by (simp add: message_pkg_def assms(7))
  moreover have "in_bounds (cleared_rest p)" using assms(8) by (simp add: in_bounds_def cleared_rest_def wf_pkg_def)
  ultimately show "\<not> halted u" "glb u = (glb s)\<lparr>g_msg_id := g_msg_id (glb s) + 1\<rparr>" "queued E (tr u) = []"
    "owned E (tr u) = owned E (tr s)"
    "console (tr u) = console (tr s) @ print_lines (eub E) to_us (g_msg_id (glb s)) [cleared_rest p]"
    using print_message [OF assms(1-6) _ _ assms(10)] by blast+
qed

lemma line_shown:
  assumes "console (tr u) = console (tr s) @ print_lines ub to_us k [q]" and "in_bounds q" and "length (ranges q) = MAXNUM_RANGES"
  shows "shown (tr u) = shown (tr s) @ print_lines ub to_us k [q]"
proof -
  obtain l where "rtdoa_backhaul_print ub to_us True True k q = Some l"
    using assms(2,3) by (auto simp: rtdoa_backhaul_print_def in_bounds_def Let_def)
  then show ?thesis using shown_append [OF assms(1)] print_shown by simp
qed


section \<open>Any number of events\<close>

datatype 'f tag_event = TagSlot slot_view "'f rtdoa_instance" | SensorTimer

text \<open>An event and its handler. Four units of fuel are one for each sensor.\<close>

fun tag_handler :: "env \<Rightarrow> rtag_build \<Rightarrow> nat \<Rightarrow> (rng_head \<Rightarrow> u8 list) \<Rightarrow> (u8 list \<Rightarrow> sensor_reading) \<Rightarrow> 'f rtdoa_lib
    \<Rightarrow> 'f tag_event \<Rightarrow> (rtag_globals, unit) prog" where
  "tag_handler E b hl enc decode L (TagSlot v r) = rtdoa_slot_timer_cb_tag E hl enc L r v"
| "tag_handler E b hl enc decode L SensorTimer = do { done \<leftarrow> sensor_timer_ev_cb 4 E b hl enc decode; ret () }"

fun tag_run :: "env \<Rightarrow> rtag_build \<Rightarrow> nat \<Rightarrow> (rng_head \<Rightarrow> u8 list) \<Rightarrow> (u8 list \<Rightarrow> rng_head) \<Rightarrow> (u8 list \<Rightarrow> sensor_reading)
    \<Rightarrow> 'f rtdoa_lib \<Rightarrow> (u64 \<Rightarrow> cfl) \<Rightarrow> 'f tag_event list \<Rightarrow> (rtag_globals, unit) prog" where
  "tag_run E b hl enc dec decode L to_us [] = ret ()"
| "tag_run E b hl enc dec decode L to_us (e # es) = do {
     tag_handler E b hl enc decode L e;
     done \<leftarrow> process_rx_data_queue 2 E hl dec to_us;
     tag_run E b hl enc dec decode L to_us es
   }"

text \<open>The input an event gives: its frames, or genuine values.\<close>

fun realises :: "env \<Rightarrow> (u8 list \<Rightarrow> sensor_reading) \<Rightarrow> 'f tag_event \<Rightarrow> 'f tag_input \<Rightarrow> bool" where
  "realises E decode (TagSlot v r) (Frames t r') \<longleftrightarrow> r' = r \<and> master_time E t"
| "realises E decode SensorTimer (Values t xs) \<longleftrightarrow> (t = 0 \<or> master_time E t) \<and> list_all (genuine E decode) xs"
| "realises E decode _ _ \<longleftrightarrow> False"

fun fits :: "'f rtdoa_lib \<Rightarrow> 'f tag_event \<Rightarrow> bool" where
  "fits L (TagSlot v r) \<longleftrightarrow> \<not> overflows L (req_frame r) MAXNUM_RANGES 0 (frames r)"
| "fits L SensorTimer \<longleftrightarrow> True"

definition tag_kernel :: "env \<Rightarrow> bool" where
  "tag_kernel E \<longleftrightarrow> (\<forall>h. ccp_count E h \<noteq> 0) \<and> queue_ok E \<and> mbufs_available E \<and> mbuf_fresh E"

definition tag_ready :: "env \<Rightarrow> 'z bh_globals_scheme st \<Rightarrow> bool" where
  "tag_ready E s \<longleftrightarrow> \<not> halted s \<and> wf_pkg (g_result_pkg (glb s)) \<and> wf_pkg (g_result_pkg_imu (glb s)) \<and> g_role (glb s) = RTDOABH_ROLE_BRIDGE
     \<and> queued E (tr s) = []"

lemma wf_clear: "wf_pkg p \<Longrightarrow> wf_pkg (clear_round p)"
  by (simp add: clear_round_def wf_pkg_def wf_sensors_def zero_sensors_def)

lemma wf_stamped: "wf_pkg (g_result_pkg (stamped t g)) \<longleftrightarrow> wf_pkg (g_result_pkg g)"
  by (simp add: stamped_def wf_pkg_def wf_sensors_def)

lemma round_exists:
  assumes "wf_pkg (g_result_pkg g)" and "\<not> overflows L (req_frame r) MAXNUM_RANGES 0 (frames r)"
  obtains p st where "round_result E L r g = Some (p, st)"
proof -
  let ?p = "(begin_round (g_result_pkg g))\<lparr>ref_anchor_addr := frame_src L (req_frame r)\<rparr>"
  have "round_result E L r g = None \<longleftrightarrow> overflows L (req_frame r) MAXNUM_RANGES 0 (frames r)"
    using assms(1) fill_ranges_None [of ?p "eub E" L "req_frame r" 0 "frames r" "g_tag_stats g"]
    by (simp add: round_result_def wf_pkg_def MAXNUM_RANGES_def)
  with assms(2) that show ?thesis by (cases "round_result E L r g") auto
qed

lemma one_slot:
  assumes "tag_kernel E" and "tag_ready E s" and "head_layout hl enc dec" and "PKG_SIZE hl < 2 ^ 15"
    and "\<not> overflows L (req_frame r) MAXNUM_RANGES 0 (frames r)"
    and "u = exec (do { rtdoa_slot_timer_cb_tag E hl enc L r v; process_rx_data_queue 2 E hl dec to_us }) s"
  obtains t p st where "master_time E t" and "round_result E L r (stamped t (glb s)) = Some (p, st)" and "tag_ready E u"
    and "glb u = (glb s)\<lparr>g_result_pkg := clear_round p, g_tag_stats := st, g_msg_id := g_msg_id (glb s) + 1\<rparr>"
    and "owned E (tr u) = owned E (tr s)"
    and "shown (tr u) = shown (tr s) @ print_lines (eub E) to_us (g_msg_id (glb s)) [cleared_rest p]"
proof -
  have k: "\<And>h. ccp_count E h \<noteq> 0" "queue_ok E" "mbufs_available E" "mbuf_fresh E" using assms(1) by (simp_all add: tag_kernel_def)
  have s: "\<not> halted s" "wf_pkg (g_result_pkg (glb s))" "g_role (glb s) = RTDOABH_ROLE_BRIDGE" "queued E (tr s) = []"
    "wf_pkg (g_result_pkg_imu (glb s))"
    using assms(2) by (simp_all add: tag_ready_def)
  obtain t w where w: "master_time E t" "\<not> halted w" "glb w = stamped t (glb s)"
    "exec (rtdoa_slot_timer_cb_tag E hl enc L r v) s = exec (rtdoa_backhaul_send E hl enc L 0 r 0) w"
    "queued E (tr w) = queued E (tr s)" "owned E (tr w) = owned E (tr s)" "shown (tr w) = shown (tr s)"
    by (rule slot_before_send [OF s(1) k(1)])
  have wfw: "wf_pkg (g_result_pkg (glb w))" using s(2) by (simp add: w(3) wf_stamped)
  obtain p st where r: "round_result E L r (glb w) = Some (p, st)" by (rule round_exists [OF wfw assms(5)])
  have wf: "wf_pkg p" using round_result_facts [OF r wfw] by simp
  have role: "g_role (glb w) = RTDOABH_ROLE_BRIDGE" using s(3) by (simp add: w(3) stamped_def)
  define x where "x = exec (rtdoa_backhaul_send E hl enc L 0 r 0) w"
  obtain m where m: "\<not> halted x" "glb x = (glb w)\<lparr>g_result_pkg := clear_round p, g_tag_stats := st\<rparr>"
    "queued E (tr x) = [m]" "m \<noteq> 0" "m \<notin> owned E (tr x)" "owned E (tr x) = owned E (tr w)"
    "payload E m (tr x) = trimmed hl enc p" "console (tr x) = console (tr w)"
    using bridge_send [OF w(2) wfw assms(3,4) role k(3,4) _ r x_def] w(5) s(4) by metis
  have role': "g_role (glb x) = RTDOABH_ROLE_BRIDGE" using role by (simp add: m(2))
  have "u = exec (process_rx_data_queue 2 E hl dec to_us) x" by (simp add: assms(6) exec_bind w(4) x_def)
  note u = print_one [OF k(2) m(1) role' m(3-5,7) wf assms(3) this]
  have "in_bounds (cleared_rest p)" "length (ranges (cleared_rest p)) = MAXNUM_RANGES"
    using wf by (simp_all add: in_bounds_def cleared_rest_def wf_pkg_def)
  then have sh: "shown (tr u) = shown (tr s) @ print_lines (eub E) to_us (g_msg_id (glb s)) [cleared_rest p]"
    using line_shown [OF u(5)] m(2,8) w(3,7) by (simp add: shown_def stamped_def)
  show thesis
    using that [OF w(1)] r u sh m(2,6) w(3,6) wf_clear [OF wf] s(3,5) by (simp add: tag_ready_def stamped_def)
qed

lemma one_firing:
  fixes s :: "rtag_globals st"
  assumes "tag_kernel E" and "sensor_board E b" and "tag_ready E s" and "head_layout hl enc dec" and "PKG_SIZE hl < 2 ^ 15"
    and "u = exec (do { done \<leftarrow> sensor_timer_ev_cb 4 E b hl enc decode; process_rx_data_queue 2 E hl dec to_us }) s"
  obtains t xs p where "t = 0 \<or> master_time E t" and "list_all (genuine E decode) xs"
    and "p = imu_packet (eub E) t xs (g_result_pkg_imu (glb s))" and "tag_ready E u"
    and "bh_part (glb u) = (bh_part (glb s))\<lparr>g_result_pkg_imu := p\<lparr>sensors := zero_sensors\<rparr>, g_msg_id := g_msg_id (glb s) + 1\<rparr>"
    and "owned E (tr u) = owned E (tr s)"
    and "shown (tr u) = shown (tr s) @ print_lines (eub E) to_us (g_msg_id (glb s)) [readings_only p]"
proof -
  have k: "queue_ok E" "mbufs_available E" "mbuf_fresh E" using assms(1) by (simp_all add: tag_kernel_def)
  have s: "\<not> halted s" "wf_pkg (g_result_pkg (glb s))" "wf_pkg (g_result_pkg_imu (glb s))"
    "g_role (glb s) = RTDOABH_ROLE_BRIDGE" "queued E (tr s) = []"
    using assms(3) by (simp_all add: tag_ready_def)
  define v where "v = exec (sensor_timer_ev_cb 4 E b hl enc decode) s"
  obtain t xs m p where v: "t = 0 \<or> master_time E t" "list_all (genuine E decode) xs"
    "p = imu_packet (eub E) t xs (g_result_pkg_imu (glb s))" "\<not> halted v"
    "bh_part (glb v) = (bh_part (glb s))\<lparr>g_result_pkg_imu := p\<lparr>sensors := zero_sensors\<rparr>\<rparr>"
    "queued E (tr v) = [m]" "m \<noteq> 0" "m \<notin> owned E (tr v)" "owned E (tr v) = owned E (tr s)"
    "payload E m (tr v) = take (hl + SENSOR_SIZE) (pkg_bytes enc p)" "console (tr v) = console (tr s)"
    by (rule timer_fires [OF s(1) k(2,3) assms(2) s(5) assms(5) v_def])
  have wf: "wf_pkg p" using wf_imu_packet [OF s(3)] by (simp add: v(3))
  have g: "g_role (glb v) = RTDOABH_ROLE_BRIDGE" "g_msg_id (glb v) = g_msg_id (glb s)"
    using arg_cong [OF v(5), of g_role] arg_cong [OF v(5), of g_msg_id] s(4) by simp_all
  have mp: "message_pkg E hl dec (tr v) m = readings_only p"
    using received_readings [OF wf assms(4)] by (simp add: message_pkg_def v(10))
  have q: "in_bounds (readings_only p)" "length (ranges (readings_only p)) = MAXNUM_RANGES"
    by (simp_all add: in_bounds_def readings_only_def)
  have "u = exec (process_rx_data_queue 2 E hl dec to_us) v" by (simp add: assms(6) exec_bind v_def)
  note u = print_message [OF k(1) v(4) g(1) v(6-8) mp q(1) this, unfolded g(2)]
  have b: "bh_part (glb u) = (bh_part (glb s))\<lparr>g_result_pkg_imu := p\<lparr>sensors := zero_sensors\<rparr>, g_msg_id := g_msg_id (glb s) + 1\<rparr>"
    using v(5) by (simp add: u(2) bh_part_updates)
  have "wf_pkg (p\<lparr>sensors := zero_sensors\<rparr>)" using wf by (simp add: wf_pkg_def wf_sensor_updates)
  then have "tag_ready E u"
    using u(1,3) s(2,4) arg_cong [OF b, of g_role] arg_cong [OF b, of g_result_pkg] arg_cong [OF b, of g_result_pkg_imu]
    by (simp add: tag_ready_def)
  moreover have "shown (tr u) = shown (tr s) @ print_lines (eub E) to_us (g_msg_id (glb s)) [readings_only p]"
    using line_shown [OF u(5) q] by (simp add: shown_def v(11))
  ultimately show thesis using that [OF v(1-3) _ b] u(4) v(9) by simp
qed

text \<open>An event, whichever it is, against the specification.\<close>

lemma one_event:
  assumes "tag_kernel E" and "sensor_board E b" and "tag_ready E s" and "head_layout hl enc dec" and "PKG_SIZE hl < 2 ^ 15"
    and "fits L e"
    and "u = exec (do { tag_handler E b hl enc decode L e; process_rx_data_queue 2 E hl dec to_us }) s"
  shows "\<exists>i p. realises E decode e i \<and> tag_ready E u \<and> owned E (tr u) = owned E (tr s)
    \<and> g_msg_id (glb u) = g_msg_id (glb s) + 1
    \<and> (\<forall>is. tag_spec E L (bh_part (glb s)) (i # is) = p # tag_spec E L (bh_part (glb u)) is)
    \<and> shown (tr u) = shown (tr s) @ print_lines (eub E) to_us (g_msg_id (glb s)) [p]"
proof (cases e)
  case (TagSlot v r)
  then obtain t p st where y: "master_time E t" "round_result E L r (stamped t (glb s)) = Some (p, st)" "tag_ready E u"
    "glb u = (glb s)\<lparr>g_result_pkg := clear_round p, g_tag_stats := st, g_msg_id := g_msg_id (glb s) + 1\<rparr>"
    "owned E (tr u) = owned E (tr s)"
    "shown (tr u) = shown (tr s) @ print_lines (eub E) to_us (g_msg_id (glb s)) [cleared_rest p]"
    using one_slot [OF assms(1,3,4,5), of L r u v] assms(6,7) by (metis fits.simps(1) tag_handler.simps(1))
  have "tag_spec E L (bh_part (glb s)) (Frames t r # is) = cleared_rest p # tag_spec E L (bh_part (glb u)) is" for "is"
    using y(2) tag_spec_msg_id [of E L "g_msg_id (glb s) + 1"
      "(bh_part (glb s))\<lparr>g_result_pkg := clear_round p, g_tag_stats := st\<rparr>" "is"]
    by (simp add: y(4) bh_part_updates)
  with y TagSlot show ?thesis by (intro exI [of _ "Frames t r"] exI [of _ "cleared_rest p"]) simp
next
  case SensorTimer
  have "u = exec (do { done \<leftarrow> sensor_timer_ev_cb 4 E b hl enc decode; process_rx_data_queue 2 E hl dec to_us }) s"
    using assms(7) by (simp add: SensorTimer exec_bind)
  from one_firing [OF assms(1-5) this] obtain t xs p where y: "t = 0 \<or> master_time E t" "list_all (genuine E decode) xs"
    "p = imu_packet (eub E) t xs (g_result_pkg_imu (glb s))" "tag_ready E u"
    "bh_part (glb u) = (bh_part (glb s))\<lparr>g_result_pkg_imu := p\<lparr>sensors := zero_sensors\<rparr>, g_msg_id := g_msg_id (glb s) + 1\<rparr>"
    "owned E (tr u) = owned E (tr s)"
    "shown (tr u) = shown (tr s) @ print_lines (eub E) to_us (g_msg_id (glb s)) [readings_only p]" .
  have "tag_spec E L (bh_part (glb s)) (Values t xs # is) = readings_only p # tag_spec E L (bh_part (glb u)) is" for "is"
    using tag_spec_msg_id [of E L "g_msg_id (glb s) + 1" "(bh_part (glb s))\<lparr>g_result_pkg_imu := p\<lparr>sensors := zero_sensors\<rparr>\<rparr>" "is"]
    by (simp add: y(3) [symmetric] y(5) Let_def)
  moreover have "g_msg_id (glb u) = g_msg_id (glb s) + 1" using arg_cong [OF y(5), of g_msg_id] by simp
  ultimately show ?thesis using y(1,2,4,6,7) SensorTimer
    by (intro exI [of _ "Values t xs"] exI [of _ "readings_only p"]) simp
qed


text \<open>A running clock, a kernel with buffers, and USB power.\<close>

definition clock_env :: env where
  "clock_env = calm_env\<lparr>eint := (\<lambda>h c. if c = usb_call then 5000
     else case c of Os (SemGetCount x) \<Rightarrow> 1 | _ \<Rightarrow> eint calm_env h c)\<rparr>"

lemma clock_other: "c \<noteq> usb_call \<Longrightarrow> (\<And>x. c \<noteq> Os (SemGetCount x)) \<Longrightarrow> eint clock_env h c = eint calm_env h c"
  by (simp add: clock_env_def split: call.split os.split)

lemma clock_same:
  "queued clock_env h = queued calm_env h" "payload clock_env m h = payload calm_env m h" "owned clock_env h = owned calm_env h"
proof -
  show "queued clock_env h = queued calm_env h"
    by (induction h) (simp_all add: clock_other split: call.split os.split)
  show "payload clock_env m h = payload calm_env m h"
    by (induction h) (auto simp: clock_other split: call.split os.split)
  show "owned clock_env h = owned calm_env h"
    by (induction h) (simp_all add: clock_other split: call.split os.split)
qed

lemma clock_kernel: "tag_kernel clock_env"
proof -
  have "ccp_count clock_env h \<noteq> 0" "ebytes clock_env = ebytes calm_env" for h by (simp_all add: clock_env_def)
  then show ?thesis
    using calm_queue calm_mbufs calm_fresh
    by (simp add: tag_kernel_def queue_ok_def mbufs_available_def mbuf_fresh_def clock_other clock_same)
qed

lemma length_print_lines: "length (print_lines ub to_us mid ps) = length ps"
  by (induction ps arbitrary: mid) simp_all

definition one_g :: "u8 list \<Rightarrow> sensor_reading" where
  "one_g bs = \<lparr>s_x = Fin 0, s_y = Fin 0, s_z = Fin 1, s_x_is_valid = True, s_y_is_valid = True, s_z_is_valid = True\<rparr>"

definition usb_build :: rtag_build where
  "usb_build = \<lparr>BATT_V_PIN = True, USB_V_PIN = True, IMU_RATE = 30\<rparr>"

lemma clock_board: "sensor_board clock_env usb_build"
proof -
  have "eint clock_env h (read_call clock_env t) = 0" for h t
    by (cases t) (simp_all add: read_call_def clock_env_def calm_env_def base_env_def)
  moreover have "eint clock_env h usb_call = 5000" "eint clock_env h (Os (MempoolBlocks x)) = 0" for h x
    by (simp_all add: clock_env_def calm_env_def base_env_def)
  moreover have "eint clock_env h (Os (MempoolFree x)) = 0" for h x
    by (simp add: clock_env_def calm_env_def base_env_def)
  ultimately show ?thesis by (simp add: sensor_board_def usb_build_def)
qed


end
