(* ===== verification/Rtdoa_Relay.thy ===== *)
theory Rtdoa_Relay
  imports Rtdoa_Round
begin

text \<open>
  Two devices: a tag that transmits its rounds and a bridge that receives the frames and prints
  them. The air between them is a parameter: what the bridge's radio presents for a frame.
\<close>

section \<open>The specification\<close>

text \<open>
  The packets that reach the console, from the tag's packet alone: each with the ranges of its
  round and, since the frame is written in part before the round sets it, with the reference
  anchor of the round before.
\<close>

fun relayed_pkgs :: "env \<Rightarrow> 'f rtdoa_lib \<Rightarrow> 'z bh_globals_scheme \<Rightarrow> 'f rtdoa_instance list
    \<Rightarrow> rtdoabh_tag_results_pkg list" where
  "relayed_pkgs E L g [] = []"
| "relayed_pkgs E L g (r # rs) = (case round_result E L r g of None \<Rightarrow> []
     | Some (p, st) \<Rightarrow> cleared_rest (p\<lparr>ref_anchor_addr := ref_anchor_addr (g_result_pkg g)\<rparr>)
         # relayed_pkgs E L (g\<lparr>g_result_pkg := clear_round p\<rparr>) rs)"

text \<open>The statistics have no influence on the packet.\<close>

lemma fill_ranges_stats:
  "map_option fst (fill_ranges ub L req i fs (p, st)) = map_option fst (fill_ranges ub L req i fs (p, st'))"
proof (induction fs arbitrary: i p st st')
  case (Cons f fs)
  show ?case unfolding fill_ranges.simps Let_def by (auto intro!: Cons.IH simp del: fill_ranges.simps)
qed simp

lemma round_result_packet:
  assumes "g_result_pkg g = g_result_pkg g'"
  shows "map_option fst (round_result E L r g) = map_option fst (round_result E L r g')"
  using fill_ranges_stats by (simp add: round_result_def assms)

lemma relayed_pkgs_packet:
  "g_result_pkg g = g_result_pkg g' \<Longrightarrow> relayed_pkgs E L g rs = relayed_pkgs E L g' rs"
proof (induction rs arbitrary: g g')
  case (Cons r rs)
  have "relayed_pkgs E L (g\<lparr>g_result_pkg := q\<rparr>) rs = relayed_pkgs E L (g'\<lparr>g_result_pkg := q\<rparr>) rs" for q
    by (rule Cons.IH) simp
  then show ?case
    using round_result_packet [OF Cons.prems, of E L r] Cons.prems
    by (cases "round_result E L r g"; cases "round_result E L r g'") auto
qed simp


section \<open>One round through the air\<close>

text \<open>A frame as the receiving radio presents it: its bytes, then whatever the buffer held before.\<close>

definition received_frame :: "uwb_dev \<Rightarrow> u8 list \<Rightarrow> bool" where
  "received_frame inst f \<longleftrightarrow> d_fctrl inst = FCNTL_IEEE_RTDOABH
     \<and> d_frame_len inst = length f \<and> (\<exists>rest. d_rxbuf inst = f @ rest)"

lemma trimmed_head:
  assumes "wf_pkg p" and "head_layout hl enc dec"
  shows "dec (trimmed hl enc p @ rest) = head p" and "SENSOR_SIZE \<le> length (trimmed hl enc p)"
proof -
  have n: "unat (num_ranges p) \<le> MAXNUM_RANGES" using assms(1) by (simp add: wf_pkg_def)
  have l: "length (enc (head p)) = hl" using assms(2) by (simp add: head_layout_def)
  have "trimmed hl enc p = enc (head p) @ take (send_dlen hl p - hl) (sensor_bytes (sensors p)
      @ to_le 2 (ref_anchor_addr p) @ to_le 1 (num_ranges p) @ concat (map range_bytes (ranges p)))"
    using l n by (simp add: trimmed_def pkg_bytes_def send_dlen_eq SPLIT_AT_def)
  then show "dec (trimmed hl enc p @ rest) = head p"
    using assms(2) by (simp add: head_layout_def)
  show "SENSOR_SIZE \<le> length (trimmed hl enc p)"
    using length_trimmed(1) [OF assms] n by (simp add: send_dlen_eq SPLIT_AT_def)
qed

definition tag_on_air :: "env \<Rightarrow> dev \<Rightarrow> rtdoabh_tag_results_pkg \<Rightarrow> bool" where
  "tag_on_air E i p \<longleftrightarrow> pkg_ok p \<and> (\<forall>h. eint E h (Radio (StartTx i)) = 0)"

definition bridge_kernel :: "env \<Rightarrow> bool" where
  "bridge_kernel F \<longleftrightarrow> sem_ok BhSem 1 F \<and> queue_ok F \<and> mbufs_available F \<and> mbuf_fresh F \<and> BROADCAST F = 0xFFFF"

definition bridge_idle :: "env \<Rightarrow> 'z bh_globals_scheme st \<Rightarrow> bool" where
  "bridge_idle F t \<longleftrightarrow> \<not> halted t \<and> g_role (glb t) = RTDOABH_ROLE_BRIDGE \<and> queued F (tr t) = []"

text \<open>The tag's next frame does not repeat the source and number of the last one relayed.\<close>

definition next_key :: "rtdoabh_tag_results_pkg \<Rightarrow> u16 \<times> u8" where
  "next_key p = (src_address (head p), seq_num (head p) + 1)"

lemma tag_sends:
  assumes "\<not> halted s" and "tag_on_air E i (g_result_pkg (glb s))" and "head_layout hl enc dec" and "dx \<noteq> 0"
    and "round_result E L r (glb s) = Some (p, st)" and "s' = exec (rtdoa_backhaul_send E hl enc L i r dx) s"
  shows "\<not> halted s'" and "g_result_pkg (glb s') = clear_round p" and "tag_on_air E i (clear_round p)"
    and "last (on_air E i (tr s')) = trimmed hl enc (p\<lparr>ref_anchor_addr := ref_anchor_addr (g_result_pkg (glb s))\<rparr>)"
    and "next_key (clear_round p) = (src_address (head p), seq_num (head p) + 1)"
    and "head p = head (begin_round (g_result_pkg (glb s)))" and "wf_pkg p"
proof -
  have wf: "wf_pkg (g_result_pkg (glb s))" using assms(2) by (simp add: tag_on_air_def pkg_ok_def)
  note p = round_result_facts [OF assms(5) wf]
  show "\<not> halted s'" "g_result_pkg (glb s') = clear_round p"
    by (rule send_state [OF assms(1,5) assms(6)]; simp)+
  show "tag_on_air E i (clear_round p)"
    using assms(2) p(3) wf_clear [OF p(6)] by (simp add: tag_on_air_def pkg_ok_def clear_round_def begin_round_def)
  have "send_dlen hl (p\<lparr>ref_anchor_addr := a\<rparr>) = send_dlen hl p" for a by (simp add: send_dlen_def)
  then show "last (on_air E i (tr s')) = trimmed hl enc (p\<lparr>ref_anchor_addr := ref_anchor_addr (g_result_pkg (glb s))\<rparr>)"
    using send_on_air [OF assms(1) wf assms(3,4) _ assms(5), of i] assms(2) by (simp add: assms(6) trimmed_def tag_on_air_def)
  show "next_key (clear_round p) = (src_address (head p), seq_num (head p) + 1)"
    by (simp add: next_key_def clear_round_def)
  show "head p = head (begin_round (g_result_pkg (glb s)))" "wf_pkg p" by (fact p(3), fact p(6))
qed

lemma bridge_prints:
  assumes "bridge_kernel F" and "bridge_idle F t" and "head_layout hl enc dec" and "PKG_SIZE hl < 2 ^ 15"
    and "wf_pkg q" and "code (head q) = DWT_RTDOABH_CODE" and "dst_address (head q) = 0xFFFF"
    and "received_frame inst (trimmed hl enc q)" and "last_key (glb t) \<noteq> (src_address (head q), seq_num (head q))"
    and "t' = exec (do { b \<leftarrow> rx_complete_cb F dec inst; process_rx_data_queue 2 F hl dec to_us }) t"
  shows "bridge_idle F t'" and "last_key (glb t') = (src_address (head q), seq_num (head q))"
    and "g_msg_id (glb t') = g_msg_id (glb t) + 1"
    and "console (tr t') = console (tr t) @ print_lines (eub F) to_us (g_msg_id (glb t)) [cleared_rest q]"
proof -
  have k: "sem_ok BhSem 1 F" "queue_ok F" "mbufs_available F" "mbuf_fresh F" "BROADCAST F = 0xFFFF"
    using assms(1) by (simp_all add: bridge_kernel_def)
  have t: "\<not> halted t" "g_role (glb t) = RTDOABH_ROLE_BRIDGE" "queued F (tr t) = []"
    using assms(2) by (simp_all add: bridge_idle_def)
  let ?f = "trimmed hl enc q"
  have lf: "length ?f < 2 ^ 15" using length_trimmed [OF assms(5,3)] assms(4) by simp
  obtain rest where rb: "d_rxbuf inst = ?f @ rest" and fi: "d_fctrl inst = FCNTL_IEEE_RTDOABH" "d_frame_len inst = length ?f"
    using assms(8) by (auto simp: received_frame_def)
  have h: "dec (d_rxbuf inst) = head q" "SENSOR_SIZE \<le> d_frame_len inst"
    using trimmed_head [OF assms(5,3)] by (simp_all add: rb fi)
  have rel: "relayed F dec (g_role (glb t)) inst" "frame_key dec inst = (src_address (head q), seq_num (head q))"
    using h assms(6,7) fi t(2) k(5) by (simp_all add: relayed_def backhaul_frame_def frame_key_def)
  have fb: "frame_bytes inst = ?f" using lf fi rb by (simp add: frame_bytes_def)
  define u where "u = exec (rx_complete_cb F dec inst) t"
  obtain m where m: "queued F (tr u) = [m]" "payload F m (tr u) = ?f" "m \<noteq> 0" "m \<notin> owned F (tr u)"
    using rx_queue_effects [OF t(1) k(3,4) t(3) rel(1) _ u_def] rel(2) assms(9) fb by auto
  note u = rx_not_halted [OF k(1) t(1), of dec inst, folded u_def]
    rx_role [OF k(1) t(1), of dec inst, folded u_def] rx_msg_id [OF k(1) t(1), of dec inst, folded u_def]
    rx_last [OF k(1) t(1), of dec inst, folded u_def]
  have "t' = exec (process_rx_data_queue 2 F hl dec to_us) u" by (simp add: assms(10) exec_bind u_def)
  note w = print_one [OF k(2) u(1) _ m(1,3,4,2) assms(5,3) this, unfolded u(2,3), OF t(2)]
  show "bridge_idle F t'" using w t(2) u(2) by (simp add: bridge_idle_def)
  show "last_key (glb t') = (src_address (head q), seq_num (head q))"
    using w(2) u(4) rel by (simp add: last_key_def)
  show "g_msg_id (glb t') = g_msg_id (glb t) + 1" using w(2) u(3) by simp
  show "console (tr t') = console (tr t) @ print_lines (eub F) to_us (g_msg_id (glb t)) [cleared_rest q]"
    using w(5) by (simp add: u_def rx_console)
qed


section \<open>Any number of rounds\<close>

text \<open>The tag transmits; the bridge receives the frame, as \<open>rx\<close> presents it, and prints.\<close>

fun relay_run :: "env \<Rightarrow> env \<Rightarrow> nat \<Rightarrow> (rng_head \<Rightarrow> u8 list) \<Rightarrow> (u8 list \<Rightarrow> rng_head) \<Rightarrow> 'f rtdoa_lib \<Rightarrow> dev
    \<Rightarrow> (u64 \<Rightarrow> cfl) \<Rightarrow> (hist \<Rightarrow> u8 list \<Rightarrow> uwb_dev) \<Rightarrow> (u64 \<times> 'f rtdoa_instance) list
    \<Rightarrow> 'y bh_globals_scheme st \<times> 'z bh_globals_scheme st \<Rightarrow> 'y bh_globals_scheme st \<times> 'z bh_globals_scheme st" where
  "relay_run E F hl enc dec L i to_us rx [] (s, t) = (s, t)"
| "relay_run E F hl enc dec L i to_us rx ((dx, r) # xs) (s, t) =
    (let s' = exec (rtdoa_backhaul_send E hl enc L i r dx) s;
         inst = rx (tr t) (last (on_air E i (tr s')));
         t' = exec (do { b \<leftarrow> rx_complete_cb F dec inst; process_rx_data_queue 2 F hl dec to_us }) t
     in relay_run E F hl enc dec L i to_us rx xs (s', t'))"

lemma seq_num_moves: "n + 1 \<noteq> (n :: u8)"
  by (metis add_cancel_left_right one_neq_zero)

text \<open>The pair of devices ready for a round.\<close>

definition relay_ready :: "env \<Rightarrow> env \<Rightarrow> dev \<Rightarrow> 'y bh_globals_scheme st \<times> 'z bh_globals_scheme st \<Rightarrow> bool" where
  "relay_ready E F i = (\<lambda>(s, t). \<not> halted s \<and> tag_on_air E i (g_result_pkg (glb s)) \<and> bridge_idle F t
     \<and> last_key (glb t) \<noteq> next_key (g_result_pkg (glb s)))"

lemma relay_round:
  assumes "relay_ready E F i (s, t)" and "bridge_kernel F" and "head_layout hl enc dec" and "PKG_SIZE hl < 2 ^ 15"
    and "\<And>h f. received_frame (rx h f) f" and "dx \<noteq> 0" and "\<not> overflows L (req_frame r) MAXNUM_RANGES 0 (frames r)"
  obtains s1 t1 q where "relay_ready E F i (s1, t1)" and "in_bounds q"
    and "relay_run E F hl enc dec L i to_us rx ((dx, r) # xs) (s, t) = relay_run E F hl enc dec L i to_us rx xs (s1, t1)"
    and "\<forall>rs. relayed_pkgs E L (glb s) (r # rs) = q # relayed_pkgs E L (glb s1) rs"
    and "console (tr t1) = console (tr t) @ print_lines (eub F) to_us (g_msg_id (glb t)) [q]"
    and "g_msg_id (glb t1) = g_msg_id (glb t) + 1"
proof -
  have s: "\<not> halted s" "tag_on_air E i (g_result_pkg (glb s))" "bridge_idle F t"
    "last_key (glb t) \<noteq> next_key (g_result_pkg (glb s))" "pkg_ok (g_result_pkg (glb s))" "wf_pkg (g_result_pkg (glb s))"
    using assms(1) by (simp_all add: relay_ready_def tag_on_air_def pkg_ok_def)
  obtain p st where p: "round_result E L r (glb s) = Some (p, st)" by (rule round_exists [OF s(6) assms(7)])
  define s1 where "s1 = exec (rtdoa_backhaul_send E hl enc L i r dx) s"
  note s1 = tag_sends [OF s(1,2) assms(3,6) p s1_def]
  define q where "q = p\<lparr>ref_anchor_addr := ref_anchor_addr (g_result_pkg (glb s))\<rparr>"
  have q: "wf_pkg q" "head q = head p" "code (head q) = DWT_RTDOABH_CODE" "dst_address (head q) = 0xFFFF"
    using s1(6,7) s(5) by (simp_all add: q_def wf_pkg_def begin_round_def pkg_ok_def)
  have key: "next_key (g_result_pkg (glb s)) = (src_address (head q), seq_num (head q))"
    using s1(6) q(2) by (simp add: next_key_def begin_round_def)
  define t1 where "t1 = exec (do { b \<leftarrow> rx_complete_cb F dec (rx (tr t) (trimmed hl enc q));
      process_rx_data_queue 2 F hl dec to_us }) t"
  note t1 = bridge_prints [OF assms(2) s(3) assms(3,4) q(1,3,4) assms(5) _ t1_def, unfolded key [symmetric], OF s(4)]
  have "relay_ready E F i (s1, t1)"
    using s1(1,2,3,5) t1(1,2) key q(2) seq_num_moves [of "seq_num (head p)"] by (simp add: relay_ready_def)
  moreover have "in_bounds (cleared_rest q)" using q(1) by (simp add: in_bounds_def cleared_rest_def wf_pkg_def)
  moreover have "relay_run E F hl enc dec L i to_us rx ((dx, r) # xs) (s, t) = relay_run E F hl enc dec L i to_us rx xs (s1, t1)"
    using s1(4) by (simp add: s1_def [symmetric] q_def [symmetric] t1_def Let_def)
  moreover have "relayed_pkgs E L (glb s) (r # rs) = cleared_rest q # relayed_pkgs E L (glb s1) rs" for rs
    using p s1(2) relayed_pkgs_packet [of "glb s1" "(glb s)\<lparr>g_result_pkg := clear_round p\<rparr>" E L] by (simp add: q_def)
  ultimately show thesis using that t1(3,4) by blast
qed

end
