(* ===== verification/Conf.thy ===== *)
theory Conf
  imports Startup
begin

text \<open>
  Configuration stores. Two applications register a handler with the configuration subsystem
  of the operating system: \<open>get\<close> looks a key up, \<open>set\<close> stores a string in a fixed buffer,
  \<open>export\<close> writes every key with its value. The conversions of that subsystem
  (\<open>conf_value_from_str\<close>, \<open>CONF_VALUE_SET\<close>) are parameters.
\<close>

record conf_lib =
  conf_string :: "nat \<Rightarrow> string \<Rightarrow> string \<Rightarrow> int \<times> string"
  conf_int16 :: "string \<Rightarrow> u16 \<Rightarrow> int \<times> u16"

text \<open>
  The documented behaviour of setting a string: it is copied, with its terminating zero, when
  the buffer of the given size holds it; otherwise an error is returned and the buffer kept.
\<close>

definition conf_lib_ok :: "conf_lib \<Rightarrow> bool" where
  "conf_lib_ok L \<longleftrightarrow> (\<forall>n v old. if length v < n then conf_string L n v old = (0, v)
     else fst (conf_string L n v old) \<noteq> 0 \<and> snd (conf_string L n v old) = old)"

lemma conf_string_fits: "conf_lib_ok L \<Longrightarrow> length v < n \<Longrightarrow> conf_string L n v old = (0, v)"
  by (simp add: conf_lib_ok_def)

lemma conf_string_too_long: "conf_lib_ok L \<Longrightarrow> n \<le> length v \<Longrightarrow>
    fst (conf_string L n v old) \<noteq> 0 \<and> snd (conf_string L n v old) = old"
  by (simp add: conf_lib_ok_def leD)

lemma snd_conf_string: "conf_lib_ok L \<Longrightarrow> length old < n \<Longrightarrow> length (snd (conf_string L n v old)) < n"
  by (cases "length v < n") (simp_all add: conf_string_fits conf_string_too_long)

text \<open>
  The store a handler implements. What becomes of a value is decided by the conversion
  \<open>assign key value old\<close>, a return code and the new content of the buffer.
\<close>

locale conf_store =
  fixes keys :: "string list" and prefix :: string and enoent :: int
    and assign :: "string \<Rightarrow> string \<Rightarrow> string \<Rightarrow> int \<times> string"
    and get :: "string list \<Rightarrow> 'c \<Rightarrow> string option"
    and store :: "string list \<Rightarrow> string \<Rightarrow> 'c \<Rightarrow> int \<times> 'c"
    and export :: "'c \<Rightarrow> (string \<times> string) list"
  assumes distinct_keys: "distinct keys"
    and get_known: "get path c \<noteq> None \<longleftrightarrow> (\<exists>k \<in> set keys. path = [k])"
    and store_known: "k \<in> set keys \<Longrightarrow>
      fst (store [k] v c) = fst (assign k v (the (get [k] c))) \<and>
      get [k] (snd (store [k] v c)) = Some (snd (assign k v (the (get [k] c))))"
    and store_other: "k \<in> set keys \<Longrightarrow> k' \<noteq> k \<Longrightarrow> get [k'] (snd (store [k] v c)) = get [k'] c"
    and store_unknown: "\<forall>k \<in> set keys. path \<noteq> [k] \<Longrightarrow> store path v c = (enoent, c)"
    and export_keys: "export c = map (\<lambda>k. (prefix @ k, the (get [k] c))) keys"
begin

lemma get_Some: "k \<in> set keys \<Longrightarrow> get [k] c = Some (the (get [k] c))"
  using get_known [of "[k]" c] by auto

text \<open>A property of the buffers that the conversion preserves is an invariant of the store.\<close>

lemma store_keeps:
  assumes "\<And>k v old. k \<in> set keys \<Longrightarrow> P k old \<Longrightarrow> P k (snd (assign k v old))"
    and "\<forall>k \<in> set keys. P k (the (get [k] c))" and "k \<in> set keys"
  shows "P k (the (get [k] (snd (store path v c))))"
proof (cases "\<exists>k \<in> set keys. path = [k]")
  case True
  then obtain k' where k': "k' \<in> set keys" "path = [k']" by blast
  then show ?thesis
    using assms store_known [OF k'(1), of v c] store_other [OF k'(1), of k v c] by (cases "k = k'") auto
qed (use assms in \<open>auto simp: store_unknown\<close>)

text \<open>Loading stored pairs, as the configuration subsystem does at start-up.\<close>

definition load :: "(string \<times> string) list \<Rightarrow> 'c \<Rightarrow> 'c" where
  "load = fold (\<lambda>(n, v) c. snd (store [drop (length prefix) n] v c))"

lemma load_keys:
  assumes "set ks \<subseteq> set keys" and "distinct ks" and "\<forall>k \<in> set ks. \<forall>old. snd (assign k (f k) old) = f k"
  shows "get [k] (load (map (\<lambda>k. (prefix @ k, f k)) ks) c) = (if k \<in> set ks then Some (f k) else get [k] c)"
  using assms
proof (induction ks arbitrary: c)
  case (Cons x xs)
  have x: "x \<in> set keys" "x \<notin> set xs" "\<forall>old. snd (assign x (f x) old) = f x" using Cons.prems by auto
  have "load (map (\<lambda>k. (prefix @ k, f k)) (x # xs)) c
    = load (map (\<lambda>k. (prefix @ k, f k)) xs) (snd (store [x] (f x) c))"
    by (simp add: load_def)
  then show ?case
    using Cons store_known [OF x(1), of "f x" c] store_other [OF x(1), of k "f x" c] x(2,3) by auto
qed (simp add: load_def)

text \<open>What is exported and loaded again is what was there.\<close>

lemma reload:
  assumes "\<forall>k \<in> set keys. \<forall>old. snd (assign k (the (get [k] c)) old) = the (get [k] c)" and "k \<in> set keys"
  shows "get [k] (load (export c) c0) = get [k] c"
  using load_keys [of keys "\<lambda>k. the (get [k] c)"] distinct_keys assms get_Some [of k c] export_keys by simp

end

text \<open>A library with the documented behaviour, used to show that the hypotheses can hold.\<close>

definition read_int16 :: "string \<Rightarrow> u16" where
  "read_int16 s = (case s of [] \<Rightarrow> 0 | c # cs \<Rightarrow>
     if c = CHR ''-'' then - of_nat (read_num 10 cs) else of_nat (read_num 10 s))"

definition sample_conf :: conf_lib where
  "sample_conf = \<lparr>conf_string = (\<lambda>n v old. if length v < n then (0, v) else (1, old)),
     conf_int16 = (\<lambda>s old. (0, read_int16 s))\<rparr>"

lemma sample_conf_ok [simp]: "conf_lib_ok sample_conf"
  by (simp add: sample_conf_def conf_lib_ok_def)

end
