(* ===== verification/Tdoa_Tag.thy ===== *)
theory Tdoa_Tag
  imports Conf
begin

text \<open>
  \<open>apps/tdoa_tag/src/main.c\<close>: a tag that blinks. A configuration key sets the rate; the
  timer sends one blink and sleeps until the next. The layout of \<open>ieee_blink_frame_t\<close>
  belongs to the driver: \<open>blink_bytes\<close> and \<open>blink_size\<close> are parameters.
\<close>

record ieee_blink_frame =
  bl_fctrl :: u8
  bl_seq_num :: u8
  bl_long_address :: u64

record blink_layout =
  blink_size :: nat
  blink_bytes :: "ieee_blink_frame \<Rightarrow> u8 list"

record tdoa_globals =
  g_blink_rate :: u16
  config_changed :: bool
  blink_rate :: string
  tdoa_blink_frame :: ieee_blink_frame


section \<open>Configuration\<close>

definition uwb_conf_get :: "string list \<Rightarrow> tdoa_globals \<Rightarrow> string option" where
  "uwb_conf_get argv g = (if argv = [''blink_rate''] then Some (blink_rate g) else None)"

definition uwb_conf_set :: "conf_lib \<Rightarrow> env \<Rightarrow> string list \<Rightarrow> string \<Rightarrow> tdoa_globals \<Rightarrow> int \<times> tdoa_globals" where
  "uwb_conf_set L E argv v g = (if argv = [''blink_rate'']
     then (let (rc, b) = conf_string L 8 v (blink_rate g) in (rc, g\<lparr>blink_rate := b\<rparr>))
     else (ENOENT E, g))"

definition uwb_conf_export :: "tdoa_globals \<Rightarrow> (string \<times> string) list" where
  "uwb_conf_export g = [(''main/blink_rate'', blink_rate g)]"

text \<open>\<open>DPL_TICKS_PER_SEC/g_blink_rate\<close>, as the unsigned number of ticks the timer takes.\<close>

definition blink_ticks :: "env \<Rightarrow> u16 \<Rightarrow> int" where
  "blink_ticks E rate = uint (word_of_int (TICKS_PER_SEC E sdiv sint rate) :: u32)"

definition rearm :: "env \<Rightarrow> (tdoa_globals, unit) prog" where
  "rearm E = do { rate \<leftarrow> gets g_blink_rate; act (Os (CalloutReset TdoaCallout (blink_ticks E rate))) }"

definition uwb_conf_commit :: "conf_lib \<Rightarrow> env \<Rightarrow> (tdoa_globals, int) prog" where
  "uwb_conf_commit L E = do {
     old \<leftarrow> gets g_blink_rate;
     upd (\<lambda>g. g\<lparr>g_blink_rate := snd (conf_int16 L (blink_rate g) (g_blink_rate g))\<rparr>);
     new \<leftarrow> gets g_blink_rate;
     onlyif (0 < sint new \<and> old = 0) (rearm E);
     ret 0
   }"


section \<open>Blinking\<close>

definition uwb_sleep :: "(tdoa_globals, unit) prog" where
  "uwb_sleep = do {
     act (Radio (ForceTrxOff 0));
     act (Radio (PhyRxReset 0));
     act (Radio (SleepConfig 0));
     act (Radio (SleepConfig 0));
     act (Radio (EnterSleep 0))
   }"

definition wake_radio :: "env \<Rightarrow> (tdoa_globals, unit) prog" where
  "wake_radio E = do {
     sleeping \<leftarrow> ask E (GetField ''udev->status.sleeping'');
     onlyif (sleeping \<noteq> 0) (act (Radio (Wakeup 0)))
   }"

definition apply_changed :: "(tdoa_globals, unit) prog" where
  "apply_changed = do {
     changed \<leftarrow> gets config_changed;
     onlyif changed (do {
       act (Radio (MacConfig 0));
       act (Radio (TxrfConfig 0));
       upd (\<lambda>g. g\<lparr>config_changed := False\<rparr>)
     })
   }"

definition send_blink :: "env \<Rightarrow> blink_layout \<Rightarrow> (tdoa_globals, unit) prog" where
  "send_blink E L = do {
     act (Radio (SleepConfig 0));
     rate \<leftarrow> gets g_blink_rate;
     act (Radio (EnterSleepAfterTx 0 (sint rate < 10)));
     act (Radio (WriteTxFctrl 0 (blink_size L) 0));
     rc \<leftarrow> ask E (Radio (StartTx 0));
     frame \<leftarrow> gets tdoa_blink_frame;
     if rc \<noteq> 0 then put (''start tx err'' @ [CHR 0x0A])
     else act (Radio (WriteTx 0 (take (blink_size L) (blink_bytes L frame)) 0))
   }"

definition tdoa_timer_ev_cb :: "env \<Rightarrow> blink_layout \<Rightarrow> (tdoa_globals, unit) prog" where
  "tdoa_timer_ev_cb E L = do {
     act (Os (GpioWrite True));
     wake_radio E;
     apply_changed;
     send_blink E L;
     act (Os (GpioWrite False));
     upd (\<lambda>g. g\<lparr>tdoa_blink_frame := (tdoa_blink_frame g)\<lparr>bl_seq_num := bl_seq_num (tdoa_blink_frame g) + 1\<rparr>\<rparr>);
     rate \<leftarrow> gets g_blink_rate;
     onlyif (rate \<noteq> 0) (rearm E)
   }"


definition init_timer :: "env \<Rightarrow> (tdoa_globals, unit) prog" where
  "init_timer E = do { rate \<leftarrow> gets g_blink_rate; onlyif (rate \<noteq> 0) (rearm E) }"

definition uwb_config_updated_tag :: "(tdoa_globals, int) prog" where
  "uwb_config_updated_tag = do { upd (\<lambda>g. g\<lparr>config_changed := True\<rparr>); ret 0 }"

definition tdoa_init :: "string \<Rightarrow> tdoa_globals" where
  "tdoa_init rate = \<lparr>g_blink_rate = 1, config_changed = False, blink_rate = rate,
     tdoa_blink_frame = \<lparr>bl_fctrl = 0xC5, bl_seq_num = 0, bl_long_address = 0\<rparr>\<rparr>"

definition tdoa_main :: "env \<Rightarrow> board \<Rightarrow> u64 \<Rightarrow> (tdoa_globals, unit) prog" where
  "tdoa_main E b long_address = do {
     act (Sys ''sysinit'' []);
     led_init ''LED_BLINK_PIN'' 1;
     act (Sys ''uwbcfg_register'' []);
     rc \<leftarrow> ask E (Sys ''conf_register'' []);
     c_assert (rc = 0);
     for_each [(''dblbuffon_enabled'', 0), (''bias_correction_enable'', 0), (''LDE_enable'', 1), (''LDO_enable'', 0),
         (''sleep_enable'', 1), (''wakeup_rx_enable'', 0), (''rxauto_enable'', 0)]
       (\<lambda>(f, v). act (SetField (''udev->config.'' @ f) v));
     uwb_sleep;
     for_each (identity_pieces False [] (board_id b)) put;
     upd (\<lambda>g. g\<lparr>tdoa_blink_frame := (tdoa_blink_frame g)\<lparr>bl_long_address := long_address\<rparr>\<rparr>);
     onlyif (ble_enabled b) (act (Sys ''ble_init'' [uint long_address]));
     init_timer E;
     led_init ''LED_BLINK_PIN'' 0
   }"

end
