(* ===== verification/Tdoa_Tag_Props.thy ===== *)
theory Tdoa_Tag_Props
  imports Tdoa_Tag
begin

text \<open>
  Properties of the blinking tag: its configuration store, the frames it sends, and when its
  timer runs.
\<close>

section \<open>The configuration key\<close>

interpretation tdoa_conf: conf_store "[''blink_rate'']" "''main/''" "ENOENT E"
    "\<lambda>k v old. conf_string L 8 v old" uwb_conf_get "uwb_conf_set L E" uwb_conf_export
  by unfold_locales
    (auto simp: uwb_conf_get_def uwb_conf_set_def uwb_conf_export_def split: prod.split)

text \<open>C38: The rate's buffer of eight bytes always holds a terminated string: a value of up to
  seven characters is stored and read back, a longer one is refused with an error and leaves
  the old value; any other key is unknown. What is exported and loaded again is what was there.\<close>

theorem tdoa_conf_roundtrip:
  assumes "conf_lib_ok L" and "length (blink_rate g) < 8"
  shows "length (blink_rate (snd (uwb_conf_set L E argv v g))) < 8
    \<and> (length v < 8 \<longrightarrow> fst (uwb_conf_set L E [''blink_rate''] v g) = 0
        \<and> uwb_conf_get [''blink_rate''] (snd (uwb_conf_set L E [''blink_rate''] v g)) = Some v)
    \<and> (8 \<le> length v \<longrightarrow> fst (uwb_conf_set L E [''blink_rate''] v g) \<noteq> 0 \<and> snd (uwb_conf_set L E [''blink_rate''] v g) = g)
    \<and> (argv \<noteq> [''blink_rate''] \<longrightarrow> uwb_conf_set L E argv v g = (ENOENT E, g))
    \<and> uwb_conf_get [''blink_rate''] (tdoa_conf.load L E (uwb_conf_export g) g0) = Some (blink_rate g)"
proof -
  have get: "the (uwb_conf_get [''blink_rate''] h) = blink_rate h" for h by (simp add: uwb_conf_get_def)
  have 1: "length (blink_rate (snd (uwb_conf_set L E argv v g))) < 8"
    using tdoa_conf.store_keeps [where P = "\<lambda>k b. length b < 8" and c = g and k = "''blink_rate''"]
      snd_conf_string [OF assms(1)] assms(2) by (simp add: get)
  have 2: "8 \<le> length v \<Longrightarrow> snd (uwb_conf_set L E [''blink_rate''] v g) = g"
    using conf_string_too_long [OF assms(1), of 8 v "blink_rate g"]
    by (cases "conf_string L 8 v (blink_rate g)") (simp add: uwb_conf_set_def)
  have 3: "uwb_conf_get [''blink_rate''] (tdoa_conf.load L E (uwb_conf_export g) g0) = Some (blink_rate g)"
    using tdoa_conf.reload [where c = g and k = "''blink_rate''"] conf_string_fits [OF assms]
    by (simp add: get) (simp add: uwb_conf_get_def)
  show ?thesis
    using 1 2 3 conf_string_fits [OF assms(1), of v 8] conf_string_too_long [OF assms(1), of 8 v]
      tdoa_conf.store_known [where k = "''blink_rate''" and v = v and c = g and L = L and E = E]
      tdoa_conf.store_unknown [where path = argv and v = v and c = g and L = L and E = E] get
    by auto
qed

theorem tdoa_conf_roundtrip_witness:
  "length (blink_rate (snd (uwb_conf_set sample_conf calm_env [''blink_rate''] ''123456789'' (tdoa_init ''1'')))) < 8"
  using tdoa_conf_roundtrip [OF sample_conf_ok, of "tdoa_init ''1''"] by (simp add: tdoa_init_def)


section \<open>The blinks\<close>

text \<open>The frames written to the transmit buffer, oldest first.\<close>

fun written :: "hist \<Rightarrow> u8 list list" where
  "written [] = []"
| "written (c # h) = (case c of Radio (WriteTx i bs off) \<Rightarrow> written h @ [bs] | _ \<Rightarrow> written h)"

text \<open>How often the timer has been set.\<close>

fun resets :: "hist \<Rightarrow> nat" where
  "resets [] = 0"
| "resets (c # h) = (case c of Os (CalloutReset t n) \<Rightarrow> Suc (resets h) | _ \<Rightarrow> resets h)"

definition next_blink :: "tdoa_globals \<Rightarrow> tdoa_globals" where
  "next_blink g = g\<lparr>config_changed := False,
     tdoa_blink_frame := (tdoa_blink_frame g)\<lparr>bl_seq_num := bl_seq_num (tdoa_blink_frame g) + 1\<rparr>\<rparr>"

lemma wake_radio_run:
  assumes "\<not> halted s"
  shows "glb (exec (wake_radio E) s) = glb s" "\<not> halted (exec (wake_radio E) s)"
    "resets (tr (exec (wake_radio E) s)) = resets (tr s)" "written (tr (exec (wake_radio E) s)) = written (tr s)"
  using assms by (simp_all add: wake_radio_def exec_def run_simps)

lemma apply_changed_run:
  assumes "\<not> halted s"
  shows "glb (exec apply_changed s) = (glb s)\<lparr>config_changed := False\<rparr>" "\<not> halted (exec apply_changed s)"
    "resets (tr (exec apply_changed s)) = resets (tr s)" "written (tr (exec apply_changed s)) = written (tr s)"
  using assms by (simp_all add: apply_changed_def exec_def run_simps)

lemma send_blink_run:
  assumes "\<not> halted s"
  shows "glb (exec (send_blink E B) s) = glb s" "\<not> halted (exec (send_blink E B) s)"
    "resets (tr (exec (send_blink E B) s)) = resets (tr s)"
    "\<forall>h. eint E h (Radio (StartTx 0)) = 0 \<Longrightarrow> written (tr (exec (send_blink E B) s))
      = written (tr s) @ [take (blink_size B) (blink_bytes B (tdoa_blink_frame (glb s)))]"
  using assms by (simp_all add: send_blink_def put_def exec_def run_simps)

lemmas blink_parts = wake_radio_run apply_changed_run send_blink_run

lemma rearm_run:
  assumes "\<not> halted s"
  shows "glb (exec (rearm E) s) = glb s" "\<not> halted (exec (rearm E) s)"
    "resets (tr (exec (rearm E) s)) = Suc (resets (tr s))" "written (tr (exec (rearm E) s)) = written (tr s)"
  using assms by (simp_all add: rearm_def exec_def run_simps)

lemma timer_run:
  assumes "\<not> halted s"
  shows "glb (exec (tdoa_timer_ev_cb E B) s) = next_blink (glb s)"
    and "\<not> halted (exec (tdoa_timer_ev_cb E B) s)"
    and "resets (tr (exec (tdoa_timer_ev_cb E B) s)) = resets (tr s) + (if g_blink_rate (glb s) = 0 then 0 else 1)"
    and "\<forall>h. eint E h (Radio (StartTx 0)) = 0 \<Longrightarrow>
      written (tr (exec (tdoa_timer_ev_cb E B) s)) = written (tr s)
        @ [take (blink_size B) (blink_bytes B (tdoa_blink_frame (glb s)))]"
  using assms
  by (simp_all add: tdoa_timer_ev_cb_def exec_bind exec_act exec_upd blink_parts rearm_run next_blink_def)

lemma commit_run:
  assumes "\<not> halted s" and "new = snd (conf_int16 L (blink_rate (glb s)) (g_blink_rate (glb s)))"
  shows "glb (exec (uwb_conf_commit L E) s) = (glb s)\<lparr>g_blink_rate := new\<rparr>"
    and "\<not> halted (exec (uwb_conf_commit L E) s)"
    and "resets (tr (exec (uwb_conf_commit L E) s)) = resets (tr s)
      + (if 0 < sint new \<and> g_blink_rate (glb s) = 0 then 1 else 0)"
  using assms(1) unfolding assms(2)
  by (auto simp: uwb_conf_commit_def exec_bind exec_upd rearm_run)

definition firings :: "env \<Rightarrow> blink_layout \<Rightarrow> nat \<Rightarrow> (tdoa_globals, unit) prog" where
  "firings E B n = for_each (replicate n ()) (\<lambda>_. tdoa_timer_ev_cb E B)"


definition sample_layout :: blink_layout where
  "sample_layout = \<lparr>blink_size = 10, blink_bytes = (\<lambda>f. to_le 1 (bl_fctrl f) @ to_le 1 (bl_seq_num f) @ to_le 8 (bl_long_address f))\<rparr>"



section \<open>When the timer runs\<close>

text \<open>
  The tag and its one-shot timer: the flag says that the timer is running. It is started by a
  handler that sets it, and a firing ends it unless the handler sets it again.
\<close>

inductive tdoa_step :: "conf_lib \<Rightarrow> env \<Rightarrow> blink_layout \<Rightarrow> tdoa_globals st \<times> bool \<Rightarrow> tdoa_globals st \<times> bool \<Rightarrow> bool"
  for L E B where
  Set: "tdoa_step L E B (s, a) (s\<lparr>glb := snd (uwb_conf_set L E argv v (glb s))\<rparr>, a)"
| Commit: "s' = exec (uwb_conf_commit L E) s \<Longrightarrow>
    tdoa_step L E B (s, a) (s', a \<or> resets (tr s) < resets (tr s'))"
| Changed: "tdoa_step L E B (s, a) (exec uwb_config_updated_tag s, a)"
| Fire: "s' = exec (tdoa_timer_ev_cb E B) s \<Longrightarrow>
    tdoa_step L E B (s, True) (s', resets (tr s) < resets (tr s'))"

inductive_cases tdoa_stepE: "tdoa_step L E B x y"

inductive tdoa_reach :: "conf_lib \<Rightarrow> env \<Rightarrow> blink_layout \<Rightarrow> tdoa_globals st \<times> bool \<Rightarrow> bool" for L E B where
  Start: "\<not> halted s \<Longrightarrow> g_blink_rate (glb s) = 1 \<Longrightarrow> s' = exec (init_timer E) s \<Longrightarrow>
    tdoa_reach L E B (s', resets (tr s) < resets (tr s'))"
| Step: "tdoa_reach L E B x \<Longrightarrow> tdoa_step L E B x y \<Longrightarrow> tdoa_reach L E B y"

definition rates_nonneg :: "conf_lib \<Rightarrow> bool" where
  "rates_nonneg L \<longleftrightarrow> (\<forall>v old. 0 \<le> sint old \<longrightarrow> 0 \<le> sint (snd (conf_int16 L v old)))"

lemma tdoa_set_rate [simp]: "g_blink_rate (snd (uwb_conf_set L E argv v g)) = g_blink_rate g"
  by (simp add: uwb_conf_set_def split: prod.split)

lemma sint_pos_nonzero: "0 < sint (w :: u16) \<Longrightarrow> w \<noteq> 0"
  by auto

lemma sint_zero_iff: "sint (w :: u16) = 0 \<longleftrightarrow> w = 0"
  by (metis signed_0 signed_word_eqI)


text \<open>Setting the key to \<open>v\<close> and committing it.\<close>

definition retune :: "conf_lib \<Rightarrow> env \<Rightarrow> string \<Rightarrow> tdoa_globals st \<Rightarrow> tdoa_globals st" where
  "retune L E v s = exec (uwb_conf_commit L E) (s\<lparr>glb := snd (uwb_conf_set L E [''blink_rate''] v (glb s))\<rparr>)"

lemma retune_reach:
  assumes "tdoa_reach sample_conf E B (s, a)" and "\<not> halted s" and "length v < 8"
  shows "tdoa_reach sample_conf E B (retune sample_conf E v s,
      a \<or> (0 < sint (read_int16 v) \<and> g_blink_rate (glb s) = 0))
    \<and> \<not> halted (retune sample_conf E v s) \<and> g_blink_rate (glb (retune sample_conf E v s)) = read_int16 v"
proof -
  let ?s = "s\<lparr>glb := snd (uwb_conf_set sample_conf E [''blink_rate''] v (glb s))\<rparr>"
  have b: "blink_rate (snd (uwb_conf_set sample_conf E [''blink_rate''] v (glb s))) = v" using assms(3) by (simp add: uwb_conf_set_def sample_conf_def)
  have n: "snd (conf_int16 sample_conf v (g_blink_rate (glb s))) = read_int16 v" by (simp add: sample_conf_def)
  have h: "\<not> halted ?s" using assms(2) by simp
  have 1: "tdoa_reach sample_conf E B (?s, a)"
    by (rule tdoa_reach.Step [OF assms(1) tdoa_step.Set])
  note c = commit_run [OF h refl, of sample_conf E]
  have "tdoa_reach sample_conf E B (retune sample_conf E v s,
      a \<or> resets (tr ?s) < resets (tr (retune sample_conf E v s)))"
    unfolding retune_def by (rule tdoa_reach.Step [OF 1 tdoa_step.Commit [OF refl]])
  moreover have "resets (tr ?s) < resets (tr (retune sample_conf E v s))
      \<longleftrightarrow> 0 < sint (read_int16 v) \<and> g_blink_rate (glb s) = 0"
    using c(3) by (simp add: retune_def b n)
  ultimately show ?thesis using c(1,2) by (simp add: retune_def b n)
qed

lemma tdoa_reach_start: "\<not> halted s \<Longrightarrow> g_blink_rate (glb s) = 1 \<Longrightarrow>
    tdoa_reach L E B (exec (init_timer E) s, True) \<and> \<not> halted (exec (init_timer E) s)
    \<and> g_blink_rate (glb (exec (init_timer E) s)) = 1"
  using tdoa_reach.Start [of s "exec (init_timer E) s" E L B]
  by (simp add: init_timer_def exec_bind rearm_run)

definition nonneg_conf :: conf_lib where
  "nonneg_conf = sample_conf\<lparr>conf_int16 := (\<lambda>s old. (0, of_nat (read_num 10 s mod 2 ^ 15)))\<rparr>"

lemma nonneg_conf_ok: "rates_nonneg nonneg_conf"
proof -
  have "0 \<le> sint (of_nat (n mod 32768) :: u16)" for n :: nat
    by (simp add: signed_of_nat signed_take_bit_int_eq_self)
  then show ?thesis by (simp add: rates_nonneg_def nonneg_conf_def)
qed




end
