(* ===== verification/Listener.thy ===== *)
theory Listener
  imports Conf
begin

text \<open>
  \<open>apps/listener/src/main.c\<close>: a receiver that writes every frame it hears to the console as a
  line of JSON. The radio's callback copies frame and diagnostics into a message and queues
  it; the event handler takes the messages and prints them. The number \<open>n\<close> of radios is 1 or 2.
  The header of a message lies in front of its data in the buffer: \<open>hdrs\<close> maps a buffer to its header.

  A build may keep the accumulator of a reception, the channel impulse response. Parameters \<open>C\<close>
  are \<open>None\<close> where \<open>CIR_ENABLED\<close> is off, as in \<open>syscfg.yml\<close>, and otherwise hold what the code uses of
  the accumulator's package. There is a board with radios the application does not drive itself
  (\<open>PDOA_SPI_NUM_INSTANCES\<close>): its package hands over what each of them measured, \<open>pdoa_board\<close>, and
  the header of a message has room for their diagnostics.
\<close>

record uwb_msg_hdr =
  h_utime :: u32
  h_dlen :: u16
  h_diag_offset :: u16
  h_cir_offset :: u16
  h_carrier :: u32
  h_ts :: "u64 list"
  h_diag :: "u8 list list"
  h_pd :: "cfl list"

record lstnr_config_s =
  acc_samples :: string
  verbose_s :: string
  udp_tx_addr_s :: string
  udp_tx_port_s :: string

record lstnr_globals =
  lstnr_config :: lstnr_config_s
  acc_samples_to_load :: u16
  verbose :: u16
  udp_port :: u16
  hdrs :: "int \<Rightarrow> uwb_msg_hdr"
  print_buffer :: "u8 list"
  diag_buffer :: "u8 list"
  tmp_diag :: "u8 list"
  tmp_cir :: "u8 list"

text \<open>
  A radio with its diagnostics, \<open>rxdiag\<close> holds the \<open>rxd_len\<close> bytes of the structure, and with its
  accumulator, \<open>cir\<close> holds the bytes of the chip's structure.
\<close>

record lst_dev = uwb_dev +
  rxdiag :: "u8 list"
  lde_error :: bool
  rx_restarted :: bool
  carrier_integrator :: u32
  cir :: "u8 list"

text \<open>What the board's package hands over of one radio.\<close>

record pdoa_cir_data =
  p_rxdiag :: "u8 list"
  p_ts :: u64
  p_crc16 :: u16
  p_length :: u16
  p_cir :: "u8 list"

text \<open>What the driver says about diagnostics: sizes, the length field, and the levels it computes;
  and the data of the board, if the build is for it, at the moment of the reception.\<close>

record diag_lib =
  DIAG_SIZE :: nat
  DIAG_MAXLEN :: nat
  HDR_SIZE :: nat
  rxd_len :: "u8 list \<Rightarrow> nat"
  diag_rssi :: "u8 list \<Rightarrow> cfl"
  diag_fppl :: "u8 list \<Rightarrow> cfl"
  diag_pdoa :: "u8 list \<Rightarrow> cfl"
  clock_offset_ratio :: "u32 \<Rightarrow> cfl"
  pdoa_board :: "pdoa_cir_data list option"

definition n_instances :: "diag_lib \<Rightarrow> lst_dev list \<Rightarrow> nat" where
  "n_instances D devs = (case pdoa_board D of None \<Rightarrow> length devs | Some ps \<Rightarrow> length ps)"

text \<open>What the accumulator's package says: the size of its structure and of the array in it, the
  fields, and the phase difference of two accumulators.\<close>

record cir_lib =
  CIR_BYTES :: nat
  CIR_SIZE :: nat
  cir_valid :: "u8 list \<Rightarrow> bool"
  cir_get_pdoa :: "u8 list \<Rightarrow> u8 list \<Rightarrow> cfl"
  cir_offset_of :: "u8 list \<Rightarrow> int"
  cir_fp_idx :: "u8 list \<Rightarrow> cfl"
  cir_rcphase :: "u8 list \<Rightarrow> cfl"
  cir_angle :: "u8 list \<Rightarrow> cfl"
  cir_raw_ts :: "u8 list \<Rightarrow> u64"
  cir_real :: "u8 list \<Rightarrow> nat \<Rightarrow> int"
  cir_imag :: "u8 list \<Rightarrow> nat \<Rightarrow> int"


section \<open>The socket\<close>

text \<open>
  Writing incoming data to the console in pieces of at most 32 bytes. Every copy asks for the
  whole length; one that brings more than 32 bytes overruns the array on the stack.
\<close>

function net_read :: "env \<Rightarrow> int \<Rightarrow> nat \<Rightarrow> nat \<Rightarrow> ('g, unit) prog" where
  "net_read E m len off =
     (if off < len then (let to_read = (if len - off < 32 then len - off else 32) in do {
        (rc, bs) \<leftarrow> ask_bytes E (Os (MbufCopyData m off len));
        c_assert (length bs \<le> 32);
        put (map (\<lambda>b. char_of (unat b)) (take to_read bs));
        net_read E m len (off + to_read)
      })
      else ret ())"
  by pat_completeness auto
termination by (relation "measure (\<lambda>(E, m, len, off). len - off)") auto

declare net_read.simps [simp del]

definition net_test_readable :: "env \<Rightarrow> ('g, unit) prog" where
  "net_test_readable E = do {
     rc \<leftarrow> ask E (Sys ''mn_recvfrom'' []);
     m \<leftarrow> ask E (GetField ''m'');
     c_assert (rc = 0);
     onlyif (m \<noteq> 0) (do {
       len \<leftarrow> ask E (Os (MbufPktLen m));
       net_read E m (nat len) 0;
       act (Os (MbufFree m))
     })
   }"

definition lwip_nif_up :: "env \<Rightarrow> int \<Rightarrow> bool \<Rightarrow> ('g, int) prog" where
  "lwip_nif_up E MN_EINVAL ipv6 = do {
     nif \<leftarrow> ask E (Sys ''netif_find'' []);
     if nif = 0 then ret MN_EINVAL
     else do {
       up \<leftarrow> ask E (GetField ''nif->flags & NETIF_FLAG_LINK_UP'');
       if up \<noteq> 0 then do {
         act (Sys ''netif_set_up'' [nif]);
         act (Sys ''netif_set_default'' [nif]);
         onlyif ipv6 (do {
           act (SetField ''nif->ip6_autoconfig_enabled'' 1);
           act (Sys ''netif_create_ip6_linklocal_address'' [nif, 1])
         });
         ask E (Sys ''dhcp_start'' [nif])
       }
       else ret 0
     }
   }"


section \<open>Configuration\<close>

text \<open>The keys, with those of the network when \<open>ETH_0\<close> is set, and the sizes of their buffers.\<close>

definition lstnr_keys :: "bool \<Rightarrow> string list" where
  "lstnr_keys eth = [''acc_samples'', ''verbose''] @ (if eth then [''udp_tx_addr'', ''udp_tx_port''] else [])"

definition key_room :: "string \<Rightarrow> nat" where
  "key_room k = (if k = ''udp_tx_addr'' then 16 else 8)"

definition lstnr_get :: "bool \<Rightarrow> string list \<Rightarrow> lstnr_config_s \<Rightarrow> string option" where
  "lstnr_get eth argv c =
     (if argv = [''acc_samples''] then Some (acc_samples c)
      else if argv = [''verbose''] then Some (verbose_s c)
      else if eth \<and> argv = [''udp_tx_addr''] then Some (udp_tx_addr_s c)
      else if eth \<and> argv = [''udp_tx_port''] then Some (udp_tx_port_s c)
      else None)"

definition lstnr_set :: "bool \<Rightarrow> conf_lib \<Rightarrow> env \<Rightarrow> string list \<Rightarrow> string \<Rightarrow> lstnr_config_s \<Rightarrow> int \<times> lstnr_config_s" where
  "lstnr_set eth L E argv v c =
     (if argv = [''acc_samples''] then
        (let (rc, b) = conf_string L 8 v (acc_samples c) in (rc, c\<lparr>acc_samples := b\<rparr>))
      else if argv = [''verbose''] then
        (let (rc, b) = conf_string L 8 v (verbose_s c) in (rc, c\<lparr>verbose_s := b\<rparr>))
      else if eth \<and> argv = [''udp_tx_addr''] then
        (let (rc, b) = conf_string L 16 v (udp_tx_addr_s c) in (rc, c\<lparr>udp_tx_addr_s := b\<rparr>))
      else if eth \<and> argv = [''udp_tx_port''] then
        (let (rc, b) = conf_string L 8 v (udp_tx_port_s c) in (rc, c\<lparr>udp_tx_port_s := b\<rparr>))
      else (ENOENT E, c))"

definition lstnr_export :: "bool \<Rightarrow> lstnr_config_s \<Rightarrow> (string \<times> string) list" where
  "lstnr_export eth c = [(''lstnr/acc_samples'', acc_samples c), (''lstnr/verbose'', verbose_s c)]
     @ (if eth then [(''lstnr/udp_tx_addr'', udp_tx_addr_s c), (''lstnr/udp_tx_port'', udp_tx_port_s c)] else [])"

definition lstnr_commit :: "bool \<Rightarrow> conf_lib \<Rightarrow> env \<Rightarrow> (lstnr_globals, int) prog" where
  "lstnr_commit eth L E = do {
     upd (\<lambda>g. g\<lparr>acc_samples_to_load := snd (conf_int16 L (acc_samples (lstnr_config g)) (acc_samples_to_load g))\<rparr>);
     upd (\<lambda>g. g\<lparr>verbose := snd (conf_int16 L (verbose_s (lstnr_config g)) (verbose g))\<rparr>);
     ok \<leftarrow> (if eth then ask E (Sys ''mn_inet_pton'' []) else ret 1);
     a \<leftarrow> gets (\<lambda>g. udp_tx_addr_s (lstnr_config g));
     if ok \<noteq> 1 then do { put (''Invalid udp address '' @ a @ [CHR 0x0A]); ret 0 }
     else do {
       onlyif eth (do {
         upd (\<lambda>g. g\<lparr>udp_port := snd (conf_int16 L (udp_tx_port_s (lstnr_config g)) (udp_port g))\<rparr>);
         p \<leftarrow> gets udp_port;
         act (SetField ''net_sin.msin_port'' (uint p))
       });
       act (Os (EventqPut ConfigEvent));
       ret 0
     }
   }"

definition VERBOSE_CARRIER_INTEGRATOR :: u16 where "VERBOSE_CARRIER_INTEGRATOR = 0x0001"
definition VERBOSE_RX_DIAG :: u16 where "VERBOSE_RX_DIAG = 0x0002"
definition VERBOSE_CIR :: u16 where "VERBOSE_CIR = 0x0004"
definition VERBOSE_NOT_TO_CONSOLE :: u16 where "VERBOSE_NOT_TO_CONSOLE = 0x1000"

definition flag :: "u16 \<Rightarrow> lstnr_globals \<Rightarrow> bool" where
  "flag m g \<longleftrightarrow> and (verbose g) m \<noteq> 0"


section \<open>Receiving\<close>

text \<open>Restarting the receivers; with two of them automatic reception stays on, unless the
  accumulators have to be read first.\<close>

definition restart_receivers :: "bool \<Rightarrow> int \<Rightarrow> nat \<Rightarrow> (lstnr_globals, unit) prog" where
  "restart_receivers with_cir timeout n = for_each [0..<n] (\<lambda>i. do {
     act (Radio (SetRxTimeout i timeout));
     onlyif (1 < n) (act (Radio (SetRxAutoDisable i with_cir)));
     act (Radio (StartRx i))
   })"

definition timeout_cb_lst :: "bool \<Rightarrow> nat \<Rightarrow> (lstnr_globals, bool) prog" where
  "timeout_cb_lst with_cir n = do { restart_receivers with_cir 0 n; ret True }"

definition rx_reenable_ev_cb :: "bool \<Rightarrow> nat \<Rightarrow> (lstnr_globals, unit) prog" where
  "rx_reenable_ev_cb with_cir n = restart_receivers with_cir 0 n"

definition error_cb_lst :: "(lstnr_globals, bool) prog" where
  "error_cb_lst = ret True"

definition reset_cb_lst :: "(lstnr_globals, bool) prog" where
  "reset_cb_lst = ret True"

definition uwb_config_update_lst :: "bool \<Rightarrow> nat \<Rightarrow> bool \<Rightarrow> (lstnr_globals, unit) prog" where
  "uwb_config_update_lst with_cir n dblbuffer = for_each [0..<n] (\<lambda>i. do {
     act (Radio (MacConfig i));
     act (Radio (TxrfConfig i));
     onlyif dblbuffer (act (Radio (SetDblRxBuff i True)));
     act (Radio (SetRxTimeout i 0));
     onlyif (1 < n) (act (Radio (SetRxAutoDisable i with_cir)));
     d \<leftarrow> gets (flag VERBOSE_RX_DIAG);
     act (SetField ''inst->config.rxdiag_enable'' (of_bool d));
     act (Radio (StartRx i))
   })"

definition uwb_config_updated_lst :: "(lstnr_globals, int) prog" where
  "uwb_config_updated_lst = do { act (Os (EventqPut ConfigEvent)); ret 0 }"

definition new_hdr :: "diag_lib \<Rightarrow> u32 \<Rightarrow> u16 \<Rightarrow> u32 \<Rightarrow> nat \<Rightarrow> uwb_msg_hdr" where
  "new_hdr D u dlen carrier n = \<lparr>h_utime = u, h_dlen = dlen, h_diag_offset = dlen, h_cir_offset = 0,
     h_carrier = carrier, h_ts = replicate n 0,
     h_diag = (if pdoa_board D = None then [] else replicate n (replicate (DIAG_SIZE D) 0)),
     h_pd = replicate (if pdoa_board D = None then 1 else n - 1) (Fin 0)\<rparr>"

definition upd_hdr :: "int \<Rightarrow> (uwb_msg_hdr \<Rightarrow> uwb_msg_hdr) \<Rightarrow> (lstnr_globals, unit) prog" where
  "upd_hdr om f = upd (\<lambda>g. g\<lparr>hdrs := (hdrs g)(om := f (hdrs g om))\<rparr>)"

text \<open>The diagnostics of each radio, one behind the other; the result is the offset behind them,
  unless one could not be copied.\<close>

fun copy_diags :: "env \<Rightarrow> int \<Rightarrow> nat \<Rightarrow> u16 \<Rightarrow> lst_dev list \<Rightarrow> (lstnr_globals, u16 option) prog" where
  "copy_diags E om i off [] = ret (Some off)"
| "copy_diags E om i off (d # ds) = do {
     rc \<leftarrow> ask E (Os (MbufCopyInto om (unat off) (rxdiag d)));
     if rc \<noteq> 0 then ret None
     else do {
       onlyif (\<not> lde_error d) (upd_hdr om (\<lambda>h. h\<lparr>h_ts := (h_ts h)[i := d_rxtimestamp d]\<rparr>));
       copy_diags E om (Suc i) (off + of_nat (length (rxdiag d))) ds
     }
   }"

text \<open>On the board they go to the header, with the times of reception.\<close>

definition copy_board :: "int \<Rightarrow> pdoa_cir_data list \<Rightarrow> (lstnr_globals, unit) prog" where
  "copy_board om ps = for_each (enumerate 0 ps) (\<lambda>(i, p).
     upd_hdr om (\<lambda>h. h\<lparr>h_diag := (h_diag h)[i := p_rxdiag p], h_ts := (h_ts h)[i := p_ts p]\<rparr>))"

definition store_diags :: "env \<Rightarrow> diag_lib \<Rightarrow> int \<Rightarrow> u16 \<Rightarrow> lst_dev list \<Rightarrow> (lstnr_globals, u16 option) prog" where
  "store_diags E D om off devs = (case pdoa_board D of
     None \<Rightarrow> copy_diags E om 0 off devs
   | Some ps \<Rightarrow> do { copy_board om ps; ret (Some off) })"

text \<open>
  The phase difference of a radio of the board: none when it did not receive the frame of the
  first one, or measured another leading edge; left alone when an accumulator is not valid.
\<close>

definition board_phase :: "cir_lib \<Rightarrow> u8 list \<Rightarrow> pdoa_cir_data \<Rightarrow> pdoa_cir_data \<Rightarrow> cfl option" where
  "board_phase L c0 p0 p = (if p_crc16 p0 \<noteq> p_crc16 p \<or> p_length p0 \<noteq> p_length p then Some NaN
     else (let raw_ts_diff = sint (ucast ((cir_raw_ts L (p_cir p) - cir_raw_ts L c0) div 64) :: 32 word);
         fp_diff = fadd binary32 (fsub binary32 (roundf (cir_fp_idx L (p_cir p))) (roundf (cir_fp_idx L c0)))
           (of_c_int binary32 raw_ts_diff)
       in if fless (Fin 1) (fabsf fp_diff) then Some NaN
         else if cir_valid L c0 \<and> cir_valid L (p_cir p) then Some (cir_get_pdoa L c0 (p_cir p))
         else None))"

definition store_phases :: "diag_lib \<Rightarrow> cir_lib \<Rightarrow> int \<Rightarrow> lst_dev list \<Rightarrow> (lstnr_globals, unit) prog" where
  "store_phases D L om devs = (case pdoa_board D of
     None \<Rightarrow> onlyif (length devs = 2 \<and> cir_valid L (cir (devs ! 0)) \<and> cir_valid L (cir (devs ! 1)))
       (upd_hdr om (\<lambda>h. h\<lparr>h_pd := (h_pd h)[0 := cir_get_pdoa L (cir (devs ! 0)) (cir (devs ! 1))]\<rparr>))
   | Some ps \<Rightarrow> for_each [1..<length ps] (\<lambda>j. case board_phase L (cir (devs ! 0)) (ps ! 0) (ps ! j) of
       None \<Rightarrow> ret () | Some x \<Rightarrow> upd_hdr om (\<lambda>h. h\<lparr>h_pd := (h_pd h)[j - 1 := x]\<rparr>)))"

text \<open>The accumulators: the phase differences, and their bytes when samples are asked for. They are
  written at the end of the frame, where the diagnostics lie when the header does not hold them.\<close>

definition accumulators :: "diag_lib \<Rightarrow> lst_dev list \<Rightarrow> u8 list list" where
  "accumulators D devs = (case pdoa_board D of None \<Rightarrow> map cir devs
     | Some ps \<Rightarrow> map (\<lambda>i. if i = 0 then cir (devs ! i) else p_cir (ps ! i)) [0..<length ps])"

definition store_cir :: "env \<Rightarrow> diag_lib \<Rightarrow> cir_lib option \<Rightarrow> int \<Rightarrow> u16 \<Rightarrow> u16 \<Rightarrow> lst_dev list \<Rightarrow> (lstnr_globals, unit) prog" where
  "store_cir E D C om dlen off devs = (case C of None \<Rightarrow> ret () | Some L \<Rightarrow> do {
     upd_hdr om (\<lambda>h. h\<lparr>h_cir_offset := off\<rparr>);
     store_phases D L om devs;
     a \<leftarrow> gets acc_samples_to_load;
     onlyif (a \<noteq> 0) (for_each (enumerate 0 (accumulators D devs)) (\<lambda>(i, src). do {
       rc \<leftarrow> ask E (Os (MbufCopyInto om (unat dlen + i * CIR_BYTES L) src));
       c_assert (rc = 0)
     }))
   })"

text \<open>Frame, header, diagnostics and accumulators of a reception, queued for printing.\<close>

definition store_frame :: "env \<Rightarrow> diag_lib \<Rightarrow> cir_lib option \<Rightarrow> lst_dev list \<Rightarrow> lst_dev \<Rightarrow> (lstnr_globals, bool) prog" where
  "store_frame E D C devs inst = do {
     om \<leftarrow> ask E (Os (MbufGet 0 (HDR_SIZE D)));
     if om = 0 then ret True
     else do {
       let dlen = (of_nat (d_frame_len inst) :: u16);
       u \<leftarrow> utime E;
       upd_hdr om (\<lambda>_. new_hdr D u dlen (carrier_integrator inst) (n_instances D devs));
       rc \<leftarrow> ask E (Os (MbufCopyInto om 0 (take (unat dlen) (d_rxbuf inst))));
       if rc \<noteq> 0 then do { act (Os (MbufFree om)); ret True }
       else do {
         copied \<leftarrow> store_diags E D om dlen devs;
         case copied of None \<Rightarrow> do { act (Os (MbufFree om)); ret True }
         | Some off \<Rightarrow> do {
             store_cir E D C om dlen off devs;
             rc \<leftarrow> ask E (Os (MqPut om));
             ret True
           }
       }
     }
   }"

text \<open>
  With two radios only the second one's frames count, and only when both hold the same data.
  A build with accumulators has stopped the receivers, and starts them before it compares.
\<close>

definition rx_complete_cb_lst :: "env \<Rightarrow> diag_lib \<Rightarrow> cir_lib option \<Rightarrow> lst_dev list \<Rightarrow> lst_dev \<Rightarrow> (lstnr_globals, bool) prog" where
  "rx_complete_cb_lst E D C devs inst =
     (if length devs = 2 \<and> d_idx inst \<noteq> d_idx (devs ! 1) then do {
        onlyif (\<not> rx_restarted inst) (act (Os (CalloutReset RxReenableCallout (TICKS_PER_SEC E sdiv 100))));
        ret True
      }
      else do {
        onlyif (length devs = 2 \<and> C \<noteq> None) (do {
          act (Os (CalloutStop RxReenableCallout));
          restart_receivers True 0xFFFF 2
        });
        if length devs = 2 \<and> take (d_frame_len (devs ! 0)) (d_rxbuf (devs ! 0))
            \<noteq> take (d_frame_len (devs ! 0)) (d_rxbuf (devs ! 1)) then ret True
        else store_frame E D C devs inst
      })"

end
