(* ===== verification/Listener_Print.thy ===== *)
theory Listener_Print
  imports Listener
begin

text \<open>
  The event handler of the listener: it takes the queued messages one by one and prints each
  as a JSON object, piece by piece, through \<open>mprintf\<close>. The diagnostics are fetched from the
  message again for every level that is printed.
\<close>

definition print_size :: nat where "print_size = 1024"

definition mprintf :: "env \<Rightarrow> int \<Rightarrow> string \<Rightarrow> (lstnr_globals, unit) prog" where
  "mprintf E m s = do {
     rc \<leftarrow> ask E (Sys ''os_mbuf_append'' [m, int (length s)]);
     c_assert (rc = 0);
     quiet \<leftarrow> gets (flag VERBOSE_NOT_TO_CONSOLE);
     onlyif (\<not> quiet) (put s)
   }"

definition comma :: "nat \<Rightarrow> string" where
  "comma j = (if j = 0 then '''' else '','')"

text \<open>A level in dB with one decimal, when it is plausible.\<close>

definition level_text :: "(cfl \<Rightarrow> int) \<Rightarrow> cfl \<Rightarrow> string" where
  "level_text ub x = (if fless (Fin (- 200)) x \<and> fless x (Fin 100)
     then fmt_d (int_part ub x) @ ''.'' @ fmt_0d 1 (frac_part ub 10 x) else ''null'')"

text \<open>A phase difference with three decimals; JSON has no NaN.\<close>

definition phase_text :: "(cfl \<Rightarrow> int) \<Rightarrow> cfl \<Rightarrow> string" where
  "phase_text ub x = (if isnan x then ''null''
     else (if fless x (Fin 0) then ''-'' else '''') @ fmt_d \<bar>int_part ub x\<bar> @ ''.'' @ fmt_0d 3 (frac_part ub 1000 x))"

definition ccor_text :: "(cfl \<Rightarrow> int) \<Rightarrow> cfl \<Rightarrow> string" where
  "ccor_text ub c = (let ppm = int_part ub (fmul binary32 c (Fin 1000000));
       frac = int_part ub (roundf (fmul binary32 (fabsf (fsub binary32 c
         (fdiv binary32 (of_c_int binary32 ppm) (Fin 1000000)))) (Fin 1000000000)))
   in fmt_d ppm @ ''.'' @ fmt_0d 3 frac @ ''e-6'')"

text \<open>
  Fetching the diagnostics of radio \<open>j\<close> into the diagnostics buffer: once for the length,
  once for the contents. Both offsets add the length of the frame to \<open>diag_offset\<close>.
\<close>

definition fetch_diag :: "env \<Rightarrow> diag_lib \<Rightarrow> int \<Rightarrow> uwb_msg_hdr \<Rightarrow> nat \<Rightarrow> (lstnr_globals, u8 list) prog" where
  "fetch_diag E D om h j = do {
     let base = unat (h_dlen h) + unat (h_diag_offset h);
     (rc, bs) \<leftarrow> ask_bytes E (Os (MbufCopyData om (base + j * DIAG_MAXLEN D) (DIAG_SIZE D)));
     upd (\<lambda>g. g\<lparr>diag_buffer := overlay (diag_buffer g) 0 bs\<rparr>);
     n \<leftarrow> gets (\<lambda>g. rxd_len D (diag_buffer g));
     (rc, bs) \<leftarrow> ask_bytes E (Os (MbufCopyData om (base + j * n) n));
     upd (\<lambda>g. g\<lparr>diag_buffer := overlay (diag_buffer g) 0 bs\<rparr>);
     gets diag_buffer
   }"

text \<open>On the board the header holds them.\<close>

definition diag_of :: "env \<Rightarrow> diag_lib \<Rightarrow> int \<Rightarrow> uwb_msg_hdr \<Rightarrow> nat \<Rightarrow> (lstnr_globals, u8 list) prog" where
  "diag_of E D om h j = (if pdoa_board D = None then fetch_diag E D om h j else ret (h_diag h ! j))"

definition print_level :: "env \<Rightarrow> diag_lib \<Rightarrow> int \<Rightarrow> int \<Rightarrow> uwb_msg_hdr \<Rightarrow> (u8 list \<Rightarrow> cfl) \<Rightarrow> nat \<Rightarrow> (lstnr_globals, unit) prog" where
  "print_level E D m om h level j = do {
     d \<leftarrow> diag_of E D om h j;
     mprintf E m (comma j @ level_text (eub E) (level d))
   }"

text \<open>\<open>rssi\<close> and \<open>fppl\<close> of each radio.\<close>

definition print_levels :: "env \<Rightarrow> diag_lib \<Rightarrow> int \<Rightarrow> int \<Rightarrow> uwb_msg_hdr \<Rightarrow> nat \<Rightarrow> (lstnr_globals, unit) prog" where
  "print_levels E D m om h n = do {
     v \<leftarrow> gets (flag VERBOSE_RX_DIAG);
     onlyif v (do {
       mprintf E m '',\"rssi\":['';
       for_each [0..<n] (print_level E D m om h (diag_rssi D));
       mprintf E m ''],\"fppl\":['';
       for_each [0..<n] (print_level E D m om h (diag_fppl D));
       mprintf E m '']''
     })
   }"

definition print_carrier :: "env \<Rightarrow> diag_lib \<Rightarrow> int \<Rightarrow> uwb_msg_hdr \<Rightarrow> (lstnr_globals, unit) prog" where
  "print_carrier E D m h = do {
     v \<leftarrow> gets (flag VERBOSE_CARRIER_INTEGRATOR);
     onlyif (h_carrier h \<noteq> 0 \<and> v)
       (mprintf E m ('',\"ccor\":'' @ ccor_text (eub E) (clock_offset_ratio D (h_carrier h))))
   }"

text \<open>The phase differences: of a radio that measures them alone, and between the radios.\<close>

definition print_phases :: "env \<Rightarrow> diag_lib \<Rightarrow> int \<Rightarrow> int \<Rightarrow> uwb_msg_hdr \<Rightarrow> nat \<Rightarrow> (lstnr_globals, unit) prog" where
  "print_phases E D m om h n = do {
     mprintf E m '',\"pd\":['';
     c \<leftarrow> ask E (GetField ''udev->capabilities.single_receiver_pdoa'');
     onlyif (c \<noteq> 0) (do {
       d \<leftarrow> diag_of E D om h 0;
       mprintf E m (phase_text (eub E) (diag_pdoa D d))
     });
     for_each [0..<n - 1] (\<lambda>j. mprintf E m (comma j @ phase_text (eub E) (h_pd h ! j)));
     mprintf E m (''],\"dlen\":'' @ fmt_d (uint (h_dlen h)))
   }"

definition print_data :: "env \<Rightarrow> int \<Rightarrow> uwb_msg_hdr \<Rightarrow> (lstnr_globals, unit) prog" where
  "print_data E m h = do {
     mprintf E m '',\"d\":\"'';
     for_each [0..<min print_size (unat (h_dlen h))] (\<lambda>i. do {
       b \<leftarrow> gets (\<lambda>g. print_buffer g ! i);
       mprintf E m (pad0 2 (fmt_x (unat b)))
     });
     mprintf E m ''\"''
   }"

text \<open>
  The accumulators. \<open>thousandths\<close> is what the code prints behind the point: of the first path
  index with its sign, of the two phases without.
\<close>

definition thousandths :: "(cfl \<Rightarrow> int) \<Rightarrow> cfl \<Rightarrow> cfl" where
  "thousandths ub x = fmul binary32 (of_c_int binary32 1000) (fsub binary32 x (of_c_int binary32 (int_part ub x)))"

definition cir_text :: "(cfl \<Rightarrow> int) \<Rightarrow> cir_lib \<Rightarrow> u8 list \<Rightarrow> string" where
  "cir_text ub L b = (let idx = cir_fp_idx L b; ph = cir_rcphase L b; an = cir_angle L b in
     ''{\"o\":'' @ fmt_d (cir_offset_of L b)
     @ '',\"fp_idx\":'' @ fmt_d (int_part ub idx) @ ''.'' @ fmt_0d 3 (int_part ub (thousandths ub idx))
     @ '',\"rcphase\":'' @ fmt_d (int_part ub ph) @ ''.'' @ fmt_0d 3 (int_part ub (fabsf (thousandths ub ph)))
     @ '',\"angle\":'' @ fmt_d (int_part ub an) @ ''.'' @ fmt_0d 3 (int_part ub (fabsf (thousandths ub an)))
     @ '',\"rts\":'' @ fmt_d (sint (cir_raw_ts L b)))"

text \<open>One part of the samples. The loop runs to the configured number, whatever the array holds.\<close>

definition print_samples :: "env \<Rightarrow> cir_lib \<Rightarrow> int \<Rightarrow> (u8 list \<Rightarrow> nat \<Rightarrow> int) \<Rightarrow> (lstnr_globals, unit) prog" where
  "print_samples E L m part = do {
     a \<leftarrow> gets acc_samples_to_load;
     for_each [0..<unat a] (\<lambda>i. do {
       c_assert (i < CIR_SIZE L);
       b \<leftarrow> gets tmp_cir;
       mprintf E m (comma i @ fmt_d (part b i))
     })
   }"

definition print_cir_of :: "env \<Rightarrow> cir_lib \<Rightarrow> int \<Rightarrow> int \<Rightarrow> uwb_msg_hdr \<Rightarrow> nat \<Rightarrow> (lstnr_globals, unit) prog" where
  "print_cir_of E L m om h j = do {
     (rc, bs) \<leftarrow> ask_bytes E (Os (MbufCopyData om (unat (h_dlen h) + j * CIR_BYTES L) (CIR_BYTES L)));
     upd (\<lambda>g. g\<lparr>tmp_cir := overlay (tmp_cir g) 0 bs\<rparr>);
     b \<leftarrow> gets tmp_cir;
     mprintf E m (comma j @ cir_text (eub E) L b);
     a \<leftarrow> gets acc_samples_to_load;
     onlyif (a \<noteq> 0) (do {
       mprintf E m '',\"real\":['';
       print_samples E L m (cir_real L);
       mprintf E m ''],\"imag\":['';
       print_samples E L m (cir_imag L);
       mprintf E m '']''
     });
     mprintf E m ''}''
   }"

definition print_cirs :: "env \<Rightarrow> cir_lib option \<Rightarrow> int \<Rightarrow> int \<Rightarrow> uwb_msg_hdr \<Rightarrow> nat \<Rightarrow> (lstnr_globals, unit) prog" where
  "print_cirs E C m om h n = (case C of None \<Rightarrow> ret () | Some L \<Rightarrow> do {
     v \<leftarrow> gets (flag VERBOSE_CIR);
     onlyif v (do {
       mprintf E m '',\"cir\":['';
       for_each [0..<n] (print_cir_of E L m om h);
       mprintf E m '']''
     })
   })"

definition print_head :: "env \<Rightarrow> int \<Rightarrow> uwb_msg_hdr \<Rightarrow> nat \<Rightarrow> (lstnr_globals, unit) prog" where
  "print_head E m h n = do {
     mprintf E m (''{\"utime\":'' @ fmt_u (unat (h_utime h)));
     mprintf E m '',\"ts\":['';
     for_each [0..<n] (\<lambda>j. mprintf E m (comma j @ fmt_u (unat (h_ts h ! j))));
     mprintf E m '']''
   }"

text \<open>The diagnostics are also copied to a table of the module that nothing reads but the length.\<close>

definition load_tmp_diag :: "env \<Rightarrow> diag_lib \<Rightarrow> int \<Rightarrow> uwb_msg_hdr \<Rightarrow> nat \<Rightarrow> (lstnr_globals, unit) prog" where
  "load_tmp_diag E D om h n = do {
     let base = unat (h_dlen h) + unat (h_diag_offset h);
     (rc, bs) \<leftarrow> ask_bytes E (Os (MbufCopyData om base (DIAG_SIZE D)));
     upd (\<lambda>g. g\<lparr>tmp_diag := overlay (tmp_diag g) 0 bs\<rparr>);
     for_each [0..<n] (\<lambda>j. do {
       k \<leftarrow> gets (\<lambda>g. rxd_len D (tmp_diag g));
       (rc, bs) \<leftarrow> ask_bytes E (Os (MbufCopyData om (base + j * k) k));
       onlyif (j = 0) (upd (\<lambda>g. g\<lparr>tmp_diag := overlay (tmp_diag g) 0 bs\<rparr>))
     })
   }"

definition print_message :: "env \<Rightarrow> diag_lib \<Rightarrow> cir_lib option \<Rightarrow> int \<Rightarrow> int \<Rightarrow> uwb_msg_hdr \<Rightarrow> nat \<Rightarrow> (lstnr_globals, unit) prog" where
  "print_message E D C m om h n = do {
     print_head E m h n;
     onlyif (pdoa_board D = None) (load_tmp_diag E D om h n);
     print_levels E D m om h n;
     print_carrier E D m h;
     print_phases E D m om h n;
     print_data E m h;
     print_cirs E C m om h n;
     mprintf E m ''}'';
     quiet \<leftarrow> gets (flag VERBOSE_NOT_TO_CONSOLE);
     onlyif (\<not> quiet) (put [CHR 0x0A])
   }"

text \<open>What becomes of the printed text: sent by UDP when there is a network, else freed.\<close>

definition dispose_text :: "env \<Rightarrow> bool \<Rightarrow> int \<Rightarrow> (lstnr_globals, unit) prog" where
  "dispose_text E eth m =
     (if eth then do {
        s \<leftarrow> ask E (GetField ''net_udp_socket'');
        onlyif (s = 0) (do { act (Sys ''mn_socket'' []); act (Sys ''mn_socket_set_cbs'' []) });
        rc \<leftarrow> ask E (Sys ''mn_sendto'' [m]);
        onlyif (rc \<noteq> 0) (do { put (''sendto: '' @ fmt_d rc @ [CHR 0x0A]); act (Os (MbufFree m)) })
      }
      else act (Os (MbufFree m)))"

definition process_one :: "env \<Rightarrow> diag_lib \<Rightarrow> cir_lib option \<Rightarrow> bool \<Rightarrow> nat \<Rightarrow> int \<Rightarrow> (lstnr_globals, unit) prog" where
  "process_one E D C eth n om = do {
     h \<leftarrow> gets (\<lambda>g. hdrs g om);
     l \<leftarrow> ask E (Os (MbufPktLen om));
     (rc, bs) \<leftarrow> ask_bytes E (Os (MbufCopyData om 0 (min (nat l) print_size)));
     upd (\<lambda>g. g\<lparr>print_buffer := overlay (print_buffer g) 0 bs\<rparr>);
     onlyif (rc = 0) (do {
       m \<leftarrow> ask E (Os (MbufGet 16 0));
       onlyif (m \<noteq> 0) (do { print_message E D C m om h n; dispose_text E eth m })
     });
     act (Os (MbufFree om));
     upd (\<lambda>g. g\<lparr>print_buffer := replicate print_size 0\<rparr>)
   }"

text \<open>The loop runs until the queue is empty; the result is whether it ended within its fuel.\<close>

fun process_queue :: "nat \<Rightarrow> env \<Rightarrow> diag_lib \<Rightarrow> cir_lib option \<Rightarrow> bool \<Rightarrow> nat \<Rightarrow> (lstnr_globals, bool) prog" where
  "process_queue 0 E D C eth n = ret False"
| "process_queue (Suc k) E D C eth n = do {
     om \<leftarrow> ask E (Os MqGet);
     if om = 0 then ret True
     else do { process_one E D C eth n om; process_queue k E D C eth n }
   }"

definition process_rx_data_queue_lst :: "nat \<Rightarrow> env \<Rightarrow> diag_lib \<Rightarrow> cir_lib option \<Rightarrow> bool \<Rightarrow> nat \<Rightarrow> (lstnr_globals, bool) prog" where
  "process_rx_data_queue_lst fuel E D C eth n = do {
     led_init ''LED_BLINK_PIN'' 0;
     done \<leftarrow> process_queue fuel E D C eth n;
     if \<not> done then ret False else do { led_init ''LED_BLINK_PIN'' 1; ret True }
   }"


section \<open>Start-up\<close>

record lstnr_build =
  UWB_NUM_MBUFS :: nat
  dblbuffer :: bool
  eth0 :: bool
  cir_enabled :: bool

definition create_mbuf_pool_lst :: "env \<Rightarrow> nat \<Rightarrow> (lstnr_globals, unit) prog" where
  "create_mbuf_pool_lst E k = do {
     rc \<leftarrow> ask E (Os (MempoolInit ''uwb_mbuf_pool'' k));
     c_assert (rc = 0);
     rc \<leftarrow> ask E (Os (MbufPoolInit ''uwb_mbuf_pool'' k));
     c_assert (rc = 0)
   }"

definition setup_radio :: "env \<Rightarrow> lstnr_build \<Rightarrow> nat \<Rightarrow> nat \<Rightarrow> ident \<Rightarrow> (lstnr_globals, unit) prog" where
  "setup_radio E b n i d = do {
     v \<leftarrow> gets (flag VERBOSE_RX_DIAG);
     for_each [(''rxdiag_enable'', of_bool v), (''bias_correction_enable'', 0), (''LDE_enable'', 1), (''LDO_enable'', 0),
         (''sleep_enable'', 0), (''wakeup_rx_enable'', 1), (''trxoff_enable'', 1),
         (''dblbuffon_enabled'', of_bool (dblbuffer b)), (''rxauto_enable'', of_bool (\<not> dblbuffer b))]
       (\<lambda>(f, x). act (SetField (''udev->config.'' @ f) x));
     act (Radio (SetDblRxBuff i (dblbuffer b)));
     onlyif (cir_enabled b) (do {
       act (SetField ''udev->config.cir_enable'' (of_bool (1 < n)));
       act (SetField ''udev->config.cir_enable'' 1)
     });
     for_each [''{\"device_id\"=\"'' @ fmt_X (unat (device_id d)) @ ''\"'',
         '',\"PANID=\"'' @ fmt_X (unat (pan_id d)) @ ''\"'',
         '',\"addr\"=\"'' @ fmt_X (unat (uid d)) @ ''\"'',
         '',\"partID\"=\"'' @ fmt_X (unat (ucast (euid d) :: u32)) @ ''\"'',
         '',\"lotID\"=\"'' @ fmt_X (unat (ucast (drop_bit 32 (euid d)) :: u32)) @ ''\"}'' @ [CHR 0x0A]] put;
     act (Net (MacAppendInterface ''rx_complete_cb,rx_timeout_cb,rx_error_cb,reset_cb''))
   }"

definition listener_main :: "env \<Rightarrow> board \<Rightarrow> lstnr_build \<Rightarrow> int \<Rightarrow> ident list \<Rightarrow> (lstnr_globals, unit) prog" where
  "listener_main E bd b MN_EINVAL ids = do {
     act (Sys ''sysinit'' []);
     led_init ''LED_BLINK_PIN'' 1;
     act (Sys ''uwbcfg_register'' []);
     act (Sys ''conf_register'' []);
     act (Sys ''conf_load'' []);
     onlyif (eth0 b) (do { rc \<leftarrow> lwip_nif_up E MN_EINVAL False; c_assert (rc = 0) });
     for_each (enumerate 0 ids) (\<lambda>(i, d). setup_radio E b (length ids) i d);
     act (Sys ''uwb_sync_to_ext_clock'' []);
     put ''{\"ext_sync\"=\"'';
     for_each [0..<length ids] (\<lambda>i. do { x \<leftarrow> ask E (GetField ''udev->status.ext_sync''); put (fmt_d x) });
     put (''\"}'' @ [CHR 0x0A]);
     ble_init bd;
     create_mbuf_pool_lst E (UWB_NUM_MBUFS b);
     act (Os MqInit);
     restart_receivers (cir_enabled b) 0 (length ids)
   }"

end
