(* ===== verification/Listener_Props.thy ===== *)
theory Listener_Props
  imports Listener_Print
begin

text \<open>
  What the listener prints. The judgement \<open>prints\<close> says what a piece of the printing code does
  to the state of the JSON recogniser; it is proved along the syntax of \<open>print_message\<close>. A
  state that is not there any more (\<open>None\<close>) stands for a text that is not JSON.
\<close>

section \<open>What a piece of code prints\<close>

text \<open>The console is in use, and samples are asked for only as far as the accumulator's array goes.\<close>

definition loud :: "cir_lib option \<Rightarrow> lstnr_globals st \<Rightarrow> bool" where
  "loud C s \<longleftrightarrow> \<not> halted s \<and> \<not> flag VERBOSE_NOT_TO_CONSOLE (glb s)
     \<and> (\<forall>L. C = Some L \<longrightarrow> unat (acc_samples_to_load (glb s)) \<le> CIR_SIZE L)"

definition jfeed :: "jstate option \<Rightarrow> string \<Rightarrow> jstate option" where
  "jfeed q w = (case q of None \<Rightarrow> None | Some q \<Rightarrow> jrun q w)"

lemma jfeed_simps [simp]: "jfeed None w = None" "jfeed (Some q) w = jrun q w" "jfeed r [] = r"
  by (simp_all add: jfeed_def split: option.split)

lemma jfeed_append: "jfeed q (v @ w) = jfeed (jfeed q v) w"
  by (cases q) (simp_all add: jfeed_def jrun_append split: option.split)

definition prints :: "cir_lib option \<Rightarrow> jstate option set \<Rightarrow> (lstnr_globals, 'a) prog \<Rightarrow> jstate option set \<Rightarrow> bool" where
  "prints C J p K \<longleftrightarrow> (\<forall>s. loud C s \<longrightarrow> loud C (exec p s) \<and>
     (\<exists>w. concat (console (tr (exec p s))) = concat (console (tr s)) @ w \<and> (\<forall>q \<in> J. jfeed q w \<in> K)))"

named_theorems printing \<open>rules of the judgement prints\<close>

lemma printsD:
  assumes "prints C J p K" and "loud C s"
  obtains w where "loud C (exec p s)" and "concat (console (tr (exec p s))) = concat (console (tr s)) @ w"
    and "\<forall>q \<in> J. jfeed q w \<in> K"
  using assms by (auto simp: prints_def)

lemma prints_bind [printing]:
  assumes "prints C J p K" and "\<And>x. prints C K (f x) L"
  shows "prints C J (State_Monad.bind p f) L"
  unfolding prints_def
proof (intro allI impI)
  fix s assume "loud C s"
  then obtain v where v: "loud C (exec p s)" "concat (console (tr (exec p s))) = concat (console (tr s)) @ v"
    "\<forall>q \<in> J. jfeed q v \<in> K"
    using printsD [OF assms(1)] by blast
  obtain w where w: "loud C (exec (f (result p s)) (exec p s))"
    "concat (console (tr (exec (f (result p s)) (exec p s)))) = concat (console (tr (exec p s))) @ w"
    "\<forall>q \<in> K. jfeed q w \<in> L"
    using printsD [OF assms(2) v(1)] by blast
  show "loud C (exec (State_Monad.bind p f) s) \<and> (\<exists>w. concat (console (tr (exec (State_Monad.bind p f) s)))
      = concat (console (tr s)) @ w \<and> (\<forall>q \<in> J. jfeed q w \<in> L))"
    using v w by (auto simp: exec_bind jfeed_append intro!: exI [of _ "v @ w"])
qed

lemma prints_weaken: "prints C J p K \<Longrightarrow> J' \<subseteq> J \<Longrightarrow> K \<subseteq> K' \<Longrightarrow> prints C J' p K'"
  unfolding prints_def by (meson subsetD)

lemma prints_onlyif [printing]: "(b \<Longrightarrow> prints C J p K) \<Longrightarrow> (\<not> b \<Longrightarrow> J \<subseteq> K) \<Longrightarrow> prints C J (onlyif b p) K"
  by (cases b) (auto simp: prints_def intro!: exI [of _ "[]"])

text \<open>Code that writes nothing and keeps the verbosity.\<close>

definition silent_call :: "call \<Rightarrow> bool" where
  "silent_call c \<longleftrightarrow> (\<forall>s. c \<noteq> Os (ConsoleWrite s))"

lemma silent_call_simps [simp]:
  "silent_call (Radio r)" "silent_call (Net n)" "silent_call (Sys f xs)" "silent_call (GetField k)"
  "silent_call (SetField k v)" "silent_call (Os x) \<longleftrightarrow> (\<forall>s. x \<noteq> ConsoleWrite s)"
  by (simp_all add: silent_call_def)

lemma console_silent: "\<forall>c \<in> set cs. silent_call c \<Longrightarrow> console (cs @ h) = console h"
proof (induction cs)
  case (Cons c cs)
  then show ?case by (cases c) (auto split: os.split)
qed simp

lemma emits_silent: "emits silent_call p \<Longrightarrow> console (tr (exec p s)) = console (tr s)"
  using emitsD [of silent_call p s] console_silent by fastforce

lemma prints_quiet:
  assumes "emits silent_call p" and "\<And>v. keeps (\<lambda>g. (verbose g, acc_samples_to_load g) = v) p" and "runs_on p"
  shows "prints C J p J"
  unfolding prints_def
proof (intro allI impI)
  fix s assume l: "loud C s"
  have "verbose (glb (exec p s)) = verbose (glb s)" "acc_samples_to_load (glb (exec p s)) = acc_samples_to_load (glb s)"
    using keepsD [OF assms(2) [of "(verbose (glb s), acc_samples_to_load (glb s))"], of s] by simp_all
  moreover have "console (tr (exec p s)) = console (tr s)" by (rule emits_silent [OF assms(1)])
  ultimately show "loud C (exec p s) \<and> (\<exists>w. concat (console (tr (exec p s))) = concat (console (tr s)) @ w
      \<and> (\<forall>q \<in> J. jfeed q w \<in> J))"
    using l runs_onD [OF assms(3)] by (auto simp: loud_def flag_def intro!: exI [of _ "[]"])
qed

lemma prints_gets [printing]: "prints C J (gets f) J"
  by (rule prints_quiet; intro effects)

lemma prints_ret [printing]: "prints C J (ret x) J"
  by (rule prints_quiet; intro effects)

lemma prints_gets_bind:
  assumes "\<And>s. loud C s \<Longrightarrow> prints C J (f (g (glb s))) K"
  shows "prints C J (State_Monad.bind (gets g) f) K"
  unfolding prints_def
proof (intro allI impI)
  fix s assume l: "loud C s"
  then have "exec (State_Monad.bind (gets g) f) s = exec (f (g (glb s))) s"
    by (simp add: exec_bind)
  with printsD [OF assms [OF l] l] show "loud C (exec (State_Monad.bind (gets g) f) s)
      \<and> (\<exists>w. concat (console (tr (exec (State_Monad.bind (gets g) f) s))) = concat (console (tr s)) @ w
        \<and> (\<forall>q \<in> J. jfeed q w \<in> K))"
    by metis
qed

lemma prints_c_assert: "b \<Longrightarrow> prints C J (c_assert b) J"
  by (auto simp: prints_def c_assert_def)

text \<open>The value a piece of code returns, when the environment fixes it.\<close>

lemma prints_ask_bind:
  assumes "\<And>h. prints C J (f (eint E h c)) K" and "silent_call c"
  shows "prints C J (State_Monad.bind (ask E c) f) K"
  unfolding prints_def
proof (intro allI impI)
  fix s assume l: "loud C s"
  let ?t = "s\<lparr>tr := c # tr s\<rparr>"
  have t: "exec (ask E c) s = ?t" "result (ask E c) s = eint E (tr s) c" "loud C ?t"
    "console (tr ?t) = console (tr s)"
    using l assms(2) emits_silent [of "ask E c" s] by (simp_all add: loud_def exec_ask emits_ask)
  obtain w where "loud C (exec (f (eint E (tr s) c)) ?t)"
    "concat (console (tr (exec (f (eint E (tr s) c)) ?t))) = concat (console (tr ?t)) @ w" "\<forall>q \<in> J. jfeed q w \<in> K"
    using printsD [OF assms(1) t(3)] by blast
  then show "loud C (exec (State_Monad.bind (ask E c) f) s) \<and> (\<exists>w. concat (console (tr (exec (State_Monad.bind (ask E c) f) s)))
      = concat (console (tr s)) @ w \<and> (\<forall>q \<in> J. jfeed q w \<in> K))"
    using t(1,2,4) by (auto simp: exec_bind)
qed

lemma prints_put: "\<forall>q \<in> J. jfeed q w \<in> K \<Longrightarrow> prints C J (put w) K"
  by (auto simp: prints_def loud_def exec_put)

lemma prints_for_each:
  "(\<And>x. x \<in> set xs \<Longrightarrow> prints C K (f x) K) \<Longrightarrow> prints C K (for_each xs f) K"
  by (induction xs) (auto intro: prints_bind prints_ret)

text \<open>The loops that put a comma in front of every element but the first.\<close>

lemma prints_elements:
  assumes "0 < n" and "prints C J (f 0) K" and "\<And>j. 0 < j \<Longrightarrow> j < n \<Longrightarrow> prints C K (f j) K"
  shows "prints C J (for_each [0..<n] f) K"
proof -
  have "prints C K (for_each [1..<n] f) K" by (rule prints_for_each) (simp add: assms(3))
  with assms(1,2) show ?thesis by (simp add: upt_conv_Cons prints_bind)
qed

definition appends :: "env \<Rightarrow> bool" where
  "appends E \<longleftrightarrow> (\<forall>h xs. eint E h (Sys ''os_mbuf_append'' xs) = 0)"

lemma prints_mprintf:
  assumes "appends E" and "\<forall>q \<in> J. jfeed q w \<in> K"
  shows "prints C J (mprintf E m w) K"
  using assms by (auto simp: prints_def loud_def flag_def appends_def mprintf_def put_def exec_def run_simps)


section \<open>The pieces of a line\<close>

definition nums :: "jctx list \<Rightarrow> jstate option set" where
  "nums st = {Some (st, m) | m. num_end m}"

lemma feed_nums:
  assumes "q \<in> nums (Obj # st)"
  shows "jfeed q (CHR '','' # w) = jrun (Obj # st, Key) w" and "jfeed q (CHR ''}'' # w) = jrun (st, After) w"
  using assms by (auto simp del: jrun.simps simp: nums_def num_end_step)

lemma feed_nums_Arr: "q \<in> nums (Arr # st) \<Longrightarrow> jfeed q (CHR '']'' # w) = jrun (st, After) w"
  by (auto simp del: jrun.simps simp: nums_def num_end_step)

text \<open>A text that is a number or \<open>null\<close> wherever a value may stand.\<close>

definition valued :: "string \<Rightarrow> bool" where
  "valued t \<longleftrightarrow> (\<forall>st v. val_mode v \<longrightarrow> (\<exists>m. num_end m \<and> jrun (st, v) t = Some (st, m)))"

lemma valuedD: "valued t \<Longrightarrow> val_mode v \<Longrightarrow> jrun (st, v) t \<in> nums st"
  by (auto simp: valued_def nums_def)

lemma valued_fmt_u: "valued (fmt_u n)"
proof -
  have "\<exists>m. num_end m \<and> jrun (st, v) (fmt_u n) = Some (st, m)" if "val_mode v" for st v
    using jrun_fmt_u_Val [OF that, of st n] by (auto simp: num_end_def)
  then show ?thesis by (simp add: valued_def)
qed

lemma valued_null: "valued ''null''"
  by (auto simp: valued_def val_mode_def is_space_def)

lemma valued_fixed: "t \<noteq> [] \<Longrightarrow> \<forall>c \<in> set t. is_digit c \<Longrightarrow> valued (fmt_d i @ ''.'' @ t)"
  unfolding valued_def using jrun_fixed [OF jrun_fmt_d] num_end_simps(3) by blast

lemma frac_digits: "\<forall>c \<in> set (fmt_0d w (frac_part ub k x)). is_digit c"
  using fmt_0d_nonneg_digits [of "frac_part ub k x"] by (auto simp: frac_part_def)

lemma valued_level: "valued (level_text ub x)"
  using valued_null valued_fixed [OF fmt_not_Nil(2) frac_digits] by (simp add: level_text_def)

lemma feed_element:
  assumes "valued t"
  shows "jfeed (Some (Arr # st, ValOrEnd)) (comma 0 @ t) \<in> nums (Arr # st)"
    and "0 < j \<Longrightarrow> q \<in> nums (Arr # st) \<Longrightarrow> jfeed q (comma j @ t) \<in> nums (Arr # st)"
proof -
  have v: "val_mode Val" "val_mode ValOrEnd" by (simp_all add: val_mode_def)
  show "jfeed (Some (Arr # st, ValOrEnd)) (comma 0 @ t) \<in> nums (Arr # st)"
    using assms v by (auto simp: comma_def nums_def valued_def)
  show "jfeed q (comma j @ t) \<in> nums (Arr # st)" if j: "0 < j" and q: "q \<in> nums (Arr # st)"
  proof -
    obtain m where m: "q = Some (Arr # st, m)" "num_end m" using q by (auto simp: nums_def)
    moreover have "jrun (Arr # st, m) (comma j @ t) = jrun (Arr # st, Val) t"
      using num_end_step(1) [OF m(2)] j by (simp add: comma_def)
    ultimately show ?thesis using assms v by (auto simp: nums_def valued_def)
  qed
qed

text \<open>Two phase differences with no comma between them are no JSON.\<close>

definition phase_ends :: "jctx list \<Rightarrow> jstate option set" where
  "phase_ends st = {Some (st, After), Some (st, NumFrac)}"

lemma phase_ends_nums: "phase_ends st \<subseteq> nums st"
  by (auto simp: phase_ends_def nums_def)

definition phase_body :: "(cfl \<Rightarrow> int) \<Rightarrow> cfl \<Rightarrow> string" where
  "phase_body ub x = fmt_d \<bar>int_part ub x\<bar> @ ''.'' @ fmt_0d 3 (frac_part ub 1000 x)"

lemma phase_text_body:
  "phase_text ub x = (if isnan x then ''null'' else if fless x (Fin 0) then ''-'' @ phase_body ub x else phase_body ub x)"
  by (simp add: phase_text_def phase_body_def)

lemma jrun_phase_body:
  "jrun (st, NumMinus) (phase_body ub x) = Some (st, NumFrac)"
  "val_mode v \<Longrightarrow> jrun (st, v) (phase_body ub x) = Some (st, NumFrac)"
  "jrun (Arr # st, NumFrac) (phase_body ub x) = None" "jrun (Arr # st, After) (phase_body ub x) = None"
proof -
  let ?i = "fmt_d \<bar>int_part ub x\<bar>"
  show "jrun (st, NumMinus) (phase_body ub x) = Some (st, NumFrac)"
    using jrun_fmt_u_Minus frac_digits unfolding phase_body_def by (intro jrun_fixed) (simp_all add: fmt_d_def)
  show "val_mode v \<Longrightarrow> jrun (st, v) (phase_body ub x) = Some (st, NumFrac)"
    using frac_digits unfolding phase_body_def by (intro jrun_fixed jrun_fmt_d) simp_all
  have d: "\<forall>c \<in> set ?i. is_digit c" using fmt_d_nonneg_digits [of "\<bar>int_part ub x\<bar>"] by auto
  then show "jrun (Arr # st, NumFrac) (phase_body ub x) = None"
    by (simp add: phase_body_def jrun_NumFrac is_space_def)
  obtain c cs where c: "?i = c # cs" using fmt_not_Nil(1) by (meson neq_Nil_conv)
  then have "is_digit c" using d by simp
  then have "jstep (Arr # st, After) c = None" by (auto simp: digit_not_special is_digit_def)
  then show "jrun (Arr # st, After) (phase_body ub x) = None" by (simp add: phase_body_def c)
qed

lemma feed_phase:
  "jfeed (Some (st, ValOrEnd)) (phase_text ub x) \<in> phase_ends st"
  "q \<in> phase_ends (Arr # st) \<Longrightarrow> jfeed q (phase_text ub x) = None"
proof -
  have v: "val_mode ValOrEnd" by (simp add: val_mode_def)
  show "jfeed (Some (st, ValOrEnd)) (phase_text ub x) \<in> phase_ends st"
    using jrun_phase_body(1,2) v by (simp add: phase_text_body phase_ends_def is_space_def)
  show "jfeed q (phase_text ub x) = None" if "q \<in> phase_ends (Arr # st)"
    using that jrun_phase_body(3,4) by (auto simp: phase_text_body phase_ends_def is_space_def)
qed

lemma valued_phase: "valued (phase_text ub x)"
proof -
  have "\<exists>m. num_end m \<and> jrun (st, v) (phase_text ub x) = Some (st, m)" if v: "val_mode v" for st v
  proof -
    have "jrun (st, v) (CHR ''-'' # phase_body ub x) = Some (st, NumFrac)"
      using jrun_minus [OF v, of st "phase_body ub x"] jrun_phase_body(1) by simp
    moreover have "jrun (st, v) (phase_body ub x) = Some (st, NumFrac)" by (rule jrun_phase_body(2) [OF v])
    moreover have "\<exists>m. num_end m \<and> jrun (st, v) ''null'' = Some (st, m)"
      using valued_null v unfolding valued_def by blast
    ultimately show ?thesis by (auto simp: phase_text_body num_end_def)
  qed
  then show ?thesis unfolding valued_def by blast
qed

text \<open>
  The clock offset: the digits behind its point are those of an absolute value, provided the
  platform converts a value that is not negative to an integer that is not negative.
\<close>

definition ub_nonneg :: "env \<Rightarrow> bool" where
  "ub_nonneg E \<longleftrightarrow> (\<forall>x. \<not> fless x (Fin 0) \<longrightarrow> 0 \<le> eub E x)"

lemma rnd_nonneg: "0 \<le> x \<Longrightarrow> 0 \<le> rnd fm x"
proof -
  assume x: "0 \<le> x"
  define u where "u = (2 :: rat) powi ulp_exp fm x"
  have "0 < u" by (simp add: u_def)
  with x have "0 \<le> \<lfloor>x / u\<rfloor>" by simp
  then have "0 \<le> rne (x / u)" by (simp add: rne_def Let_def)
  with \<open>0 < u\<close> show ?thesis by (simp add: rnd_def flip: u_def)
qed

lemma fin_nonneg: "0 \<le> x \<Longrightarrow> \<not> fless (fin fm x) (Fin 0)"
  using rnd_nonneg [of x fm] by (simp add: fin_def Let_def)

lemma mul_nonneg: "0 \<le> k \<Longrightarrow> \<not> fless (fmul fm (fabsf a) (Fin k)) (Fin 0)"
  by (cases a) (simp_all add: fin_nonneg)

lemma round_nonneg: "\<not> fless a (Fin 0) \<Longrightarrow> \<not> fless (roundf a) (Fin 0)"
  by (cases a) auto

lemma int_part_nonneg: "ub_nonneg E \<Longrightarrow> \<not> fless a (Fin 0) \<Longrightarrow> 0 \<le> int_part (eub E) a"
  by (cases a) (auto simp: int_part_def to_c_int_def ub_nonneg_def trunc_def)

lemma jrun_ccor:
  assumes "ub_nonneg E"
  shows "jrun (st, Val) (ccor_text (eub E) c) = Some (st, NumExpInt)"
proof -
  define ppm where "ppm = int_part (eub E) (fmul binary32 c (Fin 1000000))"
  define f where "f = int_part (eub E) (roundf (fmul binary32 (fabsf (fsub binary32 c
    (fdiv binary32 (of_c_int binary32 ppm) (Fin 1000000)))) (Fin 1000000000)))"
  have f: "0 \<le> f" unfolding f_def by (intro int_part_nonneg [OF assms] round_nonneg mul_nonneg) simp
  have "val_mode Val" by (simp add: val_mode_def)
  then have "jrun (st, Val) (fmt_d ppm @ ''.'' @ fmt_0d 3 f) = Some (st, NumFrac)"
    using fmt_0d_nonneg_digits [OF f] by (intro jrun_fixed jrun_fmt_d) auto
  then have "jrun (st, Val) ((fmt_d ppm @ ''.'' @ fmt_0d 3 f) @ ''e-6'') = jrun (st, NumFrac) ''e-6''"
    by (rule jrun_append_Some)
  moreover have "ccor_text (eub E) c = (fmt_d ppm @ ''.'' @ fmt_0d 3 f) @ ''e-6''"
    by (simp add: ccor_text_def Let_def ppm_def f_def)
  ultimately show ?thesis by (simp add: is_digit_def)
qed


section \<open>The line of a message\<close>

lemma quiet_fetch [printing]: "prints C J (fetch_diag E D om h j) J"
  unfolding fetch_diag_def Let_def by (rule prints_quiet; intro effects; simp)

lemma quiet_diag [printing]: "prints C J (diag_of E D om h j) J"
  by (simp add: diag_of_def quiet_fetch prints_ret)

lemma quiet_tmp [printing]: "prints C J (onlyif b (load_tmp_diag E D om h n)) J"
  unfolding load_tmp_diag_def Let_def by (rule prints_quiet; intro effects; simp)

abbreviation members :: "jstate option set" where
  "members \<equiv> {Some ([Obj], After), Some ([Obj], NumExpInt)}"

lemma prints_head:
  assumes "appends E" and "0 < n"
  shows "prints C {Some ([], Val)} (print_head E m h n) {Some ([Obj], After)}"
  unfolding print_head_def
proof (intro prints_bind)
  let ?u = "fmt_u (unat (h_utime h))"
  show "prints C {Some ([], Val)} (mprintf E m (''{\"utime\":'' @ ?u)) (nums [Obj])"
    using valued_fmt_u [of "unat (h_utime h)"]
    by (intro prints_mprintf [OF assms(1)]) (auto simp: valued_def val_mode_def nums_def is_space_def plain_def)
  show "prints C (nums [Obj]) (mprintf E m '',\"ts\":['') {Some ([Arr, Obj], ValOrEnd)}"
    by (intro prints_mprintf [OF assms(1)]) (simp add: feed_nums is_space_def plain_def)
  show "prints C {Some ([Arr, Obj], ValOrEnd)}
      (for_each [0..<n] (\<lambda>j. mprintf E m (comma j @ fmt_u (unat (h_ts h ! j))))) (nums [Arr, Obj])"
    using feed_element [OF valued_fmt_u] by (intro prints_elements prints_mprintf assms) auto
  show "prints C (nums [Arr, Obj]) (mprintf E m '']'') {Some ([Obj], After)}"
    by (intro prints_mprintf [OF assms(1)]) (simp add: feed_nums_Arr)
qed

lemma prints_level_list:
  assumes "appends E" and "0 < n"
  shows "prints C {Some ([Arr, Obj], ValOrEnd)} (for_each [0..<n] (print_level E D m om h level)) (nums [Arr, Obj])"
  unfolding print_level_def using feed_element [OF valued_level]
  by (intro prints_elements prints_bind [OF quiet_diag] prints_mprintf assms) auto

lemma prints_levels:
  assumes "appends E" and "0 < n"
  shows "prints C {Some ([Obj], After)} (print_levels E D m om h n) {Some ([Obj], After)}"
  unfolding print_levels_def
proof (intro prints_bind [OF prints_gets] prints_onlyif subset_refl, intro prints_bind)
  show "prints C {Some ([Obj], After)} (mprintf E m '',\"rssi\":['') {Some ([Arr, Obj], ValOrEnd)}"
    by (intro prints_mprintf [OF assms(1)]) (simp add: is_space_def plain_def)
  show "prints C (nums [Arr, Obj]) (mprintf E m ''],\"fppl\":['') {Some ([Arr, Obj], ValOrEnd)}"
    by (intro prints_mprintf [OF assms(1)]) (simp add: feed_nums_Arr is_space_def plain_def)
  show "prints C (nums [Arr, Obj]) (mprintf E m '']'') {Some ([Obj], After)}"
    by (intro prints_mprintf [OF assms(1)]) (simp add: feed_nums_Arr)
qed (rule prints_level_list [OF assms])+

lemma prints_carrier:
  assumes "appends E" and "ub_nonneg E"
  shows "prints C {Some ([Obj], After)} (print_carrier E D m h) members"
  unfolding print_carrier_def using jrun_ccor [OF assms(2)]
  by (intro prints_bind [OF prints_gets] prints_onlyif prints_mprintf [OF assms(1)]) (auto simp: is_space_def plain_def)

text \<open>The phases: one or more values in brackets, unless two stand side by side.\<close>

definition glued :: "env \<Rightarrow> nat \<Rightarrow> bool" where
  "glued E n \<longleftrightarrow> 1 < n \<and> (\<forall>h. eint E h (GetField ''udev->capabilities.single_receiver_pdoa'') \<noteq> 0)"

definition separate :: "env \<Rightarrow> nat \<Rightarrow> bool" where
  "separate E n \<longleftrightarrow> n = 1 \<or> (\<forall>h. eint E h (GetField ''udev->capabilities.single_receiver_pdoa'') = 0)"

lemma prints_single_phase:
  "appends E \<Longrightarrow> prints C {Some ([Arr, Obj], ValOrEnd)}
    (do { d \<leftarrow> diag_of E D om h 0; mprintf E m (phase_text (eub E) (diag_pdoa D d)) }) (phase_ends [Arr, Obj])"
  by (intro prints_bind [OF quiet_diag] prints_mprintf) (simp_all add: feed_phase(1) flip: jfeed_simps(2))

lemma prints_pd:
  assumes "appends E"
  shows "prints C members (mprintf E m '',\"pd\":['') {Some ([Arr, Obj], ValOrEnd)}"
  by (intro prints_mprintf [OF assms]) (simp add: is_space_def plain_def)

lemma feed_dlen:
  assumes "q \<in> insert (Some ([Arr, Obj], ValOrEnd)) (nums [Arr, Obj])"
  shows "jfeed q (''],\"dlen\":'' @ fmt_d i) \<in> nums [Obj]"
proof -
  have "jfeed q (''],\"dlen\":'' @ fmt_d i) = jrun ([Obj], Val) (fmt_d i)"
    using assms by (auto simp: feed_nums_Arr is_space_def plain_def)
  moreover have "val_mode Val" by (simp add: val_mode_def)
  ultimately show ?thesis using jrun_fmt_d [of Val "[Obj]" i] by (auto simp: nums_def)
qed

lemma prints_phases:
  assumes "appends E" and "0 < n" and "separate E n"
  shows "prints C members (print_phases E D m om h n) (nums [Obj])"
  unfolding print_phases_def
proof (intro prints_bind [OF prints_pd [OF assms(1)]] prints_ask_bind prints_bind)
  let ?K = "insert (Some ([Arr, Obj], ValOrEnd)) (nums [Arr, Obj])"
  fix k
  let ?c = "eint E k (GetField ''udev->capabilities.single_receiver_pdoa'')"
  show "prints C {Some ([Arr, Obj], ValOrEnd)} (onlyif (?c \<noteq> 0)
      (do { d \<leftarrow> diag_of E D om h 0; mprintf E m (phase_text (eub E) (diag_pdoa D d)) }))
      (if ?c = 0 then {Some ([Arr, Obj], ValOrEnd)} else nums [Arr, Obj])"
    using prints_weaken [OF prints_single_phase [OF assms(1)] subset_refl phase_ends_nums]
    by (intro prints_onlyif) simp_all
  show "prints C (if ?c = 0 then {Some ([Arr, Obj], ValOrEnd)} else nums [Arr, Obj])
      (for_each [0..<n - 1] (\<lambda>j. mprintf E m (comma j @ phase_text (eub E) (h_pd h ! j)))) ?K"
  proof (cases "n = 1")
    case False
    then have "?c = 0" "0 < n - 1" using assms(2,3) by (auto simp: separate_def)
    moreover have "prints C {Some ([Arr, Obj], ValOrEnd)}
        (for_each [0..<n - 1] (\<lambda>j. mprintf E m (comma j @ phase_text (eub E) (h_pd h ! j)))) (nums [Arr, Obj])"
      using feed_element [OF valued_phase] \<open>0 < n - 1\<close>
      by (intro prints_elements prints_mprintf [OF assms(1)]) auto
    ultimately show ?thesis by (auto intro: prints_weaken)
  qed (auto intro: prints_weaken [OF prints_ret])
  show "prints C ?K (mprintf E m (''],\"dlen\":'' @ fmt_d (uint (h_dlen h)))) (nums [Obj])"
    using feed_dlen by (intro prints_mprintf [OF assms(1)]) blast
qed simp

lemma prints_None: "appends E \<Longrightarrow> prints C {None} (mprintf E m w) {None}"
  by (intro prints_mprintf) simp_all

lemma prints_glued:
  assumes "appends E" and "glued E n"
  shows "prints C members (print_phases E D m om h n) {None}"
  unfolding print_phases_def
proof (intro prints_bind [OF prints_pd [OF assms(1)]] prints_ask_bind prints_bind)
  fix k
  show "prints C {Some ([Arr, Obj], ValOrEnd)} (onlyif (eint E k (GetField ''udev->capabilities.single_receiver_pdoa'') \<noteq> 0)
      (do { d \<leftarrow> diag_of E D om h 0; mprintf E m (phase_text (eub E) (diag_pdoa D d)) })) (phase_ends [Arr, Obj])"
    using prints_single_phase [OF assms(1)] assms(2) by (simp add: glued_def onlyif_def)
  show "prints C (phase_ends [Arr, Obj]) (for_each [0..<n - 1] (\<lambda>j. mprintf E m (comma j @ phase_text (eub E) (h_pd h ! j)))) {None}"
    using assms(2) feed_phase(2) prints_None [OF assms(1)]
    by (intro prints_elements prints_mprintf [OF assms(1)]) (auto simp: glued_def comma_def)
qed (simp_all add: prints_None assms(1))

lemma prints_data:
  assumes "appends E"
  shows "prints C (nums [Obj]) (print_data E m h) {Some ([Obj], After)}"
  unfolding print_data_def
proof (intro prints_bind)
  show "prints C (nums [Obj]) (mprintf E m '',\"d\":\"'') {Some ([Obj], InStr)}"
    by (intro prints_mprintf [OF assms]) (simp add: feed_nums is_space_def plain_def)
  show "prints C {Some ([Obj], InStr)} (for_each [0..<min print_size (unat (h_dlen h))]
      (\<lambda>i. do { b \<leftarrow> gets (\<lambda>g. print_buffer g ! i); mprintf E m (pad0 2 (fmt_x (unat b))) })) {Some ([Obj], InStr)}"
    by (intro prints_for_each prints_bind [OF prints_gets] prints_mprintf [OF assms]) simp
  show "prints C {Some ([Obj], InStr)} (mprintf E m ''\"'') {Some ([Obj], After)}"
    by (intro prints_mprintf [OF assms]) (simp add: is_space_def)
qed

text \<open>A text that is not JSON any more does not become JSON again.\<close>

lemma prints_on_None: "prints C J p K \<Longrightarrow> prints C {None} p {None}"
  unfolding prints_def by fastforce

text \<open>
  The accumulators. The index of the first path is a finite number that is not negative; the
  driver gives it as a position in the accumulator.
\<close>

definition cir_ok :: "cir_lib option \<Rightarrow> bool" where
  "cir_ok C \<longleftrightarrow> (\<forall>L b. C = Some L \<longrightarrow> (\<exists>x. cir_fp_idx L b = Fin x \<and> 0 \<le> x \<and> x < 2 ^ 24))"

lemma thousandths_nonneg:
  assumes "ub_nonneg E" and "0 \<le> x" and "x < 2 ^ 24"
  shows "0 \<le> int_part (eub E) (thousandths (eub E) (Fin x))"
proof -
  have f: "0 \<le> \<lfloor>x\<rfloor>" "\<lfloor>x\<rfloor> < 2 ^ 24" "of_int \<lfloor>x\<rfloor> \<le> x" using assms(2,3) by (simp_all add: floor_less_iff)
  then have "int_part (eub E) (Fin x) = \<lfloor>x\<rfloor>" using assms(2) by (simp add: int_part_def to_c_int_def trunc_def)
  then have t: "thousandths (eub E) (Fin x) = fmul binary32 (Fin 1000) (fsub binary32 (Fin x) (Fin (of_int \<lfloor>x\<rfloor>)))"
    using f of_c_int_small [of "\<lfloor>x\<rfloor>"] of_c_int_small [of 1000] by (simp add: thousandths_def)
  have "\<not> fless (fsub binary32 (Fin x) (Fin (of_int \<lfloor>x\<rfloor>))) (Fin 0)"
    using fin_nonneg [of "x - of_int \<lfloor>x\<rfloor>" binary32] f(3) by (simp add: fsub_def)
  then have "\<not> fless (thousandths (eub E) (Fin x)) (Fin 0)"
    unfolding t by (cases "fsub binary32 (Fin x) (Fin (of_int \<lfloor>x\<rfloor>))") (simp_all add: fin_nonneg)
  then show ?thesis by (rule int_part_nonneg [OF assms(1)])
qed

lemma feed_member:
  assumes "q \<in> nums (Obj # st)" and "valued t" and "plains k"
  shows "jfeed q ('',\"'' @ k @ ''\":'' @ t) \<in> nums (Obj # st)"
proof -
  have "jfeed q ('',\"'' @ k @ ''\":'' @ t) = jrun (Obj # st, Val) t"
    using assms(1,3) by (simp add: feed_nums is_space_def)
  then show ?thesis using assms(2) by (auto simp: valued_def nums_def val_mode_def)
qed

lemma valued_fmt_d: "valued (fmt_d i)"
  unfolding valued_def using jrun_fmt_d num_end_simps(1,2) by blast

lemma valued_digits: "0 \<le> i \<Longrightarrow> valued (fmt_d k @ ''.'' @ fmt_0d n i)"
  using fmt_0d_nonneg_digits by (intro valued_fixed) auto

lemma feed_cir:
  assumes "ub_nonneg E" and "cir_ok (Some L)" and "q = Some ([Arr, Obj], ValOrEnd) \<and> j = 0 \<or> q \<in> nums [Arr, Obj] \<and> 0 < j"
  shows "jfeed q (comma j @ cir_text (eub E) L b) \<in> nums [Obj, Arr, Obj]"
proof -
  obtain x where x: "cir_fp_idx L b = Fin x" "0 \<le> x" "x < 2 ^ 24" using assms(2) by (auto simp: cir_ok_def)
  note idx = thousandths_nonneg [OF assms(1) x(2,3)]
  define phase where "phase y = fmt_d (int_part (eub E) y) @ ''.'' @ fmt_0d 3 (int_part (eub E) (fabsf (thousandths (eub E) y)))" for y
  have "0 \<le> int_part (eub E) (fabsf y)" for y by (rule int_part_nonneg [OF assms(1)]) (cases y; simp)
  then have phase: "valued (phase y)" for y unfolding phase_def by (rule valued_digits)
  have member: "jfeed q v \<in> nums [Obj, Arr, Obj] \<Longrightarrow> valued t \<Longrightarrow> plains k \<Longrightarrow>
      jfeed q (v @ '',\"'' @ k @ ''\":'' @ t) \<in> nums [Obj, Arr, Obj]" for v t k
    using feed_member by (simp add: jfeed_append)
  have k: "plains ''fp_idx''" "plains ''rcphase''" "plains ''angle''" "plains ''rts''" by (simp_all add: plain_def)
  have "jrun ([Arr, Obj], v) ''{\"o\":'' = Some ([Obj, Arr, Obj], Val)" if "val_mode v" for v
    using that by (auto simp: val_mode_def is_space_def plain_def)
  then have "jfeed q (comma j @ ''{\"o\":'') = Some ([Obj, Arr, Obj], Val)"
    using assms(3) by (auto simp: comma_def nums_def num_end_step val_mode_def simp del: jrun.simps(2))
  then have "jfeed q (comma j @ ''{\"o\":'' @ fmt_d (cir_offset_of L b)) \<in> nums [Obj, Arr, Obj]"
    using valuedD [OF valued_fmt_d, of Val "[Obj, Arr, Obj]" "cir_offset_of L b"] jfeed_append [of q "comma j @ ''{\"o\":''"]
    by (simp add: val_mode_def)
  from member [OF member [OF member [OF member [OF this valued_digits [OF idx] k(1)] phase k(2)] phase k(3)] valued_fmt_d k(4)]
  show ?thesis by (simp add: cir_text_def Let_def x(1) phase_def)
qed

lemma prints_samples:
  assumes "appends E"
  shows "prints (Some L) {Some (Arr # st, ValOrEnd)} (print_samples E L m part) (insert (Some (Arr # st, ValOrEnd)) (nums (Arr # st)))"
  unfolding print_samples_def
proof (rule prints_gets_bind)
  fix s :: "lstnr_globals st" assume "loud (Some L) s"
  define a where "a = unat (acc_samples_to_load (glb s))"
  have a: "a \<le> CIR_SIZE L" using \<open>loud (Some L) s\<close> by (simp add: loud_def a_def)
  let ?f = "\<lambda>i. do { c_assert (i < CIR_SIZE L); b \<leftarrow> gets tmp_cir; mprintf E m (comma i @ fmt_d (part b i)) }"
  have "prints (Some L) {Some (Arr # st, ValOrEnd)} (for_each [0..<a] ?f) (nums (Arr # st))" if "0 < a"
    using that a feed_element [OF valued_fmt_d]
    by (intro prints_elements prints_bind [OF prints_c_assert] prints_bind [OF prints_gets] prints_mprintf [OF assms]) auto
  then show "prints (Some L) {Some (Arr # st, ValOrEnd)} (for_each [0..<unat (acc_samples_to_load (glb s))] ?f)
      (insert (Some (Arr # st, ValOrEnd)) (nums (Arr # st)))"
    unfolding a_def [symmetric] by (cases "a = 0") (auto intro: prints_weaken prints_weaken [OF prints_ret])
qed

lemma prints_case_prod: "(\<And>a b. prints C J (f a b) K) \<Longrightarrow> prints C J (case x of (a, b) \<Rightarrow> f a b) K"
  by (cases x) simp

lemma quiet_cir: "prints C J (ask_bytes E (Os (MbufCopyData om a b))) J" "prints C J (upd (\<lambda>g. g\<lparr>tmp_cir := f g\<rparr>)) J"
  by (rule prints_quiet; intro effects; simp)+

lemma prints_cir_of:
  assumes "appends E" and "ub_nonneg E" and "cir_ok (Some L)"
    and "\<forall>q \<in> J. q = Some ([Arr, Obj], ValOrEnd) \<and> j = 0 \<or> q \<in> nums [Arr, Obj] \<and> 0 < j"
  shows "prints (Some L) J (print_cir_of E L m om h j) (nums [Arr, Obj])"
  unfolding print_cir_of_def
proof (intro prints_bind [OF quiet_cir(1)] prints_case_prod prints_bind [OF quiet_cir(2)] prints_bind [OF prints_gets]
    prints_bind)
  let ?K = "insert (Some ([Obj, Arr, Obj], After)) (nums [Obj, Arr, Obj])"
  let ?S = "insert (Some ([Arr, Obj, Arr, Obj], ValOrEnd)) (nums [Arr, Obj, Arr, Obj])"
  show "prints (Some L) J (mprintf E m (comma j @ cir_text (eub E) L b)) (nums [Obj, Arr, Obj])" for b
    using feed_cir [OF assms(2,3)] assms(4) by (intro prints_mprintf [OF assms(1)]) blast
  have 1: "prints (Some L) (nums [Obj, Arr, Obj]) (mprintf E m '',\"real\":['') {Some ([Arr, Obj, Arr, Obj], ValOrEnd)}"
    by (intro prints_mprintf [OF assms(1)]) (simp add: feed_nums is_space_def plain_def)
  have 2: "prints (Some L) ?S (mprintf E m ''],\"imag\":['') {Some ([Arr, Obj, Arr, Obj], ValOrEnd)}"
    by (intro prints_mprintf [OF assms(1)]) (auto simp: feed_nums_Arr is_space_def plain_def)
  have 3: "prints (Some L) ?S (mprintf E m '']'') ?K"
    by (intro prints_mprintf [OF assms(1)]) (auto simp: feed_nums_Arr is_space_def)
  note s = prints_samples [OF assms(1), of L "[Obj, Arr, Obj]" m]
  show "prints (Some L) (nums [Obj, Arr, Obj]) (onlyif (a \<noteq> 0) (do {
      mprintf E m '',\"real\":['';
      print_samples E L m (cir_real L);
      mprintf E m ''],\"imag\":['';
      print_samples E L m (cir_imag L);
      mprintf E m '']'' })) ?K" for a :: u16
    by (intro prints_onlyif prints_bind [OF 1 prints_bind [OF s prints_bind [OF 2 prints_bind [OF s 3]]]]) auto
  show "prints (Some L) ?K (mprintf E m ''}'') (nums [Arr, Obj])"
    by (intro prints_mprintf [OF assms(1)]) (auto simp: feed_nums is_space_def nums_def)
qed

lemma prints_cirs:
  assumes "appends E" and "ub_nonneg E" and "cir_ok C" and "0 < n"
  shows "prints C {Some ([Obj], After)} (print_cirs E C m om h n) {Some ([Obj], After)}"
proof (cases C)
  case (Some L)
  have "prints (Some L) {Some ([Obj], After)} (mprintf E m '',\"cir\":['') {Some ([Arr, Obj], ValOrEnd)}"
    by (intro prints_mprintf [OF assms(1)]) (simp add: is_space_def plain_def)
  moreover have "prints (Some L) {Some ([Arr, Obj], ValOrEnd)} (for_each [0..<n] (print_cir_of E L m om h)) (nums [Arr, Obj])"
    using assms Some by (intro prints_elements prints_cir_of) auto
  moreover have "prints (Some L) (nums [Arr, Obj]) (mprintf E m '']'') {Some ([Obj], After)}"
    by (intro prints_mprintf [OF assms(1)]) (simp add: feed_nums_Arr)
  ultimately have "prints (Some L) {Some ([Obj], After)} (do { mprintf E m '',\"cir\":[''; for_each [0..<n] (print_cir_of E L m om h);
      mprintf E m '']'' }) {Some ([Obj], After)}"
    by (intro prints_bind)
  then show ?thesis unfolding print_cirs_def Some option.case
    by (intro prints_bind [OF prints_gets] prints_onlyif subset_refl)
qed (simp add: print_cirs_def prints_ret)

text \<open>The brace that closes the line.\<close>

definition end_line :: "env \<Rightarrow> int \<Rightarrow> (lstnr_globals, unit) prog" where
  "end_line E m = do {
     mprintf E m ''}'';
     v \<leftarrow> gets (flag VERBOSE_NOT_TO_CONSOLE);
     onlyif (\<not> v) (put [CHR 0x0A])
   }"

lemma prints_end:
  assumes "appends E"
  shows "prints C {Some ([Obj], After)} (end_line E m) {Some ([], After)}"
  unfolding end_line_def
proof (intro prints_bind [OF _ prints_bind [OF prints_gets]] prints_onlyif subset_refl prints_put)
  show "prints C {Some ([Obj], After)} (mprintf E m ''}'') {Some ([], After)}"
    by (intro prints_mprintf [OF assms]) (simp add: is_space_def)
qed (simp_all add: is_space_def)

text \<open>What the whole line does, from the first character on.\<close>

definition line_states :: "env \<Rightarrow> nat \<Rightarrow> jstate option set" where
  "line_states E n = (if glued E n then {None} else {Some ([], After)})"

lemma prints_message:
  assumes "appends E" and "ub_nonneg E" and "cir_ok C" and "0 < n" and "glued E n \<or> separate E n"
  shows "prints C {Some ([], Val)} (print_message E D C m om h n) (line_states E n)"
proof -
  note head = prints_bind [OF prints_head [OF assms(1,4)] prints_bind [OF quiet_tmp
    prints_bind [OF prints_levels [OF assms(1,4)] prints_bind [OF prints_carrier [OF assms(1,2)]]]]]
  show ?thesis
  proof (cases "glued E n")
    case True
    show ?thesis unfolding print_message_def line_states_def end_line_def [symmetric] using True
      by (auto intro!: head prints_bind [OF prints_glued [OF assms(1) True]] prints_bind [OF prints_on_None [OF prints_data [OF assms(1)]]]
          prints_bind [OF prints_on_None [OF prints_cirs [OF assms(1-4)]]] prints_on_None [OF prints_end [OF assms(1)]])
  next
    case False
    then have "separate E n" using assms(5) by simp
    note phases = prints_phases [OF assms(1,4) this]
    show ?thesis unfolding print_message_def line_states_def end_line_def [symmetric] using False
      by (auto intro!: head prints_bind [OF phases] prints_bind [OF prints_data [OF assms(1)]]
          prints_bind [OF prints_cirs [OF assms(1-4)]] prints_end [OF assms(1)])
  qed
qed


section \<open>The whole queue\<close>

text \<open>Code that leaves the queue alone.\<close>

definition no_queue :: "call \<Rightarrow> bool" where
  "no_queue c \<longleftrightarrow> c \<noteq> Os MqGet \<and> (\<forall>m. c \<noteq> Os (MqPut m))"

lemma no_queue_simps [simp]:
  "no_queue (Radio r)" "no_queue (Net n)" "no_queue (Sys f xs)" "no_queue (GetField k)" "no_queue (SetField k v)"
  "no_queue (Os x) \<longleftrightarrow> x \<noteq> MqGet \<and> (\<forall>m. x \<noteq> MqPut m)"
  by (auto simp: no_queue_def)

lemma emits_queued: "emits no_queue p \<Longrightarrow> queued E (tr (exec p s)) = queued E (tr s)"
proof -
  have "\<forall>c \<in> set cs. no_queue c \<Longrightarrow> queued E (cs @ h) = queued E h" for cs h
    by (induction cs) (auto simp: no_queue_def split: call.split os.split)
  moreover assume "emits no_queue p"
  ultimately show ?thesis using emitsD [of no_queue p s] by auto
qed

lemma mprintf_effects [effects]:
  "(\<And>xs. P (Sys ''os_mbuf_append'' xs)) \<Longrightarrow> P (Os (ConsoleWrite w)) \<Longrightarrow> emits P (mprintf E m w)" "keeps I (mprintf E m w)"
  unfolding mprintf_def by (intro effects; simp)+

lemma process_one_no_queue: "emits no_queue (process_one E D C eth n om)"
  unfolding process_one_def print_message_def print_head_def load_tmp_diag_def print_levels_def print_level_def
    fetch_diag_def diag_of_def print_carrier_def print_phases_def print_data_def print_cirs_def print_cir_of_def print_samples_def
    dispose_text_def Let_def
  by (cases C) (simp_all only: option.case, (intro effects; simp)+)

text \<open>The handler of one message: where the text comes from and what is left behind.\<close>

lemma process_one_run:
  assumes "queue_ok E" and "appends E" and "ub_nonneg E" and "cir_ok C" and "\<And>h a b. eint E h (Os (MbufGet a b)) \<noteq> 0"
    and "0 < n" and "glued E n \<or> separate E n" and "loud C s"
  obtains m t where "loud C t" and "console (tr t) = console (tr s)"
    and "print_buffer (glb t) = overlay (print_buffer (glb s)) 0 (take print_size (payload E om (tr s)))"
    and "loud C (exec (print_message E D C m om (hdrs (glb s) om) n) t)"
    and "exec (process_one E D C False n om) s = (let u = exec (print_message E D C m om (hdrs (glb s) om) n) t in
      u\<lparr>glb := (glb u)\<lparr>print_buffer := replicate print_size 0\<rparr>, tr := Os (MbufFree om) # Os (MbufFree m) # tr u\<rparr>)"
proof -
  let ?l = "eint E (tr s) (Os (MbufPktLen om))"
  define k where "k = min (nat ?l) print_size"
  define c where "c = Os (MbufCopyData om 0 k)"
  define h where "h = Os (MbufPktLen om) # tr s"
  have rc: "eint E h c = 0" using assms(1) by (simp add: queue_ok_def c_def k_def h_def)
  have k: "k = min (length (payload E om (tr s))) print_size" using assms(1) by (simp add: k_def queue_ok_def)
  have bs: "ebytes E h c = take print_size (payload E om (tr s))"
    using assms(1) by (simp add: queue_ok_def c_def h_def k min_def)
  define t where "t = s\<lparr>glb := (glb s)\<lparr>print_buffer := overlay (print_buffer (glb s)) 0 (ebytes E h c)\<rparr>,
    tr := Os (MbufGet 16 0) # c # h\<rparr>"
  define m where "m = eint E (c # h) (Os (MbufGet 16 0))"
  have t: "loud C t" "console (tr t) = console (tr s)"
    using assms(8) by (simp_all add: t_def c_def h_def loud_def flag_def)
  define u where "u = exec (print_message E D C m om (hdrs (glb s) om) n) t"
  have u: "loud C u" using printsD [OF prints_message [OF assms(2-4,6,7)] t(1)] unfolding u_def by metis
  have m0: "m \<noteq> 0" by (simp add: m_def assms(5))
  have "exec (process_one E D C False n om) s = u\<lparr>glb := (glb u)\<lparr>print_buffer := replicate print_size 0\<rparr>,
      tr := Os (MbufFree om) # Os (MbufFree m) # tr u\<rparr>"
  proof -
    have "\<not> halted s" "\<not> halted t" "\<not> halted u" using assms(8) t(1) u by (simp_all add: loud_def)
    then show ?thesis
      using rc m0 by (simp add: process_one_def dispose_text_def exec_bind exec_ask exec_ask_bytes exec_upd exec_act
        u_def t_def m_def c_def h_def k_def)
  qed
  with t u that show thesis by (simp add: u_def t_def bs Let_def)
qed

lemma process_one_prints:
  assumes "queue_ok E" and "appends E" and "ub_nonneg E" and "cir_ok C" and "\<And>h a b. eint E h (Os (MbufGet a b)) \<noteq> 0"
    and "0 < n" and "glued E n \<or> separate E n" and "loud C s"
  obtains w where "loud C (exec (process_one E D C False n om) s)"
    and "concat (console (tr (exec (process_one E D C False n om) s))) = concat (console (tr s)) @ w"
    and "json_text w \<longleftrightarrow> \<not> glued E n"
proof -
  obtain m t where t: "loud C t" "console (tr t) = console (tr s)"
    "exec (process_one E D C False n om) s = (let u = exec (print_message E D C m om (hdrs (glb s) om) n) t in
      u\<lparr>glb := (glb u)\<lparr>print_buffer := replicate print_size 0\<rparr>, tr := Os (MbufFree om) # Os (MbufFree m) # tr u\<rparr>)"
    using process_one_run [OF assms, of om D] by metis
  obtain w where "loud C (exec (print_message E D C m om (hdrs (glb s) om) n) t)"
    "concat (console (tr (exec (print_message E D C m om (hdrs (glb s) om) n) t))) = concat (console (tr t)) @ w"
    "jrun ([], Val) w \<in> line_states E n"
    using printsD [OF prints_message [OF assms(2-4,6,7)] t(1)] by (metis insertI1 jfeed_simps(2))
  with t that show thesis by (auto simp: loud_def flag_def line_states_def json_text_def Let_def split: if_splits)
qed

definition mbufs_free :: "env \<Rightarrow> bool" where
  "mbufs_free E \<longleftrightarrow> (\<forall>h a b. eint E h (Os (MbufGet a b)) \<noteq> 0)"

definition printing_ok :: "env \<Rightarrow> cir_lib option \<Rightarrow> nat \<Rightarrow> bool" where
  "printing_ok E C n \<longleftrightarrow> queue_ok E \<and> appends E \<and> ub_nonneg E \<and> cir_ok C \<and> mbufs_free E \<and> 0 < n \<and> (glued E n \<or> separate E n)"

lemma process_queue_prints:
  assumes "printing_ok E C n"
  shows "loud C s \<Longrightarrow> queued E (tr s) = ms \<Longrightarrow> 0 \<notin> set ms \<Longrightarrow> length ms < k \<Longrightarrow>
    loud C (exec (process_queue k E D C False n) s) \<and> result (process_queue k E D C False n) s
    \<and> queued E (tr (exec (process_queue k E D C False n) s)) = []
    \<and> (\<exists>ws. concat (console (tr (exec (process_queue k E D C False n) s))) = concat (console (tr s)) @ concat ws
      \<and> length ws = length ms \<and> list_all (\<lambda>w. json_text w \<longleftrightarrow> \<not> glued E n) ws)"
proof (induction ms arbitrary: k s)
  case Nil
  then obtain j where "k = Suc j" by (cases k) auto
  moreover have "eint E (tr s) (Os MqGet) = 0" using assms Nil(2) by (simp add: printing_ok_def queue_ok_def)
  ultimately show ?case using Nil by (simp add: exec_def result_def run_simps loud_def flag_def)
next
  case (Cons m ms)
  then obtain j where j: "k = Suc j" "length ms < j" by (cases k) auto
  have p: "queue_ok E" "appends E" "ub_nonneg E" "cir_ok C" "eint E h (Os (MbufGet a b)) \<noteq> 0" "0 < n" "glued E n \<or> separate E n" for h a b
    using assms by (simp_all add: printing_ok_def mbufs_free_def)
  have g: "eint E (tr s) (Os MqGet) = m" "m \<noteq> 0" using p(1) Cons.prems(2,3) by (auto simp: queue_ok_def)
  define t where "t = s\<lparr>tr := Os MqGet # tr s\<rparr>"
  have t: "loud C t" "queued E (tr t) = ms" "console (tr t) = console (tr s)"
    using Cons.prems by (simp_all add: t_def loud_def flag_def)
  define u where "u = exec (process_one E D C False n m) t"
  obtain w where w: "loud C u" "concat (console (tr u)) = concat (console (tr t)) @ w" "json_text w \<longleftrightarrow> \<not> glued E n"
    using process_one_prints [OF p t(1), of D m] unfolding u_def by metis
  have q: "queued E (tr u) = ms" using emits_queued [OF process_one_no_queue, of E E D C False n m t] t(2) by (simp add: u_def)
  have "\<not> halted s" using Cons.prems(1) by (simp add: loud_def)
  then have e: "exec (process_queue k E D C False n) s = exec (process_queue j E D C False n) u"
    "result (process_queue k E D C False n) s = result (process_queue j E D C False n) u"
    using g by (simp_all add: j exec_def result_def run_simps u_def t_def split: prod.splits)
  have "0 \<notin> set ms" using Cons.prems(3) by simp
  from Cons.IH [OF w(1) q this j(2)] obtain ws where
    "loud C (exec (process_queue j E D C False n) u)" "result (process_queue j E D C False n) u"
    "queued E (tr (exec (process_queue j E D C False n) u)) = []"
    "concat (console (tr (exec (process_queue j E D C False n) u))) = concat (console (tr u)) @ concat ws"
    "length ws = length ms" "list_all (\<lambda>w. json_text w \<longleftrightarrow> \<not> glued E n) ws"
    by auto
  then show ?case unfolding e using w t(3) by (auto intro!: exI [of _ "w # ws"])
qed


definition sample_diag :: diag_lib where
  "sample_diag = \<lparr>DIAG_SIZE = 4, DIAG_MAXLEN = 8, HDR_SIZE = 32, rxd_len = (\<lambda>d. 4), diag_rssi = (\<lambda>d. Fin (- 80)),
     diag_fppl = (\<lambda>d. NaN), diag_pdoa = (\<lambda>d. Fin (- 1 / 2)), clock_offset_ratio = (\<lambda>c. Fin 0), pdoa_board = None\<rparr>"

definition lstnr0 :: lstnr_globals where
  "lstnr0 = \<lparr>lstnr_config = \<lparr>acc_samples = ''1'', verbose_s = ''0'', udp_tx_addr_s = '''', udp_tx_port_s = ''''\<rparr>,
     acc_samples_to_load = 1, verbose = 7, udp_port = 0,
     hdrs = (\<lambda>_. \<lparr>h_utime = 7, h_dlen = 2, h_diag_offset = 2, h_cir_offset = 0, h_carrier = 1, h_ts = [9], h_diag = [], h_pd = [NaN]\<rparr>),
     print_buffer = replicate print_size 0, diag_buffer = [], tmp_diag = [], tmp_cir = []\<rparr>"

definition sample_cir :: cir_lib where
  "sample_cir = \<lparr>CIR_BYTES = 4, CIR_SIZE = 8, cir_valid = (\<lambda>b. True), cir_get_pdoa = (\<lambda>a b. Fin 0), cir_offset_of = (\<lambda>b. 4),
     cir_fp_idx = (\<lambda>b. Fin (1493 / 2)), cir_rcphase = (\<lambda>b. Fin (- 1 / 4)), cir_angle = (\<lambda>b. NaN),
     cir_raw_ts = (\<lambda>b. 77), cir_real = (\<lambda>b i. sint (b ! i)), cir_imag = (\<lambda>b i. 0)\<rparr>"

lemma sample_cir_ok [simp]: "cir_ok None" "cir_ok (Some sample_cir)"
  by (simp_all add: cir_ok_def sample_cir_def exI [of _ "1493 / 2 :: rat"])

lemma calm_printing: "cir_ok C \<Longrightarrow> printing_ok calm_env C 1"
proof -
  have "unused_mbuf h \<noteq> 0" for h using unused_mbuf_pos [of h] by simp
  moreover assume "cir_ok C"
  ultimately show ?thesis by (simp add: printing_ok_def appends_def ub_nonneg_def mbufs_free_def separate_def)
qed


end
