(* ===== verification/Listener_Frame.thy ===== *)
theory Listener_Frame
  imports Listener_Props
begin

text \<open>
  From a received frame to the console of the listener: what the callback stores in the
  message, what the line shows of it, and where the printing code looks for the diagnostics.
\<close>

section \<open>Bytes in hexadecimal\<close>

definition hex :: "u8 list \<Rightarrow> string" where
  "hex bs = concat (map (\<lambda>b. pad0 2 (fmt_x (unat b))) bs)"

definition hex_value :: "char \<Rightarrow> nat" where
  "hex_value c = (if is_digit c then of_char c - 48 else of_char c - 87)"

fun unhex :: "string \<Rightarrow> u8 list" where
  "unhex (a # b # s) = of_nat (16 * hex_value a + hex_value b) # unhex s"
| "unhex s = []"

lemma hex_value_digit: "d < 16 \<Longrightarrow> hex_value (digit d) = d"
proof -
  assume d: "d < 16"
  have c: "(of_char (digit d) :: nat) = (if d < 10 then 48 + d else 87 + d)" by (rule of_char_digit [OF d])
  have "is_digit (digit d) \<longleftrightarrow> d < 10"
  proof
    assume "is_digit (digit d)"
    then have "(of_char (digit d) :: nat) \<le> 57" by (simp add: is_digit_def)
    with c show "d < 10" by (simp split: if_splits)
  qed (simp add: is_digit_digit)
  then show ?thesis by (simp add: hex_value_def c)
qed

lemma hex_byte: "pad0 2 (fmt_x (unat (b :: u8))) = [digit (unat b div 16), digit (unat b mod 16)]"
proof (cases "unat b < 16")
  case True
  then show ?thesis by (simp add: fmt_x_def pad0_def)
next
  case False
  have "unat b < 256" using unat_less [of b] by simp
  then have "unat b div 16 < 16" by (intro less_mult_imp_div_less) simp
  with False show ?thesis by (simp add: fmt_x_def pad0_def digits_of_ge)
qed

lemma unhex_hex [simp]: "unhex (hex bs) = bs"
proof (induction bs)
  case (Cons b bs)
  have "unat b < 256" using unat_less [of b] by simp
  then have "unat b div 16 < 16" "unat b mod 16 < 16" by (intro less_mult_imp_div_less, simp_all)
  with Cons show ?case by (simp add: hex_def hex_byte hex_value_digit)
qed (simp add: hex_def)


section \<open>The end of a line\<close>

lemma keeps_print_buffer:
  "keeps (\<lambda>g. print_buffer g = pb) (print_head E m h n)" "keeps (\<lambda>g. print_buffer g = pb) (onlyif b (load_tmp_diag E D om h n))"
  "keeps (\<lambda>g. print_buffer g = pb) (print_levels E D m om h n)" "keeps (\<lambda>g. print_buffer g = pb) (print_carrier E D m h)"
  "keeps (\<lambda>g. print_buffer g = pb) (print_phases E D m om h n)"
  unfolding print_head_def load_tmp_diag_def print_levels_def print_level_def diag_of_def fetch_diag_def print_carrier_def
    print_phases_def Let_def
  by (intro effects; simp)+

text \<open>Everything in front of the data.\<close>

definition print_front :: "env \<Rightarrow> diag_lib \<Rightarrow> int \<Rightarrow> int \<Rightarrow> uwb_msg_hdr \<Rightarrow> nat \<Rightarrow> (lstnr_globals, unit) prog" where
  "print_front E D m om h n = do {
     print_head E m h n;
     onlyif (pdoa_board D = None) (load_tmp_diag E D om h n);
     print_levels E D m om h n;
     print_carrier E D m h;
     print_phases E D m om h n
   }"

lemma message_front:
  "exec (print_message E D C m om h n) s = exec (end_line E m) (exec (print_cirs E C m om h n)
     (exec (print_data E m h) (exec (print_front E D m om h n) s)))"
  by (simp add: print_message_def print_front_def end_line_def exec_bind)

lemma exec_mprintf:
  "appends E \<Longrightarrow> loud C s \<Longrightarrow> exec (mprintf E m w) s =
    s\<lparr>tr := Os (ConsoleWrite w) # Sys ''os_mbuf_append'' [m, int (length w)] # tr s\<rparr>"
  by (simp add: loud_def flag_def appends_def mprintf_def put_def exec_def run_simps)

lemma loud_tr [simp]: "loud C (s\<lparr>tr := h\<rparr>) = loud C s"
  by (simp add: loud_def flag_def)

lemma data_bytes:
  assumes "appends E" and "loud C s"
  shows "loud C (exec (for_each is (\<lambda>i. do { b \<leftarrow> gets (\<lambda>g. print_buffer g ! i); mprintf E m (pad0 2 (fmt_x (unat b))) })) s)
    \<and> concat (console (tr (exec (for_each is (\<lambda>i. do { b \<leftarrow> gets (\<lambda>g. print_buffer g ! i);
        mprintf E m (pad0 2 (fmt_x (unat b))) })) s)))
      = concat (console (tr s)) @ hex (map (\<lambda>i. print_buffer (glb s) ! i) is)"
  using assms(2)
proof (induction "is" arbitrary: s)
  case (Cons i "is")
  then show ?case using assms(1) by (simp add: exec_bind exec_mprintf hex_def)
qed (simp add: hex_def)

lemma data_printed:
  assumes "appends E" and "loud C s"
  shows "loud C (exec (print_data E m h) s) \<and> concat (console (tr (exec (print_data E m h) s)))
    = concat (console (tr s)) @ '',\"d\":\"'' @ hex (map (\<lambda>i. print_buffer (glb s) ! i) [0..<min print_size (unat (h_dlen h))]) @ [CHR 0x22]"
proof -
  let ?s = "exec (mprintf E m '',\"d\":\"'') s"
  have s: "loud C ?s" "glb ?s = glb s" using assms by (simp_all add: exec_mprintf)
  note d = data_bytes [OF assms(1) s(1), of "[0..<min print_size (unat (h_dlen h))]" m]
  define t where "t = exec (for_each [0..<min print_size (unat (h_dlen h))]
    (\<lambda>i. do { b \<leftarrow> gets (\<lambda>g. print_buffer g ! i); mprintf E m (pad0 2 (fmt_x (unat b))) })) ?s"
  have "loud C t" "concat (console (tr t)) = concat (console (tr ?s))
      @ hex (map (\<lambda>i. print_buffer (glb s) ! i) [0..<min print_size (unat (h_dlen h))])"
    using d by (simp_all add: t_def s(2))
  moreover have "exec (print_data E m h) s = exec (mprintf E m ''\"'') t"
    by (simp add: print_data_def exec_bind t_def)
  ultimately show ?thesis using assms by (simp add: exec_mprintf)
qed

lemma end_printed:
  assumes "appends E" and "loud C s"
  shows "concat (console (tr (exec (end_line E m) s))) = concat (console (tr s)) @ ''}'' @ [CHR 0x0A]"
proof -
  have "\<not> halted s" "\<not> flag VERBOSE_NOT_TO_CONSOLE (glb s)" using assms(2) by (simp_all add: loud_def)
  then show ?thesis using assms by (simp add: end_line_def exec_bind exec_mprintf exec_put)
qed

text \<open>What is printed for the accumulators, if anything is.\<close>

lemma cirs_printed:
  assumes "appends E" and "ub_nonneg E" and "cir_ok C" and "0 < n" and "loud C s"
  obtains y where "loud C (exec (print_cirs E C m om h n) s)"
    and "concat (console (tr (exec (print_cirs E C m om h n) s))) = concat (console (tr s)) @ y"
    and "C = None \<Longrightarrow> y = []"
proof (cases C)
  case None
  then show ?thesis using that assms(5) by (simp add: print_cirs_def)
next
  case (Some L)
  obtain w where "loud C (exec (print_cirs E C m om h n) s)"
    "concat (console (tr (exec (print_cirs E C m om h n) s))) = concat (console (tr s)) @ w"
    by (rule printsD [OF prints_cirs [OF assms(1-4)] assms(5)])
  then show ?thesis using that Some by simp
qed


section \<open>What the callback stores\<close>

text \<open>The documented success of storing: copies into a buffer and puts on the queue succeed.\<close>

definition stores :: "env \<Rightarrow> bool" where
  "stores E \<longleftrightarrow> (\<forall>h m off bs. eint E h (Os (MbufCopyInto m off bs)) = 0) \<and> (\<forall>h m. eint E h (Os (MqPut m)) = 0)
     \<and> mbufs_free E"

definition diags_of :: "lst_dev list \<Rightarrow> u8 list" where
  "diags_of devs = concat (map rxdiag devs)"

lemma exec_upd_hdr: "\<not> halted s \<Longrightarrow>
    exec (upd_hdr om f) s = s\<lparr>glb := (glb s)\<lparr>hdrs := (hdrs (glb s))(om := f (hdrs (glb s) om))\<rparr>\<rparr>"
  by (simp add: upd_hdr_def exec_upd)

text \<open>What storing leaves of the state, all but the payload of the message.\<close>

definition stored :: "env \<Rightarrow> int \<Rightarrow> lstnr_globals st \<Rightarrow> lstnr_globals st \<Rightarrow> bool" where
  "stored E om s t \<longleftrightarrow> \<not> halted t
     \<and> queued E (tr t) = queued E (tr s) \<and> console (tr t) = console (tr s)
     \<and> verbose (glb t) = verbose (glb s) \<and> acc_samples_to_load (glb t) = acc_samples_to_load (glb s)
     \<and> print_buffer (glb t) = print_buffer (glb s) \<and> diag_buffer (glb t) = diag_buffer (glb s)
     \<and> h_dlen (hdrs (glb t) om) = h_dlen (hdrs (glb s) om)
     \<and> h_diag_offset (hdrs (glb t) om) = h_diag_offset (hdrs (glb s) om)"

lemma stored_refl [simp]: "stored E om s s \<longleftrightarrow> \<not> halted s"
  by (simp add: stored_def)

lemma stored_trans [trans]: "stored E om s t \<Longrightarrow> stored E om t u \<Longrightarrow> stored E om s u"
  by (simp add: stored_def)

lemma stored_hdr:
  assumes "\<not> halted s" and "\<And>h. h_dlen (f h) = h_dlen h" and "\<And>h. h_diag_offset (f h) = h_diag_offset h"
  shows "stored E om s (exec (onlyif b (upd_hdr om f)) s)" and "tr (exec (onlyif b (upd_hdr om f)) s) = tr s"
  using assms by (cases b; simp add: stored_def exec_upd_hdr)+

lemma stored_copy: "\<not> halted s \<Longrightarrow> stored E om s (s\<lparr>tr := Os (MbufCopyInto om off bs) # tr s\<rparr>)"
  by (simp add: stored_def)

lemma copy_diags_run:
  assumes "stores E"
  shows "\<not> halted s \<Longrightarrow> length (payload E om (tr s)) = unat off \<Longrightarrow> unat off + length (diags_of ds) < 2 ^ 16 \<Longrightarrow>
    result (copy_diags E om i off ds) s = Some (off + of_nat (length (diags_of ds)))
    \<and> stored E om s (exec (copy_diags E om i off ds) s)
    \<and> payload E om (tr (exec (copy_diags E om i off ds) s)) = payload E om (tr s) @ diags_of ds"
proof (induction ds arbitrary: s i off)
  case Nil
  then show ?case by (simp add: diags_of_def)
next
  case (Cons d ds)
  let ?c = "Os (MbufCopyInto om (unat off) (rxdiag d))" and ?u = "s\<lparr>tr := Os (MbufCopyInto om (unat off) (rxdiag d)) # tr s\<rparr>"
  define t where "t = exec (onlyif (\<not> lde_error d) (upd_hdr om (\<lambda>h. h\<lparr>h_ts := (h_ts h)[i := d_rxtimestamp d]\<rparr>))) ?u"
  have u: "\<not> halted ?u" using Cons.prems(1) by simp
  have t: "stored E om s t" "tr t = ?c # tr s"
    using stored_trans [OF stored_copy [OF Cons.prems(1)] stored_hdr(1) [OF u]] stored_hdr(2) [OF u] by (simp_all add: t_def)
  have p: "payload E om (tr t) = payload E om (tr s) @ rxdiag d"
    using assms Cons.prems(2) by (simp add: t(2) stores_def)
  have off: "unat (off + of_nat (length (rxdiag d))) = unat off + length (rxdiag d)"
    using Cons.prems(3) by (simp add: diags_of_def unat_word_ariths unat_of_nat)
  have e: "exec (copy_diags E om i off (d # ds)) s = exec (copy_diags E om (Suc i) (off + of_nat (length (rxdiag d))) ds) t"
    "result (copy_diags E om i off (d # ds)) s = result (copy_diags E om (Suc i) (off + of_nat (length (rxdiag d))) ds) t"
    using assms Cons.prems(1) by (simp_all add: exec_bind result_bind exec_ask stores_def t_def)
  have "\<not> halted t" using t(1) by (simp add: stored_def)
  from Cons.IH [OF this, of "off + of_nat (length (rxdiag d))" "Suc i"] show ?case
    using Cons.prems(2,3) t(1) p off unfolding e by (simp add: diags_of_def) (metis add.assoc stored_trans)
qed

text \<open>The accumulators lie where the diagnostics begin.\<close>

definition message_bytes :: "cir_lib option \<Rightarrow> u16 \<Rightarrow> u8 list \<Rightarrow> u8 list \<Rightarrow> u8 list list \<Rightarrow> u8 list" where
  "message_bytes C a fr ds cirs = fr @ (if C = None \<or> a = 0 then ds else overlay ds 0 (concat cirs))"

lemma overlay_behind: "overlay (fr @ overlay ds 0 cs) (length fr + length cs) bs = fr @ overlay ds 0 (cs @ bs)"
  by (simp add: overlay_def add.commute)

definition copy_cir :: "env \<Rightarrow> int \<Rightarrow> nat \<Rightarrow> nat \<Rightarrow> nat \<times> u8 list \<Rightarrow> (lstnr_globals, unit) prog" where
  "copy_cir E om n b = (\<lambda>(i, src). do { rc \<leftarrow> ask E (Os (MbufCopyInto om (n + i * b) src)); c_assert (rc = 0) })"

lemma copy_cir_run:
  "stores E \<Longrightarrow> \<not> halted s \<Longrightarrow> exec (copy_cir E om n b (i, c)) s = s\<lparr>tr := Os (MbufCopyInto om (n + i * b) c) # tr s\<rparr>"
  by (simp add: copy_cir_def exec_bind exec_ask exec_c_assert stores_def)

lemma cir_loop:
  assumes "stores E" and "n = length fr"
  shows "\<not> halted s \<Longrightarrow> payload E om (tr s) = fr @ overlay ds 0 cs \<Longrightarrow> length cs = k * b \<Longrightarrow> \<forall>c \<in> set cirs. length c = b \<Longrightarrow>
    stored E om s (exec (for_each (enumerate k cirs) (copy_cir E om n b)) s)
    \<and> payload E om (tr (exec (for_each (enumerate k cirs) (copy_cir E om n b)) s)) = fr @ overlay ds 0 (cs @ concat cirs)"
proof (induction cirs arbitrary: s k cs)
  case (Cons c cirs)
  define t where "t = s\<lparr>tr := Os (MbufCopyInto om (n + k * b) c) # tr s\<rparr>"
  have p: "payload E om (tr t) = fr @ overlay ds 0 (cs @ c)"
    using assms Cons.prems(2,3) overlay_behind [of fr ds cs c] by (simp add: stores_def t_def)
  have e: "exec (for_each (enumerate k (c # cirs)) (copy_cir E om n b)) s = exec (for_each (enumerate (Suc k) cirs) (copy_cir E om n b)) t"
    using copy_cir_run [OF assms(1) Cons.prems(1)] by (simp add: exec_bind t_def)
  have "length (cs @ c) = Suc k * b" "\<not> halted t" using Cons.prems(1,3,4) by (simp_all add: t_def)
  from Cons.IH [OF this(2) p this(1)] Cons.prems(4)
  have "stored E om t (exec (for_each (enumerate (Suc k) cirs) (copy_cir E om n b)) t)"
    "payload E om (tr (exec (for_each (enumerate (Suc k) cirs) (copy_cir E om n b)) t)) = fr @ overlay ds 0 ((cs @ c) @ concat cirs)"
    by simp_all
  moreover have "stored E om s t" using stored_copy [OF Cons.prems(1)] by (simp add: t_def)
  ultimately show ?case unfolding e using stored_trans by simp
qed simp

definition phase_at :: "(nat \<Rightarrow> cfl option) \<Rightarrow> int \<Rightarrow> nat \<Rightarrow> (lstnr_globals, unit) prog" where
  "phase_at f om j = (case f j of None \<Rightarrow> ret () | Some x \<Rightarrow> upd_hdr om (\<lambda>h. h\<lparr>h_pd := (h_pd h)[j - 1 := x]\<rparr>))"

lemma phase_loop:
  "\<not> halted s \<Longrightarrow> stored E om s (exec (for_each js (phase_at f om)) s) \<and> tr (exec (for_each js (phase_at f om)) s) = tr s"
proof (induction js arbitrary: s)
  case (Cons j js)
  have "stored E om s (exec (phase_at f om j) s) \<and> tr (exec (phase_at f om j) s) = tr s"
    using stored_hdr [OF Cons.prems, where b = True] Cons.prems by (cases "f j") (simp_all add: phase_at_def onlyif_def)
  moreover from this have "\<not> halted (exec (phase_at f om j) s)" by (simp add: stored_def)
  ultimately show ?case using Cons.IH stored_trans by (simp add: exec_bind) blast
qed simp

lemma store_phases_board:
  "pdoa_board D = Some ps \<Longrightarrow>
    store_phases D L om devs = for_each [1..<length ps] (phase_at (\<lambda>j. board_phase L (cir (devs ! 0)) (ps ! 0) (ps ! j)) om)"
  by (simp add: store_phases_def phase_at_def [abs_def])

lemma store_phases_run:
  assumes "\<not> halted s"
  shows "stored E om s (exec (store_phases D L om devs) s)" and "tr (exec (store_phases D L om devs) s) = tr s"
proof -
  have "stored E om s (exec (store_phases D L om devs) s) \<and> tr (exec (store_phases D L om devs) s) = tr s"
  proof (cases "pdoa_board D")
    case None
    then show ?thesis using stored_hdr [OF assms] by (simp add: store_phases_def)
  next
    case (Some ps)
    show ?thesis unfolding store_phases_board [OF Some] by (rule phase_loop [OF assms])
  qed
  then show "stored E om s (exec (store_phases D L om devs) s)" "tr (exec (store_phases D L om devs) s) = tr s" by simp_all
qed

lemma store_cir_run:
  assumes "stores E" and "\<not> halted s" and "payload E om (tr s) = fr @ ds" and "length fr = unat dlen"
    and "\<And>L. C = Some L \<Longrightarrow> \<forall>c \<in> set (accumulators D devs). length c = CIR_BYTES L"
  shows "stored E om s (exec (store_cir E D C om dlen off devs) s)
    \<and> payload E om (tr (exec (store_cir E D C om dlen off devs) s))
      = message_bytes C (acc_samples_to_load (glb s)) fr ds (accumulators D devs)"
proof (cases C)
  case None
  then show ?thesis using assms(2,3) by (simp add: store_cir_def message_bytes_def)
next
  case (Some L)
  define t where "t = exec (onlyif True (upd_hdr om (\<lambda>h. h\<lparr>h_cir_offset := off\<rparr>))) s"
  define u where "u = exec (store_phases D L om devs) t"
  have t: "stored E om s t" "tr t = tr s" unfolding t_def by (rule stored_hdr [OF assms(2)]; simp)+
  have "\<not> halted t" using t(1) by (simp add: stored_def)
  then have "stored E om t u" "tr u = tr t" unfolding u_def by (rule store_phases_run)+
  with t have u: "stored E om s u" "payload E om (tr u) = fr @ ds" using assms(3) stored_trans by fastforce+
  then have h: "\<not> halted u" "acc_samples_to_load (glb u) = acc_samples_to_load (glb s)" by (simp_all add: stored_def)
  have e: "exec (store_cir E D C om dlen off devs) s = exec (onlyif (acc_samples_to_load (glb s) \<noteq> 0)
      (for_each (enumerate 0 (accumulators D devs)) (copy_cir E om (length fr) (CIR_BYTES L)))) u"
    using h(2) by (simp add: store_cir_def copy_cir_def Some exec_bind t_def u_def assms(4) onlyif_def)
  show ?thesis
  proof (cases "acc_samples_to_load (glb s) = 0")
    case True
    then show ?thesis unfolding e using u by (simp add: message_bytes_def)
  next
    case False
    have "payload E om (tr u) = fr @ overlay ds 0 []" using u(2) by (simp add: overlay_def)
    from cir_loop [OF assms(1) refl h(1) this _ assms(5) [OF Some], of 0] False show ?thesis
      unfolding e using stored_trans [OF u(1)] by (simp add: message_bytes_def Some)
  qed
qed

text \<open>The diagnostics in the message and those in the header.\<close>

definition stored_diags :: "diag_lib \<Rightarrow> lst_dev list \<Rightarrow> u8 list" where
  "stored_diags D devs = (case pdoa_board D of None \<Rightarrow> diags_of devs | Some ps \<Rightarrow> [])"

definition header_diags :: "diag_lib \<Rightarrow> u8 list list" where
  "header_diags D = (case pdoa_board D of None \<Rightarrow> [] | Some ps \<Rightarrow> map p_rxdiag ps)"

definition copy_one :: "int \<Rightarrow> nat \<times> pdoa_cir_data \<Rightarrow> (lstnr_globals, unit) prog" where
  "copy_one om = (\<lambda>(i, p). upd_hdr om (\<lambda>h. h\<lparr>h_diag := (h_diag h)[i := p_rxdiag p], h_ts := (h_ts h)[i := p_ts p]\<rparr>))"

lemma copy_board_run:
  "\<not> halted s \<Longrightarrow> length (h_diag (hdrs (glb s) om)) = k + length ps \<Longrightarrow> t = exec (for_each (enumerate k ps) (copy_one om)) s \<Longrightarrow>
   stored E om s t \<and> tr t = tr s \<and> h_diag (hdrs (glb t) om) = take k (h_diag (hdrs (glb s) om)) @ map p_rxdiag ps"
proof (induction ps arbitrary: s k)
  case (Cons p ps)
  define u where "u = exec (onlyif True (copy_one om (k, p))) s"
  have u: "stored E om s u" "tr u = tr s" unfolding u_def copy_one_def prod.case by (rule stored_hdr [OF Cons.prems(1)]; simp)+
  have d: "h_diag (hdrs (glb u) om) = (h_diag (hdrs (glb s) om))[k := p_rxdiag p]"
    using Cons.prems(1) by (simp add: u_def copy_one_def exec_upd_hdr)
  have t: "t = exec (for_each (enumerate (Suc k) ps) (copy_one om)) u" using Cons.prems(3) by (simp add: exec_bind u_def)
  have "\<not> halted u" "length (h_diag (hdrs (glb u) om)) = Suc k + length ps"
    using u(1) Cons.prems(2) by (simp_all add: stored_def d)
  from Cons.IH [OF this t] show ?case
    using u stored_trans [OF u(1)] Cons.prems(2) by (simp add: d take_Suc_conv_app_nth)
qed simp

lemma keeps_header: "(\<And>h. h_diag (f h) = h_diag h) \<Longrightarrow> keeps (\<lambda>g. h_diag (hdrs g om) = v) (upd_hdr om f)"
  unfolding upd_hdr_def by (intro effects) simp

lemma copy_diags_header: "keeps (\<lambda>g. h_diag (hdrs g om) = v) (copy_diags E om i off ds)"
proof (induction ds arbitrary: i off)
  case (Cons d ds)
  then show ?case by simp (intro effects keeps_header; simp)
qed (simp add: keeps_prims)

lemma store_cir_header: "keeps (\<lambda>g. h_diag (hdrs g om) = v) (store_cir E D C om dlen off devs)"
  unfolding store_cir_def store_phases_def by (intro effects keeps_header; simp)

lemma store_diags_run:
  assumes "stores E" and "\<not> halted s" and "length (payload E om (tr s)) = unat off" and "unat off + length (stored_diags D devs) < 2 ^ 16"
    and "length (h_diag (hdrs (glb s) om)) = length (header_diags D)" and "t = exec (store_diags E D om off devs) s"
  shows "result (store_diags E D om off devs) s = Some (off + of_nat (length (stored_diags D devs)))
    \<and> stored E om s t \<and> payload E om (tr t) = payload E om (tr s) @ stored_diags D devs \<and> h_diag (hdrs (glb t) om) = header_diags D"
proof (cases "pdoa_board D")
  case None
  then have d: "stored_diags D devs = diags_of devs" "header_diags D = []" "store_diags E D om off devs = copy_diags E om 0 off devs"
    by (simp_all add: stored_diags_def header_diags_def store_diags_def)
  have "h_diag (hdrs (glb s) om) = []" using assms(5) d(2) by simp
  then have "h_diag (hdrs (glb t) om) = []" unfolding assms(6) d(3) by (rule keepsD [OF copy_diags_header])
  then show ?thesis using copy_diags_run [OF assms(1-3), of devs 0] assms(4,6) by (simp add: d)
next
  case (Some ps)
  then have d: "stored_diags D devs = []" "header_diags D = map p_rxdiag ps"
    "store_diags E D om off devs = do { for_each (enumerate 0 ps) (copy_one om); ret (Some off) }"
    by (simp_all add: stored_diags_def header_diags_def store_diags_def copy_board_def copy_one_def)
  have "t = exec (for_each (enumerate 0 ps) (copy_one om)) s" by (simp add: assms(6) d(3) exec_bind)
  from copy_board_run [OF assms(2) _ this] show ?thesis
    using assms(5) d(2) by (simp add: d result_bind)
qed

text \<open>The phase differences in the header.\<close>

definition header_phases :: "diag_lib \<Rightarrow> cir_lib option \<Rightarrow> lst_dev list \<Rightarrow> cfl list" where
  "header_phases D C devs = (case (C, pdoa_board D) of
     (None, _) \<Rightarrow> replicate (if pdoa_board D = None then 1 else n_instances D devs - 1) (Fin 0)
   | (Some L, None) \<Rightarrow> [if length devs = 2 \<and> cir_valid L (cir (devs ! 0)) \<and> cir_valid L (cir (devs ! 1))
       then cir_get_pdoa L (cir (devs ! 0)) (cir (devs ! 1)) else Fin 0]
   | (Some L, Some ps) \<Rightarrow> map (\<lambda>j. case board_phase L (cir (devs ! 0)) (ps ! 0) (ps ! j) of None \<Rightarrow> Fin 0 | Some x \<Rightarrow> x)
       [1..<length ps])"

lemma phase_at_run:
  assumes "\<not> halted s"
  shows "\<not> halted (exec (phase_at f om j) s)"
    and "h_pd (hdrs (glb (exec (phase_at f om j) s)) om)
      = (case f j of None \<Rightarrow> h_pd (hdrs (glb s) om) | Some x \<Rightarrow> (h_pd (hdrs (glb s) om))[j - 1 := x])"
  using assms by (simp_all add: phase_at_def exec_upd_hdr split: option.split)

lemma phases_loop:
  "\<not> halted s \<Longrightarrow> 0 \<notin> set js \<Longrightarrow> xs = h_pd (hdrs (glb (exec (for_each js (phase_at f om)) s)) om) \<Longrightarrow>
   length xs = length (h_pd (hdrs (glb s) om))
   \<and> (\<forall>i < length xs. xs ! i = (if Suc i \<in> set js then case f (Suc i) of None \<Rightarrow> h_pd (hdrs (glb s) om) ! i | Some x \<Rightarrow> x
       else h_pd (hdrs (glb s) om) ! i))"
proof (induction js arbitrary: s)
  case (Cons j js)
  define t where "t = exec (phase_at f om j) s"
  note t = phase_at_run [OF Cons.prems(1), of f om j]
  have "0 \<notin> set js" "xs = h_pd (hdrs (glb (exec (for_each js (phase_at f om)) t)) om)" "\<not> halted t" "0 < j"
    using Cons.prems t(1) by (simp_all add: exec_bind t_def)
  from Cons.IH [OF this(3,1,2)] this(4) show ?case
    by (cases "f j") (auto simp: t(2) t_def nth_list_update split: option.splits)
qed simp

lemma store_phases_header:
  assumes "\<not> halted s" and "h_pd (hdrs (glb s) om) = header_phases D None devs"
  shows "h_pd (hdrs (glb (exec (store_phases D L om devs) s)) om) = header_phases D (Some L) devs"
proof (cases "pdoa_board D")
  case None
  then show ?thesis using assms by (simp add: store_phases_def header_phases_def exec_upd_hdr)
next
  case (Some ps)
  define f where "f j = board_phase L (cir (devs ! 0)) (ps ! 0) (ps ! j)" for j
  define xs where "xs = h_pd (hdrs (glb (exec (for_each [1..<length ps] (phase_at f om)) s)) om)"
  have h: "h_pd (hdrs (glb s) om) = replicate (length ps - 1) (Fin 0)"
    using assms(2) Some by (simp add: header_phases_def n_instances_def)
  have "xs = map (\<lambda>j. case f j of None \<Rightarrow> Fin 0 | Some x \<Rightarrow> x) [1..<length ps]"
    using phases_loop [OF assms(1) _ xs_def] by (intro nth_equalityI) (auto simp: h split: option.splits)
  then show ?thesis by (simp add: store_phases_board [OF Some] header_phases_def Some xs_def f_def [abs_def])
qed

lemma keeps_phases: "(\<And>h. h_pd (f h) = h_pd h) \<Longrightarrow> keeps (\<lambda>g. h_pd (hdrs g om) = v) (upd_hdr om f)"
  unfolding upd_hdr_def by (intro effects) simp

lemma store_diags_phases: "keeps (\<lambda>g. h_pd (hdrs g om) = v) (store_diags E D om off devs)"
proof -
  have "keeps (\<lambda>g. h_pd (hdrs g om) = v) (copy_diags E om i off ds)" for i off ds
  proof (induction ds arbitrary: i off)
    case (Cons d ds)
    then show ?case by simp (intro effects keeps_phases; simp)
  qed (simp add: keeps_prims)
  then show ?thesis unfolding store_diags_def copy_board_def by (intro effects keeps_phases; simp)
qed

lemma store_cir_phases:
  assumes "\<not> halted s" and "h_pd (hdrs (glb s) om) = header_phases D None devs"
  shows "h_pd (hdrs (glb (exec (store_cir E D C om dlen off devs) s)) om) = header_phases D C devs"
proof (cases C)
  case (Some L)
  define t where "t = exec (upd_hdr om (\<lambda>h. h\<lparr>h_cir_offset := off\<rparr>)) s"
  define rest :: "(lstnr_globals, unit) prog" where "rest = do { a \<leftarrow> gets acc_samples_to_load;
     onlyif (a \<noteq> 0) (for_each (enumerate 0 (accumulators D devs)) (\<lambda>(i, src). do {
       rc \<leftarrow> ask E (Os (MbufCopyInto om (unat dlen + i * CIR_BYTES L) src)); c_assert (rc = 0) })) }"
  have e: "exec (store_cir E D C om dlen off devs) s = exec rest (exec (store_phases D L om devs) t)"
    by (simp add: store_cir_def Some rest_def exec_bind t_def)
  have "\<not> halted t" "h_pd (hdrs (glb t) om) = header_phases D None devs"
    using assms by (simp_all add: t_def exec_upd_hdr)
  from store_phases_header [OF this] have "h_pd (hdrs (glb (exec (store_phases D L om devs) t)) om) = header_phases D C devs"
    by (simp add: Some)
  moreover have "keeps (\<lambda>g. h_pd (hdrs g om) = header_phases D C devs) rest" unfolding rest_def by (intro effects)
  ultimately show ?thesis
    using keepsD [where I = "\<lambda>g. h_pd (hdrs g om) = header_phases D C devs" and p = rest] by (simp only: e)
qed (simp add: store_cir_def assms(2))

text \<open>A frame that is stored: one message more, which holds the frame and what was measured with it.\<close>

definition frame_of :: "lst_dev \<Rightarrow> u8 list" where
  "frame_of inst = take (d_frame_len inst) (d_rxbuf inst)"

definition fits :: "diag_lib \<Rightarrow> cir_lib option \<Rightarrow> lst_dev list \<Rightarrow> lst_dev \<Rightarrow> bool" where
  "fits D C devs inst \<longleftrightarrow> d_frame_len inst \<le> length (d_rxbuf inst) \<and> d_frame_len inst + length (stored_diags D devs) < 2 ^ 16
     \<and> (\<forall>L. C = Some L \<longrightarrow> (\<forall>c \<in> set (accumulators D devs). length c = CIR_BYTES L))"

lemma exec_utime: "\<not> halted s \<Longrightarrow> exec (utime E) s = s\<lparr>tr := Os (TicksToUsecs (word_of_int (eint E (tr s) (Os CputimeGet32)))) # Os CputimeGet32 # tr s\<rparr>"
  by (simp add: utime_def exec_def run_simps)

lemma store_frame_run:
  assumes "stores E" and "fits D C devs inst" and "loud C s"
  obtains om t where "exec (store_frame E D C devs inst) s = t" and "om \<noteq> 0" and "loud C t"
    and "payload E om (tr t) = message_bytes C (acc_samples_to_load (glb s)) (frame_of inst) (stored_diags D devs) (accumulators D devs)"
    and "queued E (tr t) = queued E (tr s) @ [om]" and "console (tr t) = console (tr s)"
    and "print_buffer (glb t) = print_buffer (glb s)" and "diag_buffer (glb t) = diag_buffer (glb s)"
    and "unat (h_dlen (hdrs (glb t) om)) = length (frame_of inst)"
    and "unat (h_diag_offset (hdrs (glb t) om)) = length (frame_of inst)"
    and "h_diag (hdrs (glb t) om) = header_diags D" and "h_pd (hdrs (glb t) om) = header_phases D C devs"
proof -
  define om where "om = eint E (tr s) (Os (MbufGet 0 (HDR_SIZE D)))"
  define dlen where "dlen = (of_nat (d_frame_len inst) :: u16)"
  have d: "unat dlen = d_frame_len inst" using assms(2) by (simp add: dlen_def fits_def unat_of_nat)
  have l: "length (frame_of inst) = d_frame_len inst" using assms(2) by (simp add: frame_of_def fits_def)
  have h: "\<not> halted s" using assms(3) by (simp add: loud_def)
  define s1 where "s1 = s\<lparr>tr := Os (MbufGet 0 (HDR_SIZE D)) # tr s\<rparr>"
  define s2 where "s2 = exec (utime E) s1"
  define u where "u = result (utime E) s1"
  define s3 where "s3 = s2\<lparr>glb := (glb s2)\<lparr>hdrs := (hdrs (glb s2))(om := new_hdr D u dlen (carrier_integrator inst) (n_instances D devs))\<rparr>\<rparr>"
  define s4 where "s4 = s3\<lparr>tr := Os (MbufCopyInto om 0 (frame_of inst)) # tr s3\<rparr>"
  have c: "eint E k (Os (MbufCopyInto om off bs)) = 0" "eint E k (Os (MqPut om)) = 0" "om \<noteq> 0" for k off bs
    using assms(1) by (simp_all add: stores_def mbufs_free_def om_def)
  have s4: "\<not> halted s4" "glb s4 = (glb s)\<lparr>hdrs := (hdrs (glb s))(om := new_hdr D u dlen (carrier_integrator inst) (n_instances D devs))\<rparr>"
    "queued E (tr s4) = queued E (tr s)" "console (tr s4) = console (tr s)" "payload E om (tr s4) = frame_of inst"
    using h c by (simp_all add: s4_def s3_def s2_def s1_def exec_utime om_def)
  define off where "off = dlen + of_nat (length (stored_diags D devs))"
  define s5 where "s5 = exec (store_diags E D om dlen devs) s4"
  define t where "t = exec (store_cir E D C om dlen off devs) s5"
  have "length (h_diag (hdrs (glb s4) om)) = length (header_diags D)"
    by (cases "pdoa_board D") (simp_all add: s4(2) new_hdr_def header_diags_def n_instances_def)
  then have s5: "result (store_diags E D om dlen devs) s4 = Some off" "stored E om s4 s5"
    "payload E om (tr s5) = frame_of inst @ stored_diags D devs" "h_diag (hdrs (glb s5) om) = header_diags D"
    using store_diags_run [OF assms(1) s4(1) _ _ _ s5_def] assms(2) by (simp_all add: s5_def s4 d l off_def fits_def)
  have ht: "h_diag (hdrs (glb t) om) = header_diags D"
    unfolding t_def by (rule keepsD [OF store_cir_header s5(4)])
  have "h_pd (hdrs (glb s4) om) = header_phases D None devs" by (simp add: s4(2) new_hdr_def header_phases_def)
  then have "h_pd (hdrs (glb s5) om) = header_phases D None devs" unfolding s5_def by (rule keepsD [OF store_diags_phases])
  then have hp: "h_pd (hdrs (glb t) om) = header_phases D C devs"
    using s5(2) unfolding t_def by (intro store_cir_phases) (simp add: stored_def)
  from s5 have "\<not> halted s5" "acc_samples_to_load (glb s5) = acc_samples_to_load (glb s)" by (simp_all add: stored_def s4(2))
  moreover have "length (frame_of inst) = unat dlen" using d l by simp
  moreover have "\<forall>c \<in> set (accumulators D devs). length c = CIR_BYTES L" if "C = Some L" for L using assms(2) that by (simp add: fits_def)
  ultimately have "stored E om s5 t"
    "payload E om (tr t) = message_bytes C (acc_samples_to_load (glb s)) (frame_of inst) (stored_diags D devs) (accumulators D devs)"
    using store_cir_run [OF assms(1) _ s5(3), of dlen C D devs off] by (simp_all add: t_def)
  then have t: "stored E om s4 t"
    "payload E om (tr t) = message_bytes C (acc_samples_to_load (glb s)) (frame_of inst) (stored_diags D devs) (accumulators D devs)"
    using stored_trans [OF s5(2)] by simp_all
  have "exec (store_frame E D C devs inst) s = t\<lparr>tr := Os (MqPut om) # tr t\<rparr>"
  proof -
    have "\<not> halted s1" "\<not> halted s2" "\<not> halted s3" "\<not> halted t"
      using h t(1) by (simp_all add: s3_def s2_def s1_def exec_utime stored_def)
    then show ?thesis
      using h c s5(1) d by (simp add: store_frame_def exec_bind exec_ask exec_act exec_upd_hdr result_bind Let_def
          om_def [symmetric] dlen_def [symmetric] s1_def [symmetric] s2_def [symmetric] u_def [symmetric]
          s3_def [symmetric] frame_of_def [symmetric] s4_def [symmetric] s5_def [symmetric] t_def [symmetric])
  qed
  moreover have "loud C (t\<lparr>tr := Os (MqPut om) # tr t\<rparr>)" using assms(3) t(1) s4(2) by (simp add: loud_def stored_def flag_def)
  ultimately show thesis
    using that [of "t\<lparr>tr := Os (MqPut om) # tr t\<rparr>" om] t s4 c d l ht hp by (simp add: stored_def new_hdr_def)
qed


section \<open>From the frame to the line\<close>

text \<open>The frames the callback stores: all of them with one radio; with two, those the second one
  reports when both hold the same bytes.\<close>

definition heard :: "lst_dev list \<Rightarrow> lst_dev \<Rightarrow> bool" where
  "heard devs inst \<longleftrightarrow> (length devs = 2 \<longrightarrow> d_idx inst = d_idx (devs ! 1)
     \<and> take (d_frame_len (devs ! 0)) (d_rxbuf (devs ! 0)) = take (d_frame_len (devs ! 0)) (d_rxbuf (devs ! 1)))"

text \<open>What the callback does before it stores the frame concerns the receivers only.\<close>

definition before_store :: "cir_lib option \<Rightarrow> lst_dev list \<Rightarrow> (lstnr_globals, unit) prog" where
  "before_store C devs = onlyif (length devs = 2 \<and> C \<noteq> None) (do {
     act (Os (CalloutStop RxReenableCallout)); restart_receivers True 0xFFFF 2 })"

lemma rx_heard:
  "heard devs inst \<Longrightarrow> rx_complete_cb_lst E D C devs inst = do { before_store C devs; store_frame E D C devs inst }"
  by (auto simp: heard_def rx_complete_cb_lst_def before_store_def)

lemma before_store_effects:
  "emits silent_call (before_store C devs)" "emits no_queue (before_store C devs)" "keeps I (before_store C devs)"
  "runs_on (before_store C devs)"
  unfolding before_store_def restart_receivers_def by (intro effects; simp)+

lemma before_store_run:
  assumes "loud C s" and "u = exec (before_store C devs) s"
  shows "loud C u" and "glb u = glb s" and "queued E (tr u) = queued E (tr s)" and "console (tr u) = console (tr s)"
proof -
  show g: "glb u = glb s"
    using keepsD [OF before_store_effects(3) [of "\<lambda>g. g = glb s"], of s C devs] by (simp add: assms(2))
  have "\<not> halted u" using assms runs_onD [OF before_store_effects(4), of s C devs] by (simp add: loud_def)
  then show "loud C u" using assms(1) g by (simp add: loud_def)
  show "queued E (tr u) = queued E (tr s)" "console (tr u) = console (tr s)"
    unfolding assms(2) by (rule emits_queued emits_silent; rule before_store_effects)+
qed

lemma message_line:
  assumes "printing_ok E C n" and "loud C t"
  obtains w v y where "concat (console (tr (exec (print_message E D C m om h n) t))) = concat (console (tr t)) @ w"
    and "json_text w \<longleftrightarrow> \<not> glued E n" and "C = None \<longrightarrow> y = []"
    and "w = v @ '',\"d\":\"'' @ hex (map (\<lambda>i. print_buffer (glb t) ! i) [0..<min print_size (unat (h_dlen h))]) @ ''\"'' @ y
      @ ''}'' @ [CHR 0x0A]"
proof -
  have ok: "appends E" "ub_nonneg E" "cir_ok C" "0 < n" "glued E n \<or> separate E n" using assms(1) by (simp_all add: printing_ok_def)
  define u where "u = exec (print_front E D m om h n) t"
  have pb: "print_buffer (glb u) = print_buffer (glb t)"
    using keepsD [of "\<lambda>g. print_buffer g = print_buffer (glb t)" "print_front E D m om h n" t] keeps_print_buffer
    unfolding print_front_def u_def by (simp add: keeps_bind)
  have "prints C {Some ([], Val)} (print_front E D m om h n) {None} \<or> prints C {Some ([], Val)} (print_front E D m om h n) (nums [Obj])"
    using ok(5) unfolding print_front_def
    by (auto intro: prints_bind [OF prints_head [OF ok(1,4)] prints_bind [OF quiet_tmp
          prints_bind [OF prints_levels [OF ok(1,4)] prints_bind [OF prints_carrier [OF ok(1,2)]]]]]
        prints_glued [OF ok(1)] prints_phases [OF ok(1,4)])
  then obtain v where v: "loud C u" "concat (console (tr u)) = concat (console (tr t)) @ v"
    using assms(2) unfolding u_def by (auto elim!: printsD)
  note d = data_printed [OF ok(1) v(1), of m h]
  obtain y where y: "loud C (exec (print_cirs E C m om h n) (exec (print_data E m h) u))"
    "concat (console (tr (exec (print_cirs E C m om h n) (exec (print_data E m h) u))))
      = concat (console (tr (exec (print_data E m h) u))) @ y" "C = None \<Longrightarrow> y = []"
    using cirs_printed [OF ok(1-4) conjunct1 [OF d]] by metis
  have "prints C {Some ([], Val)} (print_message E D C m om h n) (line_states E n)" by (rule prints_message [OF ok])
  then obtain w where w: "concat (console (tr (exec (print_message E D C m om h n) t))) = concat (console (tr t)) @ w"
    "jrun ([], Val) w \<in> line_states E n"
    using printsD assms(2) by (metis insertI1 jfeed_simps(2))
  have "json_text w \<longleftrightarrow> \<not> glued E n" using w(2) by (simp add: line_states_def json_text_def split: if_splits)
  moreover have "w = v @ '',\"d\":\"'' @ hex (map (\<lambda>i. print_buffer (glb t) ! i) [0..<min print_size (unat (h_dlen h))])
      @ ''\"'' @ y @ ''}'' @ [CHR 0x0A]"
    using w(1) message_front [of E D C m om h n t] end_printed [OF ok(1) y(1)] d y(2) v(2) pb by (simp flip: u_def)
  ultimately show thesis using w(1) that y(3) by blast
qed

lemma overlay_front: "i < length bs \<Longrightarrow> overlay xs 0 bs ! i = bs ! i"
  by (simp add: overlay_def nth_append)

lemma map_nth_take: "k \<le> length xs \<Longrightarrow> map ((!) xs) [0..<k] = take k xs"
  by (rule nth_equalityI) simp_all

text \<open>The queue that holds one message: the loop prints it and ends.\<close>

lemma only_message:
  assumes "queue_ok E" and "loud C s" and "queued E (tr s) = [om]" and "om \<noteq> 0" and "2 \<le> k"
    and "p = s\<lparr>tr := Os MqGet # Sys ''hal_gpio_init_out LED_BLINK_PIN'' [0] # tr s\<rparr>"
    and "u = exec (process_one E D C False n om) p" and "loud C u" and "queued E (tr u) = []"
  shows "console (tr (exec (process_rx_data_queue_lst k E D C False n) s)) = console (tr u)"
    and "loud C (exec (process_rx_data_queue_lst k E D C False n) s)"
    and "queued E (tr (exec (process_rx_data_queue_lst k E D C False n) s)) = []"
proof -
  obtain j where j: "k = Suc (Suc j)" using assms(5) by (metis Suc_le_D numeral_2_eq_2 Suc_le_mono)
  have "eint E (Sys ''hal_gpio_init_out LED_BLINK_PIN'' [0] # tr s) (Os MqGet) = om" "eint E (tr u) (Os MqGet) = 0"
    using assms(1,3,9) by (simp_all add: queue_ok_def)
  then have "exec (process_rx_data_queue_lst k E D C False n) s
      = u\<lparr>tr := Sys ''hal_gpio_init_out LED_BLINK_PIN'' [1] # Os MqGet # tr u\<rparr>"
    using assms(2,4,8) by (simp add: process_rx_data_queue_lst_def led_init_def exec_bind result_bind exec_act exec_ask j
        assms(6) [symmetric] assms(7) [symmetric] loud_def)
  then show "console (tr (exec (process_rx_data_queue_lst k E D C False n) s)) = console (tr u)"
    "loud C (exec (process_rx_data_queue_lst k E D C False n) s)"
    "queued E (tr (exec (process_rx_data_queue_lst k E D C False n) s)) = []"
    using assms(8,9) by (simp_all add: loud_def)
qed

text \<open>The front of the message in the print buffer is the frame.\<close>

lemma buffer_front:
  assumes "b = overlay xs 0 (take print_size (f @ rest))"
  shows "map ((!) b) [0..<min print_size (length f)] = take print_size f"
proof -
  have "b ! i = take print_size f ! i" if "i < min print_size (length f)" for i
    using that by (subst assms, subst overlay_front) (auto simp: nth_append)
  then have "map ((!) b) [0..<min print_size (length f)] = map ((!) (take print_size f)) [0..<min print_size (length f)]"
    by (intro map_cong) simp_all
  then show ?thesis by (simp add: map_nth_take) (simp add: min_def)
qed

text \<open>The line of frame \<open>f\<close>.\<close>

definition frame_line :: "env \<Rightarrow> cir_lib option \<Rightarrow> nat \<Rightarrow> u8 list \<Rightarrow> string \<Rightarrow> bool" where
  "frame_line E C n f w \<longleftrightarrow> (json_text w \<longleftrightarrow> \<not> glued E n) \<and>
     (\<exists>v x y. w = v @ '',\"d\":\"'' @ x @ ''\"'' @ y @ ''}'' @ [CHR 0x0A] \<and> unhex x = take print_size f \<and> (C = None \<longrightarrow> y = []))"

lemma message_printed:
  assumes "printing_ok E C n" and "loud C s1" and "queued E (tr s1) = [om]" and "om \<noteq> 0"
    and "payload E om (tr s1) = f @ rest" and "unat (h_dlen (hdrs (glb s1) om)) = length f"
    and "t = exec (process_rx_data_queue_lst 2 E D C False n) s1"
  obtains w where "concat (console (tr t)) = concat (console (tr s1)) @ w" and "frame_line E C n f w"
    and "loud C t" and "queued E (tr t) = []"
proof -
  define s2 where "s2 = s1\<lparr>tr := Os MqGet # Sys ''hal_gpio_init_out LED_BLINK_PIN'' [0] # tr s1\<rparr>"
  have s2: "loud C s2" "queued E (tr s2) = []" "console (tr s2) = console (tr s1)" "glb s2 = glb s1"
    "payload E om (tr s2) = f @ rest"
    using assms(2,3,5) by (simp_all add: s2_def loud_def)
  have ok: "queue_ok E" "appends E" "ub_nonneg E" "cir_ok C" "eint E h (Os (MbufGet a b)) \<noteq> 0" "0 < n" "glued E n \<or> separate E n" for h a b
    using assms(1) by (simp_all add: printing_ok_def mbufs_free_def)
  obtain m s3 where s3: "loud C s3" "console (tr s3) = console (tr s2)"
    "print_buffer (glb s3) = overlay (print_buffer (glb s2)) 0 (take print_size (payload E om (tr s2)))"
    "loud C (exec (print_message E D C m om (hdrs (glb s2) om) n) s3)"
    "exec (process_one E D C False n om) s2 = (let u = exec (print_message E D C m om (hdrs (glb s2) om) n) s3 in
      u\<lparr>glb := (glb u)\<lparr>print_buffer := replicate print_size 0\<rparr>, tr := Os (MbufFree om) # Os (MbufFree m) # tr u\<rparr>)"
    using process_one_run [OF ok s2(1)] by metis
  obtain w v y where w: "concat (console (tr (exec (print_message E D C m om (hdrs (glb s2) om) n) s3))) = concat (console (tr s3)) @ w"
    "json_text w \<longleftrightarrow> \<not> glued E n" "C = None \<longrightarrow> y = []"
    "w = v @ '',\"d\":\"'' @ hex (map (\<lambda>i. print_buffer (glb s3) ! i)
      [0..<min print_size (unat (h_dlen (hdrs (glb s2) om)))]) @ ''\"'' @ y @ ''}'' @ [CHR 0x0A]"
    by (rule message_line [OF assms(1) s3(1)])
  define s4 where "s4 = exec (process_one E D C False n om) s2"
  have s4: "loud C s4" "queued E (tr s4) = []" "concat (console (tr s4)) = concat (console (tr s1)) @ w"
    using s3 s2 w(1) emits_queued [OF process_one_no_queue, of E E D C False n om s2]
    by (simp_all add: s4_def Let_def loud_def flag_def)
  have "map (\<lambda>i. print_buffer (glb s3) ! i) [0..<min print_size (unat (h_dlen (hdrs (glb s2) om)))] = take print_size f"
    using buffer_front [of "print_buffer (glb s3)" "print_buffer (glb s2)" f rest] by (simp add: s3(3) s2(4,5) assms(6))
  then have "frame_line E C n f w" using w(2-4) unfolding frame_line_def by (metis unhex_hex)
  then show thesis
    using that only_message [OF ok(1) assms(2,3,4) le_refl s2_def s4_def s4(1,2)] s4(3) by (simp add: assms(7))
qed

text \<open>A frame that is heard and then printed.\<close>

fun hearable :: "env \<Rightarrow> cir_lib option \<Rightarrow> diag_lib \<times> lst_dev list \<times> lst_dev \<Rightarrow> bool" where
  "hearable E C (D, devs, inst) \<longleftrightarrow> printing_ok E C (n_instances D devs) \<and> fits D C devs inst \<and> heard devs inst"

fun line_of :: "env \<Rightarrow> cir_lib option \<Rightarrow> diag_lib \<times> lst_dev list \<times> lst_dev \<Rightarrow> string \<Rightarrow> bool" where
  "line_of E C (D, devs, inst) w \<longleftrightarrow> frame_line E C (n_instances D devs) (frame_of inst) w"

fun hear_all :: "env \<Rightarrow> cir_lib option \<Rightarrow> (diag_lib \<times> lst_dev list \<times> lst_dev) list \<Rightarrow> (lstnr_globals, unit) prog" where
  "hear_all E C [] = ret ()"
| "hear_all E C ((D, devs, inst) # xs) = do {
     b \<leftarrow> rx_complete_cb_lst E D C devs inst;
     done \<leftarrow> process_rx_data_queue_lst 2 E D C False (n_instances D devs);
     hear_all E C xs
   }"

lemma frame_heard:
  assumes "stores E" and "loud C s" and "queued E (tr s) = []" and "hearable E C (D, devs, inst)"
    and "t = exec (do { b \<leftarrow> rx_complete_cb_lst E D C devs inst; process_rx_data_queue_lst 2 E D C False (n_instances D devs) }) s"
  obtains w where "concat (console (tr t)) = concat (console (tr s)) @ w" and "line_of E C (D, devs, inst) w"
    and "loud C t" and "queued E (tr t) = []"
proof -
  have x: "printing_ok E C (n_instances D devs)" "fits D C devs inst" "heard devs inst" using assms(4) by simp_all
  define s0 where "s0 = exec (before_store C devs) s"
  note s0 = before_store_run [OF assms(2) s0_def]
  obtain om s1 where s1: "exec (store_frame E D C devs inst) s0 = s1" "om \<noteq> 0" "loud C s1"
    "payload E om (tr s1) = message_bytes C (acc_samples_to_load (glb s0)) (frame_of inst) (stored_diags D devs) (accumulators D devs)"
    "queued E (tr s1) = [om]" "console (tr s1) = console (tr s)"
    "unat (h_dlen (hdrs (glb s1) om)) = length (frame_of inst)"
    using store_frame_run [OF assms(1) x(2) s0(1)] assms(3) s0(3,4) by (metis append_Nil)
  then obtain rest where p1: "payload E om (tr s1) = frame_of inst @ rest" by (simp add: message_bytes_def)
  have "t = exec (process_rx_data_queue_lst 2 E D C False (n_instances D devs)) s1"
    by (simp add: assms(5) rx_heard [OF x(3)] exec_bind s0_def [symmetric] s1(1))
  from message_printed [OF x(1) s1(3,5,2) p1 s1(7) this] show thesis using that s1(6) by (metis line_of.simps)
qed

text \<open>C4: Whatever frames the listener hears, each is one line on its console that holds the frame in
  hexadecimal: reading the digits back gives the bytes of the frame, up to the size of the
  print buffer; no line holds anything of an earlier frame, and the listener is ready for the
  next. In a build without accumulators the line ends with the digits.\<close>

theorem listener_frame_to_console:
  assumes "stores E" and "loud C s" and "queued E (tr s) = []" and "list_all (hearable E C) xs"
    and "t = exec (hear_all E C xs) s"
  shows "\<exists>ws. list_all2 (line_of E C) xs ws \<and> concat (console (tr t)) = concat (console (tr s)) @ concat ws
    \<and> loud C t \<and> queued E (tr t) = []"
  using assms(2-5)
proof (induction xs arbitrary: s)
  case Nil
  then show ?case by simp
next
  case (Cons x xs)
  obtain D devs inst where x: "x = (D, devs, inst)" by (cases x)
  define u where "u = exec (do { b \<leftarrow> rx_complete_cb_lst E D C devs inst;
      process_rx_data_queue_lst 2 E D C False (n_instances D devs) }) s"
  obtain w where w: "concat (console (tr u)) = concat (console (tr s)) @ w" "line_of E C x w" "loud C u" "queued E (tr u) = []"
    using frame_heard [OF assms(1) Cons.prems(1,2) _ u_def] Cons.prems(3) unfolding x by (metis list.pred_inject(2))
  have "t = exec (hear_all E C xs) u" using Cons.prems(4) by (simp add: x u_def exec_bind)
  then obtain ws where "list_all2 (line_of E C) xs ws" "concat (console (tr t)) = concat (console (tr u)) @ concat ws"
    "loud C t" "queued E (tr t) = []"
    using Cons.IH [OF w(3,4)] Cons.prems(3) by auto
  with w(1,2) show ?case by (intro exI [of _ "w # ws"]) simp
qed

definition sample_dev :: lst_dev where
  "sample_dev = \<lparr>d_idx = 0, d_fctrl = 0, d_rxtimestamp = 77, d_rxbuf = [1, 2, 0xAB, 0], d_frame_len = 3,
     d_my_short_address = 5, rxdiag = [10, 11, 12, 13, 14], lde_error = False, rx_restarted = False,
     carrier_integrator = 9, cir = [250, 2, 3, 4]\<rparr>"

lemma sample_frame:
  "cir_ok C \<Longrightarrow> printing_ok calm_env C (n_instances sample_diag [sample_dev])" "stores calm_env"
  "loud None (boot lstnr0)" "loud (Some sample_cir) (boot lstnr0)"
  "fits sample_diag None [sample_dev] sample_dev" "fits sample_diag (Some sample_cir) [sample_dev] sample_dev" "heard [sample_dev] sample_dev"
  "n_instances sample_diag [sample_dev] = 1" "frame_of sample_dev = [1, 2, 0xAB]" "diags_of [sample_dev] = [10, 11, 12, 13, 14]" "queued calm_env (tr (boot lstnr0)) = []"
  using calm_printing [of C] calm_printing [of None]
  by (simp_all add: stores_def printing_ok_def loud_def flag_def lstnr0_def VERBOSE_NOT_TO_CONSOLE_def sample_cir_def
      fits_def heard_def diags_of_def stored_diags_def accumulators_def n_instances_def sample_diag_def sample_dev_def frame_of_def)

theorem listener_frame_to_console_witness:
  "\<exists>v w. concat (console (tr (exec (hear_all calm_env (Some sample_cir)
      [(sample_diag, [sample_dev], sample_dev), (sample_diag, [sample_dev], sample_dev)]) (boot lstnr0)))) = v @ w
    \<and> json_text v \<and> frame_line calm_env (Some sample_cir) 1 [1, 2, 0xAB] w"
proof -
  let ?x = "(sample_diag, [sample_dev], sample_dev)"
  have h: "list_all (hearable calm_env (Some sample_cir)) [?x, ?x]"
    using sample_frame(1) [OF sample_cir_ok(2)] sample_frame(6,7) by simp
  obtain ws where ws: "list_all2 (line_of calm_env (Some sample_cir)) [?x, ?x] ws"
    "concat (console (tr (exec (hear_all calm_env (Some sample_cir) [?x, ?x]) (boot lstnr0)))) = concat ws"
    using listener_frame_to_console [OF sample_frame(2,4,11) h refl] by (auto simp del: hear_all.simps)
  then obtain v w where "ws = [v, w]" "line_of calm_env (Some sample_cir) ?x v" "line_of calm_env (Some sample_cir) ?x w"
    by (auto simp: list_all2_Cons1 simp del: line_of.simps)
  moreover have "\<not> glued calm_env 1" by (simp add: glued_def)
  ultimately show ?thesis using ws(2) sample_frame(8,9) by (intro exI [of _ v] exI [of _ w]) (simp add: frame_line_def del: hear_all.simps)
qed


section \<open>Where the diagnostics are looked for\<close>

lemma overlay_Nil [simp]: "overlay xs 0 [] = xs"
  by (simp add: overlay_def)

text \<open>A message that has been stored.\<close>

lemma heard_message:
  assumes "stores E" and "loud C s" and "fits D C devs inst" and "heard devs inst" and "queued E (tr s) = []"
    and "t = exec (rx_complete_cb_lst E D C devs inst) s"
  obtains om where "queued E (tr t) = [om]" and "loud C t" and "diag_buffer (glb t) = diag_buffer (glb s)"
    and "payload E om (tr t) = message_bytes C (acc_samples_to_load (glb s)) (frame_of inst) (stored_diags D devs) (accumulators D devs)"
    and "unat (h_dlen (hdrs (glb t) om)) = length (frame_of inst)"
    and "unat (h_diag_offset (hdrs (glb t) om)) = length (frame_of inst)"
    and "h_diag (hdrs (glb t) om) = header_diags D" and "h_pd (hdrs (glb t) om) = header_phases D C devs"
proof -
  define s0 where "s0 = exec (before_store C devs) s"
  note s0 = before_store_run [OF assms(2) s0_def]
  have "t = exec (store_frame E D C devs inst) s0"
    by (simp add: assms(6) rx_heard [OF assms(4)] exec_bind s0_def)
  with store_frame_run [OF assms(1,3) s0(1)] show thesis
    using that s0(2,3) assms(5) by (metis append_Nil)
qed

text \<open>C31: In a message that holds the diagnostics the printing code looks for them one frame length
  too far: both the header's offset and the length of the frame are added. Of the first radio's
  diagnostics it reads what follows their first bytes, as many as the frame has. When the frame
  is at least as long as all diagnostics nothing is read, and the levels printed are those of an
  earlier message. On the board, whose header holds them, those of each radio are found.\<close>

theorem listener_diag_misplaced:
  assumes "stores E" and "queue_ok E" and "loud C s" and "fits D C devs inst" and "heard devs inst" and "queued E (tr s) = []"
    and "C = None \<or> acc_samples_to_load (glb s) = 0"
    and "t = exec (rx_complete_cb_lst E D C devs inst) s" and "queued E (tr t) = [om]"
    and "diag_buffer (glb s) = b"
  shows "(pdoa_board D = None \<longrightarrow> result (diag_of E D om (hdrs (glb t) om) 0) t =
        (let x = drop (length (frame_of inst)) (diags_of devs); c = overlay b 0 (take (DIAG_SIZE D) x)
         in overlay c 0 (take (rxd_len D c) x))
      \<and> (length (diags_of devs) \<le> length (frame_of inst) \<longrightarrow> result (diag_of E D om (hdrs (glb t) om) j) t = b))
    \<and> (\<forall>ps. pdoa_board D = Some ps \<and> j < length ps \<longrightarrow> result (diag_of E D om (hdrs (glb t) om) j) t = p_rxdiag (ps ! j))"
proof -
  obtain om' where t: "queued E (tr t) = [om']" "loud C t" "diag_buffer (glb t) = b"
    "payload E om' (tr t) = message_bytes C (acc_samples_to_load (glb s)) (frame_of inst) (stored_diags D devs) (accumulators D devs)"
    "unat (h_dlen (hdrs (glb t) om')) = length (frame_of inst)"
    "unat (h_diag_offset (hdrs (glb t) om')) = length (frame_of inst)" "h_diag (hdrs (glb t) om') = header_diags D"
    using heard_message [OF assms(1,3-6,8)] assms(10) by metis
  then have om: "om' = om" using assms(9) by simp
  let ?n = "length (frame_of inst)" and ?d = "stored_diags D devs"
  have h: "\<not> halted t" using t(2) by (simp add: loud_def)
  have e: "ebytes E k (Os (MbufCopyData om off m)) = take m (drop off (payload E om k))" for k off m
    using assms(2) by (simp add: queue_ok_def)
  have p: "payload E om (tr t) = frame_of inst @ ?d"
    using t(4) om assms(7) by (auto simp: message_bytes_def)
  have r: "result (fetch_diag E D om (hdrs (glb t) om) i) t =
      (let c = overlay b 0 (take (DIAG_SIZE D) (drop (?n + i * DIAG_MAXLEN D) ?d))
       in overlay c 0 (take (rxd_len D c) (drop (?n + i * rxd_len D c) ?d)))" for i
    using h t(3,5,6) om by (simp add: fetch_diag_def exec_bind result_bind exec_ask_bytes exec_upd e p Let_def)
  show ?thesis using r [of 0] r [of j] t(7) om by (auto simp: Let_def diag_of_def stored_diags_def header_diags_def)
qed

text \<open>A build for the board, with two radios that received the frame, the second one at another edge.\<close>

definition sample_board :: diag_lib where
  "sample_board = sample_diag\<lparr>pdoa_board := Some
     [\<lparr>p_rxdiag = [1, 2], p_ts = 5, p_crc16 = 3, p_length = 4, p_cir = [1, 2, 3, 4]\<rparr>,
      \<lparr>p_rxdiag = [7, 8], p_ts = 6, p_crc16 = 3, p_length = 4, p_cir = [5, 6, 7, 8]\<rparr>]\<rparr>"

lemma sample_board_fits: "fits sample_board C [sample_dev] sample_dev \<longleftrightarrow> (\<forall>L. C = Some L \<longrightarrow> CIR_BYTES L = 4)"
  by (auto simp: fits_def stored_diags_def accumulators_def sample_board_def sample_dev_def upt_conv_Cons)

theorem listener_diag_misplaced_witness:
  "(\<exists>om. let t = exec (rx_complete_cb_lst calm_env sample_diag None [sample_dev] sample_dev) (boot lstnr0)
      in queued calm_env (tr t) = [om] \<and> result (diag_of calm_env sample_diag om (hdrs (glb t) om) 0) t = [13, 14])
   \<and> (\<exists>om. let t = exec (rx_complete_cb_lst calm_env sample_board None [sample_dev] sample_dev) (boot lstnr0)
      in queued calm_env (tr t) = [om] \<and> result (diag_of calm_env sample_board om (hdrs (glb t) om) 1) t = [7, 8])"
proof -
  define t where "t D = exec (rx_complete_cb_lst calm_env D None [sample_dev] sample_dev) (boot lstnr0)" for D
  have fits: "fits sample_board None [sample_dev] sample_dev" by (simp add: sample_board_fits)
  obtain om where om: "queued calm_env (tr (t sample_diag)) = [om]"
    using heard_message [OF sample_frame(2,3,5,7,11) t_def] by metis
  obtain ob where ob: "queued calm_env (tr (t sample_board)) = [ob]"
    using heard_message [OF sample_frame(2,3) fits sample_frame(7,11) t_def] by metis
  have b: "diag_buffer (glb (boot lstnr0)) = []" by (simp add: lstnr0_def)
  from listener_diag_misplaced [OF sample_frame(2) calm_queue sample_frame(3,5,7,11) disjI1 [OF refl] t_def om b, of 0]
  have 1: "result (diag_of calm_env sample_diag om (hdrs (glb (t sample_diag)) om) 0) (t sample_diag) = [13, 14]"
    by (simp add: sample_frame sample_diag_def overlay_def)
  from listener_diag_misplaced [OF sample_frame(2) calm_queue sample_frame(3) fits sample_frame(7,11) disjI1 [OF refl] t_def ob b, of 1]
  have 2: "result (diag_of calm_env sample_board ob (hdrs (glb (t sample_board)) ob) 1) (t sample_board) = [7, 8]"
    by (simp add: sample_board_def)
  show ?thesis using om ob 1 2 unfolding Let_def t_def by blast
qed

end
