(* ===== verification/Listener_Cir.thy ===== *)
theory Listener_Cir
  imports Listener_Frame
begin

text \<open>
  A listener that keeps the accumulators: what a message holds of them and of the diagnostics,
  and how many samples can be asked for.
\<close>

section \<open>What the message holds\<close>

lemma concat_slice:
  "j < length xss \<Longrightarrow> \<forall>xs \<in> set xss. length xs = n \<Longrightarrow> take n (drop (j * n) (concat xss @ ys)) = xss ! j"
proof (induction xss arbitrary: j)
  case (Cons xs xss)
  then show ?case by (cases j) simp_all
qed simp

lemma concat_length: "\<forall>xs \<in> set xss. length xs = n \<Longrightarrow> length (concat xss) = length xss * n"
  by (induction xss) simp_all

lemma quiet_samples: "keeps (\<lambda>g. tmp_cir g = v) (print_samples E L m part)"
  unfolding print_samples_def c_assert_def by (intro effects)

lemma print_cir_loads:
  assumes "queue_ok E" and "\<not> halted s"
  shows "tmp_cir (glb (exec (print_cir_of E L m om h j) s))
    = overlay (tmp_cir (glb s)) 0 (take (CIR_BYTES L) (drop (unat (h_dlen h) + j * CIR_BYTES L) (payload E om (tr s))))"
proof -
  define c where "c = Os (MbufCopyData om (unat (h_dlen h) + j * CIR_BYTES L) (CIR_BYTES L))"
  define v where "v = overlay (tmp_cir (glb s)) 0 (take (CIR_BYTES L) (drop (unat (h_dlen h) + j * CIR_BYTES L) (payload E om (tr s))))"
  define rest where "rest = do {
     b \<leftarrow> gets tmp_cir;
     mprintf E m (comma j @ cir_text (eub E) L b);
     a \<leftarrow> gets acc_samples_to_load;
     onlyif (a \<noteq> 0) (do {
       mprintf E m '',\"real\":['';
       print_samples E L m (cir_real L);
       mprintf E m ''],\"imag\":['';
       print_samples E L m (cir_imag L);
       mprintf E m '']''
     });
     mprintf E m ''}''
   }"
  have "print_cir_of E L m om h j = do { (rc, bs) \<leftarrow> ask_bytes E c; upd (\<lambda>g. g\<lparr>tmp_cir := overlay (tmp_cir g) 0 bs\<rparr>); rest }"
    by (simp add: print_cir_of_def rest_def c_def)
  moreover have "ebytes E (tr s) c = take (CIR_BYTES L) (drop (unat (h_dlen h) + j * CIR_BYTES L) (payload E om (tr s)))"
    using assms(1) by (simp add: queue_ok_def c_def)
  ultimately have "exec (print_cir_of E L m om h j) s = exec rest (s\<lparr>tr := c # tr s, glb := (glb s)\<lparr>tmp_cir := v\<rparr>\<rparr>)"
    using assms(2) by (simp add: exec_bind result_bind exec_ask_bytes exec_upd v_def)
  moreover have "keeps (\<lambda>g. tmp_cir g = v) rest"
    unfolding rest_def by (intro effects quiet_samples)
  ultimately show ?thesis using keepsD [of "\<lambda>g. tmp_cir g = v" rest] by (simp add: v_def)
qed

text \<open>C30: A build that keeps accumulators writes them where the message's diagnostics begin: the message
  holds the frame, the accumulators one behind the other, and only those diagnostics that lie
  behind them (none are lost on the board, whose header holds them). The printing code reads the
  accumulators from the same place, so each one that is printed is the one received. The header
  holds the phase differences: of two valid accumulators, or on the board of each radio and the
  first, where a radio that got another frame or measured another edge has the value NaN.\<close>

theorem listener_cirs_stored:
  assumes "stores E" and "queue_ok E" and "loud (Some L) s" and "fits D (Some L) devs inst" and "heard devs inst"
    and "queued E (tr s) = []" and "acc_samples_to_load (glb s) \<noteq> 0"
    and "t = exec (rx_complete_cb_lst E D (Some L) devs inst) s" and "queued E (tr t) = [om]" and "j < n_instances D devs"
  shows "payload E om (tr t) = frame_of inst @ concat (accumulators D devs)
      @ drop (n_instances D devs * CIR_BYTES L) (stored_diags D devs)
    \<and> take (CIR_BYTES L) (tmp_cir (glb (exec (print_cir_of E L m om (hdrs (glb t) om) j) t))) = accumulators D devs ! j
    \<and> h_pd (hdrs (glb t) om) = header_phases D (Some L) devs"
proof -
  have n: "\<forall>xs \<in> set (accumulators D devs). length xs = CIR_BYTES L" using assms(4) by (simp add: fits_def)
  have k: "length (accumulators D devs) = n_instances D devs"
    by (simp add: accumulators_def n_instances_def split: option.split)
  obtain om' where om': "queued E (tr t) = [om']" "loud (Some L) t"
    "payload E om' (tr t) = message_bytes (Some L) (acc_samples_to_load (glb s)) (frame_of inst) (stored_diags D devs) (accumulators D devs)"
    "unat (h_dlen (hdrs (glb t) om')) = length (frame_of inst)" "h_pd (hdrs (glb t) om') = header_phases D (Some L) devs"
    using heard_message [OF assms(1,3-6,8)] by metis
  have p: "payload E om (tr t) = frame_of inst @ concat (accumulators D devs) @ drop (n_instances D devs * CIR_BYTES L) (stored_diags D devs)"
    using om' assms(7,9) concat_length [OF n] by (simp add: message_bytes_def overlay_def k)
  have "unat (h_dlen (hdrs (glb t) om)) = length (frame_of inst)" using om'(1,4) assms(9) by simp
  then have c: "take (CIR_BYTES L) (drop (unat (h_dlen (hdrs (glb t) om)) + j * CIR_BYTES L) (payload E om (tr t))) = accumulators D devs ! j"
    using concat_slice [OF _ n, of j "drop (n_instances D devs * CIR_BYTES L) (stored_diags D devs)"] assms(10)
    by (simp only: p drop_append k) simp
  have "length (accumulators D devs ! j) = CIR_BYTES L" "\<not> halted t" using n k assms(10) om'(2) by (simp_all add: loud_def)
  then have "take (CIR_BYTES L) (tmp_cir (glb (exec (print_cir_of E L m om (hdrs (glb t) om) j) t))) = accumulators D devs ! j"
    using print_cir_loads [OF assms(2), of t L m om "hdrs (glb t) om" j] by (simp add: c overlay_def)
  with p om'(1,5) assms(9) show ?thesis by simp
qed

text \<open>The two builds at one reception: a device with one radio, and the board.\<close>

theorem listener_cirs_stored_witness:
  "(\<exists>om. let t = exec (rx_complete_cb_lst calm_env sample_diag (Some sample_cir) [sample_dev] sample_dev) (boot lstnr0)
      in queued calm_env (tr t) = [om] \<and> payload calm_env om (tr t) = [1, 2, 0xAB, 250, 2, 3, 4, 14])
   \<and> (\<exists>om. let t = exec (rx_complete_cb_lst calm_env sample_board (Some sample_cir) [sample_dev] sample_dev) (boot lstnr0)
      in queued calm_env (tr t) = [om] \<and> payload calm_env om (tr t) = [1, 2, 0xAB, 250, 2, 3, 4, 5, 6, 7, 8]
        \<and> length (h_pd (hdrs (glb t) om)) = 1)"
proof -
  define t where "t D = exec (rx_complete_cb_lst calm_env D (Some sample_cir) [sample_dev] sample_dev) (boot lstnr0)" for D
  have fits: "fits sample_board (Some sample_cir) [sample_dev] sample_dev" by (simp add: sample_board_fits sample_cir_def)
  obtain om where om: "queued calm_env (tr (t sample_diag)) = [om]"
    using heard_message [OF sample_frame(2,4,6,7,11) t_def] by metis
  obtain ob where ob: "queued calm_env (tr (t sample_board)) = [ob]"
    using heard_message [OF sample_frame(2,4) fits sample_frame(7,11) t_def] by metis
  have a: "acc_samples_to_load (glb (boot lstnr0)) \<noteq> 0" by (simp add: lstnr0_def)
  have v: "accumulators sample_diag [sample_dev] = [[250, 2, 3, 4]]" "stored_diags sample_diag [sample_dev] = [10, 11, 12, 13, 14]"
    "accumulators sample_board [sample_dev] = [[250, 2, 3, 4], [5, 6, 7, 8]]" "stored_diags sample_board [sample_dev] = []"
    "n_instances sample_board [sample_dev] = 2" "CIR_BYTES sample_cir = 4" "length (header_phases sample_board (Some sample_cir) [sample_dev]) = 1"
    by (simp_all add: accumulators_def stored_diags_def header_phases_def diags_of_def n_instances_def sample_diag_def sample_board_def
        sample_dev_def sample_cir_def upt_conv_Cons)
  have 1: "payload calm_env om (tr (t sample_diag)) = [1, 2, 0xAB, 250, 2, 3, 4, 14]"
    using listener_cirs_stored [OF sample_frame(2) calm_queue sample_frame(4,6,7,11) a t_def om, of 0]
    by (simp add: v sample_frame(8,9))
  have 2: "payload calm_env ob (tr (t sample_board)) = [1, 2, 0xAB, 250, 2, 3, 4, 5, 6, 7, 8]"
    "length (h_pd (hdrs (glb (t sample_board)) ob)) = 1"
    using listener_cirs_stored [OF sample_frame(2) calm_queue sample_frame(4) fits sample_frame(7,11) a t_def ob, of 0]
    by (simp_all add: v sample_frame(8,9))
  show ?thesis using om ob 1 2 unfolding Let_def t_def by blast
qed


section \<open>How many samples can be asked for\<close>

lemma inert_mprintf [intro, simp]: "inert (mprintf E m w)"
  by (auto simp: mprintf_def onlyif_def put_def intro!: inert_bind)

lemma inert_structure [intro]:
  "inert p \<Longrightarrow> inert (onlyif b p)" "(\<And>x. x \<in> set xs \<Longrightarrow> inert (f x)) \<Longrightarrow> inert (for_each xs f)"
  "(\<And>a b. inert (g a b)) \<Longrightarrow> inert (case y of (a, b) \<Rightarrow> g a b)"
proof -
  show "inert p \<Longrightarrow> inert (onlyif b p)" by (simp add: onlyif_def)
  show "(\<And>x. x \<in> set xs \<Longrightarrow> inert (f x)) \<Longrightarrow> inert (for_each xs f)" by (induction xs) auto
  show "(\<And>a b. inert (g a b)) \<Longrightarrow> inert (case y of (a, b) \<Rightarrow> g a b)" by (cases y) simp
qed

lemma halted_bind: "halted (exec p s) \<Longrightarrow> (\<And>x. inert (f x)) \<Longrightarrow> halted (exec (State_Monad.bind p f) s)"
  by (simp add: exec_bind inert_def)

lemma inert_samples [intro, simp]: "inert (print_samples E L m part)"
  unfolding print_samples_def by (intro inert_bind inert_structure inert_prims inert_mprintf)

lemma inert_cir_of [intro, simp]: "inert (print_cir_of E L m om h j)"
  unfolding print_cir_of_def by (intro inert_bind inert_structure inert_prims inert_mprintf inert_samples)

lemma samples_leave_array:
  assumes "CIR_SIZE L < unat (acc_samples_to_load (glb s))"
  shows "halted (exec (print_samples E L m part) s)"
proof -
  let ?f = "\<lambda>i. do { c_assert (i < CIR_SIZE L); b \<leftarrow> gets tmp_cir; mprintf E m (comma i @ fmt_d (part b i)) }"
  have i: "inert (?f i)" for i by (intro inert_bind inert_prims inert_mprintf)
  have "halted (exec (?f (CIR_SIZE L)) t)" for t by (rule halted_bind) (auto simp: exec_c_assert intro!: inert_bind)
  then have "halted (exec (for_each xs ?f) t)" if "CIR_SIZE L \<in> set xs" for xs t
    using that
  proof (induction xs arbitrary: t)
    case (Cons x xs)
    have "inert (for_each xs ?f)" using i by (intro inert_structure)
    with Cons i [of x] show ?case by (cases "halted (exec (?f x) t)") (auto simp: exec_bind inert_def)
  qed simp
  then show ?thesis using assms by (simp add: print_samples_def exec_bind)
qed

text \<open>Everything in front of the accumulators.\<close>

definition print_fields :: "env \<Rightarrow> diag_lib \<Rightarrow> int \<Rightarrow> int \<Rightarrow> uwb_msg_hdr \<Rightarrow> nat \<Rightarrow> (lstnr_globals, unit) prog" where
  "print_fields E D m om h n = do { print_front E D m om h n; print_data E m h }"

lemma message_fields:
  "exec (print_message E D C m om h n) s = exec (do { print_cirs E C m om h n; end_line E m }) (exec (print_fields E D m om h n) s)"
  by (simp add: message_front print_fields_def exec_bind)

lemma fields_keep: "keeps (\<lambda>g. (verbose g, acc_samples_to_load g) = v) (print_fields E D m om h n)"
  unfolding print_fields_def print_front_def print_head_def load_tmp_diag_def print_levels_def print_level_def diag_of_def fetch_diag_def
    print_carrier_def print_phases_def print_data_def Let_def
  by (intro effects; simp)

lemma fields_printed:
  assumes "appends E" and "ub_nonneg E" and "0 < n" and "glued E n \<or> separate E n" and "loud None s"
  shows "loud None (exec (print_fields E D m om h n) s)"
proof -
  have "prints None {None} (print_phases E D m om h n) {None}"
    using assms(4) prints_on_None [OF prints_glued [OF assms(1)]] prints_on_None [OF prints_phases [OF assms(1,3)]] by blast
  note pieces = prints_on_None [OF prints_head [OF assms(1,3)]] quiet_tmp prints_on_None [OF prints_levels [OF assms(1,3)]]
    prints_on_None [OF prints_carrier [OF assms(1,2)]] this prints_on_None [OF prints_data [OF assms(1)]]
  have "prints None {None} (print_fields E D m om h n) {None}"
    unfolding print_fields_def print_front_def by (intro prints_bind [where K = "{None}"] pieces)
  from printsD [OF this assms(5)] show ?thesis by metis
qed

text \<open>A program that stops when more samples are asked for than the array has.\<close>

definition stops :: "cir_lib \<Rightarrow> (lstnr_globals, 'a) prog \<Rightarrow> bool" where
  "stops L p \<longleftrightarrow> (\<forall>s. CIR_SIZE L < unat (acc_samples_to_load (glb s)) \<longrightarrow> halted (exec p s))"

lemma stops_here: "stops L p \<Longrightarrow> (\<And>x. inert (f x)) \<Longrightarrow> stops L (State_Monad.bind p f)"
  by (simp add: stops_def halted_bind)

lemma stops_later:
  assumes "\<And>v. keeps (\<lambda>g. acc_samples_to_load g = v) p" and "\<And>x. stops L (f x)"
  shows "stops L (State_Monad.bind p f)"
  using keepsD [OF assms(1) refl] assms(2) by (simp add: stops_def exec_bind)

lemma stops_prod: "(\<And>a b. stops L (f a b)) \<Longrightarrow> stops L (case x of (a, b) \<Rightarrow> f a b)"
  by (cases x) simp

lemma stops_asked:
  assumes "stops L p" and "inert q"
  shows "stops L (do { a \<leftarrow> gets acc_samples_to_load; onlyif (a \<noteq> 0) p; q })"
  unfolding stops_def
proof (intro allI impI)
  fix s :: "lstnr_globals st" assume a: "CIR_SIZE L < unat (acc_samples_to_load (glb s))"
  then have "acc_samples_to_load (glb s) \<noteq> 0" by auto
  with a assms show "halted (exec (do { a \<leftarrow> gets acc_samples_to_load; onlyif (a \<noteq> 0) p; q }) s)"
    by (simp add: exec_bind stops_def inert_def)
qed

lemma stops_samples: "stops L (print_samples E L m part)"
  by (simp add: stops_def samples_leave_array)

lemma stops_cir_of: "stops L (print_cir_of E L m om h j)"
  unfolding print_cir_of_def
proof (intro stops_later [where p = "ask_bytes E c" for c] stops_prod stops_later [where p = "upd f" for f]
    stops_later [where p = "gets tmp_cir"] stops_later [where p = "mprintf E m w" for w] stops_asked stops_here [OF stops_samples]
    inert_bind inert_mprintf inert_samples)
qed (intro effects; simp)+

lemma stops_cirs:
  assumes "0 < n"
  shows "stops L (do { mprintf E m '',\"cir\":[''; for_each [0..<n] (print_cir_of E L m om h); mprintf E m '']''; end_line E m })"
proof -
  have "stops L (for_each [0..<n] (print_cir_of E L m om h))"
    using assms stops_cir_of by (simp add: upt_conv_Cons) (intro stops_here inert_structure inert_cir_of)
  moreover have "inert (end_line E m)"
    unfolding end_line_def put_def by (intro inert_bind inert_mprintf inert_prims inert_structure)
  then have "inert (do { mprintf E m '']''; end_line E m })" by (intro inert_bind inert_mprintf)
  ultimately show ?thesis by (intro stops_later [where p = "mprintf E m w" for w] stops_here) (intro effects; simp)+
qed

lemma cirs_halt_iff:
  assumes "appends E" and "ub_nonneg E" and "cir_ok (Some L)" and "0 < n" and "loud None s"
  shows "halted (exec (do { print_cirs E (Some L) m om h n; end_line E m }) s)
    \<longleftrightarrow> flag VERBOSE_CIR (glb s) \<and> CIR_SIZE L < unat (acc_samples_to_load (glb s))"
proof -
  have h: "\<not> halted s" using assms(5) by (simp add: loud_def)
  consider "\<not> flag VERBOSE_CIR (glb s)" | "unat (acc_samples_to_load (glb s)) \<le> CIR_SIZE L"
    | "flag VERBOSE_CIR (glb s)" "CIR_SIZE L < unat (acc_samples_to_load (glb s))" by linarith
  then show ?thesis
  proof cases
    case 1
    then have "exec (do { print_cirs E (Some L) m om h n; end_line E m }) s = exec (end_line E m) s"
      by (simp add: print_cirs_def exec_bind)
    moreover have "\<not> halted (exec (end_line E m) s)"
      using printsD [OF prints_end [OF assms(1)] assms(5)] by (metis loud_def)
    ultimately show ?thesis using 1 by simp
  next
    case 2
    then have "loud (Some L) s" using assms(5) by (simp add: loud_def)
    moreover have "prints (Some L) {Some ([Obj], After)} (do { print_cirs E (Some L) m om h n; end_line E m }) {Some ([], After)}"
      by (intro prints_bind [OF prints_cirs [OF assms(1-4)]] prints_end [OF assms(1)])
    ultimately have "\<not> halted (exec (do { print_cirs E (Some L) m om h n; end_line E m }) s)"
      using printsD by (metis loud_def)
    with 2 show ?thesis by simp
  next
    case 3
    from 3(1) have "exec (do { print_cirs E (Some L) m om h n; end_line E m }) s
      = exec (do { mprintf E m '',\"cir\":[''; for_each [0..<n] (print_cir_of E L m om h); mprintf E m '']''; end_line E m }) s"
      by (simp add: print_cirs_def exec_bind)
    with stops_cirs [OF assms(4)] 3 show ?thesis by (simp add: stops_def)
  qed
qed



end
