(* ===== verification/Listener_Net.thy ===== *)
theory Listener_Net
  imports Listener_Props
begin

text \<open>
  The socket and the configuration store of the listener: for which packets the reader of the
  socket stays inside its array, and that the store keeps its buffers terminated.
\<close>

section \<open>Reading the socket\<close>

definition bytes_text :: "u8 list \<Rightarrow> string" where
  "bytes_text = map (\<lambda>b. char_of (unat b))"

lemma inert_put: "inert (put w)"
  by (simp add: put_def)

lemma inert_net_read: "inert (net_read E m n k :: ('g, unit) prog)"
proof (induction "n - k" arbitrary: k rule: less_induct)
  case less
  show ?case
  proof (cases "k < n")
    case True
    define r where "r = (if n - k < 32 then n - k else 32)"
    have ih: "inert (net_read E m n (k + r) :: ('g, unit) prog)"
      by (rule less) (use True in \<open>auto simp: r_def\<close>)
    show ?thesis using True
      by (subst net_read.simps) (auto intro!: inert_bind inert_prims inert_put ih simp: Let_def simp flip: r_def split: prod.split)
  qed (simp add: net_read.simps)
qed

lemma net_read_fits:
  assumes "\<not> halted s" and "queue_ok E" and "payload E m (tr s) = p" and "0 < length p" and "length p \<le> 32"
  shows "exec (net_read E m (length p) 0) s =
    s\<lparr>tr := Os (ConsoleWrite (bytes_text p)) # Os (MbufCopyData m 0 (length p)) # tr s\<rparr>"
proof -
  have e: "ebytes E (tr s) (Os (MbufCopyData m 0 (length p))) = p" using assms(2,3) by (simp add: queue_ok_def)
  have z: "exec (net_read E m n n) u = u" for n and u :: "'a st" by (simp add: net_read.simps)
  have "(if length p < 32 then length p else 32) = length p" using assms(5) by simp
  then show ?thesis using assms(1,4,5) e z
    by (subst net_read.simps) (simp add: exec_bind exec_ask_bytes exec_put exec_c_assert bytes_text_def Let_def split: prod.split)
qed

lemma net_read_overruns:
  assumes "\<not> halted s" and "queue_ok E" and "payload E m (tr s) = p" and "32 < length p"
  shows "halted (exec (net_read E m (length p) 0) s)"
proof -
  have e: "ebytes E (tr s) (Os (MbufCopyData m 0 (length p))) = p" using assms(2,3) by (simp add: queue_ok_def)
  have "halted (exec (net_read E m n k) u)" if "halted u" for n k and u :: "'a st"
    using that inert_net_read [of E m n k] unfolding inert_def by metis
  moreover have "exec (put w) u = u" if "halted u" for w and u :: "'a st"
    using that inert_put [of w] by (auto simp: inert_def)
  moreover have "0 < length p" using assms(4) by linarith
  ultimately show ?thesis using assms(1,4) e
    by (subst net_read.simps) (simp add: exec_bind exec_ask_bytes exec_c_assert Let_def split: prod.split)
qed


text \<open>C28: The reader of the socket copies the whole packet each time it asks for the next 32
  bytes. It stays inside its array exactly for packets of at most 32 bytes; such a packet is
  written to the console as it is and its buffer is given back.\<close>

theorem net_reader_safe_iff:
  assumes "\<not> halted s" and "queue_ok E" and "\<And>h. eint E h (Sys ''mn_recvfrom'' []) = 0"
    and "m = eint E (Sys ''mn_recvfrom'' [] # tr s) (GetField ''m'')" and "m \<noteq> 0"
    and "t = exec (net_test_readable E) s" and "p = payload E m (tr s)"
  shows "(\<not> halted t \<longleftrightarrow> length p \<le> 32)
    \<and> (\<not> halted t \<longrightarrow> concat (console (tr t)) = concat (console (tr s)) @ bytes_text p
        \<and> owned E (tr t) = owned E (tr s) - {m})"
proof -
  define u where "u = s\<lparr>tr := Os (MbufPktLen m) # GetField ''m'' # Sys ''mn_recvfrom'' [] # tr s\<rparr>"
  have u: "\<not> halted u" "payload E m (tr u) = p" "console (tr u) = console (tr s)" "owned E (tr u) = owned E (tr s)"
    using assms(1,7) by (simp_all add: u_def)
  have l: "eint E (GetField ''m'' # Sys ''mn_recvfrom'' [] # tr s) (Os (MbufPktLen m)) = int (length p)"
    using assms(2,7) by (simp add: queue_ok_def)
  have t: "t = exec (act (Os (MbufFree m))) (exec (net_read E m (length p) 0) u)"
    using assms(1,3,5) l assms(4) [symmetric]
    by (simp add: assms(6) net_test_readable_def exec_bind exec_ask exec_c_assert u_def)
  consider "p = []" | "0 < length p" "length p \<le> 32" | "32 < length p" by fastforce
  then show ?thesis
  proof cases
    case 1
    then have "exec (net_read E m (length p) 0) u = u" by (simp add: net_read.simps)
    then show ?thesis using 1 u by (simp add: t exec_act bytes_text_def)
  next
    case 2
    then show ?thesis using net_read_fits [OF u(1) assms(2) u(2)] u by (simp add: t exec_act)
  next
    case 3
    then have h: "halted (exec (net_read E m (length p) 0) u)" using net_read_overruns [OF u(1) assms(2) u(2)] by simp
    have "inert (act (Os (MbufFree m)) :: ('a, unit) prog)" by simp
    with h have "halted t" unfolding t inert_def by metis
    with 3 show ?thesis by simp
  qed
qed

text \<open>A kernel that hands buffer 1 to the reader.\<close>

definition socket_env :: env where
  "socket_env = calm_env\<lparr>eint := (\<lambda>h c. if c = GetField ''m'' then 1 else eint calm_env h c)\<rparr>"

lemma socket_queued: "queued socket_env h = queued calm_env h"
proof (induction h)
  case (Cons c h)
  then show ?case by (cases c rule: call_cases) (simp_all only: other_call not_False_eq_True, simp_all add: socket_env_def)
qed simp

lemma socket_payload: "payload socket_env m h = payload calm_env m h"
proof (induction h)
  case (Cons c h)
  then show ?case by (cases c rule: call_cases) (simp_all only: other_call not_False_eq_True, simp_all add: socket_env_def)
qed simp

lemma socket_ok: "queue_ok socket_env"
  using calm_queue unfolding queue_ok_def socket_queued socket_payload by (simp add: socket_env_def)

theorem net_reader_safe_iff_witness:
  "halted (exec (net_test_readable socket_env) (boot ()\<lparr>tr := [Os (MbufCopyInto 1 0 (replicate 33 7)), Os (MbufGet 0 0)]\<rparr>))"
proof -
  let ?s = "boot ()\<lparr>tr := [Os (MbufCopyInto 1 0 (replicate 33 7)), Os (MbufGet 0 0)]\<rparr>"
  have m: "eint socket_env h (Sys ''mn_recvfrom'' []) = 0" "1 = eint socket_env h (GetField ''m'')" for h
    by (simp_all add: socket_env_def)
  have "payload socket_env 1 (tr ?s) = replicate 33 7" by (simp add: socket_env_def)
  then have "\<not> length (payload socket_env 1 (tr ?s)) \<le> 32" by simp
  moreover have "\<not> halted ?s" by simp
  ultimately show ?thesis using net_reader_safe_iff [OF _ socket_ok m(1) m(2) _ refl refl, of ?s] by simp
qed


section \<open>The configuration store\<close>

lemma key_cases:
  assumes "k \<in> set (lstnr_keys eth)"
  obtains "k = ''acc_samples''" | "k = ''verbose''" | "eth" "k = ''udp_tx_addr''" | "eth" "k = ''udp_tx_port''"
  using assms by (auto simp: lstnr_keys_def split: if_splits)

lemma lstnr_get_key [simp]:
  "lstnr_get eth [''acc_samples''] c = Some (acc_samples c)" "lstnr_get eth [''verbose''] c = Some (verbose_s c)"
  "lstnr_get True [''udp_tx_addr''] c = Some (udp_tx_addr_s c)" "lstnr_get True [''udp_tx_port''] c = Some (udp_tx_port_s c)"
  by (simp_all add: lstnr_get_def)

lemma lstnr_set_key [simp]:
  "lstnr_set eth L E [''acc_samples''] v c = (fst (conf_string L 8 v (acc_samples c)),
     c\<lparr>acc_samples := snd (conf_string L 8 v (acc_samples c))\<rparr>)"
  "lstnr_set eth L E [''verbose''] v c = (fst (conf_string L 8 v (verbose_s c)),
     c\<lparr>verbose_s := snd (conf_string L 8 v (verbose_s c))\<rparr>)"
  "lstnr_set True L E [''udp_tx_addr''] v c = (fst (conf_string L 16 v (udp_tx_addr_s c)),
     c\<lparr>udp_tx_addr_s := snd (conf_string L 16 v (udp_tx_addr_s c))\<rparr>)"
  "lstnr_set True L E [''udp_tx_port''] v c = (fst (conf_string L 8 v (udp_tx_port_s c)),
     c\<lparr>udp_tx_port_s := snd (conf_string L 8 v (udp_tx_port_s c))\<rparr>)"
  by (simp_all add: lstnr_set_def split: prod.split)

lemma get_known_iff: "lstnr_get eth path c \<noteq> None \<longleftrightarrow> (\<exists>k \<in> set (lstnr_keys eth). path = [k])"
  by (cases eth) (simp_all add: lstnr_get_def lstnr_keys_def)

interpretation lstnr_conf: conf_store "lstnr_keys eth" "''lstnr/''" "ENOENT E"
    "\<lambda>k v old. conf_string L (key_room k) v old" "lstnr_get eth" "lstnr_set eth L E" "lstnr_export eth"
proof
  show "distinct (lstnr_keys eth)" by (simp add: lstnr_keys_def)
  show "lstnr_get eth path c \<noteq> None \<longleftrightarrow> (\<exists>k \<in> set (lstnr_keys eth). path = [k])" for path c by (rule get_known_iff)
  show "fst (lstnr_set eth L E [k] v c) = fst (conf_string L (key_room k) v (the (lstnr_get eth [k] c))) \<and>
      lstnr_get eth [k] (snd (lstnr_set eth L E [k] v c)) = Some (snd (conf_string L (key_room k) v (the (lstnr_get eth [k] c))))"
    if "k \<in> set (lstnr_keys eth)" for k v c
    using that by (cases rule: key_cases) (simp_all add: key_room_def)
  show "lstnr_get eth [k'] (snd (lstnr_set eth L E [k] v c)) = lstnr_get eth [k'] c"
    if "k \<in> set (lstnr_keys eth)" "k' \<noteq> k" for k k' v c
    using that by (cases rule: key_cases) (simp_all add: lstnr_get_def)
  show "lstnr_set eth L E path v c = (ENOENT E, c)" if "\<forall>k \<in> set (lstnr_keys eth). path \<noteq> [k]" for path v c
    using that by (cases eth) (simp_all add: lstnr_set_def lstnr_keys_def)
  show "lstnr_export eth c = map (\<lambda>k. (''lstnr/'' @ k, the (lstnr_get eth [k] c))) (lstnr_keys eth)" for c
    by (cases eth) (simp_all add: lstnr_export_def lstnr_keys_def)
qed

text \<open>Every buffer of the configuration holds a terminated string.\<close>

definition conf_ok :: "bool \<Rightarrow> lstnr_config_s \<Rightarrow> bool" where
  "conf_ok eth c \<longleftrightarrow> (\<forall>k \<in> set (lstnr_keys eth). length (the (lstnr_get eth [k] c)) < key_room k)"

lemma lstnr_set_ok: "conf_lib_ok L \<Longrightarrow> conf_ok eth c \<Longrightarrow> conf_ok eth (snd (lstnr_set eth L E path v c))"
  using lstnr_conf.store_keeps [where P = "\<lambda>k b. length b < key_room k"] snd_conf_string
  unfolding conf_ok_def by blast

lemma lstnr_reload:
  assumes "conf_lib_ok L" and "conf_ok eth c" and "k \<in> set (lstnr_keys eth)"
  shows "lstnr_get eth [k] (lstnr_conf.load eth L E (lstnr_export eth c) c0) = lstnr_get eth [k] c"
  using lstnr_conf.reload [where eth = eth and c = c and k = k] conf_string_fits [OF assms(1)] assms(2,3)
  unfolding conf_ok_def by simp

text \<open>The verbosity and the ports follow the strings when a change is committed.\<close>

lemma lstnr_commit_off:
  assumes "\<not> halted s"
  shows "glb (exec (lstnr_commit False L E) s) = (glb s)\<lparr>
      acc_samples_to_load := snd (conf_int16 L (acc_samples (lstnr_config (glb s))) (acc_samples_to_load (glb s))),
      verbose := snd (conf_int16 L (verbose_s (lstnr_config (glb s))) (verbose (glb s)))\<rparr>"
  using assms by (simp add: lstnr_commit_def exec_bind exec_upd exec_act)

end
