(* ===== verification/Bleprph.thy ===== *)
theory Bleprph
  imports Startup
begin

text \<open>
  \<open>lib/bleprph\<close>: the Bluetooth peripheral of the devices (\<open>bleprph.c\<close> and the empty GATT
  table of \<open>gatt_svr.c\<close>). The host stack reports events; the library resumes advertising and
  remembers whether a central is connected. A log line is a call with its text.
\<close>

record ble_globals =
  g_bleprph_connected :: u8

datatype gap_event =
    GAP_CONNECT int u16
  | GAP_DISCONNECT int
  | GAP_CONN_UPDATE int u16
  | GAP_ADV_COMPLETE int
  | GAP_ENC_CHANGE int u16
  | GAP_SUBSCRIBE "int list"
  | GAP_MTU "int list"
  | GAP_OTHER

definition ble_log :: "string \<Rightarrow> int list \<Rightarrow> (ble_globals, unit) prog" where
  "ble_log msg xs = act (Sys (''BLEPRPH_LOG '' @ msg) xs)"

definition GATT_SVR_SVC_ALERT_UUID :: int where
  "GATT_SVR_SVC_ALERT_UUID = 0x1811"

text \<open>The advertised data are the stack's constants, the device name and one service identifier.\<close>

definition bleprph_advertise :: "env \<Rightarrow> (ble_globals, unit) prog" where
  "bleprph_advertise E = do {
     rc \<leftarrow> ask E (Sys ''ble_hs_id_infer_auto'' [0]);
     own_addr_type \<leftarrow> ask E (GetField ''own_addr_type'');
     if rc \<noteq> 0 then ble_log ''error determining address type'' [rc]
     else do {
       name_len \<leftarrow> ask E (Sys ''ble_svc_gap_device_name'' []);
       rc \<leftarrow> ask E (Sys ''ble_gap_adv_set_fields'' [name_len, GATT_SVR_SVC_ALERT_UUID]);
       if rc \<noteq> 0 then ble_log ''error setting advertisement data'' [rc]
       else do {
         rc \<leftarrow> ask E (Sys ''ble_gap_adv_start'' [own_addr_type]);
         onlyif (rc \<noteq> 0) (ble_log ''error enabling advertisement'' [rc])
       }
     }
   }"

definition conn_find :: "env \<Rightarrow> u16 \<Rightarrow> (ble_globals, unit) prog" where
  "conn_find E conn = do {
     rc \<leftarrow> ask E (Sys ''ble_gap_conn_find'' [uint conn]);
     c_assert (rc = 0)
   }"

fun bleprph_gap_event :: "env \<Rightarrow> gap_event \<Rightarrow> (ble_globals, int) prog" where
  "bleprph_gap_event E (GAP_CONNECT status conn) = do {
     ble_log (if status = 0 then ''connection established'' else ''connection failed'') [status];
     onlyif (status = 0) (conn_find E conn);
     ble_log '''' [];
     (if status \<noteq> 0 then bleprph_advertise E else upd (\<lambda>g. g\<lparr>g_bleprph_connected := 1\<rparr>));
     ret 0
   }"
| "bleprph_gap_event E (GAP_DISCONNECT reason) = do {
     ble_log ''disconnect'' [reason];
     ble_log '''' [];
     bleprph_advertise E;
     upd (\<lambda>g. g\<lparr>g_bleprph_connected := 0\<rparr>);
     ret 0
   }"
| "bleprph_gap_event E (GAP_CONN_UPDATE status conn) = do {
     ble_log ''connection updated'' [status];
     conn_find E conn;
     ble_log '''' [];
     ret 0
   }"
| "bleprph_gap_event E (GAP_ADV_COMPLETE reason) = do {
     ble_log ''advertise complete'' [reason];
     bleprph_advertise E;
     ret 0
   }"
| "bleprph_gap_event E (GAP_ENC_CHANGE status conn) = do {
     ble_log ''encryption change event'' [status];
     conn_find E conn;
     ble_log '''' [];
     ret 0
   }"
| "bleprph_gap_event E (GAP_SUBSCRIBE xs) = do { ble_log ''subscribe event'' xs; ret 0 }"
| "bleprph_gap_event E (GAP_MTU xs) = do { ble_log ''mtu update event'' xs; ret 0 }"
| "bleprph_gap_event E GAP_OTHER = ret 0"

definition bleprph_on_reset :: "int \<Rightarrow> (ble_globals, unit) prog" where
  "bleprph_on_reset reason = ble_log ''Resetting state'' [reason]"

definition bleprph_on_sync :: "env \<Rightarrow> (ble_globals, unit) prog" where
  "bleprph_on_sync E = do {
     rc \<leftarrow> ask E (Sys ''ble_hs_util_ensure_addr'' [0]);
     c_assert (rc = 0);
     bleprph_advertise E
   }"

definition ble_is_connected :: "bool \<Rightarrow> (ble_globals, int) prog" where
  "ble_is_connected BLEPRPH_ENABLED =
     (if BLEPRPH_ENABLED then do { c \<leftarrow> gets g_bleprph_connected; ret (uint c) } else ret 0)"

datatype gatt_op = GATT_REGISTER_OP_SVC | GATT_REGISTER_OP_CHR | GATT_REGISTER_OP_DSC | GATT_REGISTER_OP_OTHER

definition gatt_svr_register_cb :: "gatt_op \<Rightarrow> (ble_globals, unit) prog" where
  "gatt_svr_register_cb x = (case x of
       GATT_REGISTER_OP_SVC \<Rightarrow> ret () | GATT_REGISTER_OP_CHR \<Rightarrow> ret () | GATT_REGISTER_OP_DSC \<Rightarrow> ret ()
     | GATT_REGISTER_OP_OTHER \<Rightarrow> halt)"

definition gatt_svr_init :: "env \<Rightarrow> (ble_globals, int) prog" where
  "gatt_svr_init E = do {
     rc \<leftarrow> ask E (Sys ''ble_gatts_count_cfg'' []);
     if rc \<noteq> 0 then ret rc
     else do {
       rc \<leftarrow> ask E (Sys ''ble_gatts_add_svcs'' []);
       if rc \<noteq> 0 then ret rc else ret 0
     }
   }"

text \<open>\<open>snprintf\<close> into 32 bytes: the prefix, a dash and the low 32 bits of the identity.\<close>

definition ble_name :: "string \<Rightarrow> u64 \<Rightarrow> string" where
  "ble_name prefix ble_id = take 31 (prefix @ ''-'' @ pad0 4 (fmt_X (unat (ucast ble_id :: u32))))"

definition ble_init_prph :: "env \<Rightarrow> string \<Rightarrow> u64 \<Rightarrow> (ble_globals, int) prog" where
  "ble_init_prph E prefix ble_id = do {
     for_each [''reset_cb'', ''sync_cb'', ''gatts_register_cb'', ''store_status_cb'']
       (\<lambda>f. act (SetField (''ble_hs_cfg.'' @ f) 1));
     rc \<leftarrow> gatt_svr_init E;
     c_assert (rc = 0);
     ble_log (''Setting name to '' @ ble_name prefix ble_id) [];
     rc \<leftarrow> ask E (Sys (''ble_svc_gap_device_name_set '' @ ble_name prefix ble_id) []);
     c_assert (rc = 0);
     ret rc
   }"

definition ble_stop :: "env \<Rightarrow> (ble_globals, int) prog" where
  "ble_stop E = ask E (Sys ''ble_gap_adv_stop'' [])"

end
