(* ===== verification/Bleprph_Props.thy ===== *)
theory Bleprph_Props
  imports Bleprph
begin

text \<open>
  The Bluetooth peripheral together with the host stack that drives it: in every order of events
  the device can be found or is connected, and the flag the applications ask for says which.
\<close>

section \<open>The stack\<close>

text \<open>How often advertising has been started with success.\<close>

fun adv_starts :: "env \<Rightarrow> hist \<Rightarrow> nat" where
  "adv_starts E [] = 0"
| "adv_starts E (c # h) = (case c of
     Sys f xs \<Rightarrow> if f = ''ble_gap_adv_start'' \<and> eint E h c = 0 then Suc (adv_starts E h) else adv_starts E h
   | _ \<Rightarrow> adv_starts E h)"

definition stack_ok :: "env \<Rightarrow> bool" where
  "stack_ok E \<longleftrightarrow> (\<forall>h f xs. f \<in> {''ble_hs_id_infer_auto'', ''ble_gap_adv_set_fields'', ''ble_gap_adv_start'',
     ''ble_gap_conn_find'', ''ble_hs_util_ensure_addr''} \<longrightarrow> eint E h (Sys f xs) = 0)"

text \<open>
  The device and the stack: the state of the library, whether the stack advertises, whether
  there is a connection (the stack allows one). The stack reports a connection, or a failed one,
  only while it advertises, which it then stops; it reports the end of a connection that is
  there, and the end of an advertisement that runs. Advertising runs again when the handler has
  started it.
\<close>

definition handled :: "env \<Rightarrow> gap_event \<Rightarrow> ble_globals st \<Rightarrow> bool \<Rightarrow> bool \<Rightarrow> ble_globals st \<times> bool \<times> bool" where
  "handled E e s adv conn = (let t = exec (bleprph_gap_event E e) s
     in (t, adv \<or> adv_starts E (tr s) < adv_starts E (tr t), conn))"

inductive gap_run :: "env \<Rightarrow> ble_globals st \<times> bool \<times> bool \<Rightarrow> bool" for E where
  Sync: "t = exec (bleprph_on_sync E) (boot \<lparr>g_bleprph_connected = 0\<rparr>) \<Longrightarrow> gap_run E (t, 0 < adv_starts E (tr t), False)"
| Connect: "gap_run E (s, True, False) \<Longrightarrow> gap_run E (handled E (GAP_CONNECT status h) s False (status = 0))"
| Disconnect: "gap_run E (s, a, True) \<Longrightarrow> gap_run E (handled E (GAP_DISCONNECT reason) s a False)"
| Complete: "gap_run E (s, True, c) \<Longrightarrow> gap_run E (handled E (GAP_ADV_COMPLETE reason) s False c)"
| Update: "gap_run E (s, a, True) \<Longrightarrow> e \<in> {GAP_CONN_UPDATE status h, GAP_ENC_CHANGE status h} \<Longrightarrow> gap_run E (handled E e s a True)"
| Other: "gap_run E (s, a, c) \<Longrightarrow> e \<in> {GAP_SUBSCRIBE xs, GAP_MTU xs, GAP_OTHER} \<Longrightarrow> gap_run E (handled E e s a c)"

inductive_simps gap_run_simps: "gap_run E (s, a, c)"


section \<open>The handlers\<close>

lemma advertise_run:
  assumes "\<not> halted s"
  shows "\<not> halted (exec (bleprph_advertise E) s)" and "glb (exec (bleprph_advertise E) s) = glb s"
    and "stack_ok E \<Longrightarrow> adv_starts E (tr (exec (bleprph_advertise E) s)) = Suc (adv_starts E (tr s))"
  using assms by (simp_all add: bleprph_advertise_def ble_log_def exec_def run_simps stack_ok_def)

lemma log_run:
  assumes "\<not> halted s"
  shows "\<not> halted (exec (ble_log msg xs) s)" "glb (exec (ble_log msg xs) s) = glb s"
    "adv_starts E (tr (exec (ble_log msg xs) s)) = adv_starts E (tr s)"
  using assms by (simp_all add: ble_log_def exec_act)

lemma conn_find_run:
  assumes "\<not> halted s" and "stack_ok E"
  shows "\<not> halted (exec (conn_find E h) s)" "glb (exec (conn_find E h) s) = glb s"
    "adv_starts E (tr (exec (conn_find E h) s)) = adv_starts E (tr s)"
  using assms by (simp_all add: conn_find_def exec_bind exec_ask exec_c_assert stack_ok_def)

lemmas gap_run_steps = exec_bind exec_upd advertise_run log_run conn_find_run

lemma event_run:
  assumes "\<not> halted s" and "stack_ok E"
  shows "\<not> halted (exec (bleprph_gap_event E e) s)"
    and "g_bleprph_connected (glb (exec (bleprph_gap_event E e) s)) = (case e of
      GAP_CONNECT status h \<Rightarrow> if status = 0 then 1 else g_bleprph_connected (glb s)
    | GAP_DISCONNECT reason \<Rightarrow> 0 | _ \<Rightarrow> g_bleprph_connected (glb s))"
    and "adv_starts E (tr (exec (bleprph_gap_event E e) s)) = adv_starts E (tr s) + (case e of
      GAP_CONNECT status h \<Rightarrow> of_bool (status \<noteq> 0) | GAP_DISCONNECT reason \<Rightarrow> 1
    | GAP_ADV_COMPLETE reason \<Rightarrow> 1 | _ \<Rightarrow> 0)"
  using assms by (cases e; simp add: gap_run_steps)+

text \<open>C19: After any sequence of events of the host stack the device advertises or is connected, so a
  central can always reach it, no assertion has failed, and the flag the applications read is
  set exactly when there is a connection.\<close>

theorem ble_reachable:
  assumes "gap_run E (s, adv, conn)" and "stack_ok E"
  shows "\<not> halted s \<and> (adv \<or> conn) \<and> g_bleprph_connected (glb s) = of_bool conn"
  using assms(1)
proof (induction "(s, adv, conn)" arbitrary: s adv conn rule: gap_run.induct)
  case (Sync t)
  have "\<not> halted t \<and> glb t = \<lparr>g_bleprph_connected = 0\<rparr> \<and> 0 < adv_starts E (tr t)"
    using assms(2) advertise_run [of "boot \<lparr>g_bleprph_connected = 0\<rparr>\<lparr>tr := [Sys ''ble_hs_util_ensure_addr'' [0]]\<rparr>" E]
    by (simp add: Sync bleprph_on_sync_def exec_bind exec_ask exec_c_assert stack_ok_def)
  then show ?case by simp
qed (use event_run [OF _ assms(2)] in \<open>auto simp: handled_def Let_def simp del: bleprph_gap_event.simps\<close>)

lemma calm_stack: "stack_ok calm_env"
  by (simp add: stack_ok_def)

theorem ble_reachable_witness:
  "\<exists>s. gap_run calm_env (s, True, False) \<and> g_bleprph_connected (glb s) = 0
    \<and> g_bleprph_connected (glb (fst (handled calm_env (GAP_CONNECT 0 1) s False True))) = 1"
proof -
  let ?s = "exec (bleprph_on_sync calm_env) (boot \<lparr>g_bleprph_connected = 0\<rparr>)"
  have "0 < adv_starts calm_env (tr ?s)"
    by (simp add: bleprph_on_sync_def bleprph_advertise_def exec_def run_simps)
  with gap_run.Sync [OF refl, of calm_env] have s: "gap_run calm_env (?s, True, False)" by simp
  from gap_run.Connect [OF this, of 0 1] obtain t a where
    "handled calm_env (GAP_CONNECT 0 1) ?s False True = (t, a, True)" "gap_run calm_env (t, a, True)"
    unfolding handled_def Let_def by simp
  then show ?thesis using ble_reachable [OF s calm_stack] ble_reachable [OF _ calm_stack, of t a True] s
    by (intro exI [of _ ?s]) simp
qed

end
