(* ===== verification/Ota.thy ===== *)
theory Ota
  imports Startup
begin

text \<open>
  \<open>apps/ota_uwb_master\<close> and \<open>apps/ota_uwb_slave\<close>: the two ends of an update over UWB. Each
  runs a timer that serves the queue of management packets; the slave listens when it has
  nothing to send, the master turns its receiver on after it has sent. A call of
  \<open>uwb_nmgr_process_tx_queue\<close> with time 0 sends at once.
\<close>

definition uwb_ev_cb_master :: "env \<Rightarrow> (unit, unit) prog" where
  "uwb_ev_cb_master E = do {
     act (Os (CalloutReset NmgrCallout (TICKS_PER_SEC E sdiv 25)));
     sent \<leftarrow> ask E (Net (NmgrProcessTx 0));
     if sent = 0 then ret ()
     else do {
       act (Radio (SetRxTimeout 0 0));
       act (Radio (StartRx 0))
     }
   }"

definition uwb_ev_cb_slave :: "env \<Rightarrow> (unit, unit) prog" where
  "uwb_ev_cb_slave E = do {
     sent \<leftarrow> ask E (Net (NmgrProcessTx 0));
     if sent \<noteq> 0 then do {
       put (''tx'' @ [CHR 0x0A]);
       act (Os (CalloutReset NmgrCallout (TICKS_PER_SEC E sdiv 50)))
     }
     else do {
       act (Net (NmgrListen UWB_BLOCKING 0 0xffff));
       act (Os (CalloutReset NmgrCallout (TICKS_PER_SEC E sdiv 50)))
     }
   }"

definition ota_line :: "u32 \<Rightarrow> string \<Rightarrow> string \<Rightarrow> string" where
  "ota_line u what x = ''{\"utime\": '' @ fmt_u (unat u) @ '',\"msg\": \"'' @ what @ '' = 0x'' @ x @ ''\"}'' @ [CHR 0x0A]"

definition ota_banner :: "env \<Rightarrow> board \<Rightarrow> (unit, unit) prog" where
  "ota_banner E b = do {
     u \<leftarrow> utime E;
     put (exec_line u (file_name b));
     put (ota_line u ''device_id'' (fmt_X (unat (device_id (board_id b)))));
     put (ota_line u ''PANID'' (fmt_X (unat (pan_id (board_id b)))));
     put (ota_line u ''DeviceID'' (fmt_X (unat (uid (board_id b)))));
     put (ota_line u ''partID'' (fmt_X (unat (ucast (euid (board_id b)) :: u32))));
     put (ota_line u ''lotID'' (fmt_X (unat (ucast (drop_bit 32 (euid (board_id b))) :: u32))));
     n \<leftarrow> ask E (Os (ShrDuration 0));
     put (usec_line u ''SHR_duration'' (word_of_int n))
   }"

definition ota_master_main :: "env \<Rightarrow> board \<Rightarrow> u16 \<Rightarrow> (unit, unit) prog" where
  "ota_master_main E b my_short_address = do {
     act (Sys ''sysinit'' []);
     onlyif (ble_enabled b) (act (Sys ''ble_init'' [uint my_short_address]));
     ota_banner E b;
     act (Os (CalloutReset NmgrCallout (TICKS_PER_SEC E sdiv 25)));
     act (Radio (SetRxTimeout 0 0));
     act (Radio (StartRx 0))
   }"

definition ota_slave_main :: "env \<Rightarrow> board \<Rightarrow> (unit, unit) prog" where
  "ota_slave_main E b = do {
     act (Sys ''sysinit'' []);
     leds_out;
     ota_banner E b;
     act (Os (CalloutReset NmgrCallout (TICKS_PER_SEC E sdiv 25)));
     act (Radio (SetRxTimeout 0 0xffff));
     act (Radio (StartRx 0))
   }"

end
