(* ===== verification/Ota_Props.thy ===== *)
theory Ota_Props
  imports Ota
begin

text \<open>
  The two ends of an update over UWB in operation: after the start, any number of firings of
  the timer.
\<close>

section \<open>What is counted in a history\<close>

fun timer_sets :: "hist \<Rightarrow> nat" where
  "timer_sets [] = 0"
| "timer_sets (c # h) = (case c of Os (CalloutReset NmgrCallout n) \<Rightarrow> Suc (timer_sets h) | _ \<Rightarrow> timer_sets h)"

fun listens :: "hist \<Rightarrow> nat" where
  "listens [] = 0"
| "listens (c # h) = (case c of Net (NmgrListen m a b) \<Rightarrow> Suc (listens h) | _ \<Rightarrow> listens h)"

text \<open>How often the queue was served, and how often there was something to send.\<close>

fun served :: "hist \<Rightarrow> nat" where
  "served [] = 0"
| "served (c # h) = (if c = Net (NmgrProcessTx 0) then Suc (served h) else served h)"

fun sent :: "env \<Rightarrow> hist \<Rightarrow> nat" where
  "sent E [] = 0"
| "sent E (c # h) = (if c = Net (NmgrProcessTx 0) \<and> eint E h c \<noteq> 0 then Suc (sent E h) else sent E h)"

text \<open>How often the receiver was started, and the last command the transceiver was given.\<close>

fun rx_starts :: "hist \<Rightarrow> nat" where
  "rx_starts [] = 0"
| "rx_starts (c # h) = (if c = Radio (StartRx 0) then Suc (rx_starts h) else rx_starts h)"

fun last_radio :: "hist \<Rightarrow> call option" where
  "last_radio [] = None"
| "last_radio (c # h) = (if is_radio c then Some c else last_radio h)"

definition ota_master_run :: "env \<Rightarrow> board \<Rightarrow> u16 \<Rightarrow> nat \<Rightarrow> (unit, unit) prog" where
  "ota_master_run E b a n = do { ota_master_main E b a; for_each (replicate n ()) (\<lambda>_. uwb_ev_cb_master E) }"

definition ota_slave_run :: "env \<Rightarrow> board \<Rightarrow> nat \<Rightarrow> (unit, unit) prog" where
  "ota_slave_run E b n = do { ota_slave_main E b; for_each (replicate n ()) (\<lambda>_. uwb_ev_cb_slave E) }"


section \<open>One firing\<close>

text \<open>The tallies of a history.\<close>

definition tally :: "env \<Rightarrow> hist \<Rightarrow> nat \<times> nat \<times> nat \<times> nat \<times> nat" where
  "tally E h = (timer_sets h, served h, sent E h, listens h, rx_starts h)"

lemma master_firing:
  assumes "\<not> halted s" and "last_radio (tr s) = Some (Radio (StartRx 0))"
    and "tally E (tr s) = (t, v, k, l, Suc k)"
  shows "\<not> halted (exec (uwb_ev_cb_master E) s)"
    and "last_radio (tr (exec (uwb_ev_cb_master E) s)) = Some (Radio (StartRx 0))"
    and "\<exists>k'. tally E (tr (exec (uwb_ev_cb_master E) s)) = (Suc t, Suc v, k', l, Suc k')"
  using assms by (auto simp: uwb_ev_cb_master_def exec_def run_simps tally_def)

lemma slave_firing:
  assumes "\<not> halted s" and "tally E (tr s) = (t, v, k, l, r)" and "v = k + l"
  shows "\<not> halted (exec (uwb_ev_cb_slave E) s)"
    and "last_radio (tr (exec (uwb_ev_cb_slave E) s)) = last_radio (tr s)"
    and "\<exists>k' l'. tally E (tr (exec (uwb_ev_cb_slave E) s)) = (Suc t, Suc v, k', l', r) \<and> Suc v = k' + l'"
  using assms by (auto simp: uwb_ev_cb_slave_def put_def exec_def run_simps tally_def)

lemma ota_banner_quiet:
  assumes "\<not> halted s"
  shows "\<not> halted (exec (ota_banner E b) s)" "tally E (tr (exec (ota_banner E b) s)) = tally E (tr s)"
  using assms by (simp_all add: ota_banner_def utime_def put_def exec_def run_simps tally_def)

lemma master_started:
  fixes E :: env and b :: board and a :: u16
  defines "s \<equiv> exec (ota_master_main E b a) (boot ())"
  shows "\<not> halted s" and "last_radio (tr s) = Some (Radio (StartRx 0))" and "tally E (tr s) = (1, 0, 0, 0, Suc 0)"
proof -
  define w where "w = exec (do { act (Sys ''sysinit'' []); onlyif (ble_enabled b) (act (Sys ''ble_init'' [uint a])) }) (boot ())"
  have w: "\<not> halted w" "tally E (tr w) = (0, 0, 0, 0, 0)"
    by (simp_all add: w_def exec_bind exec_act tally_def)
  have s: "s = exec (do { act (Os (CalloutReset NmgrCallout (TICKS_PER_SEC E sdiv 25)));
     act (Radio (SetRxTimeout 0 0)); act (Radio (StartRx 0)) }) (exec (ota_banner E b) w)"
    by (simp add: s_def w_def ota_master_main_def exec_bind)
  show "\<not> halted s" "last_radio (tr s) = Some (Radio (StartRx 0))" "tally E (tr s) = (1, 0, 0, 0, Suc 0)"
    using ota_banner_quiet [OF w(1), of E b] w(2) by (simp_all add: s exec_bind exec_act tally_def)
qed

lemma slave_started:
  fixes E :: env and b :: board
  defines "s \<equiv> exec (ota_slave_main E b) (boot ())"
  shows "\<not> halted s" and "last_radio (tr s) = Some (Radio (StartRx 0))" and "tally E (tr s) = (1, 0, 0, 0, Suc 0)"
proof -
  define w where "w = exec (do { act (Sys ''sysinit'' []); leds_out }) (boot ())"
  have w: "\<not> halted w" "tally E (tr w) = (0, 0, 0, 0, 0)"
    by (simp_all add: w_def exec_bind exec_act tally_def leds_out_def led_init_def)
  have s: "s = exec (do { act (Os (CalloutReset NmgrCallout (TICKS_PER_SEC E sdiv 25)));
     act (Radio (SetRxTimeout 0 0xffff)); act (Radio (StartRx 0)) }) (exec (ota_banner E b) w)"
    by (simp add: s_def w_def ota_slave_main_def exec_bind)
  show "\<not> halted s" "last_radio (tr s) = Some (Radio (StartRx 0))" "tally E (tr s) = (1, 0, 0, 0, Suc 0)"
    using ota_banner_quiet [OF w(1), of E b] w(2) by (simp_all add: s exec_bind exec_act tally_def)
qed


section \<open>Any number of firings\<close>

lemma master_firings:
  assumes "\<not> halted s" and "last_radio (tr s) = Some (Radio (StartRx 0))" and "tally E (tr s) = (t, v, k, l, Suc k)"
  shows "last_radio (tr (exec (for_each (replicate n ()) (\<lambda>_. uwb_ev_cb_master E)) s)) = Some (Radio (StartRx 0))
    \<and> (\<exists>k'. tally E (tr (exec (for_each (replicate n ()) (\<lambda>_. uwb_ev_cb_master E)) s)) = (t + n, v + n, k', l, Suc k'))"
  using assms
proof (induction n arbitrary: s t v k)
  case (Suc n)
  from master_firing [OF Suc.prems] Suc.IH show ?case by (fastforce simp: exec_bind)
qed simp

lemma slave_firings:
  assumes "\<not> halted s" and "tally E (tr s) = (t, v, k, l, r)" and "v = k + l"
  shows "last_radio (tr (exec (for_each (replicate n ()) (\<lambda>_. uwb_ev_cb_slave E)) s)) = last_radio (tr s)
    \<and> (\<exists>k' l'. tally E (tr (exec (for_each (replicate n ()) (\<lambda>_. uwb_ev_cb_slave E)) s)) = (t + n, v + n, k', l', r)
      \<and> v + n = k' + l')"
  using assms
proof (induction n arbitrary: s t v k l)
  case (Suc n)
  from slave_firing [OF Suc.prems] Suc.IH show ?case by (fastforce simp: exec_bind)
qed simp

text \<open>C23: Both ends of an update keep going, whatever the management queue holds. After the start
  and \<open>n\<close> firings the timer has been set \<open>n + 1\<close> times and the queue served \<open>n\<close> times. The
  master starts its receiver once at the start and again after each firing that sent
  something, and never leaves the transceiver in another command; the slave listens in
  exactly the firings that sent nothing.\<close>

theorem ota_keeps_going:
  "(let h = tr (exec (ota_master_run E b a n) (boot ())) in
      timer_sets h = n + 1 \<and> served h = n \<and> rx_starts h = sent E h + 1 \<and> last_radio h = Some (Radio (StartRx 0)))
   \<and> (let h = tr (exec (ota_slave_run E b n) (boot ())) in
      timer_sets h = n + 1 \<and> served h = n \<and> listens h + sent E h = n \<and> rx_starts h = 1)"
  using master_firings [where n = n, OF master_started [of E b a]]
    slave_firings [where n = n, OF slave_started(1,3) [of E b]]
  by (auto simp: Let_def ota_master_run_def ota_slave_run_def exec_bind tally_def)

end
