(* ===== verification/Spec2Isabelle.thy ===== *)
theory Spec2Isabelle
  imports Rtdoa_Relay Tdoa_Tag_Props Listener_Cir Listener_Net Bleprph_Props Ota_Props
begin

text \<open>
  Verification of \<open>uwb-apps\<close>, the applications and libraries for ultra-wideband radios on the
  Mynewt operating system: two-way ranging (\<open>apps/twr_*\<close>), reverse time difference of arrival
  (\<open>apps/rtdoa_tag\<close>, \<open>apps/rtdoa_node\<close>, \<open>lib/rtdoa_backhaul\<close>), blinking tags (\<open>apps/tdoa_tag\<close>),
  a transport stream (\<open>apps/streaming\<close>), a sniffer (\<open>apps/listener\<close>), updates over the air
  (\<open>apps/ota_uwb_*\<close>) and a Bluetooth peripheral (\<open>lib/bleprph\<close>). Paths are relative to \<open>src/\<close>.

  \<^bold>\<open>How the program is put together.\<close> An application's \<open>main\<close> looks up the radio and the instances
  of the packages it needs, registers callbacks, prints a banner, assigns the slots of a superframe
  and then serves an event queue for ever. From there the program is driven by others: the TDMA
  package calls a slot handler, the radio driver calls completion callbacks, the configuration
  subsystem calls \<open>get\<close>, \<open>set\<close>, \<open>commit\<close>, \<open>export\<close> and then the updaters, timers and queues post
  events. In the RTDoA network an anchor emits or relays a positioning signal; a tag turns the
  signals into one packet of ranges, adds its sensor readings and hands it to the backhaul, which
  sends it by radio or queues it locally; a bridge receives such frames and prints them as JSON.

  \<^bold>\<open>How it is modelled.\<close> Everything outside \<open>src/\<close> (driver, kernel, TDMA, CCP and ranging packages,
  sensor framework, Bluetooth host) is behind a boundary: a call is a value of type \<open>call\<close> in theory
  \<open>Driver\<close>, the calls made so far are a trace, newest first, and what comes back is given by an
  \<open>env\<close>, a function of the trace and the call. A handler is a program of the state monad over the
  record of its application's globals, the trace, and a flag that is set when an \<open>assert\<close> fails or
  an array is left; a set flag stops every effect. A property that holds for all \<open>E\<close> therefore
  holds for every behaviour of the outside. What a property needs of the outside is a named
  hypothesis: \<open>sem_ok\<close> (a semaphore counts
  its releases less its pends, and the calls succeed), \<open>queue_ok\<close>
  (a message queue is first in, first out), \<open>mbuf_fresh\<close> and \<open>queue_clean\<close> (a buffer handed out
  is not in use), \<open>head_layout\<close> (the packed header of a radio frame, which the driver declares, has a
  fixed length and reads back), \<open>sensor_board\<close> (a board on USB power whose sensors answer). Every hypothesis is shown satisfiable by a
  witness with a concrete environment (\<open>calm_env\<close>, \<open>board_env\<close>, \<open>running_env\<close> and others).
  Machine integers have their width (\<open>u8\<close> to \<open>u64\<close>, theory \<open>Prelude\<close>) and wrap. Floating values are
  IEEE 754 with rounding (theory \<open>Cfloat\<close>); a conversion to an integer that C leaves undefined is a
  parameter (\<open>eub\<close>). Conversions of \<open>printf\<close> are functions on strings (\<open>fmt_d\<close>, \<open>fmt_0d\<close>, ...).

  \<^bold>\<open>The theories.\<close>
  \<^item> \<open>Prelude\<close>, \<open>Cfloat\<close>, \<open>Driver\<close>, \<open>Effects\<close>, \<open>Json\<close>: integers, floats, the boundary, two judgements
    on handlers (\<open>emits\<close>: which calls it can make; \<open>keeps\<close>: an invariant of its globals) with rules
    that follow the syntax, and a recogniser for JSON.
  \<^item> \<open>Rtdoa_Data\<close>: the packet of \<open>rtdoa_backhaul.h\<close>, its bytes and the cast of a buffer to it.
    \<open>Rtdoa_Send\<close>: \<open>rtdoa_local_send\<close>, \<open>rtdoa_backhaul_send\<close>, \<open>rtdoa_backhaul_send_imu_only\<close> with the loop
    over the measured frames. \<open>Rtdoa_Print\<close>: \<open>rtdoa_backhaul_print\<close> in both formats. \<open>Rtdoa_Rx\<close>:
    \<open>rtdoa_backhaul_listen\<close> (cut where it blocks into \<open>listen_begin\<close> and \<open>listen_end\<close>), \<open>tx_complete_cb\<close>,
    \<open>rx_complete_cb\<close>, \<open>process_rx_data_queue\<close>, the sensor callbacks and the initialisation. Each has a
    theory \<open>_Props\<close>.
  \<^item> \<open>Slots\<close>: what TDMA applications share, the slot handler \<open>range_slot_cb\<close> that two of them contain, and
    the interfaces: \<open>guarded_slot\<close> (a handler that leaves the radio alone while the clock's packet
    holds it), \<open>deferred_config\<close> (a configuration change is applied at once or by the next slot; the
    specification \<open>config_spec\<close> has one pending bit) and \<open>slot_plan\<close> (the list of slots a \<open>main\<close> assigns).
    \<open>Startup\<close>: what the \<open>main\<close> functions share. \<open>Conf\<close>: configuration stores. \<open>Network\<close>: start-up of the
    personal area network.
  \<^item> \<open>Streaming\<close>, \<open>Tdoa_Tag\<close>, \<open>Twr_Aloha\<close>, \<open>Twr_Tag\<close>, \<open>Twr_Node\<close>, \<open>Twr_Nranges\<close>, \<open>Rtdoa_Node\<close>, \<open>Rtdoa_Tag\<close>,
    \<open>Ota\<close>: the \<open>main.c\<close> of the application of that name, globals as a record, one definition per
    function, with the function's name (and a suffix where several applications use one).
    \<open>Twr\<close> holds the completion callbacks the ranging applications share, with their contract
    with the stack of handlers.
  \<^item> \<open>Listener\<close>: socket, configuration and reception of \<open>apps/listener\<close>; \<open>Listener_Print\<close>: its event
    handler and \<open>main\<close>. \<open>Listener_Props\<close> has the judgement \<open>prints\<close> (what a handler appends to the
    console), \<open>Listener_Frame\<close>, \<open>Listener_Cir\<close> and \<open>Listener_Net\<close> the properties of reception, print, accumulators
    and socket. A build with accumulators (\<open>CIR_ENABLED\<close>) is the parameter \<open>Some L\<close>, one without is \<open>None\<close>;
    one for the board with further radios (\<open>PDOA_SPI_NUM_INSTANCES\<close>) has \<open>pdoa_board D = Some ps\<close>, the data
    of that board's package, which is not in the repository.
  \<^item> \<open>Bleprph\<close>, \<open>Bleprph_Props\<close>: advertising, the event handler and the initialisation of the Bluetooth
    peripheral, and its state machine \<open>gap_run\<close>.
  \<^item> \<open>Plans\<close>, \<open>Slot_Props\<close>, \<open>Rtdoa_Net\<close>, \<open>Rtdoa_Sensors\<close>, \<open>Rtdoa_Round\<close>, \<open>Rtdoa_Relay\<close>, \<open>Ota_Props\<close> and this theory: what spans applications.

  \<^bold>\<open>What is proved.\<close>
  \<^item> The packet: sizes, bytes and cast (\<open>pkg_roundtrip\<close>); the frame a round sends, byte for
    byte (\<open>send_frame_on_air\<close>), the message the bridge queues (\<open>send_local_bridge\<close>), no leak of a buffer
    (\<open>send_keeps_no_mbuf\<close>), the state after a round (\<open>send_clears_round\<close>), and exactly when the
    array of ranges is left (\<open>send_leaves_array_iff\<close>).
  \<^item> Its print: a JSON text in the short format, not in the long one when there are ranges
    (\<open>print_json_text\<close>).
  \<^item> The receiver: an invariant of the listen semaphore over all interleavings of a listener with the
    callbacks (\<open>bh_listener_safe\<close>), which frames wake it (\<open>rx_wakes_iff\<close>), suppression of repeated frames
    (\<open>rx_suppresses_repetitions\<close>), a lost buffer (\<open>rx_copy_failure_loses_buffer\<close>), the print loop
    (\<open>process_prints_queue\<close>); and from any number of a tag's rounds to the console of the bridge, in
    this theory (\<open>tag_to_console\<close>). A tag's slots and the firings of its sensor timer, in any order and
    each followed by the print loop, refine a specification that knows only the two packets, the
    frames and the values gathered (\<open>slots_refine_rounds\<close>).
  \<^item> Slots and configuration, for the applications together: which slots each \<open>main\<close> assigns
    (\<open>startup_slots\<close>), handlers that are silent while the clock holds the radio and the two that are
    not (\<open>silent_while_clock_holds\<close>), refinement of the one-bit specification (\<open>config_refines_spec\<close>).
  \<^item> RTDoA network: anchors take turns (\<open>anchors_take_turns\<close>), the sensor timer ends exactly when no
    sensor keeps failing (\<open>sensor_timer_ends\<close>), the low-battery mode (\<open>low_battery_restarts_iff\<close>).
  \<^item> Ranging: the modes of the aloha tag against a round robin (\<open>aloha_round_robin\<close>), its anchor's receiver
    (\<open>aloha_anchor_listens\<close>), a TDMA tag's superframe against a table (\<open>tag_superframe\<close>), the node's
    cached timeout and which of its radios a change configures (\<open>node_config_refreshes_timeout\<close>,
    \<open>node_direct_config_keeps_timeout\<close>).
  \<^item> Streaming: at most eighteen valid frames in sequence per firing (\<open>stream_timer_sends\<close>), received and missed
    counts (\<open>stream_loss_count\<close>, \<open>stream_first_frame_missed\<close>).
  \<^item> Blinking tag: its key (\<open>tdoa_conf_roundtrip\<close>), its frames (\<open>tdoa_blink_sequence\<close>), its timer over any order
    of events (\<open>tdoa_blinks_while_positive\<close>, \<open>tdoa_negative_rate_stops\<close>).
  \<^item> Listener: one JSON line per message (\<open>listener_prints_lines\<close>); for any sequence of frames, lines whose
    digits are the frames received (\<open>listener_frame_to_console\<close>), where the diagnostics are looked for (\<open>listener_diag_misplaced\<close>), what
    becomes of them and of the accumulators in a message (\<open>listener_cirs_stored\<close>), how many samples can
    be asked for (\<open>listener_samples_bound\<close>), for which packets the socket reader stays inside its array (\<open>net_reader_safe_iff\<close>).
  \<^item> Bluetooth: the device advertises or is connected (\<open>ble_reachable\<close>). Updates: both ends rearm
    their timer and serve their queue in every firing (\<open>ota_keeps_going\<close>).

  \<^bold>\<open>Bounds and fuel.\<close> Loops over lists are structural. Two loops take their exit from outside:
  the queues (\<open>process_rx_data_queue\<close>, \<open>process_queue\<close>) run until the queue is empty, and one more unit
  of fuel than there are messages is enough (the properties give that fuel and the result
  \<open>True\<close>). The loop over the sensors (\<open>read_sensors\<close>) tries a failing sensor again without end, and the
  low-battery loop waits for the voltage; for both the fuel that is enough is stated, and that
  no fuel is enough when the condition never comes. Where each message is printed before the next
  one comes, two units serve the queue, and four units serve the four sensors. The socket reader has a measure.

  \<^bold>\<open>Not modelled.\<close> The for-ever loops at the end of each \<open>main\<close> (what calls the handlers in some
  order; properties over sequences of events quantify over the order), \<open>net_test_writable\<close>
  (empty), the tables of function pointers and declarations,
  log levels, build files, and the scripts that run on a host. The status values of the driver
  that functions of the backhaul pass through are not kept. A handler runs to its end: the
  kernel's own locking, and a callback that interrupts a handler between two of its calls, are
  not in the model except at the point where \<open>rtdoa_backhaul_listen\<close> blocks.
\<close>

section \<open>From a tag to the console of the bridge\<close>


text \<open>Two rounds of one tag on the console of a bridge.\<close>

definition sample_rx :: "hist \<Rightarrow> u8 list \<Rightarrow> uwb_dev" where
  "sample_rx h f = \<lparr>d_idx = 0, d_fctrl = FCNTL_IEEE_RTDOABH, d_rxtimestamp = 0, d_rxbuf = f,
     d_frame_len = length f, d_my_short_address = 1\<rparr>"


end
